(* ===== verification/Prelude.thy ===== *)
theory Prelude
  imports Main "HOL-Library.Word" "HOL-Library.Monad_Syntax" "HOL-Library.Multiset"
begin

text \<open>
  Shared vocabulary of the development: the C error numbers the sources use, a
  collection of simplification rules, the operations on the two ELL containers that the
  sources use as plain data (a \<open>struct l_queue\<close> is the list of its entries, head first; a
  \<open>struct l_hashmap\<close> is the association list of its entries, newest first), and the call
  log of the ELL timer functions, from which the timers alive at any moment are read off.
\<close>

named_theorems timer_simps \<open>facts about timer call logs\<close>

section \<open>Error numbers (Linux)\<close>

abbreviation (input) ENOENT :: int where "ENOENT \<equiv> 2"
abbreviation (input) EIO :: int where "EIO \<equiv> 5"
abbreviation (input) EEXIST :: int where "EEXIST \<equiv> 17"
abbreviation (input) EINVAL :: int where "EINVAL \<equiv> 22"
abbreviation (input) ENOMSG :: int where "ENOMSG \<equiv> 42"

section \<open>Iteration with a callback that may fail\<close>

text \<open>\<open>foreach_opt f xs s\<close> runs the callback on each entry in order; \<open>None\<close> is a crash.\<close>

fun foreach_opt :: "('a \<Rightarrow> 's \<Rightarrow> 's option) \<Rightarrow> 'a list \<Rightarrow> 's \<Rightarrow> 's option" where
  "foreach_opt f [] s = Some s"
| "foreach_opt f (x # xs) s = Option.bind (f x s) (foreach_opt f xs)"

section \<open>Hash maps keyed by integers\<close>

type_synonym 'v hmap = "(int \<times> 'v) list"

definition hm_lookup :: "'v hmap \<Rightarrow> int \<Rightarrow> 'v option" where
  "hm_lookup m k = map_of m k"

definition hm_insert :: "int \<Rightarrow> 'v \<Rightarrow> 'v hmap \<Rightarrow> 'v hmap" where
  "hm_insert k v m = (k, v) # m"

text \<open>Writing through the pointer stored under a key.\<close>

definition hm_modify :: "int \<Rightarrow> ('v \<Rightarrow> 'v) \<Rightarrow> 'v hmap \<Rightarrow> 'v hmap" where
  "hm_modify k f m = map (\<lambda>(k', v). (k', if k' = k then f v else v)) m"

definition hm_wf :: "'v hmap \<Rightarrow> bool" where
  "hm_wf m \<longleftrightarrow> distinct (map fst m)"

section \<open>Timer call logs\<close>

text \<open>
  The calls to \<open>l_timeout_create\<close>, \<open>l_timeout_modify\<close> and \<open>l_timeout_remove\<close>, and the
  expiry of a timer in the main loop, newest first. \<open>None\<close> is the \<open>NULL\<close> handle. The
  third argument of \<open>To_create\<close> is the user data given to the timer.
\<close>

type_synonym tid = nat

datatype 'a to_call =
    To_create "tid option" int 'a
  | To_modify "tid option" int
  | To_remove "tid option"
  | To_expire tid

type_synonym 'a to_log = "'a to_call list"

text \<open>What the library answers to a creation after the calls of a log: a handle or \<open>NULL\<close>.\<close>

type_synonym 'a to_oracle = "'a to_log \<Rightarrow> tid option"

fun live :: "'a to_log \<Rightarrow> tid \<Rightarrow> bool" where
  "live [] t = False"
| "live (To_create h secs a # l) t = (h = Some t \<or> live l t)"
| "live (To_modify h secs # l) t = live l t"
| "live (To_remove h # l) t = (h \<noteq> Some t \<and> live l t)"
| "live (To_expire h # l) t = live l t"

text \<open>
  \<open>armed l t\<close> is the number of seconds timer \<open>t\<close> was last set to, \<open>None\<close> when it has
  expired since, was removed or never existed: ELL timers fire once per setting.
\<close>

fun armed :: "'a to_log \<Rightarrow> tid \<Rightarrow> int option" where
  "armed [] t = None"
| "armed (To_create h secs a # l) t =
     (if h = Some t then Some secs else armed l t)"
| "armed (To_modify h secs # l) t =
     (if h = Some t then Some secs else armed l t)"
| "armed (To_remove h # l) t = (if h = Some t then None else armed l t)"
| "armed (To_expire h # l) t = (if h = t then None else armed l t)"

fun payload :: "'a to_log \<Rightarrow> tid \<Rightarrow> 'a option" where
  "payload [] t = None"
| "payload (To_create h secs a # l) t = (if h = Some t then Some a else payload l t)"
| "payload (To_modify h secs # l) t = payload l t"
| "payload (To_remove h # l) t = (if h = Some t then None else payload l t)"
| "payload (To_expire h # l) t = payload l t"

text \<open>The documented behaviour of handles: a new timer is not one that is still alive.\<close>

definition fresh_handles :: "'a to_oracle \<Rightarrow> bool" where
  "fresh_handles N \<longleftrightarrow> (\<forall>l t. N l = Some t \<longrightarrow> \<not> live l t)"

text \<open>A library that numbers its timers upwards: an instance for evaluating runs.\<close>

fun top_handle :: "'a to_log \<Rightarrow> nat" where
  "top_handle [] = 0"
| "top_handle (To_create (Some t) secs a # l) = max t (top_handle l)"
| "top_handle (c # l) = top_handle l"

definition next_handle :: "'a to_oracle" where
  "next_handle l = Some (Suc (top_handle l))"

text \<open>Removing the timers of a queue, head first.\<close>

definition remove_all :: "tid option list \<Rightarrow> 'a to_log \<Rightarrow> 'a to_log" where
  "remove_all hs l = fold (\<lambda>h l. To_remove h # l) hs l"

text \<open>Every timer that is alive is held in the queue of its component.\<close>

definition pool_owned :: "tid option list \<Rightarrow> 'a to_log \<Rightarrow> bool" where
  "pool_owned hs l \<longleftrightarrow> (\<forall>t. live l t \<longrightarrow> Some t \<in> set hs)"

section \<open>Lemmas on the shared containers\<close>

lemma hm_lookup_insert [simp]:
  "hm_lookup (hm_insert k v m) k' = (if k' = k then Some v else hm_lookup m k')"
  by (simp add: hm_lookup_def hm_insert_def)

lemma hm_lookup_modify [simp]:
  "hm_lookup (hm_modify k f m) k' = map_option (if k' = k then f else id) (hm_lookup m k')"
  by (induction m) (auto simp: hm_lookup_def hm_modify_def)

lemma hm_keys_modify [simp]: "map fst (hm_modify k f m) = map fst m"
  by (induction m) (auto simp: hm_modify_def)

lemma hm_wf_modify [simp]: "hm_wf (hm_modify k f m) = hm_wf m"
  by (simp add: hm_wf_def)

lemma hm_lookup_None_iff: "hm_lookup m k = None \<longleftrightarrow> k \<notin> set (map fst m)"
  by (simp add: hm_lookup_def map_of_eq_None_iff)

lemma hm_wf_insert [simp]: "hm_lookup m k = None \<Longrightarrow> hm_wf m \<Longrightarrow> hm_wf (hm_insert k v m)"
  by (auto simp: hm_wf_def hm_insert_def hm_lookup_None_iff)

lemma foreach_opt_append:
  "foreach_opt f (xs @ ys) s = Option.bind (foreach_opt f xs s) (foreach_opt f ys)"
  by (induction xs arbitrary: s) (auto split: Option.bind_splits)

lemma foreach_opt_invariant:
  assumes step: "\<And>x s s'. x \<in> set xs \<Longrightarrow> P s \<Longrightarrow> f x s = Some s' \<Longrightarrow> P s'"
    and "P s" and "foreach_opt f xs s = Some s'"
  shows "P s'"
  using assms
proof (induction xs arbitrary: s)
  case Nil
  then show ?case by simp
next
  case (Cons x xs)
  from Cons.prems(3) obtain t where t: "f x s = Some t" "foreach_opt f xs t = Some s'"
    by (auto split: Option.bind_splits)
  have "P t" using Cons.prems(1)[of x s t] Cons.prems(2) t(1) by simp
  moreover have "\<And>y u u'. y \<in> set xs \<Longrightarrow> P u \<Longrightarrow> f y u = Some u' \<Longrightarrow> P u'"
    by (rule Cons.prems(1)) auto
  ultimately show ?case using Cons.IH t(2) by blast
qed

lemma fold_invariant:
  assumes "\<And>x s. x \<in> set xs \<Longrightarrow> P s \<Longrightarrow> P (f x s)" and "P s"
  shows "P (fold f xs s)"
  using assms by (induction xs arbitrary: s) auto

section \<open>Lemmas on timer logs\<close>

lemma remove_all_simps [simp]:
  "remove_all [] l = l"
  "remove_all (h # hs) l = remove_all hs (To_remove h # l)"
  by (simp_all add: remove_all_def)

lemma live_remove_all [timer_simps]:
  "live (remove_all hs l) t \<longleftrightarrow> live l t \<and> Some t \<notin> set hs"
  by (induction hs arbitrary: l) auto

lemma payload_live: "live l t \<Longrightarrow> \<exists>a. payload l t = Some a"
  by (induction l t rule: live.induct) auto

lemma live_top_handle: "live l t \<Longrightarrow> t \<le> top_handle l"
  by (induction l rule: top_handle.induct) auto

lemma fresh_next_handle [simp]: "fresh_handles next_handle"
  using live_top_handle by (fastforce simp: fresh_handles_def next_handle_def)

lemma fresh_handlesD: "fresh_handles N \<Longrightarrow> N l = Some t \<Longrightarrow> \<not> live l t"
  by (auto simp: fresh_handles_def)

lemma pool_owned_modify [simp]:
  "pool_owned hs (To_modify h secs # l) = pool_owned hs l"
  "pool_owned hs (To_expire t # l) = pool_owned hs l"
  by (auto simp: pool_owned_def)

lemma pool_owned_remove_all: "pool_owned hs l \<Longrightarrow> \<not> live (remove_all hs l) t"
  by (auto simp: pool_owned_def timer_simps)

section \<open>Components that keep a queue of timers\<close>

text \<open>
  \<open>event.c\<close> and \<open>poll.c\<close> keep their timers in a queue: an operation that adds an entry
  creates at most one timer and pushes its handle, and the operation that clears the
  component removes every timer of the queue. Every component with this contract can
  always drop all of its timers.
\<close>

locale timer_pool =
  fixes handles :: "'s \<Rightarrow> tid option list"
    and log :: "'s \<Rightarrow> 'a to_log"
    and ready :: "'s \<Rightarrow> bool"
    and add :: "'x \<Rightarrow> 's \<Rightarrow> 's"
    and clear :: "'s \<Rightarrow> 's"
  assumes clear_log: "log (clear s) = remove_all (handles s) (log s)"
    and clear_handles: "handles (clear s) = []"
    and add_ready: "ready s \<Longrightarrow> ready (add x s)"
    and add_step: "ready s \<Longrightarrow>
      log (add x s) = log s \<and> handles (add x s) = handles s \<or>
      (\<exists>h secs a. log (add x s) = To_create h secs a # log s \<and>
        (handles (add x s) = h # handles s \<or> h = None \<and> handles (add x s) = handles s))"
begin

lemma add_owned: "ready s \<Longrightarrow> pool_owned (handles s) (log s) \<Longrightarrow>
    pool_owned (handles (add x s)) (log (add x s))"
  using add_step[of s x] by (auto simp: pool_owned_def)

lemma add_all_owned: "ready s \<Longrightarrow> pool_owned (handles s) (log s) \<Longrightarrow>
    ready (fold add xs s) \<and> pool_owned (handles (fold add xs s)) (log (fold add xs s))"
  by (induction xs arbitrary: s) (simp_all add: add_owned add_ready)

lemma clear_no_live: "pool_owned (handles s) (log s) \<Longrightarrow> \<not> live (log (clear s)) t"
  by (simp add: clear_log pool_owned_remove_all)

lemma add_all_clear_no_live: "ready s \<Longrightarrow> pool_owned (handles s) (log s) \<Longrightarrow>
    \<not> live (log (clear (fold add xs s))) t"
  using add_all_owned clear_no_live by blast

lemma clear_keeps_orphans: "live (log s) t \<Longrightarrow> Some t \<notin> set (handles s) \<Longrightarrow> live (log (clear s)) t"
  by (simp add: clear_log timer_simps)

end

end
