(* ===== verification/Knot_Types.thy ===== *)
theory Knot_Types
  imports Prelude
begin

text \<open>
  The data of the KNoT protocol that the sources handle, and what they use of the library
  \<open>knot-protocol\<close>. The library is not part of the repository: its constants and functions
  are the fields of a record that every definition using them takes as an argument, and
  what the sources rely on is stated as predicates on that record.
\<close>

unbundle bit_operations_syntax

section \<open>Values\<close>

text \<open>
  \<open>knot_value_type\<close> is a C union. Its first eight bytes are kept as one 64-bit word, read
  on a little-endian host; the members are views of the low bytes.
\<close>

type_synonym knot_value = "64 word"

definition val_i :: "knot_value \<Rightarrow> int" where
  "val_i v = sint (ucast v :: 32 word)"

definition val_f :: "knot_value \<Rightarrow> 32 word" where
  "val_f v = ucast v"

definition val_b :: "knot_value \<Rightarrow> 8 word" where
  "val_b v = ucast v"

definition val_u :: "knot_value \<Rightarrow> 32 word" where
  "val_u v = ucast v"

text \<open>Assigning a member overwrites its bytes and keeps the others.\<close>

definition put_u32 :: "32 word \<Rightarrow> knot_value \<Rightarrow> knot_value" where
  "put_u32 w v = (v AND push_bit 32 (mask 32)) OR ucast w"

definition put_u8 :: "8 word \<Rightarrow> knot_value \<Rightarrow> knot_value" where
  "put_u8 w v = (v AND NOT (mask 8)) OR ucast w"

definition put_i :: "int \<Rightarrow> knot_value \<Rightarrow> knot_value" where
  "put_i i v = put_u32 (word_of_int i) v"

section \<open>Schema, event and configuration messages\<close>

record knot_schema =
  sc_value_type :: int
  sc_unit :: int
  sc_type_id :: int
  sc_name :: string

record knot_event =
  event_flags :: int
  time_sec :: int
  lower_limit :: knot_value
  upper_limit :: knot_value

record knot_msg_config =
  cfg_sensor_id :: int
  cfg_schema :: knot_schema
  cfg_event :: knot_event

section \<open>The library knot-protocol\<close>

text \<open>
  Constants; the conversions an assignment to a struct field of the library's types
  performs (the field widths are the library's); the two validation functions, which
  answer 0 for valid; and \<open>knot_value_assign_limit\<close>, from the value type, the source
  value and the old destination to the new destination.
\<close>

record knot_lib =
  VALUE_TYPE_INT :: int
  VALUE_TYPE_FLOAT :: int
  VALUE_TYPE_BOOL :: int
  VALUE_TYPE_RAW :: int
  VALUE_TYPE_INT64 :: int
  VALUE_TYPE_UINT :: int
  VALUE_TYPE_UINT64 :: int
  VALUE_TYPE_MIN :: int
  VALUE_TYPE_MAX :: int
  EVT_FLAG_TIME :: int
  EVT_FLAG_LOWER_THRESHOLD :: int
  EVT_FLAG_UPPER_THRESHOLD :: int
  EVT_FLAG_CHANGE :: int
  EVT_FLAG_UNREGISTERED :: int
  TOKEN_LEN :: nat
  UUID_LEN :: nat
  DEVICE_NAME_LEN :: nat
  DATA_NAME_LEN :: nat
  to_value_type :: "int \<Rightarrow> int"
  to_unit :: "int \<Rightarrow> int"
  to_type_id :: "int \<Rightarrow> int"
  to_time_sec :: "int \<Rightarrow> int"
  knot_schema_is_valid :: "int \<Rightarrow> int \<Rightarrow> int \<Rightarrow> int"
  knot_event_is_valid :: "int \<Rightarrow> int \<Rightarrow> int \<Rightarrow> knot_value \<Rightarrow> knot_value \<Rightarrow> int"
  knot_value_assign_limit :: "int \<Rightarrow> knot_value \<Rightarrow> knot_value \<Rightarrow> knot_value"

text \<open>The value types are pairwise different, and lie between the two bounds.\<close>

definition value_types :: "knot_lib \<Rightarrow> int list" where
  "value_types K = [VALUE_TYPE_INT K, VALUE_TYPE_FLOAT K, VALUE_TYPE_BOOL K,
     VALUE_TYPE_RAW K, VALUE_TYPE_INT64 K, VALUE_TYPE_UINT K, VALUE_TYPE_UINT64 K]"

definition value_types_ok :: "knot_lib \<Rightarrow> bool" where
  "value_types_ok K \<longleftrightarrow> distinct (value_types K) \<and>
     list_all (\<lambda>t. VALUE_TYPE_MIN K \<le> t \<and> t \<le> VALUE_TYPE_MAX K \<and> 0 \<le> t \<and> t < 31) (value_types K)"

text \<open>The event flags are different single bits.\<close>

definition event_flag_list :: "knot_lib \<Rightarrow> int list" where
  "event_flag_list K = [EVT_FLAG_TIME K, EVT_FLAG_LOWER_THRESHOLD K,
     EVT_FLAG_UPPER_THRESHOLD K, EVT_FLAG_CHANGE K, EVT_FLAG_UNREGISTERED K]"

definition event_flags_ok :: "knot_lib \<Rightarrow> bool" where
  "event_flags_ok K \<longleftrightarrow> list_all (\<lambda>f. f \<noteq> 0) (event_flag_list K) \<and>
     sorted_wrt (\<lambda>f g. f AND g = 0) (event_flag_list K)"

text \<open>An event flag is set in a flag word.\<close>

definition flag_set :: "int \<Rightarrow> int \<Rightarrow> bool" where
  "flag_set flags f \<longleftrightarrow> flags AND f \<noteq> 0"

text \<open>
  The values of the protocol's documentation, as the configuration examples of the
  repository use them: an instance of the record for evaluating concrete runs.
\<close>

definition knot_example :: knot_lib where
  "knot_example = \<lparr>VALUE_TYPE_INT = 1, VALUE_TYPE_FLOAT = 2, VALUE_TYPE_BOOL = 3,
     VALUE_TYPE_RAW = 4, VALUE_TYPE_INT64 = 5, VALUE_TYPE_UINT = 6, VALUE_TYPE_UINT64 = 7,
     VALUE_TYPE_MIN = 1, VALUE_TYPE_MAX = 7,
     EVT_FLAG_TIME = 1, EVT_FLAG_LOWER_THRESHOLD = 2, EVT_FLAG_UPPER_THRESHOLD = 4,
     EVT_FLAG_CHANGE = 8, EVT_FLAG_UNREGISTERED = 128,
     TOKEN_LEN = 40, UUID_LEN = 16, DEVICE_NAME_LEN = 64, DATA_NAME_LEN = 64,
     to_value_type = (\<lambda>i. i mod 256), to_unit = (\<lambda>i. i mod 256),
     to_type_id = (\<lambda>i. i mod 65536), to_time_sec = (\<lambda>i. i mod 65536),
     knot_schema_is_valid = (\<lambda>t v u. if 1 \<le> v \<and> v \<le> 7 then 0 else -1),
     knot_event_is_valid = (\<lambda>f v t lo hi. if f AND 1 \<noteq> 0 \<and> t = 0 then -1 else 0),
     knot_value_assign_limit = (\<lambda>t src dst. src)\<rparr>"

section \<open>Lemmas\<close>

lemma knot_example_sel [simp]:
  "VALUE_TYPE_INT knot_example = 1"
  "VALUE_TYPE_FLOAT knot_example = 2"
  "VALUE_TYPE_BOOL knot_example = 3"
  "VALUE_TYPE_RAW knot_example = 4"
  "VALUE_TYPE_INT64 knot_example = 5"
  "VALUE_TYPE_UINT knot_example = 6"
  "VALUE_TYPE_UINT64 knot_example = 7"
  "VALUE_TYPE_MIN knot_example = 1"
  "VALUE_TYPE_MAX knot_example = 7"
  "EVT_FLAG_TIME knot_example = 1"
  "EVT_FLAG_LOWER_THRESHOLD knot_example = 2"
  "EVT_FLAG_UPPER_THRESHOLD knot_example = 4"
  "EVT_FLAG_CHANGE knot_example = 8"
  "EVT_FLAG_UNREGISTERED knot_example = 128"
  "TOKEN_LEN knot_example = 40"
  "UUID_LEN knot_example = 16"
  "DEVICE_NAME_LEN knot_example = 64"
  "DATA_NAME_LEN knot_example = 64"
  "to_value_type knot_example = (\<lambda>i. i mod 256)"
  "to_unit knot_example = (\<lambda>i. i mod 256)"
  "to_type_id knot_example = (\<lambda>i. i mod 65536)"
  "to_time_sec knot_example = (\<lambda>i. i mod 65536)"
  "knot_schema_is_valid knot_example = (\<lambda>t v u. if 1 \<le> v \<and> v \<le> 7 then 0 else -1)"
  "knot_event_is_valid knot_example = (\<lambda>f v t lo hi. if f AND 1 \<noteq> 0 \<and> t = 0 then -1 else 0)"
  "knot_value_assign_limit knot_example = (\<lambda>t src dst. src)"
  by (simp_all add: knot_example_def)

lemma val_u_put_u32 [simp]: "val_u (put_u32 w v) = w"
  by (rule bit_word_eqI) (auto simp: val_u_def put_u32_def bit_simps)

lemma val_f_put_u32 [simp]: "val_f (put_u32 w v) = w"
  using val_u_put_u32 by (simp add: val_f_def val_u_def)

lemma val_b_put_u8 [simp]: "val_b (put_u8 w v) = w"
  by (rule bit_word_eqI) (auto simp: val_b_def put_u8_def bit_simps)

lemma val_i_put_i: "- (2 ^ 31) \<le> i \<Longrightarrow> i < 2 ^ 31 \<Longrightarrow> val_i (put_i i v) = i"
proof -
  assume "- (2 ^ 31) \<le> i" "i < 2 ^ 31"
  then have "sint (word_of_int i :: 32 word) = i"
    by (simp add: sint_sbintrunc' signed_take_bit_int_eq_self)
  moreover have "(ucast (put_u32 (word_of_int i) v) :: 32 word) = word_of_int i"
    using val_u_put_u32 by (simp add: val_u_def)
  ultimately show ?thesis by (simp add: val_i_def put_i_def)
qed

lemma flag_set_0 [simp]: "\<not> flag_set 0 f"
  by (simp add: flag_set_def)

lemma flag_set_or: "flag_set (a OR b) f \<longleftrightarrow> flag_set a f \<or> flag_set b f"
  by (simp add: flag_set_def bit.conj_disj_distrib or_eq_0_iff and.commute[of _ f] )

lemma knot_example_value_types [simp]: "value_types_ok knot_example"
  by (simp add: value_types_ok_def value_types_def)

lemma knot_example_flags [simp]: "event_flags_ok knot_example"
  by (simp add: event_flags_ok_def event_flag_list_def)

lemma value_types_range:
  "value_types_ok K \<Longrightarrow> t \<in> set (value_types K) \<Longrightarrow>
     VALUE_TYPE_MIN K \<le> t \<and> t \<le> VALUE_TYPE_MAX K \<and> 0 \<le> t \<and> t < 31"
  by (simp add: value_types_ok_def list_all_iff)

end
