(* ===== verification/Scan.thy ===== *)
theory Scan
  imports Prelude "HOL-Library.Char_ord"
begin

text \<open>
  The conversions of the C function \<open>sscanf\<close> that \<open>iface-modbus.c\<close> uses, each from the
  input left to the value and the input left after it, \<open>None\<close> when the conversion fails.
\<close>

definition is_space :: "char \<Rightarrow> bool" where
  "is_space c \<longleftrightarrow> c = CHR '' '' \<or> (CHR 0x09 \<le> c \<and> c \<le> CHR 0x0D)"

definition is_decimal :: "char \<Rightarrow> bool" where
  "is_decimal c \<longleftrightarrow> CHR ''0'' \<le> c \<and> c \<le> CHR ''9''"

text \<open>A literal character of the format, and white space, which matches any amount.\<close>

fun scan_lit :: "char \<Rightarrow> string \<Rightarrow> string option" where
  "scan_lit c [] = None"
| "scan_lit c (x # xs) = (if x = c then Some xs else None)"

definition scan_ws :: "string \<Rightarrow> string" where
  "scan_ws xs = dropWhile is_space xs"

text \<open>\<open>%n[...]\<close>: at least one and at most \<open>n\<close> characters of the set.\<close>

definition scan_set :: "nat \<Rightarrow> (char \<Rightarrow> bool) \<Rightarrow> string \<Rightarrow> (string \<times> string) option" where
  "scan_set n P xs =
     (let tok = takeWhile P (take n xs) in
      if tok = [] then None else Some (tok, drop (length tok) xs))"

text \<open>\<open>%ns\<close>: white space, then at least one and at most \<open>n\<close> other characters.\<close>

definition scan_str :: "nat \<Rightarrow> string \<Rightarrow> (string \<times> string) option" where
  "scan_str n xs = scan_set n (\<lambda>c. \<not> is_space c) (scan_ws xs)"

text \<open>\<open>%c\<close>: the next character.\<close>

fun scan_char :: "string \<Rightarrow> (char \<times> string) option" where
  "scan_char [] = None"
| "scan_char (x # xs) = Some (x, xs)"

text \<open>\<open>%d\<close>: white space, an optional sign and decimal digits.\<close>

definition digits_value :: "string \<Rightarrow> int" where
  "digits_value ds = foldl (\<lambda>n d. 10 * n + int (of_char d - 48)) 0 ds"

definition scan_int :: "string \<Rightarrow> (int \<times> string) option" where
  "scan_int xs =
     (let ys = scan_ws xs;
          (sgn, zs) = (case ys of
               CHR ''-'' # r \<Rightarrow> (-1, r)
             | CHR ''+'' # r \<Rightarrow> (1, r)
             | _ \<Rightarrow> (1, ys));
          ds = takeWhile is_decimal zs
      in if ds = [] then None else Some (sgn * digits_value ds, drop (length ds) zs))"

section \<open>Lemmas\<close>

lemma scan_set_append:
  assumes "tok \<noteq> []" "list_all P tok" "length tok \<le> n" "\<not> P c"
  shows "scan_set n P (tok @ c # rest) = Some (tok, c # rest)"
proof -
  have "takeWhile P (take n (tok @ c # rest)) = tok"
    using assms by (cases "length tok = n")
      (auto simp: list_all_iff take_Cons' takeWhile_append)
  with assms(1) show ?thesis by (simp add: scan_set_def Let_def)
qed

lemma scan_set_all:
  assumes "tok \<noteq> []" "list_all P tok" "length tok \<le> n"
  shows "scan_set n P tok = Some (tok, [])"
proof -
  have tw: "takeWhile P tok = tok" using assms(2) by (simp add: list_all_iff takeWhile_eq_all_conv)
  show ?thesis using assms(1,3) by (simp add: scan_set_def Let_def tw)
qed

lemma scan_set_length: "scan_set n P xs = Some (tok, rest) \<Longrightarrow> length tok \<le> n \<and> list_all P tok \<and> tok \<noteq> []"
  by (auto simp: scan_set_def Let_def list_all_iff dest: set_takeWhileD split: if_splits)
     (metis length_take length_takeWhile_le min.bounded_iff min.commute)

lemma scan_str_all:
  assumes "tok \<noteq> []" "list_all (\<lambda>c. \<not> is_space c) tok" "length tok \<le> n"
  shows "scan_str n tok = Some (tok, [])"
proof -
  have "scan_ws tok = tok"
    using assms(1,2) by (cases tok) (auto simp: scan_ws_def)
  then show ?thesis using assms by (simp add: scan_str_def scan_set_all)
qed

end
