(* ===== verification/Iface_Modbus.thy ===== *)
theory Iface_Modbus
  imports Knot_Types Scan
begin

text \<open>
  \<open>src/src/iface-modbus.c\<close>: the connection to the Modbus slave (TCP or serial line),
  reconnection by timer, and reading values with the byte order of the data item.
  The library libmodbus, the ELL input/output object and the serial device are outside the
  repository: their answers are fields of the argument \<open>M\<close>, functions of the calls made so
  far, and each call is entered in a log.
\<close>

section \<open>State\<close>

datatype rtu_mode = MODBUS_RTU_RS232 | MODBUS_RTU_RS485

datatype mb_call =
    Mb_open string
  | Mb_ioctl int
  | Mb_close_fd int
  | Mb_new_rtu string int char int int
  | Mb_rtu_set_serial_mode rtu_mode
  | Mb_rtu_set_rts
  | Mb_new_tcp_pi string string
  | Mb_set_slave int
  | Mb_get_socket
  | Mb_connect
  | Mb_close
  | Mb_free
  | Mb_read_input_bits int nat
  | Mb_read_registers int nat
  | Io_new int
  | Io_set_disconnect_handler
  | Io_destroy

text \<open>The functions the program passes as connection callbacks.\<close>

datatype modbus_cb = On_modbus_connected | On_modbus_disconnected

record modbus_env =
  mb_ret :: "mb_call list \<Rightarrow> mb_call \<Rightarrow> int"
  mb_errno_of :: "mb_call list \<Rightarrow> int"
  mb_bit :: "mb_call list \<Rightarrow> nat \<Rightarrow> 8 word"
  mb_register :: "mb_call list \<Rightarrow> nat \<Rightarrow> 16 word"
  mb_timeout_create :: "unit to_oracle"

text \<open>
  \<open>mb_errno\<close> is the C variable \<open>errno\<close>; a pointer that is only tested for \<open>NULL\<close> is a
  boolean.
\<close>

record modbus_st =
  connect_to :: "tid option"
  modbus_io :: bool
  modbus_ctx :: bool
  conn_cb :: "modbus_cb option"
  disconn_cb :: "modbus_cb option"
  mb_errno :: int
  mb_log :: "mb_call list"
  mb_to_log :: "unit to_log"

definition modbus_init :: modbus_st where
  "modbus_init = \<lparr>connect_to = None, modbus_io = False, modbus_ctx = False, conn_cb = None,
     disconn_cb = None, mb_errno = 0, mb_log = [], mb_to_log = []\<rparr>"

definition mb_do :: "modbus_env \<Rightarrow> mb_call \<Rightarrow> modbus_st \<Rightarrow> int \<times> modbus_st" where
  "mb_do M c s = (mb_ret M (mb_log s) c,
     s\<lparr>mb_log := c # mb_log s, mb_errno := mb_errno_of M (c # mb_log s)\<rparr>)"

section \<open>Creating the context\<close>

text \<open>A pointer answered by the library is \<open>NULL\<close> when the answer is 0.\<close>

definition rtu_fields :: "string \<Rightarrow> (string \<times> int \<times> char \<times> int \<times> int) option" where
  "rtu_fields s = do {
     (port, s) \<leftarrow> scan_set 255 (\<lambda>c. c \<noteq> CHR '':'') s;
     s \<leftarrow> scan_lit CHR '':'' s;
     (baud_rate, s) \<leftarrow> scan_int s;
     s \<leftarrow> scan_lit CHR '','' (scan_ws s);
     (parity, s) \<leftarrow> scan_char (scan_ws s);
     s \<leftarrow> scan_lit CHR '','' (scan_ws s);
     (data_bit, s) \<leftarrow> scan_int (scan_ws s);
     s \<leftarrow> scan_lit CHR '','' (scan_ws s);
     (stop_bit, s) \<leftarrow> scan_int (scan_ws s);
     Some (port, baud_rate, parity, data_bit, stop_bit)
   }"

definition create_rtu :: "modbus_env \<Rightarrow> string \<Rightarrow> modbus_st \<Rightarrow> bool \<times> modbus_st" where
  "create_rtu M url s =
     (case rtu_fields (drop 8 url) of
        None \<Rightarrow> (False, s)
      | Some (port, baud_rate, parity, data_bit, stop_bit) \<Rightarrow>
          let (fd, s) = mb_do M (Mb_open (drop 8 url)) s in
          if fd < 0 then (False, s)
          else let (rc, s) = mb_do M (Mb_ioctl fd) s;
                   mode = (if rc < 0 then MODBUS_RTU_RS232 else MODBUS_RTU_RS485);
                   (_, s) = mb_do M (Mb_close_fd fd) s;
                   (ctx, s) = mb_do M (Mb_new_rtu port baud_rate parity data_bit stop_bit) s
               in if ctx = 0 then (False, s)
                  else let (_, s) = mb_do M (Mb_rtu_set_serial_mode mode) s;
                           (_, s) = mb_do M Mb_rtu_set_rts s
                       in (True, s))"

definition tcp_fields :: "string \<Rightarrow> (string \<times> string) option" where
  "tcp_fields s = do {
     (hostname, s) \<leftarrow> scan_set 127 (\<lambda>c. c \<noteq> CHR '':'') s;
     s \<leftarrow> scan_lit CHR '':'' s;
     (port, s) \<leftarrow> scan_str 7 s;
     Some (hostname, port)
   }"

definition create_tcp :: "modbus_env \<Rightarrow> string \<Rightarrow> modbus_st \<Rightarrow> bool \<times> modbus_st" where
  "create_tcp M url s =
     (case tcp_fields (drop 6 url) of
        None \<Rightarrow> (False, s)
      | Some (hostname, port) \<Rightarrow>
          let (ctx, s) = mb_do M (Mb_new_tcp_pi hostname port) s in (ctx \<noteq> 0, s))"

definition create_ctx :: "modbus_env \<Rightarrow> string \<Rightarrow> modbus_st \<Rightarrow> bool \<times> modbus_st" where
  "create_ctx M url s =
     (if take 6 url = ''tcp://'' then create_tcp M url s
      else if take 9 url = ''serial://'' then create_rtu M url s
      else (False, s\<lparr>mb_errno := - EINVAL\<rparr>))"

section \<open>Connecting\<close>

text \<open>
  The handler of a lost connection: \<open>run\<close> performs a callback on the state of the whole
  program, of which \<open>get\<close> and \<open>upd\<close> are the selector and update of this component.
\<close>

definition run_cb :: "(modbus_cb \<Rightarrow> 's \<Rightarrow> 's option) \<Rightarrow> modbus_cb option \<Rightarrow> 's \<Rightarrow> 's option" where
  "run_cb run cb s = (case cb of None \<Rightarrow> Some s | Some f \<Rightarrow> run f s)"

definition on_disconnected :: "(modbus_cb \<Rightarrow> 's \<Rightarrow> 's option) \<Rightarrow> ('s \<Rightarrow> modbus_st)
    \<Rightarrow> ((modbus_st \<Rightarrow> modbus_st) \<Rightarrow> 's \<Rightarrow> 's) \<Rightarrow> 's \<Rightarrow> 's option" where
  "on_disconnected run get upd s = do {
     s' \<leftarrow> run_cb run (disconn_cb (get s)) s;
     Some (upd (\<lambda>m. if connect_to m \<noteq> None
                    then m\<lparr>mb_to_log := To_modify (connect_to m) 5 # mb_to_log m\<rparr> else m) s')
   }"

text \<open>
  \<open>attempt_connect\<close> up to its callback: \<open>True\<close> when the connection is up and the callback
  is due, \<open>False\<close> when it goes to \<open>retry\<close>, where the timer \<open>to\<close> is set again.
\<close>

definition attempt_connect_body :: "modbus_env \<Rightarrow> tid \<Rightarrow> modbus_st \<Rightarrow> bool \<times> modbus_st" where
  "attempt_connect_body M to s =
     (let retry = (\<lambda>s. (False, s\<lparr>mb_to_log := To_modify (Some to) 5 # mb_to_log s\<rparr>));
          (sock, s) = mb_do M Mb_get_socket s;
          s = (if sock \<noteq> -1 then snd (mb_do M Mb_close s) else s);
          s = (if modbus_io s then (snd (mb_do M Io_destroy s))\<lparr>modbus_io := False\<rparr> else s);
          (rc, s) = mb_do M Mb_connect s
      in if rc < 0 then retry s
         else let (sock, s) = mb_do M Mb_get_socket s;
                  (io, s) = mb_do M (Io_new sock) s;
                  s = s\<lparr>modbus_io := (io \<noteq> 0)\<rparr>
              in if io = 0 then retry (snd (mb_do M Mb_close s))
                 else let (ok, s) = mb_do M Io_set_disconnect_handler s
                      in if ok = 0
                         then let s = (snd (mb_do M Io_destroy s))\<lparr>modbus_io := False\<rparr>
                              in retry (snd (mb_do M Mb_close s))
                         else (True, s))"

definition attempt_connect :: "modbus_env \<Rightarrow> (modbus_cb \<Rightarrow> 's \<Rightarrow> 's option) \<Rightarrow> ('s \<Rightarrow> modbus_st)
    \<Rightarrow> ((modbus_st \<Rightarrow> modbus_st) \<Rightarrow> 's \<Rightarrow> 's) \<Rightarrow> tid \<Rightarrow> 's \<Rightarrow> 's option" where
  "attempt_connect M run get upd to s =
     (let (up, m) = attempt_connect_body M to (get s);
          s' = upd (\<lambda>_. m) s
      in if up then run_cb run (conn_cb m) s' else Some s')"

text \<open>The timer created to fire after one millisecond is entered in the log with 0 seconds.\<close>

definition iface_modbus_start :: "modbus_env \<Rightarrow> string \<Rightarrow> int \<Rightarrow> modbus_cb \<Rightarrow> modbus_cb
    \<Rightarrow> modbus_st \<Rightarrow> int \<times> modbus_st" where
  "iface_modbus_start M url slave_id connected_cb disconnected_cb s =
     (let (ctx, s) = create_ctx M url s;
          s = s\<lparr>modbus_ctx := ctx\<rparr>
      in if \<not> ctx then (- mb_errno s, s)
         else let (rc, s) = mb_do M (Mb_set_slave slave_id) s
              in if rc < 0 then (- mb_errno s, s)
                 else let to = mb_timeout_create M (mb_to_log s)
                      in (0, s\<lparr>conn_cb := Some connected_cb, disconn_cb := Some disconnected_cb,
                              connect_to := to, mb_to_log := To_create to 0 () # mb_to_log s\<rparr>))"

definition iface_modbus_stop :: "modbus_env \<Rightarrow> modbus_st \<Rightarrow> modbus_st" where
  "iface_modbus_stop M s =
     (let s = s\<lparr>mb_to_log := To_remove (connect_to s) # mb_to_log s, connect_to := None\<rparr>;
          s = (snd (mb_do M Io_destroy s))\<lparr>modbus_io := False\<rparr>;
          s = snd (mb_do M Mb_close s)
      in snd (mb_do M Mb_free s))"

section \<open>Reading values\<close>

abbreviation (input) MODBUS_ENDIANNESS_TYPE_BIG_ENDIAN :: int where
  "MODBUS_ENDIANNESS_TYPE_BIG_ENDIAN \<equiv> 1"
abbreviation (input) MODBUS_ENDIANNESS_TYPE_MID_BIG_ENDIAN :: int where
  "MODBUS_ENDIANNESS_TYPE_MID_BIG_ENDIAN \<equiv> 2"
abbreviation (input) MODBUS_ENDIANNESS_TYPE_LITTLE_ENDIAN :: int where
  "MODBUS_ENDIANNESS_TYPE_LITTLE_ENDIAN \<equiv> 3"
abbreviation (input) MODBUS_ENDIANNESS_TYPE_MID_LITTLE_ENDIAN :: int where
  "MODBUS_ENDIANNESS_TYPE_MID_LITTLE_ENDIAN \<equiv> 4"

definition iface_modbus_config_endianness_type_recv_32_bits :: "32 word \<Rightarrow> int \<Rightarrow> 32 word" where
  "iface_modbus_config_endianness_type_recv_32_bits src endianness_type =
     (if endianness_type = MODBUS_ENDIANNESS_TYPE_BIG_ENDIAN then
        drop_bit 16 (src AND 0xffff0000) OR push_bit 16 (src AND 0x0000ffff)
      else if endianness_type = MODBUS_ENDIANNESS_TYPE_MID_BIG_ENDIAN then
        drop_bit 24 (src AND 0xff000000) OR drop_bit 8 (src AND 0x00ff0000) OR
        push_bit 8 (src AND 0x0000ff00) OR push_bit 24 (src AND 0x000000ff)
      else if endianness_type = MODBUS_ENDIANNESS_TYPE_LITTLE_ENDIAN then
        drop_bit 8 (src AND 0xff000000) OR push_bit 8 (src AND 0x00ff0000) OR
        drop_bit 8 (src AND 0x0000ff00) OR push_bit 8 (src AND 0x000000ff)
      else src)"

definition iface_modbus_config_endianness_type_recv_64_bits :: "64 word \<Rightarrow> int \<Rightarrow> 64 word" where
  "iface_modbus_config_endianness_type_recv_64_bits src endianness_type =
     (let src1 =
        (if endianness_type = MODBUS_ENDIANNESS_TYPE_MID_BIG_ENDIAN \<or>
            endianness_type = MODBUS_ENDIANNESS_TYPE_LITTLE_ENDIAN then
           drop_bit 8 (src AND 0xff00000000000000) OR push_bit 8 (src AND 0x00ff000000000000) OR
           drop_bit 8 (src AND 0x0000ff0000000000) OR push_bit 8 (src AND 0x000000ff00000000) OR
           drop_bit 8 (src AND 0x00000000ff000000) OR push_bit 8 (src AND 0x0000000000ff0000) OR
           drop_bit 8 (src AND 0x000000000000ff00) OR push_bit 8 (src AND 0x00000000000000ff)
         else src)
      in if endianness_type = MODBUS_ENDIANNESS_TYPE_MID_BIG_ENDIAN \<or>
            endianness_type = MODBUS_ENDIANNESS_TYPE_BIG_ENDIAN then
           drop_bit 48 (src1 AND 0xffff000000000000) OR drop_bit 16 (src1 AND 0x0000ffff00000000) OR
           push_bit 16 (src1 AND 0x00000000ffff0000) OR push_bit 48 (src1 AND 0x000000000000ffff)
         else src1)"

text \<open>
  The union \<open>tmp\<close> is one 64-bit word, its members the low bytes on a little-endian host;
  consecutive registers are consecutive 16-bit halves. \<open>byte_of_bits\<close> is the loop that
  gathers eight input bits.
\<close>

definition byte_of_bits :: "(nat \<Rightarrow> 8 word) \<Rightarrow> 8 word" where
  "byte_of_bits byte_tmp = fold (\<lambda>i v. v OR push_bit i (byte_tmp i)) [0..<8] 0"

definition registers_32 :: "(nat \<Rightarrow> 16 word) \<Rightarrow> 32 word" where
  "registers_32 r = ucast (r 0) OR push_bit 16 (ucast (r 1))"

definition registers_64 :: "(nat \<Rightarrow> 16 word) \<Rightarrow> 64 word" where
  "registers_64 r = ucast (r 0) OR push_bit 16 (ucast (r 1)) OR push_bit 32 (ucast (r 2))
     OR push_bit 48 (ucast (r 3))"

definition iface_modbus_read_data :: "modbus_env \<Rightarrow> int \<Rightarrow> int \<Rightarrow> knot_value \<Rightarrow> int \<Rightarrow> modbus_st
    \<Rightarrow> int \<times> knot_value \<times> modbus_st" where
  "iface_modbus_read_data M reg_addr bit_offset out endianness_type s =
     (let (rc, tmp, s') =
        (if bit_offset = 1 then
           let (rc, s') = mb_do M (Mb_read_input_bits reg_addr 1) s
           in (rc, ucast (mb_bit M (mb_log s') 0), s')
         else if bit_offset = 8 then
           let (rc, s') = mb_do M (Mb_read_input_bits reg_addr 8) s
           in (rc, ucast (byte_of_bits (mb_bit M (mb_log s'))), s')
         else if bit_offset = 16 then
           let (rc, s') = mb_do M (Mb_read_registers reg_addr 1) s
           in (rc, ucast (mb_register M (mb_log s') 0), s')
         else if bit_offset = 32 then
           let (rc, s') = mb_do M (Mb_read_registers reg_addr 2) s
           in (rc, ucast (iface_modbus_config_endianness_type_recv_32_bits
                 (registers_32 (mb_register M (mb_log s'))) endianness_type), s')
         else if bit_offset = 64 then
           let (rc, s') = mb_do M (Mb_read_registers reg_addr 4) s
           in (rc, iface_modbus_config_endianness_type_recv_64_bits
                 (registers_64 (mb_register M (mb_log s'))) endianness_type, s')
         else (- EINVAL, 0, s))
      in if rc < 0 then (- mb_errno s', out, s') else (rc, tmp, s'))"

end
