(* ===== verification/Thing.thy ===== *)
theory Thing
  imports Knot_Types Iface_Modbus
begin

text \<open>
  The data of \<open>src/src/device.c\<close>: \<open>struct knot_thing\<close>, its data items, and the functions
  through which \<open>properties.c\<close> and \<open>sm.c\<close> read and write them. A pointer to a string is an
  option; a character array is the string it holds. Where the C code would write past the
  end of an array or read through \<open>NULL\<close> the function answers \<open>None\<close>.
\<close>

section \<open>State\<close>

record modbus_slave =
  slave_id :: int
  slave_url :: "string option"

record modbus_source =
  reg_addr :: int
  bit_offset :: int
  endianness_type_sensor :: int

record knot_data_item =
  sensor_id :: int
  schema :: knot_schema
  item_event :: knot_event
  current_val :: knot_value
  sent_val :: knot_value
  item_source :: modbus_source

record device_settings =
  credentials_path :: "string option"
  device_path :: "string option"
  cloud_path :: "string option"

record knot_thing =
  token :: string
  thing_id :: string
  thing_name :: string
  user_token :: "string option"
  thing_slave :: modbus_slave
  rabbitmq_url :: "string option"
  conf_files :: device_settings
  data_items :: "knot_data_item hmap"
  msg_to :: "tid option"

text \<open>The global variable \<open>thing\<close> as the program starts, with its hash map created.\<close>

definition thing_init :: knot_thing where
  "thing_init = \<lparr>token = [], thing_id = [], thing_name = [], user_token = None,
     thing_slave = \<lparr>slave_id = 0, slave_url = None\<rparr>, rabbitmq_url = None,
     conf_files = \<lparr>credentials_path = None, device_path = None, cloud_path = None\<rparr>,
     data_items = [], msg_to = None\<rparr>"

section \<open>Setters and getters\<close>

definition device_get_id :: "knot_thing \<Rightarrow> string" where
  "device_get_id th = thing_id th"

text \<open>\<open>strcpy\<close> into an array of \<open>KNOT_PROTOCOL_DEVICE_NAME_LEN\<close> characters.\<close>

definition device_set_thing_name :: "knot_lib \<Rightarrow> string \<Rightarrow> knot_thing \<Rightarrow> knot_thing option" where
  "device_set_thing_name K name th =
     (if length name < DEVICE_NAME_LEN K then Some (th\<lparr>thing_name := name\<rparr>) else None)"

definition device_set_thing_user_token :: "string \<Rightarrow> knot_thing \<Rightarrow> knot_thing" where
  "device_set_thing_user_token tok th = th\<lparr>user_token := Some tok\<rparr>"

definition device_set_thing_modbus_slave :: "int \<Rightarrow> string \<Rightarrow> knot_thing \<Rightarrow> knot_thing" where
  "device_set_thing_modbus_slave i url th =
     th\<lparr>thing_slave := \<lparr>slave_id = i, slave_url = Some url\<rparr>\<rparr>"

definition device_set_new_data_item :: "int \<Rightarrow> knot_schema \<Rightarrow> knot_event \<Rightarrow> int \<Rightarrow> int \<Rightarrow> int
    \<Rightarrow> knot_thing \<Rightarrow> knot_thing" where
  "device_set_new_data_item sid sch ev addr offs endian th =
     th\<lparr>data_items := hm_insert sid
         \<lparr>sensor_id = sid, schema = sch, item_event = ev, current_val = 0, sent_val = 0,
          item_source = \<lparr>reg_addr = addr, bit_offset = offs, endianness_type_sensor = endian\<rparr>\<rparr>
         (data_items th)\<rparr>"

text \<open>The assignments of \<open>device_update_config_data_item\<close> through the pointer it looked up.\<close>

definition apply_config :: "knot_lib \<Rightarrow> knot_msg_config \<Rightarrow> knot_data_item \<Rightarrow> knot_data_item" where
  "apply_config K config item =
     (let sch = cfg_schema config; ev = cfg_event config; old = item_event item;
          item = item\<lparr>schema := \<lparr>sc_value_type = sc_value_type sch, sc_unit = sc_unit sch,
                         sc_type_id = sc_type_id sch, sc_name = take (DATA_NAME_LEN K) (sc_name sch)\<rparr>\<rparr>
      in if flag_set (event_flags ev) (EVT_FLAG_UNREGISTERED K) then item
         else item\<lparr>item_event := \<lparr>event_flags = event_flags ev, time_sec = time_sec ev,
                lower_limit = knot_value_assign_limit K (sc_value_type sch) (lower_limit ev) (lower_limit old),
                upper_limit = knot_value_assign_limit K (sc_value_type sch) (upper_limit ev) (upper_limit old)\<rparr>\<rparr>)"

definition device_update_config_data_item :: "knot_lib \<Rightarrow> knot_msg_config \<Rightarrow> knot_thing \<Rightarrow> knot_thing" where
  "device_update_config_data_item K config th =
     (case hm_lookup (data_items th) (cfg_sensor_id config) of
        None \<Rightarrow> th
      | Some _ \<Rightarrow> th\<lparr>data_items := hm_modify (cfg_sensor_id config) (apply_config K config) (data_items th)\<rparr>)"

definition device_data_item_lookup :: "knot_thing \<Rightarrow> int \<Rightarrow> knot_data_item option" where
  "device_data_item_lookup th sid = hm_lookup (data_items th) sid"

definition device_set_thing_rabbitmq_url :: "string \<Rightarrow> knot_thing \<Rightarrow> knot_thing" where
  "device_set_thing_rabbitmq_url url th = th\<lparr>rabbitmq_url := Some url\<rparr>"

text \<open>\<open>strncpy\<close> from two pointers, either of which may be \<open>NULL\<close>.\<close>

definition device_set_thing_credentials :: "knot_lib \<Rightarrow> string option \<Rightarrow> string option \<Rightarrow> knot_thing
    \<Rightarrow> knot_thing option" where
  "device_set_thing_credentials K i tok th = do {
     i \<leftarrow> i;
     tok \<leftarrow> tok;
     Some (th\<lparr>thing_id := take (UUID_LEN K) i, token := take (TOKEN_LEN K) tok\<rparr>)
   }"

section \<open>The identifier and the token\<close>

text \<open>\<open>sprintf\<close> with \<open>PRIx64\<close>: lower case hexadecimal without leading zeros.\<close>

definition hex_digit :: "nat \<Rightarrow> char" where
  "hex_digit n = ''0123456789abcdef'' ! (n mod 16)"

fun hex_string :: "nat \<Rightarrow> string" where
  "hex_string n = (if n < 16 then [hex_digit n] else hex_string (n div 16) @ [hex_digit n])"

declare hex_string.simps [simp del]

definition device_generate_thing_id :: "knot_lib \<Rightarrow> 64 word \<Rightarrow> knot_thing \<Rightarrow> knot_thing option" where
  "device_generate_thing_id K rnd th =
     (let s = hex_string (unat rnd) in
      if length s \<le> UUID_LEN K then Some (th\<lparr>thing_id := s\<rparr>) else None)"

definition device_clear_thing_id :: "knot_thing \<Rightarrow> knot_thing" where
  "device_clear_thing_id th = th\<lparr>thing_id := []\<rparr>"

definition device_clear_thing_token :: "knot_thing \<Rightarrow> knot_thing" where
  "device_clear_thing_token th = th\<lparr>token := []\<rparr>"

definition device_has_thing_token :: "knot_thing \<Rightarrow> bool" where
  "device_has_thing_token th \<longleftrightarrow> token th \<noteq> []"

text \<open>A data item and a configuration message for it, for evaluating runs.\<close>

definition ex_item :: knot_data_item where
  "ex_item = \<lparr>sensor_id = 4, schema = \<lparr>sc_value_type = 1, sc_unit = 0, sc_type_id = 9, sc_name = ''a''\<rparr>,
     item_event = \<lparr>event_flags = 0, time_sec = 0, lower_limit = 0, upper_limit = 0\<rparr>,
     current_val = 7, sent_val = 0,
     item_source = \<lparr>reg_addr = 1, bit_offset = 32, endianness_type_sensor = 1\<rparr>\<rparr>"

definition ex_config :: knot_msg_config where
  "ex_config = \<lparr>cfg_sensor_id = 4,
     cfg_schema = \<lparr>sc_value_type = 2, sc_unit = 0, sc_type_id = 9, sc_name = ''b''\<rparr>,
     cfg_event = \<lparr>event_flags = 1, time_sec = 30, lower_limit = 0, upper_limit = 0\<rparr>\<rparr>"

section \<open>Lemmas\<close>

lemma hex_string_nonempty [simp]: "hex_string n \<noteq> []"
  by (subst hex_string.simps) simp

lemma hex_string_length: "n < 16 ^ k \<Longrightarrow> 0 < k \<Longrightarrow> length (hex_string n) \<le> k"
proof (induction n arbitrary: k rule: hex_string.induct)
  case (1 n)
  show ?case
  proof (cases "n < 16")
    case True
    then show ?thesis using "1.prems" by (subst hex_string.simps) simp
  next
    case False
    then obtain j where k: "k = Suc j" "0 < j"
      using "1.prems" by (cases k; cases "k - 1") auto
    have "n div 16 < 16 ^ j" using "1.prems"(1) k by (simp add: less_mult_imp_div_less)
    then have "length (hex_string (n div 16)) \<le> j" using "1.IH"[OF False] k(2) by simp
    then show ?thesis using False k by (subst hex_string.simps) simp
  qed
qed

lemma hex_digit_inj: "m < 16 \<Longrightarrow> n < 16 \<Longrightarrow> hex_digit m = hex_digit n \<Longrightarrow> m = n"
proof -
  have "distinct ''0123456789abcdef''" by simp
  then show "m < 16 \<Longrightarrow> n < 16 \<Longrightarrow> hex_digit m = hex_digit n \<Longrightarrow> m = n"
    unfolding hex_digit_def by (subst (asm) nth_eq_iff_index_eq) auto
qed

lemma hex_digit_mod: "hex_digit n = hex_digit (n mod 16)"
  by (simp add: hex_digit_def)

lemma hex_string_inj: "hex_string m = hex_string n \<Longrightarrow> m = n"
proof (induction m arbitrary: n rule: hex_string.induct)
  case (1 m)
  have last: "last (hex_string k) = hex_digit (k mod 16)" for k
    by (subst hex_string.simps) (simp add: hex_digit_mod[symmetric])
  have mod: "m mod 16 = n mod 16"
    using "1.prems" last[of m] last[of n] hex_digit_inj[of "m mod 16" "n mod 16"] by simp
  have bl: "butlast (hex_string k) = (if k < 16 then [] else hex_string (k div 16))" for k
    by (subst hex_string.simps) simp
  have b: "(if m < 16 then [] else hex_string (m div 16)) = (if n < 16 then [] else hex_string (n div 16))"
    using bl[of m] bl[of n] "1.prems" by simp
  show ?case
  proof (cases "m < 16")
    case True
    then have "n < 16" using b hex_string_nonempty[of "n div 16"] by (metis (full_types))
    with True mod show ?thesis by simp
  next
    case False
    then have "hex_string (m div 16) = hex_string (n div 16)" using b by (simp split: if_splits)
    then have "m div 16 = n div 16" by (rule "1.IH"[OF False])
    with mod show ?thesis by (metis div_mult_mod_eq)
  qed
qed

lemma hex_string_word: "length (hex_string (unat (w :: 64 word))) \<le> 16"
proof -
  have "unat w < 2 ^ LENGTH(64)" by (rule unsigned_less)
  then show ?thesis by (intro hex_string_length) simp_all
qed

lemma device_generate_thing_id_eq:
  "16 \<le> UUID_LEN K \<Longrightarrow>
    device_generate_thing_id K rnd th = Some (th\<lparr>thing_id := hex_string (unat rnd)\<rparr>)"
  using hex_string_word[of rnd] by (simp add: device_generate_thing_id_def Let_def)

section \<open>Properties\<close>

text \<open>
  A generated identifier fits in the array, is not empty and has at most 16 characters, and
  two different random numbers give two different identifiers.
\<close>

theorem device_generate_thing_id_ok:
  assumes "16 \<le> UUID_LEN K"
  shows "\<exists>th1 th2. device_generate_thing_id K r1 th = Some th1 \<and> device_generate_thing_id K r2 th = Some th2 \<and>
    thing_id th1 \<noteq> [] \<and> length (thing_id th1) \<le> 16 \<and> (thing_id th1 = thing_id th2 \<longleftrightarrow> r1 = r2)"
  using hex_string_inj[of "unat r1" "unat r2"] hex_string_word[of r1]
  by (auto simp: device_generate_thing_id_eq[OF assms] unsigned_word_eqI)

theorem device_generate_thing_id_ok_witness:
  "\<exists>th1. device_generate_thing_id knot_example 0xab01 thing_init = Some th1 \<and>
     thing_id th1 = ''ab01'' \<and> length (thing_id th1) \<le> 16"
  using device_generate_thing_id_ok[of knot_example "0xab01" thing_init 0]
  by (auto simp: device_generate_thing_id_eq) (simp_all add: hex_string.simps hex_digit_def)

text \<open>
  (C39) A configuration message changes the data item it names and no other, keeps what was read
  from the sensor and where it is read, and changes the event only when the message carries
  one.
\<close>

theorem device_update_config_data_item_spec:
  assumes "device_data_item_lookup th sid = Some item"
  shows "\<exists>item'. device_data_item_lookup (device_update_config_data_item K config th) sid = Some item' \<and>
    sensor_id item' = sensor_id item \<and> current_val item' = current_val item \<and>
    sent_val item' = sent_val item \<and> item_source item' = item_source item \<and>
    (if sid = cfg_sensor_id config
     then sc_value_type (schema item') = sc_value_type (cfg_schema config) \<and>
       (if flag_set (event_flags (cfg_event config)) (EVT_FLAG_UNREGISTERED K)
        then item_event item' = item_event item
        else event_flags (item_event item') = event_flags (cfg_event config) \<and>
             time_sec (item_event item') = time_sec (cfg_event config))
     else item' = item)"
proof (cases "hm_lookup (data_items th) (cfg_sensor_id config)")
  case None
  then show ?thesis
    using assms by (auto simp: device_update_config_data_item_def device_data_item_lookup_def)
next
  case (Some x)
  then show ?thesis
    using assms by (auto simp: device_update_config_data_item_def device_data_item_lookup_def
        apply_config_def Let_def)
qed

theorem device_update_config_data_item_spec_witness:
  "\<exists>item'. device_data_item_lookup (device_update_config_data_item knot_example ex_config
          (thing_init\<lparr>data_items := [(4, ex_item)]\<rparr>)) 4 = Some item' \<and>
        current_val item' = 7 \<and> sc_value_type (schema item') = 2 \<and> time_sec (item_event item') = 30"
proof -
  have "device_data_item_lookup (thing_init\<lparr>data_items := [(4, ex_item)]\<rparr>) 4 = Some ex_item"
    by (simp add: device_data_item_lookup_def hm_lookup_def)
  from device_update_config_data_item_spec[OF this, of knot_example ex_config] show ?thesis
    by (auto simp: ex_item_def ex_config_def flag_set_def)
qed

end
