(* ===== verification/Storage.thy ===== *)
theory Storage
  imports Prelude "HOL-Library.Char_ord"
begin

text \<open>
  \<open>src/src/storage.c\<close>: configuration files. Every open file has an ELL settings object,
  found by its descriptor in \<open>storage_list\<close>; readers look a key up in that object, writers
  change the object and write all of it back to the file.

  The ELL settings object is a library type: it is the type parameter \<open>'c\<close>, and the
  \<open>l_settings_*\<close> functions are fields of the argument \<open>A\<close>. The bytes of a file are
  lists over the type parameter \<open>'d\<close>, the type of one byte. The kernel's answers to the system
  calls are fields of \<open>A\<close> too, functions of the calls made so far and of their arguments:
  \<open>pwrite\<close> may fail, write everything or, on a full disk, write only a beginning of what it was
  given and answer how much. \<open>None\<close> is undefined behaviour: the array of \<open>make_dirs\<close> overflows.
\<close>

section \<open>What the component uses of the system and of ELL\<close>

datatype os_call =
    Os_stat string
  | Os_mkdir string
  | Os_open string
  | Os_ftruncate int
  | Os_pwrite int nat
  | Os_close int

record ('c, 'd) storage_env =
  l_settings_new :: 'c
  l_settings_load :: "'c \<Rightarrow> 'd list \<Rightarrow> 'c"
  l_settings_to_data :: "'c \<Rightarrow> 'd list"
  l_settings_get_groups :: "'c \<Rightarrow> string list"
  l_settings_has_key :: "'c \<Rightarrow> string \<Rightarrow> string \<Rightarrow> bool"
  l_settings_remove_group :: "'c \<Rightarrow> string \<Rightarrow> 'c option"
  l_settings_remove_key :: "'c \<Rightarrow> string \<Rightarrow> string \<Rightarrow> 'c option"
  l_settings_get_string :: "'c \<Rightarrow> string \<Rightarrow> string \<Rightarrow> string option"
  l_settings_set_string :: "'c \<Rightarrow> string \<Rightarrow> string \<Rightarrow> string \<Rightarrow> 'c option"
  l_settings_get_int :: "'c \<Rightarrow> string \<Rightarrow> string \<Rightarrow> int option"
  l_settings_set_int :: "'c \<Rightarrow> string \<Rightarrow> string \<Rightarrow> int \<Rightarrow> 'c option"
  l_settings_get_float :: "'c \<Rightarrow> string \<Rightarrow> string \<Rightarrow> 32 word option"
  l_settings_set_float :: "'c \<Rightarrow> string \<Rightarrow> string \<Rightarrow> 32 word \<Rightarrow> 'c option"
  l_settings_get_bool :: "'c \<Rightarrow> string \<Rightarrow> string \<Rightarrow> bool option"
  l_settings_set_bool :: "'c \<Rightarrow> string \<Rightarrow> string \<Rightarrow> bool \<Rightarrow> 'c option"
  l_settings_get_int64 :: "'c \<Rightarrow> string \<Rightarrow> string \<Rightarrow> 64 word option"
  l_settings_set_int64 :: "'c \<Rightarrow> string \<Rightarrow> string \<Rightarrow> 64 word \<Rightarrow> 'c option"
  l_settings_get_uint :: "'c \<Rightarrow> string \<Rightarrow> string \<Rightarrow> 32 word option"
  l_settings_set_uint :: "'c \<Rightarrow> string \<Rightarrow> string \<Rightarrow> 32 word \<Rightarrow> 'c option"
  l_settings_get_uint64 :: "'c \<Rightarrow> string \<Rightarrow> string \<Rightarrow> 64 word option"
  l_settings_set_uint64 :: "'c \<Rightarrow> string \<Rightarrow> string \<Rightarrow> 64 word \<Rightarrow> 'c option"
  os_ret :: "os_call list \<Rightarrow> os_call \<Rightarrow> int"
  os_errno :: "os_call list \<Rightarrow> int"
  os_isreg :: "string \<Rightarrow> bool"

text \<open>
  The state: the settings object of each descriptor, the files' bytes, the kernel's table of
  open descriptors, and the system calls made so far, newest first.
\<close>

record ('c, 'd) storage_st =
  storage_list :: "int \<Rightarrow> 'c option"
  files :: "string \<Rightarrow> 'd list option"
  fd_table :: "int \<Rightarrow> string option"
  os_log :: "os_call list"

text \<open>One system call: the kernel's answer, and the call entered in the log.\<close>

definition os_do :: "('c, 'd) storage_env \<Rightarrow> os_call \<Rightarrow> ('c, 'd) storage_st
    \<Rightarrow> int \<times> ('c, 'd) storage_st" where
  "os_do A c st = (os_ret A (os_log st) c, st\<lparr>os_log := c # os_log st\<rparr>)"

section \<open>Directories\<close>

text \<open>
  The loop of \<open>make_dirs\<close>: \<open>dir\<close> is the path built so far and \<open>rest\<close> what follows
  \<open>previous\<close>. The array has \<open>PATH_MAX + 1\<close> bytes and \<open>strncat\<close> is given no bound, so a
  longer path is written beyond its end (\<open>None\<close>). An error of \<open>mkdir\<close> other than \<open>EEXIST\<close>
  is returned as it is, positive.
\<close>

abbreviation (input) PATH_MAX :: nat where "PATH_MAX \<equiv> 4096"

function make_dirs_loop :: "('c, 'd) storage_env \<Rightarrow> string \<Rightarrow> string \<Rightarrow> ('c, 'd) storage_st
    \<Rightarrow> (int \<times> ('c, 'd) storage_st) option" where
  "make_dirs_loop A dir rest st =
     (let seg = takeWhile (\<lambda>c. c \<noteq> CHR ''/'') rest;
          tail = dropWhile (\<lambda>c. c \<noteq> CHR ''/'') rest
      in if tail = [] then Some (0, st)
         else if seg = [] then make_dirs_loop A dir (tl tail) st
         else let dir' = dir @ seg @ ''/'' in
              if length dir' > PATH_MAX then None
              else let (rc, st') = os_do A (Os_mkdir dir') st;
                       err = os_errno A (os_log st')
                   in if rc = -1 \<and> err \<noteq> EEXIST then Some (err, st')
                      else make_dirs_loop A dir' (tl tail) st')"
  by pat_completeness auto
termination
proof (relation "measure (\<lambda>(A, dir, rest, st). length rest)", goal_cases)
  case 1
  then show ?case by simp
next
  case (2 A dir rest st seg tail)
  have "length tail \<le> length rest" using 2(2) by (simp add: length_dropWhile_le)
  with 2(3) show ?case by (cases tail) auto
next
  case (3 A dir rest st seg tail)
  have "length tail \<le> length rest" using 3(2) by (simp add: length_dropWhile_le)
  with 3(3) show ?case by (cases tail) auto
qed

declare make_dirs_loop.simps [simp del]

definition make_dirs :: "('c, 'd) storage_env \<Rightarrow> string \<Rightarrow> ('c, 'd) storage_st
    \<Rightarrow> (int \<times> ('c, 'd) storage_st) option" where
  "make_dirs A filename st =
     (let (err, st1) = os_do A (Os_stat filename) st in
      if err = 0 \<and> os_isreg A filename then Some (0, st1)
      else case dropWhile (\<lambda>c. c \<noteq> CHR ''/'') filename of
             [] \<Rightarrow> Some (0, st1)
           | _ # rest \<Rightarrow> make_dirs_loop A ''/'' rest st1)"

section \<open>Opening, saving, closing\<close>

text \<open>The bytes of the file open under a descriptor.\<close>

definition fd_put :: "int \<Rightarrow> 'd list \<Rightarrow> ('c, 'd) storage_st \<Rightarrow> ('c, 'd) storage_st" where
  "fd_put fd d st =
     (case fd_table st fd of
        None \<Rightarrow> st
      | Some path \<Rightarrow> st\<lparr>files := (files st)(path \<mapsto> d)\<rparr>)"

text \<open>
  A \<open>pwrite\<close> that answers a count has written that many bytes from the start; the count is
  compared with 0 only, so a short write is a success.
\<close>

definition save_settings :: "('c, 'd) storage_env \<Rightarrow> int \<Rightarrow> 'c \<Rightarrow> ('c, 'd) storage_st
    \<Rightarrow> int \<times> ('c, 'd) storage_st" where
  "save_settings A fd settings st =
     (let res = l_settings_to_data A settings;
          (rc, st1) = os_do A (Os_ftruncate fd) st
      in if rc = -1 then (- os_errno A (os_log st1), st1)
         else let (rc2, st2) = os_do A (Os_pwrite fd (length res)) (fd_put fd [] st1)
              in if rc2 < 0 then (- os_errno A (os_log st2), st2)
                 else (0, fd_put fd (take (nat rc2) res) st2))"

definition storage_open :: "('c, 'd) storage_env \<Rightarrow> string \<Rightarrow> ('c, 'd) storage_st
    \<Rightarrow> (int \<times> ('c, 'd) storage_st) option" where
  "storage_open A pathname st =
     (case make_dirs A pathname st of
        None \<Rightarrow> None
      | Some (err, st1) \<Rightarrow> Some
     (if err < 0 then (err, st1)
      else let (fd, st2) = os_do A (Os_open pathname) st1 in
           if fd < 0 then (- os_errno A (os_log st2), st2)
           else let data = (case files st2 pathname of None \<Rightarrow> [] | Some d \<Rightarrow> d);
                    settings = l_settings_load A (l_settings_new A) data
                in (fd, st2\<lparr>files := (files st2)(pathname \<mapsto> data),
                           fd_table := (fd_table st2)(fd \<mapsto> pathname),
                           storage_list := (storage_list st2)(fd \<mapsto> settings)\<rparr>)))"

definition storage_close :: "('c, 'd) storage_env \<Rightarrow> int \<Rightarrow> ('c, 'd) storage_st
    \<Rightarrow> int \<times> ('c, 'd) storage_st" where
  "storage_close A fd st =
     (case storage_list st fd of
        None \<Rightarrow> (- ENOENT, st)
      | Some settings \<Rightarrow>
          let (rc, st1) = os_do A (Os_close fd) (st\<lparr>storage_list := (storage_list st)(fd := None)\<rparr>)
          in (rc, st1\<lparr>fd_table := (fd_table st1)(fd := None)\<rparr>))"

section \<open>Reading and writing keys\<close>

text \<open>
  A reader answers the return code and, where it wrote through its \<open>value\<close> argument, the
  value: \<open>-EINVAL\<close> for an unknown descriptor, 1 and the value, or 0 when the key is missing
  or does not parse. A writer changes the settings object, then saves it.
\<close>

definition read_result :: "'v option \<Rightarrow> int \<times> 'v option" where
  "read_result r = (case r of None \<Rightarrow> (0, None) | Some v \<Rightarrow> (1, Some v))"

definition commit :: "('c, 'd) storage_env \<Rightarrow> int \<Rightarrow> 'c option \<Rightarrow> ('c, 'd) storage_st
    \<Rightarrow> int \<times> ('c, 'd) storage_st" where
  "commit A fd r st =
     (case r of
        None \<Rightarrow> (- EINVAL, st)
      | Some settings \<Rightarrow>
          save_settings A fd settings (st\<lparr>storage_list := (storage_list st)(fd \<mapsto> settings)\<rparr>))"

definition storage_read_key_string :: "('c, 'd) storage_env \<Rightarrow> int \<Rightarrow> string \<Rightarrow> string
    \<Rightarrow> ('c, 'd) storage_st \<Rightarrow> string option" where
  "storage_read_key_string A fd grp key st =
     (case storage_list st fd of
        None \<Rightarrow> None
      | Some settings \<Rightarrow> l_settings_get_string A settings grp key)"

definition storage_write_key_string :: "('c, 'd) storage_env \<Rightarrow> int \<Rightarrow> string \<Rightarrow> string
    \<Rightarrow> string \<Rightarrow> ('c, 'd) storage_st \<Rightarrow> int \<times> ('c, 'd) storage_st" where
  "storage_write_key_string A fd grp key value st =
     (case storage_list st fd of
        None \<Rightarrow> (- EIO, st)
      | Some settings \<Rightarrow> commit A fd (l_settings_set_string A settings grp key value) st)"

definition storage_read_key_int :: "('c, 'd) storage_env \<Rightarrow> int \<Rightarrow> string \<Rightarrow> string
    \<Rightarrow> ('c, 'd) storage_st \<Rightarrow> int \<times> int option" where
  "storage_read_key_int A fd grp key st =
     (case storage_list st fd of
        None \<Rightarrow> (- EINVAL, None)
      | Some settings \<Rightarrow> read_result (l_settings_get_int A settings grp key))"

definition storage_write_key_int :: "('c, 'd) storage_env \<Rightarrow> int \<Rightarrow> string \<Rightarrow> string
    \<Rightarrow> int \<Rightarrow> ('c, 'd) storage_st \<Rightarrow> int \<times> ('c, 'd) storage_st" where
  "storage_write_key_int A fd grp key value st =
     (case storage_list st fd of
        None \<Rightarrow> (- EINVAL, st)
      | Some settings \<Rightarrow> commit A fd (l_settings_set_int A settings grp key value) st)"

definition storage_read_key_float :: "('c, 'd) storage_env \<Rightarrow> int \<Rightarrow> string \<Rightarrow> string
    \<Rightarrow> ('c, 'd) storage_st \<Rightarrow> int \<times> 32 word option" where
  "storage_read_key_float A fd grp key st =
     (case storage_list st fd of
        None \<Rightarrow> (- EINVAL, None)
      | Some settings \<Rightarrow> read_result (l_settings_get_float A settings grp key))"

definition storage_write_key_float :: "('c, 'd) storage_env \<Rightarrow> int \<Rightarrow> string \<Rightarrow> string
    \<Rightarrow> 32 word \<Rightarrow> ('c, 'd) storage_st \<Rightarrow> int \<times> ('c, 'd) storage_st" where
  "storage_write_key_float A fd grp key value st =
     (case storage_list st fd of
        None \<Rightarrow> (- EINVAL, st)
      | Some settings \<Rightarrow> commit A fd (l_settings_set_float A settings grp key value) st)"

definition storage_read_key_bool :: "('c, 'd) storage_env \<Rightarrow> int \<Rightarrow> string \<Rightarrow> string
    \<Rightarrow> ('c, 'd) storage_st \<Rightarrow> int \<times> 8 word option" where
  "storage_read_key_bool A fd grp key st =
     (case storage_list st fd of
        None \<Rightarrow> (- EINVAL, None)
      | Some settings \<Rightarrow>
          (case l_settings_get_bool A settings grp key of
             None \<Rightarrow> (0, None)
           | Some result \<Rightarrow> (1, Some (of_bool result))))"

definition storage_write_key_bool :: "('c, 'd) storage_env \<Rightarrow> int \<Rightarrow> string \<Rightarrow> string
    \<Rightarrow> 8 word \<Rightarrow> ('c, 'd) storage_st \<Rightarrow> int \<times> ('c, 'd) storage_st" where
  "storage_write_key_bool A fd grp key value st =
     (case storage_list st fd of
        None \<Rightarrow> (- EINVAL, st)
      | Some settings \<Rightarrow> commit A fd (l_settings_set_bool A settings grp key (value \<noteq> 0)) st)"

definition storage_read_key_int64 :: "('c, 'd) storage_env \<Rightarrow> int \<Rightarrow> string \<Rightarrow> string
    \<Rightarrow> ('c, 'd) storage_st \<Rightarrow> int \<times> 64 word option" where
  "storage_read_key_int64 A fd grp key st =
     (case storage_list st fd of
        None \<Rightarrow> (- EINVAL, None)
      | Some settings \<Rightarrow> read_result (l_settings_get_int64 A settings grp key))"

definition storage_write_key_int64 :: "('c, 'd) storage_env \<Rightarrow> int \<Rightarrow> string \<Rightarrow> string
    \<Rightarrow> 64 word \<Rightarrow> ('c, 'd) storage_st \<Rightarrow> int \<times> ('c, 'd) storage_st" where
  "storage_write_key_int64 A fd grp key value st =
     (case storage_list st fd of
        None \<Rightarrow> (- EINVAL, st)
      | Some settings \<Rightarrow> commit A fd (l_settings_set_int64 A settings grp key value) st)"

definition storage_read_key_uint :: "('c, 'd) storage_env \<Rightarrow> int \<Rightarrow> string \<Rightarrow> string
    \<Rightarrow> ('c, 'd) storage_st \<Rightarrow> int \<times> 32 word option" where
  "storage_read_key_uint A fd grp key st =
     (case storage_list st fd of
        None \<Rightarrow> (- EINVAL, None)
      | Some settings \<Rightarrow> read_result (l_settings_get_uint A settings grp key))"

definition storage_write_key_uint :: "('c, 'd) storage_env \<Rightarrow> int \<Rightarrow> string \<Rightarrow> string
    \<Rightarrow> 32 word \<Rightarrow> ('c, 'd) storage_st \<Rightarrow> int \<times> ('c, 'd) storage_st" where
  "storage_write_key_uint A fd grp key value st =
     (case storage_list st fd of
        None \<Rightarrow> (- EINVAL, st)
      | Some settings \<Rightarrow> commit A fd (l_settings_set_uint A settings grp key value) st)"

definition storage_read_key_uint64 :: "('c, 'd) storage_env \<Rightarrow> int \<Rightarrow> string \<Rightarrow> string
    \<Rightarrow> ('c, 'd) storage_st \<Rightarrow> int \<times> 64 word option" where
  "storage_read_key_uint64 A fd grp key st =
     (case storage_list st fd of
        None \<Rightarrow> (- EINVAL, None)
      | Some settings \<Rightarrow> read_result (l_settings_get_uint64 A settings grp key))"

definition storage_write_key_uint64 :: "('c, 'd) storage_env \<Rightarrow> int \<Rightarrow> string \<Rightarrow> string
    \<Rightarrow> 64 word \<Rightarrow> ('c, 'd) storage_st \<Rightarrow> int \<times> ('c, 'd) storage_st" where
  "storage_write_key_uint64 A fd grp key value st =
     (case storage_list st fd of
        None \<Rightarrow> (- EINVAL, st)
      | Some settings \<Rightarrow> commit A fd (l_settings_set_uint64 A settings grp key value) st)"

definition storage_remove_group :: "('c, 'd) storage_env \<Rightarrow> int \<Rightarrow> string \<Rightarrow> ('c, 'd) storage_st
    \<Rightarrow> int \<times> ('c, 'd) storage_st" where
  "storage_remove_group A fd grp st =
     (case storage_list st fd of
        None \<Rightarrow> (- EINVAL, st)
      | Some settings \<Rightarrow> commit A fd (l_settings_remove_group A settings grp) st)"

definition storage_remove_key :: "('c, 'd) storage_env \<Rightarrow> int \<Rightarrow> string \<Rightarrow> string
    \<Rightarrow> ('c, 'd) storage_st \<Rightarrow> int \<times> ('c, 'd) storage_st" where
  "storage_remove_key A fd grp key st =
     (case storage_list st fd of
        None \<Rightarrow> (- EINVAL, st)
      | Some settings \<Rightarrow> commit A fd (l_settings_remove_key A settings grp key) st)"

definition storage_has_unit :: "('c, 'd) storage_env \<Rightarrow> int \<Rightarrow> string \<Rightarrow> string
    \<Rightarrow> ('c, 'd) storage_st \<Rightarrow> bool" where
  "storage_has_unit A fd grp key st =
     (case storage_list st fd of
        None \<Rightarrow> False
      | Some settings \<Rightarrow> l_settings_has_key A settings grp key)"

section \<open>Iterating over groups\<close>

text \<open>
  The two iterators answer the calls of the callback in order. In
  \<open>storage_foreach_source\<close> the variable \<open>interval\<close> is declared outside the loop, so a
  group without a polling interval passes on what the group before it left there.
\<close>

fun foreach_slave_groups :: "('c, 'd) storage_env \<Rightarrow> 'c \<Rightarrow> string list
    \<Rightarrow> (string \<times> int \<times> string \<times> string) list" where
  "foreach_slave_groups A settings [] = []"
| "foreach_slave_groups A settings (g # gs) =
     (case (l_settings_get_int A settings g ''Id'', l_settings_get_string A settings g ''Name'',
            l_settings_get_string A settings g ''URL'') of
        (Some i, Some name, Some url) \<Rightarrow> (g, i, name, url) # foreach_slave_groups A settings gs
      | _ \<Rightarrow> foreach_slave_groups A settings gs)"

definition storage_foreach_slave :: "('c, 'd) storage_env \<Rightarrow> int \<Rightarrow> ('c, 'd) storage_st
    \<Rightarrow> (string \<times> int \<times> string \<times> string) list" where
  "storage_foreach_slave A fd st =
     (case storage_list st fd of
        None \<Rightarrow> []
      | Some settings \<Rightarrow> foreach_slave_groups A settings (l_settings_get_groups A settings))"

fun foreach_source_groups :: "('c, 'd) storage_env \<Rightarrow> 'c \<Rightarrow> int \<Rightarrow> string list
    \<Rightarrow> (string \<times> string \<times> string \<times> string \<times> int) list" where
  "foreach_source_groups A settings interval [] = []"
| "foreach_source_groups A settings interval (g # gs) =
     (let interval' = (case l_settings_get_int A settings g ''PollingInterval'' of
                         None \<Rightarrow> interval | Some i \<Rightarrow> i)
      in case (l_settings_get_string A settings g ''Name'', l_settings_get_string A settings g ''Type'',
               l_settings_get_string A settings g ''Unit'') of
           (Some name, Some typ, Some unit) \<Rightarrow>
              (g, name, typ, unit, interval') # foreach_source_groups A settings interval' gs
         | _ \<Rightarrow> foreach_source_groups A settings interval' gs)"

definition storage_foreach_source :: "('c, 'd) storage_env \<Rightarrow> int \<Rightarrow> ('c, 'd) storage_st
    \<Rightarrow> (string \<times> string \<times> string \<times> string \<times> int) list" where
  "storage_foreach_source A fd st =
     (case storage_list st fd of
        None \<Rightarrow> []
      | Some settings \<Rightarrow> foreach_source_groups A settings 1000 (l_settings_get_groups A settings))"

section \<open>Data item groups\<close>

abbreviation DATA_ITEM_GROUP :: string where "DATA_ITEM_GROUP \<equiv> ''DataItem_''"

definition is_digit :: "char \<Rightarrow> bool" where
  "is_digit c \<longleftrightarrow> CHR ''0'' \<le> c \<and> c \<le> CHR ''9''"

text \<open>\<open>regexec\<close> with the pattern \<open>^DataItem_[0-9]+$\<close>.\<close>

definition data_item_regex :: "string \<Rightarrow> bool" where
  "data_item_regex g \<longleftrightarrow> take (length DATA_ITEM_GROUP) g = DATA_ITEM_GROUP \<and>
     (let n = drop (length DATA_ITEM_GROUP) g in n \<noteq> [] \<and> list_all is_digit n)"

text \<open>The argument is the array from the index on: the group itself and those after it.\<close>

fun check_valid_groups :: "string list \<Rightarrow> int" where
  "check_valid_groups [] = 0"
| "check_valid_groups (g # later) =
     (if \<not> data_item_regex g then - EINVAL
      else if g \<in> set later then - EINVAL
      else 0)"

text \<open>
  The loop of \<open>get_data_item_groups\<close> over the array of all groups, with the settings object
  and \<open>err\<close>: groups of another kind are removed from the object, and \<open>err\<close> is
  overwritten by each data item group.
\<close>

fun data_item_groups_loop :: "('c, 'd) storage_env \<Rightarrow> string list \<Rightarrow> 'c \<Rightarrow> int \<Rightarrow> 'c \<times> int" where
  "data_item_groups_loop A [] settings err = (settings, err)"
| "data_item_groups_loop A (g # gs) settings err =
     (if take (length DATA_ITEM_GROUP) g \<noteq> DATA_ITEM_GROUP
      then data_item_groups_loop A gs
             (case l_settings_remove_group A settings g of None \<Rightarrow> settings | Some c \<Rightarrow> c) err
      else data_item_groups_loop A gs settings (check_valid_groups (g # gs)))"

definition get_data_item_groups :: "('c, 'd) storage_env \<Rightarrow> int \<Rightarrow> ('c, 'd) storage_st
    \<Rightarrow> string list option \<times> ('c, 'd) storage_st" where
  "get_data_item_groups A fd st =
     (case storage_list st fd of
        None \<Rightarrow> (None, st)
      | Some settings \<Rightarrow>
          let (settings', err) =
                data_item_groups_loop A (l_settings_get_groups A settings) settings 0;
              st' = st\<lparr>storage_list := (storage_list st)(fd \<mapsto> settings')\<rparr>
          in (if err < 0 then None else Some (l_settings_get_groups A settings'), st'))"

section \<open>What the sources rely on\<close>

text \<open>A failing system call sets \<open>errno\<close> to a positive number.\<close>

definition errno_ok :: "('c, 'd) storage_env \<Rightarrow> bool" where
  "errno_ok A \<longleftrightarrow> (\<forall>l. 0 < os_errno A l)"

text \<open>Two settings objects answer every reader alike for a key.\<close>

definition same_key :: "('c, 'd) storage_env \<Rightarrow> string \<Rightarrow> string \<Rightarrow> 'c \<Rightarrow> 'c \<Rightarrow> bool" where
  "same_key A g k c c' \<longleftrightarrow>
     l_settings_has_key A c' g k = l_settings_has_key A c g k \<and>
     l_settings_get_string A c' g k = l_settings_get_string A c g k \<and>
     l_settings_get_int A c' g k = l_settings_get_int A c g k \<and>
     l_settings_get_float A c' g k = l_settings_get_float A c g k \<and>
     l_settings_get_bool A c' g k = l_settings_get_bool A c g k \<and>
     l_settings_get_int64 A c' g k = l_settings_get_int64 A c g k \<and>
     l_settings_get_uint A c' g k = l_settings_get_uint A c g k \<and>
     l_settings_get_uint64 A c' g k = l_settings_get_uint64 A c g k"

text \<open>A setter leaves its key set, touches no other key, and adds at most its group.\<close>

definition setter_ok :: "('c, 'd) storage_env \<Rightarrow> ('c \<Rightarrow> string \<Rightarrow> string \<Rightarrow> 'v \<Rightarrow> 'c option)
    \<Rightarrow> bool" where
  "setter_ok A put \<longleftrightarrow> (\<forall>c g k v c'. put c g k v = Some c' \<longrightarrow>
     l_settings_has_key A c' g k \<and>
     (\<forall>g' k'. (g', k') \<noteq> (g, k) \<longrightarrow> same_key A g' k' c c') \<and>
     set (l_settings_get_groups A c') = insert g (set (l_settings_get_groups A c)))"

text \<open>
  The laws of the settings object. Only strings are assumed to be read back as they were set;
  numbers, floats above all, go through their decimal text.
\<close>

definition settings_ok :: "('c, 'd) storage_env \<Rightarrow> bool" where
  "settings_ok A \<longleftrightarrow>
     setter_ok A (l_settings_set_string A) \<and>
     setter_ok A (l_settings_set_int A) \<and>
     setter_ok A (l_settings_set_float A) \<and>
     setter_ok A (l_settings_set_bool A) \<and>
     setter_ok A (l_settings_set_int64 A) \<and>
     setter_ok A (l_settings_set_uint A) \<and>
     setter_ok A (l_settings_set_uint64 A) \<and>
     (\<forall>c g k v c'. l_settings_set_string A c g k v = Some c' \<longrightarrow>
        l_settings_get_string A c' g k = Some v) \<and>
     (\<forall>c g k. case l_settings_remove_key A c g k of
        None \<Rightarrow> \<not> l_settings_has_key A c g k
      | Some c' \<Rightarrow> l_settings_has_key A c g k \<and> \<not> l_settings_has_key A c' g k \<and>
          (\<forall>g' k'. (g', k') \<noteq> (g, k) \<longrightarrow> same_key A g' k' c c') \<and>
          l_settings_get_groups A c' = l_settings_get_groups A c) \<and>
     (\<forall>c g. case l_settings_remove_group A c g of
        None \<Rightarrow> g \<notin> set (l_settings_get_groups A c)
      | Some c' \<Rightarrow> l_settings_get_groups A c' = remove1 g (l_settings_get_groups A c) \<and>
          (\<forall>g' k'. g' \<noteq> g \<longrightarrow> same_key A g' k' c c')) \<and>
     (\<forall>c g k. l_settings_get_string A c g k \<noteq> None \<or> l_settings_get_int A c g k \<noteq> None \<longrightarrow>
        l_settings_has_key A c g k) \<and>
     (\<forall>c g k. l_settings_has_key A c g k \<longrightarrow> g \<in> set (l_settings_get_groups A c))"

text \<open>
  What is written to a file and loaded again keeps its groups, strings and integers; what is
  loaded from a beginning of the text has no groups but those of the whole.
\<close>

definition settings_text_ok :: "('c, 'd) storage_env \<Rightarrow> bool" where
  "settings_text_ok A \<longleftrightarrow> (\<forall>c c'. c' = l_settings_load A (l_settings_new A) (l_settings_to_data A c) \<longrightarrow>
     l_settings_get_groups A c' = l_settings_get_groups A c \<and>
     (\<forall>g k. l_settings_has_key A c' g k = l_settings_has_key A c g k \<and>
        l_settings_get_string A c' g k = l_settings_get_string A c g k \<and>
        l_settings_get_int A c' g k = l_settings_get_int A c g k)) \<and>
     (\<forall>c n. set (l_settings_get_groups A
          (l_settings_load A (l_settings_new A) (take n (l_settings_to_data A c))))
        \<subseteq> set (l_settings_get_groups A c))"

text \<open>
  No short writes: a \<open>pwrite\<close> fails or writes all it was given. Nothing in the sources checks
  this, so it is a hypothesis of exactly the theorems that say what a success leaves on disk.
\<close>

definition full_writes :: "('c, 'd) storage_env \<Rightarrow> bool" where
  "full_writes A \<longleftrightarrow> (\<forall>l fd n. 0 \<le> os_ret A l (Os_pwrite fd n) \<longrightarrow> os_ret A l (Os_pwrite fd n) = int n)"

section \<open>Lemmas: system calls and saving\<close>

lemma os_do_fields [simp]:
  "storage_list (snd (os_do A c st)) = storage_list st"
  "files (snd (os_do A c st)) = files st"
  "fd_table (snd (os_do A c st)) = fd_table st"
  "os_log (snd (os_do A c st)) = c # os_log st"
  by (simp_all add: os_do_def)

lemma fd_put_fields [simp]:
  "storage_list (fd_put fd d st) = storage_list st"
  "fd_table (fd_put fd d st) = fd_table st"
  "os_log (fd_put fd d st) = os_log st"
  by (simp_all add: fd_put_def split: option.split)

lemma files_fd_put:
  "files (fd_put fd d st) p = (if fd_table st fd = Some p then Some d else files st p)"
  by (auto simp: fd_put_def split: option.split)

text \<open>The answer of the \<open>pwrite\<close> of \<open>save_settings\<close>, and when it reports a success.\<close>

definition pwrite_ret :: "('c, 'd) storage_env \<Rightarrow> int \<Rightarrow> 'c \<Rightarrow> ('c, 'd) storage_st \<Rightarrow> int" where
  "pwrite_ret A fd c st =
     os_ret A (Os_ftruncate fd # os_log st) (Os_pwrite fd (length (l_settings_to_data A c)))"

definition save_works :: "('c, 'd) storage_env \<Rightarrow> int \<Rightarrow> 'c \<Rightarrow> ('c, 'd) storage_st \<Rightarrow> bool" where
  "save_works A fd c st \<longleftrightarrow> os_ret A (os_log st) (Os_ftruncate fd) \<noteq> -1 \<and> 0 \<le> pwrite_ret A fd c st"

lemma save_settings_frame:
  "storage_list (snd (save_settings A fd c st)) = storage_list st"
  "fd_table (snd (save_settings A fd c st)) = fd_table st"
  by (simp_all add: save_settings_def os_do_def Let_def)

lemma save_settings_files:
  "files (snd (save_settings A fd c st)) p =
     (if fd_table st fd \<noteq> Some p \<or> os_ret A (os_log st) (Os_ftruncate fd) = -1 then files st p
      else if save_works A fd c st
      then Some (take (nat (pwrite_ret A fd c st)) (l_settings_to_data A c))
      else Some [])"
  by (simp add: save_settings_def os_do_def Let_def files_fd_put save_works_def pwrite_ret_def)

lemma save_settings_rc:
  assumes "errno_ok A"
  shows "0 \<le> fst (save_settings A fd c st) \<longleftrightarrow> save_works A fd c st"
    and "fst (save_settings A fd c st) \<le> 0"
  using assms by (simp_all add: save_settings_def os_do_def Let_def save_works_def pwrite_ret_def
      errno_ok_def not_le less_imp_le)

section \<open>Lemmas: keys\<close>

lemma commit_simps [simp]:
  "commit A fd None st = (- EINVAL, st)"
  "commit A fd (Some c) st =
     save_settings A fd c (st\<lparr>storage_list := (storage_list st)(fd \<mapsto> c)\<rparr>)"
  by (simp_all add: commit_def)

lemma setter_okD:
  assumes "setter_ok A put" "put c g k v = Some c'"
  shows "l_settings_has_key A c' g k"
    "(g', k') \<noteq> (g, k) \<Longrightarrow> same_key A g' k' c c'"
    "set (l_settings_get_groups A c') = insert g (set (l_settings_get_groups A c))"
  using assms unfolding setter_ok_def by blast+

lemma settings_okD:
  assumes "settings_ok A"
  shows "setter_ok A (l_settings_set_string A)"
    "setter_ok A (l_settings_set_int A)"
    "setter_ok A (l_settings_set_float A)"
    "setter_ok A (l_settings_set_bool A)"
    "setter_ok A (l_settings_set_int64 A)"
    "setter_ok A (l_settings_set_uint A)"
    "setter_ok A (l_settings_set_uint64 A)"
  using assms by (simp_all add: settings_ok_def)

lemma set_stringD:
  "settings_ok A \<Longrightarrow> l_settings_set_string A c g k v = Some c' \<Longrightarrow> l_settings_get_string A c' g k = Some v"
  unfolding settings_ok_def by blast

lemma has_keyD:
  assumes "settings_ok A"
  shows "l_settings_get_string A c g k = Some v \<Longrightarrow> l_settings_has_key A c g k"
    and "l_settings_get_int A c g k = Some i \<Longrightarrow> l_settings_has_key A c g k"
    and "l_settings_has_key A c g k \<Longrightarrow> g \<in> set (l_settings_get_groups A c)"
  using assms unfolding settings_ok_def by (metis option.distinct(1))+

lemma remove_keyD:
  assumes "settings_ok A"
  shows "l_settings_remove_key A c g k = None \<longleftrightarrow> \<not> l_settings_has_key A c g k"
    and "l_settings_remove_key A c g k = Some c' \<Longrightarrow> \<not> l_settings_has_key A c' g k"
    and "l_settings_remove_key A c g k = Some c' \<Longrightarrow> (g', k') \<noteq> (g, k) \<Longrightarrow> same_key A g' k' c c'"
    and "l_settings_remove_key A c g k = Some c' \<Longrightarrow>
           l_settings_get_groups A c' = l_settings_get_groups A c"
proof -
  have *: "case l_settings_remove_key A c g k of
        None \<Rightarrow> \<not> l_settings_has_key A c g k
      | Some c' \<Rightarrow> l_settings_has_key A c g k \<and> \<not> l_settings_has_key A c' g k \<and>
          (\<forall>g' k'. (g', k') \<noteq> (g, k) \<longrightarrow> same_key A g' k' c c') \<and>
          l_settings_get_groups A c' = l_settings_get_groups A c"
    using assms unfolding settings_ok_def by blast
  show "l_settings_remove_key A c g k = None \<longleftrightarrow> \<not> l_settings_has_key A c g k"
    "l_settings_remove_key A c g k = Some c' \<Longrightarrow> \<not> l_settings_has_key A c' g k"
    "l_settings_remove_key A c g k = Some c' \<Longrightarrow> (g', k') \<noteq> (g, k) \<Longrightarrow> same_key A g' k' c c'"
    "l_settings_remove_key A c g k = Some c' \<Longrightarrow>
           l_settings_get_groups A c' = l_settings_get_groups A c"
    using * by (auto split: option.splits)
qed

lemma remove_groupD:
  assumes "settings_ok A"
  shows "l_settings_remove_group A c g = None \<Longrightarrow> g \<notin> set (l_settings_get_groups A c)"
    and "l_settings_remove_group A c g = Some c' \<Longrightarrow>
           l_settings_get_groups A c' = remove1 g (l_settings_get_groups A c)"
    and "l_settings_remove_group A c g = Some c' \<Longrightarrow> g' \<noteq> g \<Longrightarrow> same_key A g' k' c c'"
proof -
  have *: "case l_settings_remove_group A c g of
        None \<Rightarrow> g \<notin> set (l_settings_get_groups A c)
      | Some c' \<Rightarrow> l_settings_get_groups A c' = remove1 g (l_settings_get_groups A c) \<and>
          (\<forall>g' k'. g' \<noteq> g \<longrightarrow> same_key A g' k' c c')"
    using assms unfolding settings_ok_def by blast
  show "l_settings_remove_group A c g = None \<Longrightarrow> g \<notin> set (l_settings_get_groups A c)"
    "l_settings_remove_group A c g = Some c' \<Longrightarrow>
           l_settings_get_groups A c' = remove1 g (l_settings_get_groups A c)"
    "l_settings_remove_group A c g = Some c' \<Longrightarrow> g' \<noteq> g \<Longrightarrow> same_key A g' k' c c'"
    using * by simp_all
qed

lemma same_key_refl [simp]: "same_key A g k c c"
  by (simp add: same_key_def)

lemma same_key_trans: "same_key A g k c c' \<Longrightarrow> same_key A g k c' c'' \<Longrightarrow> same_key A g k c c''"
  by (simp add: same_key_def)

section \<open>Lemmas: the groups of data items\<close>

abbreviation is_data_item :: "string \<Rightarrow> bool" where
  "is_data_item g \<equiv> take (length DATA_ITEM_GROUP) g = DATA_ITEM_GROUP"

lemma data_item_regex_prefix: "data_item_regex g \<Longrightarrow> is_data_item g"
  by (simp add: data_item_regex_def)

lemma groups_loop_err:
  "snd (data_item_groups_loop A gs c err) =
     (if filter is_data_item gs = [] then err
      else if data_item_regex (last (filter is_data_item gs)) then 0 else - EINVAL)"
proof (induction A gs c err rule: data_item_groups_loop.induct)
  case (1 A c err)
  then show ?case by simp
next
  case (2 A g gs c err)
  show ?case
  proof (cases "is_data_item g")
    case False
    with 2 show ?thesis by (simp del: take_Cons_numeral)
  next
    case True
    then have "g \<in> set gs \<Longrightarrow> filter is_data_item gs \<noteq> []"
      by (auto simp: filter_empty_conv)
    with True 2(2)[OF _] show ?thesis by auto
  qed
qed

lemma groups_loop_groups:
  assumes "settings_ok A" "l_settings_get_groups A c = pre @ gs" "list_all is_data_item pre"
  shows "l_settings_get_groups A (fst (data_item_groups_loop A gs c err))
         = pre @ filter is_data_item gs"
  using assms
proof (induction gs arbitrary: pre c err)
  case Nil
  then show ?case by simp
next
  case (Cons g gs)
  show ?case
  proof (cases "is_data_item g")
    case True
    then show ?thesis
      using Cons.IH[of c "pre @ [g]"] Cons.prems by (simp del: take_Cons_numeral)
  next
    case False
    then have notin: "g \<notin> set pre" using Cons.prems(3) by (auto simp: list_all_iff)
    obtain c' where c': "l_settings_remove_group A c g = Some c'"
      using remove_groupD(1)[OF Cons.prems(1), of c g] Cons.prems(2) by fastforce
    have "l_settings_get_groups A c' = pre @ gs"
      using remove_groupD(2)[OF Cons.prems(1) c'] Cons.prems(2) notin
      by (simp add: remove1_append)
    then show ?thesis
      using Cons.IH[of c' pre] Cons.prems False c' by (simp del: take_Cons_numeral)
  qed
qed

lemma groups_loop_same_key:
  assumes "settings_ok A" "is_data_item g"
  shows "same_key A g k c (fst (data_item_groups_loop A gs c err))"
  using assms
proof (induction A gs c err rule: data_item_groups_loop.induct)
  case (1 A c err)
  then show ?case by simp
next
  case (2 A h gs c err)
  show ?case
  proof (cases "is_data_item h")
    case True
    with 2 show ?thesis by simp
  next
    case False
    with 2(4) have "g \<noteq> h" by auto
    then have "same_key A g k c (case l_settings_remove_group A c h of None \<Rightarrow> c | Some c' \<Rightarrow> c')"
      using remove_groupD(3)[OF 2(3)] by (simp split: option.split)
    with False 2 show ?thesis by (auto intro: same_key_trans)
  qed
qed

section \<open>The interface to the clients\<close>

text \<open>
  What \<open>properties.c\<close> relies on: a string written under a key is read back, other keys keep
  their values, and a successful write leaves on disk what a reader of the open file sees, in
  an environment (\<open>full\<close>) without short writes. \<open>on_disk\<close> is what a process that opens the file would read.
\<close>

locale key_store =
  fixes ok :: "'e \<Rightarrow> bool"
    and full :: "'e \<Rightarrow> bool"
    and path_of :: "'s \<Rightarrow> int \<Rightarrow> string option"
    and read_string :: "'e \<Rightarrow> int \<Rightarrow> string \<Rightarrow> string \<Rightarrow> 's \<Rightarrow> string option"
    and write_string :: "'e \<Rightarrow> int \<Rightarrow> string \<Rightarrow> string \<Rightarrow> string \<Rightarrow> 's \<Rightarrow> int \<times> 's"
    and on_disk :: "'e \<Rightarrow> string \<Rightarrow> string \<Rightarrow> string \<Rightarrow> 's \<Rightarrow> string option"
  assumes read_written: "ok e \<Longrightarrow> write_string e fd g k v s = (rc, s') \<Longrightarrow> 0 \<le> rc \<Longrightarrow>
      read_string e fd g k s' = Some v"
    and read_other: "ok e \<Longrightarrow> write_string e fd g k v s = (rc, s') \<Longrightarrow> (g', k') \<noteq> (g, k) \<Longrightarrow>
      read_string e fd g' k' s' = read_string e fd g' k' s"
    and path_kept: "write_string e fd g k v s = (rc, s') \<Longrightarrow> path_of s' fd' = path_of s fd'"
    and flushed: "ok e \<Longrightarrow> full e \<Longrightarrow> write_string e fd g k v s = (rc, s') \<Longrightarrow> 0 \<le> rc \<Longrightarrow>
      path_of s fd = Some p \<Longrightarrow> on_disk e p g' k' s' = read_string e fd g' k' s'"
begin

lemma two_writes_on_disk:
  assumes "ok e" "full e" "path_of s fd = Some p" "(g, k) \<noteq> (g', k')"
    and "write_string e fd g k v s = (rc, s1)" "0 \<le> rc"
    and "write_string e fd g' k' v' s1 = (rc', s2)" "0 \<le> rc'"
  shows "on_disk e p g k s2 = Some v" "on_disk e p g' k' s2 = Some v'"
proof -
  have p1: "path_of s1 fd = Some p" using assms(3,5) path_kept by metis
  have "read_string e fd g k s2 = Some v"
    using read_other[OF assms(1,7), of g k] read_written[OF assms(1,5,6)] assms(4) by simp
  then show "on_disk e p g k s2 = Some v" using flushed[OF assms(1,2,7,8) p1] by simp
  show "on_disk e p g' k' s2 = Some v'"
    using flushed[OF assms(1,2,7,8) p1] read_written[OF assms(1,7,8)] by simp
qed

lemma overwrite_on_disk:
  assumes "ok e" "full e" "path_of s fd = Some p" "write_string e fd g k v s = (rc, s')" "0 \<le> rc"
  shows "on_disk e p g k s' = Some v"
  using flushed[OF assms(1,2,4,5,3)] read_written[OF assms(1,4,5)] by simp

end

text \<open>What opening the file and loading its settings would read.\<close>

definition disk_string :: "('c, 'd) storage_env \<Rightarrow> string \<Rightarrow> string \<Rightarrow> string
    \<Rightarrow> ('c, 'd) storage_st \<Rightarrow> string option" where
  "disk_string A path g k st =
     (case files st path of
        None \<Rightarrow> None
      | Some d \<Rightarrow> l_settings_get_string A (l_settings_load A (l_settings_new A) d) g k)"

definition disk_groups :: "('c, 'd) storage_env \<Rightarrow> string \<Rightarrow> ('c, 'd) storage_st
    \<Rightarrow> string list option" where
  "disk_groups A path st =
     map_option (\<lambda>d. l_settings_get_groups A (l_settings_load A (l_settings_new A) d)) (files st path)"

definition storage_laws :: "('c, 'd) storage_env \<Rightarrow> bool" where
  "storage_laws A \<longleftrightarrow> settings_ok A \<and> settings_text_ok A \<and> errno_ok A"

lemma commit_Some_fields:
  "storage_list (snd (commit A fd (Some c) st)) = (storage_list st)(fd \<mapsto> c)"
  "fd_table (snd (commit A fd (Some c) st)) = fd_table st"
  by (simp_all add: save_settings_frame)

lemma commit_Some_flushed:
  assumes "errno_ok A" "0 \<le> fst (commit A fd (Some c) st)" "fd_table st fd = Some p"
  shows "files (snd (commit A fd (Some c) st)) p
    = Some (take (nat (pwrite_ret A fd c st)) (l_settings_to_data A c))"
    and "full_writes A \<Longrightarrow> files (snd (commit A fd (Some c) st)) p = Some (l_settings_to_data A c)"
proof -
  let ?s = "st\<lparr>storage_list := (storage_list st)(fd \<mapsto> c)\<rparr>"
  have w: "save_works A fd c ?s" using assms(1,2) by (simp add: save_settings_rc)
  have r: "pwrite_ret A fd c ?s = pwrite_ret A fd c st" by (simp add: pwrite_ret_def)
  show f: "files (snd (commit A fd (Some c) st)) p
    = Some (take (nat (pwrite_ret A fd c st)) (l_settings_to_data A c))"
    using w assms(3) by (simp add: save_settings_files r) (simp add: save_works_def)
  show "files (snd (commit A fd (Some c) st)) p = Some (l_settings_to_data A c)" if "full_writes A"
  proof -
    have "pwrite_ret A fd c st = int (length (l_settings_to_data A c))"
      using that w by (simp add: save_works_def pwrite_ret_def full_writes_def)
    then show ?thesis using f by simp
  qed
qed

lemma write_string_cases:
  assumes "storage_write_key_string A fd g k v st = (rc, st')"
  obtains (closed) "storage_list st fd = None" "rc = - EIO" "st' = st"
  | (refused) c where "storage_list st fd = Some c" "l_settings_set_string A c g k v = None"
      "rc = - EINVAL" "st' = st"
  | (saved) c c' where "storage_list st fd = Some c" "l_settings_set_string A c g k v = Some c'"
      "commit A fd (Some c') st = (rc, st')"
  using assms
  by (cases "storage_list st fd"; cases "l_settings_set_string A (the (storage_list st fd)) g k v")
     (auto simp: storage_write_key_string_def)

text \<open>A write that reports an error leaves a file as it was, or empties it.\<close>

lemma write_string_error_files:
  assumes "errno_ok A" "storage_write_key_string A fd g k v st = (rc, st')" "rc < 0"
  shows "files st' p = files st p \<or> files st' p = Some []"
  using assms(2)
proof (cases rule: write_string_cases)
  case (saved c c')
  let ?s = "st\<lparr>storage_list := (storage_list st)(fd \<mapsto> c')\<rparr>"
  have "save_settings A fd c' ?s = (rc, st')" using saved(3) by simp
  then show ?thesis
    using save_settings_rc(1)[OF assms(1), of fd c' ?s] save_settings_files[of A fd c' ?s p] assms(3)
    by (auto split: if_splits)
qed simp_all

interpretation sto: key_store storage_laws full_writes fd_table storage_read_key_string
  storage_write_key_string disk_string
proof (unfold_locales, goal_cases)
  case (1 e fd g k v s rc s')
  from 1(2) show ?case
  proof (cases rule: write_string_cases)
    case (saved c c')
    have "storage_list s' fd = Some c'" using commit_Some_fields(1)[of e fd c' s] saved(3) by simp
    with saved(2) 1(1) show ?thesis
      using set_stringD[of e c g k v c']
      by (auto simp: storage_laws_def storage_read_key_string_def)
  qed (use 1(3) in simp_all)
next
  case (2 e fd g k v s rc s' g' k')
  from 2(2) show ?case
  proof (cases rule: write_string_cases)
    case (saved c c')
    have "storage_list s' fd = Some c'" using commit_Some_fields(1)[of e fd c' s] saved(3) by simp
    moreover have "same_key e g' k' c c'"
      using setter_okD(2)[OF settings_okD(1) saved(2) 2(3)] 2(1) by (simp add: storage_laws_def)
    ultimately show ?thesis
      using saved(1) by (simp add: storage_read_key_string_def same_key_def)
  qed simp_all
next
  case (3 e fd g k v s rc s' fd')
  from 3 show ?case
  proof (cases rule: write_string_cases)
    case (saved c c')
    then show ?thesis using commit_Some_fields(2)[of e fd c' s] by simp
  qed simp_all
next
  case (4 e fd g k v s rc s' p g' k')
  from 4(3) show ?case
  proof (cases rule: write_string_cases)
    case (saved c c')
    have "storage_list s' fd = Some c'" using commit_Some_fields(1)[of e fd c' s] saved(3) by simp
    moreover have "files s' p = Some (l_settings_to_data e c')"
      using commit_Some_flushed(2)[of e fd c' s p] saved(3) 4 by (simp add: storage_laws_def)
    ultimately show ?thesis
      using 4(1) by (simp add: storage_laws_def settings_text_ok_def disk_string_def
          storage_read_key_string_def)
  qed (use 4(4) in simp_all)
qed

section \<open>Lemmas: opening and closing\<close>

abbreviation (input) upto_slash :: "string \<Rightarrow> string" where
  "upto_slash \<equiv> takeWhile (\<lambda>c. c \<noteq> CHR ''/'')"

abbreviation (input) from_slash :: "string \<Rightarrow> string" where
  "from_slash \<equiv> dropWhile (\<lambda>c. c \<noteq> CHR ''/'')"

lemma make_dirs_loop_step:
  fixes st :: "('c, 'd) storage_st"
  defines "logged d \<equiv> st\<lparr>os_log := Os_mkdir d # os_log st\<rparr>"
  assumes "from_slash rest = x # rest'"
  shows "upto_slash rest = [] \<Longrightarrow> make_dirs_loop A dir rest st = make_dirs_loop A dir rest' st"
    "upto_slash rest = seg \<Longrightarrow> seg \<noteq> [] \<Longrightarrow> make_dirs_loop A dir rest st =
       (let dir' = dir @ seg @ ''/'' in
        if length dir' > PATH_MAX then None
        else if os_ret A (os_log st) (Os_mkdir dir') = -1 \<and>
                os_errno A (Os_mkdir dir' # os_log st) \<noteq> EEXIST
        then Some (os_errno A (Os_mkdir dir' # os_log st), logged dir')
        else make_dirs_loop A dir' rest' (logged dir'))"
  using assms(2) by (subst make_dirs_loop.simps, simp add: os_do_def Let_def logged_def)+

lemma make_dirs_loop_end: "from_slash rest = [] \<Longrightarrow> make_dirs_loop A dir rest st = Some (0, st)"
  by (subst make_dirs_loop.simps) simp

lemma from_slash_parts: "from_slash rest = x # rest' \<Longrightarrow> rest = upto_slash rest @ x # rest'"
  using takeWhile_dropWhile_id[of "\<lambda>c. c \<noteq> CHR ''/''" rest] by simp

text \<open>
  What \<open>make_dirs\<close> may do: an answer that is not negative, with the calls entered in the log.
  The array holds the part of the path after its first slash, so a path of at most
  \<open>PATH_MAX\<close> characters never overflows it.
\<close>

definition only_logs :: "('c, 'd) storage_env \<Rightarrow> ('c, 'd) storage_st \<Rightarrow> int \<times> ('c, 'd) storage_st
    \<Rightarrow> bool" where
  "only_logs A st r \<longleftrightarrow> storage_list (snd r) = storage_list st \<and> files (snd r) = files st \<and>
     fd_table (snd r) = fd_table st \<and> (errno_ok A \<longrightarrow> 0 \<le> fst r)"

lemma make_dirs_loop_result:
  "make_dirs_loop A dir rest st = Some r \<Longrightarrow> only_logs A st r"
proof (induction rest arbitrary: dir st rule: length_induct)
  case (1 rest)
  show ?case
  proof (cases "from_slash rest")
    case Nil
    then have "r = (0, st)" using 1(2) make_dirs_loop_end[OF Nil, of A dir st] by simp
    then show ?thesis by (simp add: only_logs_def)
  next
    case (Cons x rest')
    have IH: "make_dirs_loop A d rest' s = Some r \<Longrightarrow> only_logs A s r" for d s
      using 1(1)[rule_format, of rest'] arg_cong[OF from_slash_parts[OF Cons], of length] by simp
    show ?thesis
    proof (cases "upto_slash rest = []")
      case True
      then show ?thesis using 1(2) IH make_dirs_loop_step(1)[OF Cons True, of A dir st] by simp
    next
      case False
      let ?d = "dir @ upto_slash rest @ ''/''"
      let ?s = "st\<lparr>os_log := Os_mkdir ?d # os_log st\<rparr>"
      consider "r = (os_errno A (Os_mkdir ?d # os_log st), ?s)" | "make_dirs_loop A ?d rest' ?s = Some r"
        using 1(2) unfolding make_dirs_loop_step(2)[OF Cons refl False] Let_def
        by (metis option.distinct(1) option.inject)
      then show ?thesis
        using IH[of ?d ?s] by cases (simp_all add: only_logs_def errno_ok_def less_imp_le)
    qed
  qed
qed

lemma make_dirs_loop_fits:
  "length dir + length rest \<le> PATH_MAX \<Longrightarrow> make_dirs_loop A dir rest st \<noteq> None"
proof (induction rest arbitrary: dir st rule: length_induct)
  case (1 rest)
  show ?case
  proof (cases "from_slash rest")
    case Nil
    then show ?thesis by (simp add: make_dirs_loop_end)
  next
    case (Cons x rest')
    have len: "length rest = length (upto_slash rest) + Suc (length rest')"
      using arg_cong[OF from_slash_parts[OF Cons], of length] by simp
    have IH: "length d + length rest' \<le> PATH_MAX \<Longrightarrow> make_dirs_loop A d rest' s \<noteq> None" for d s
      using 1(1) len by simp
    show ?thesis
    proof (cases "upto_slash rest = []")
      case True
      then show ?thesis using 1(2) IH[of dir st] make_dirs_loop_step(1)[OF Cons True, of A dir st] len by simp
    next
      case False
      have "length (dir @ upto_slash rest @ ''/'') \<le> PATH_MAX" using 1(2) len by simp
      moreover have "make_dirs_loop A (dir @ upto_slash rest @ ''/'') rest' s \<noteq> None" for s
        using 1(2) len by (intro IH) simp
      ultimately show ?thesis
        unfolding make_dirs_loop_step(2)[OF Cons refl False] Let_def by (simp only: not_less[symmetric]) simp
    qed
  qed
qed

lemma make_dirs_result: "make_dirs A filename st = Some r \<Longrightarrow> only_logs A st r"
proof -
  let ?s = "st\<lparr>os_log := Os_stat filename # os_log st\<rparr>"
  assume "make_dirs A filename st = Some r"
  then consider "r = (0, ?s)" | rest where "make_dirs_loop A ''/'' rest ?s = Some r"
    unfolding make_dirs_def os_do_def Let_def split
    by (metis (no_types, lifting) list.exhaust list.simps(4) list.simps(5) option.inject)
  then show "only_logs A st r"
    by cases (use make_dirs_loop_result[of A "''/''" _ ?s r] in \<open>auto simp: only_logs_def\<close>)
qed

lemma make_dirs_fits:
  assumes "length filename \<le> PATH_MAX"
  shows "make_dirs A filename st \<noteq> None"
proof (cases "from_slash filename")
  case Nil
  then show ?thesis by (simp add: make_dirs_def os_do_def del: dropWhile_eq_Nil_conv)
next
  case (Cons x rest)
  have "length filename = length (upto_slash filename) + Suc (length rest)"
    using arg_cong[OF from_slash_parts[OF Cons], of length] by simp
  then show ?thesis
    using assms make_dirs_loop_fits[of "''/''" rest A "st\<lparr>os_log := Os_stat filename # os_log st\<rparr>"]
    by (simp add: make_dirs_def os_do_def Cons)
qed

lemma storage_open_fits: "length path \<le> PATH_MAX \<Longrightarrow> storage_open A path st \<noteq> None"
  using make_dirs_fits[of path A st] by (auto simp: storage_open_def)

lemma storage_open_success:
  assumes "errno_ok A" "storage_open A path st = Some (fd, st')" "0 \<le> fd"
  defines "d \<equiv> (case files st path of None \<Rightarrow> [] | Some d \<Rightarrow> d)"
  shows "files st' = (files st)(path \<mapsto> d)"
    and "fd_table st' = (fd_table st)(fd \<mapsto> path)"
    and "storage_list st' = (storage_list st)(fd \<mapsto> l_settings_load A (l_settings_new A) d)"
proof -
  have e: "\<not> 0 \<le> - os_errno A l" for l using assms(1) by (simp add: errno_ok_def not_le)
  obtain err st1 where m: "make_dirs A path st = Some (err, st1)"
    using assms(2) by (auto simp: storage_open_def split: option.splits)
  have l: "\<not> err < 0" "storage_list st1 = storage_list st" "files st1 = files st" "fd_table st1 = fd_table st"
    using make_dirs_result[OF m] assms(1) by (simp_all add: only_logs_def)
  have o: "\<not> os_ret A (os_log st1) (Os_open path) < 0"
    using assms(2,3) m l(1) e by (auto simp: storage_open_def os_do_def Let_def split: if_splits)
  show "files st' = (files st)(path \<mapsto> d)" "fd_table st' = (fd_table st)(fd \<mapsto> path)"
    "storage_list st' = (storage_list st)(fd \<mapsto> l_settings_load A (l_settings_new A) d)"
    using assms(2) m l o by (auto simp: storage_open_def os_do_def Let_def d_def)
qed

lemma storage_open_failure:
  assumes "storage_open A path st = Some (fd, st')" "fd < 0"
  shows "files st' = files st" "fd_table st' = fd_table st" "storage_list st' = storage_list st"
proof -
  obtain err st1 where m: "make_dirs A path st = Some (err, st1)"
    using assms(1) by (auto simp: storage_open_def split: option.splits)
  then show "files st' = files st" "fd_table st' = fd_table st" "storage_list st' = storage_list st"
    using assms make_dirs_result[OF m]
    by (auto simp: storage_open_def os_do_def Let_def only_logs_def split: if_splits)
qed

lemma storage_close_fields [simp]:
  "files (snd (storage_close A fd st)) = files st"
  "storage_list (snd (storage_close A fd st)) = (storage_list st)(fd := None)"
  by (auto simp: storage_close_def os_do_def Let_def split: option.split)

lemma disk_string_close [simp]:
  "disk_string A p g k (snd (storage_close A fd st)) = disk_string A p g k st"
  "disk_groups A p (snd (storage_close A fd st)) = disk_groups A p st"
  by (simp_all add: disk_string_def disk_groups_def)

end
