(* ===== verification/Properties.thy ===== *)
theory Properties
  imports Thing Storage
begin

text \<open>
  \<open>src/src/properties.c\<close>: the thing is read from its three configuration files, credentials
  are stored and cleared, and configuration messages are written back to the device file.
  Each function takes and answers the state of the storage and, where it has the argument
  \<open>thing\<close>, the thing. \<open>Inl\<close> is a negative return code, \<open>Inr\<close> the value a function wrote
  through its last argument while answering 0. \<open>None\<close> is undefined behaviour: a \<open>NULL\<close>
  pointer read through, an array overflow, or a shift by more than the width.
\<close>

section \<open>Names in the configuration files\<close>

abbreviation (input) CREDENTIALS_GROUP :: string where "CREDENTIALS_GROUP \<equiv> ''Credentials''"
abbreviation (input) CREDENTIALS_THING_ID :: string where "CREDENTIALS_THING_ID \<equiv> ''ThingId''"
abbreviation (input) CREDENTIALS_THING_TOKEN :: string where "CREDENTIALS_THING_TOKEN \<equiv> ''ThingToken''"
abbreviation (input) CLOUD_GROUP :: string where "CLOUD_GROUP \<equiv> ''Cloud''"
abbreviation (input) RABBIT_URL :: string where "RABBIT_URL \<equiv> ''Url''"
abbreviation (input) THING_GROUP :: string where "THING_GROUP \<equiv> ''KNoTThing''"
abbreviation (input) THING_NAME :: string where "THING_NAME \<equiv> ''Name''"
abbreviation (input) THING_USER_TOKEN :: string where "THING_USER_TOKEN \<equiv> ''UserToken''"
abbreviation (input) THING_MODBUS_SLAVE_ID :: string where "THING_MODBUS_SLAVE_ID \<equiv> ''ModbusSlaveId''"
abbreviation (input) THING_MODBUS_URL :: string where "THING_MODBUS_URL \<equiv> ''ModbusURL''"
abbreviation (input) MODBUS_MIN_SLAVE_ID :: int where "MODBUS_MIN_SLAVE_ID \<equiv> 0"
abbreviation (input) MODBUS_MAX_SLAVE_ID :: int where "MODBUS_MAX_SLAVE_ID \<equiv> 255"
abbreviation (input) SCHEMA_SENSOR_ID :: string where "SCHEMA_SENSOR_ID \<equiv> ''SchemaSensorId''"
abbreviation (input) SCHEMA_SENSOR_NAME :: string where "SCHEMA_SENSOR_NAME \<equiv> ''SchemaSensorName''"
abbreviation (input) SCHEMA_VALUE_TYPE :: string where "SCHEMA_VALUE_TYPE \<equiv> ''SchemaValueType''"
abbreviation (input) SCHEMA_UNIT :: string where "SCHEMA_UNIT \<equiv> ''SchemaUnit''"
abbreviation (input) SCHEMA_TYPE_ID :: string where "SCHEMA_TYPE_ID \<equiv> ''SchemaTypeId''"
abbreviation (input) EVENT_LOWER_THRESHOLD :: string where "EVENT_LOWER_THRESHOLD \<equiv> ''EventLowerThreshold''"
abbreviation (input) EVENT_UPPER_THRESHOLD :: string where "EVENT_UPPER_THRESHOLD \<equiv> ''EventUpperThreshold''"
abbreviation (input) EVENT_TIME_SEC :: string where "EVENT_TIME_SEC \<equiv> ''EventTimeSec''"
abbreviation (input) EVENT_CHANGE :: string where "EVENT_CHANGE \<equiv> ''EventChange''"
abbreviation (input) EVENT_CHANGE_TRUE :: int where "EVENT_CHANGE_TRUE \<equiv> 1"
abbreviation (input) MODBUS_REG_ADDRESS :: string where "MODBUS_REG_ADDRESS \<equiv> ''ModbusRegisterAddress''"
abbreviation (input) MODBUS_BIT_OFFSET :: string where "MODBUS_BIT_OFFSET \<equiv> ''ModbusBitOffset''"
abbreviation (input) MODBUS_TYPE_ENDIANNESS :: string where "MODBUS_TYPE_ENDIANNESS \<equiv> ''ModbusTypeEndianness''"

text \<open>The value a reader left, when its return code is positive.\<close>

definition read_value :: "int \<times> 'v option \<Rightarrow> 'v option" where
  "read_value r = (if 0 < fst r then snd r else None)"

section \<open>Credentials\<close>

definition erase_thing_id :: "('c, 'd) storage_env \<Rightarrow> int \<Rightarrow> knot_thing \<Rightarrow> ('c, 'd) storage_st
    \<Rightarrow> int \<times> knot_thing \<times> ('c, 'd) storage_st" where
  "erase_thing_id A cred_fd th st =
     (let (rc, st) = storage_write_key_string A cred_fd CREDENTIALS_GROUP CREDENTIALS_THING_ID [] st
      in (rc, if rc < 0 then th else device_clear_thing_id th, st))"

definition erase_thing_token :: "('c, 'd) storage_env \<Rightarrow> int \<Rightarrow> knot_thing \<Rightarrow> ('c, 'd) storage_st
    \<Rightarrow> int \<times> knot_thing \<times> ('c, 'd) storage_st" where
  "erase_thing_token A cred_fd th st =
     (let (rc, st) = storage_write_key_string A cred_fd CREDENTIALS_GROUP CREDENTIALS_THING_TOKEN [] st
      in (rc, if rc < 0 then th else device_clear_thing_token th, st))"

definition set_thing_credentials :: "knot_lib \<Rightarrow> ('c, 'd) storage_env \<Rightarrow> string \<Rightarrow> knot_thing
    \<Rightarrow> ('c, 'd) storage_st \<Rightarrow> (int \<times> knot_thing \<times> ('c, 'd) storage_st) option" where
  "set_thing_credentials K A filename th st =
     do {
       (cred_fd, st) \<leftarrow> storage_open A filename st;
       if cred_fd < 0 then Some (cred_fd, th, st)
       else let thing_id = storage_read_key_string A cred_fd CREDENTIALS_GROUP CREDENTIALS_THING_ID st;
                thing_token = storage_read_key_string A cred_fd CREDENTIALS_GROUP CREDENTIALS_THING_TOKEN st
            in do {
              th \<leftarrow> device_set_thing_credentials K thing_id thing_token th;
              Some (0, th, snd (storage_close A cred_fd st))
            }
     }"

definition set_rabbit_mq_url :: "('c, 'd) storage_env \<Rightarrow> int \<Rightarrow> ('c, 'd) storage_st \<Rightarrow> knot_thing
    \<Rightarrow> int \<times> knot_thing" where
  "set_rabbit_mq_url A rabbitmq_fd st th =
     (case storage_read_key_string A rabbitmq_fd CLOUD_GROUP RABBIT_URL st of
        None \<Rightarrow> (- EINVAL, th)
      | Some url \<Rightarrow> if url = [] then (- EINVAL, th)
                    else (0, device_set_thing_rabbitmq_url url th))"

section \<open>Data items\<close>

text \<open>\<open>1 << value_type\<close> on a C \<open>int\<close> is undefined outside 0 to 30.\<close>

definition shl_1 :: "int \<Rightarrow> 32 word option" where
  "shl_1 n = (if 0 \<le> n \<and> n < 31 then Some (push_bit (nat n) 1) else None)"

definition valid_bit_offset :: "knot_lib \<Rightarrow> int \<Rightarrow> int \<Rightarrow> int option" where
  "valid_bit_offset K offs value_type = do {
     value_type_mask \<leftarrow> shl_1 value_type;
     if offs = 1 then do {
       b \<leftarrow> shl_1 (VALUE_TYPE_BOOL K);
       Some (if value_type_mask AND b = 0 then - EINVAL else 0)
     } else if offs = 8 \<or> offs = 16 \<or> offs = 32 then do {
       i \<leftarrow> shl_1 (VALUE_TYPE_INT K);
       u \<leftarrow> shl_1 (VALUE_TYPE_UINT K);
       f \<leftarrow> shl_1 (VALUE_TYPE_FLOAT K);
       Some (if value_type_mask AND (i OR u OR f) = 0 then - EINVAL else 0)
     } else if offs = 64 then do {
       i \<leftarrow> shl_1 (VALUE_TYPE_INT64 K);
       u \<leftarrow> shl_1 (VALUE_TYPE_UINT64 K);
       f \<leftarrow> shl_1 (VALUE_TYPE_FLOAT K);
       Some (if value_type_mask AND (i OR u OR f) = 0 then - EINVAL else 0)
     } else Some (- EINVAL)
   }"

definition set_modbus_source_properties :: "knot_lib \<Rightarrow> ('c, 'd) storage_env \<Rightarrow> int \<Rightarrow> string
    \<Rightarrow> knot_schema \<Rightarrow> ('c, 'd) storage_st \<Rightarrow> (int + int \<times> int \<times> int) option" where
  "set_modbus_source_properties K A fd group_id sch st =
     (case read_value (storage_read_key_int A fd group_id MODBUS_REG_ADDRESS st) of
        None \<Rightarrow> Some (Inl (- EINVAL))
      | Some addr \<Rightarrow>
     (case read_value (storage_read_key_int A fd group_id MODBUS_TYPE_ENDIANNESS st) of
        None \<Rightarrow> Some (Inl (- EINVAL))
      | Some endian \<Rightarrow>
     (case read_value (storage_read_key_int A fd group_id MODBUS_BIT_OFFSET st) of
        None \<Rightarrow> Some (Inl (- EINVAL))
      | Some offs \<Rightarrow> do {
          rc \<leftarrow> valid_bit_offset K offs (sc_value_type sch);
          Some (if rc < 0 then Inl (- EINVAL) else Inr (addr, offs, endian))
        })))"

text \<open>
  The two functions that read a limit differ in the key. They assign the member of \<open>temp\<close> for
  the value type; when the key is missing what they assign is indeterminate and the callers,
  who test the return code, do not use it: \<open>temp\<close> is then left as it was.
\<close>

definition get_limit :: "knot_lib \<Rightarrow> ('c, 'd) storage_env \<Rightarrow> string \<Rightarrow> int \<Rightarrow> string \<Rightarrow> int
    \<Rightarrow> ('c, 'd) storage_st \<Rightarrow> knot_value \<Rightarrow> int \<times> knot_value" where
  "get_limit K A key fd group_id value_type st temp =
     (if value_type = VALUE_TYPE_INT K then
        (let (rc, v) = storage_read_key_int A fd group_id key st
         in (rc, case v of None \<Rightarrow> temp | Some i \<Rightarrow> put_i i temp))
      else if value_type = VALUE_TYPE_FLOAT K then
        (let (rc, v) = storage_read_key_float A fd group_id key st
         in (rc, case v of None \<Rightarrow> temp | Some f \<Rightarrow> put_u32 f temp))
      else if value_type = VALUE_TYPE_BOOL K then
        (let (rc, v) = storage_read_key_bool A fd group_id key st
         in (rc, case v of None \<Rightarrow> temp | Some b \<Rightarrow> put_u8 b temp))
      else if value_type = VALUE_TYPE_INT64 K then
        (let (rc, v) = storage_read_key_int64 A fd group_id key st
         in (rc, case v of None \<Rightarrow> temp | Some i \<Rightarrow> i))
      else if value_type = VALUE_TYPE_UINT K then
        (let (rc, v) = storage_read_key_uint A fd group_id key st
         in (rc, case v of None \<Rightarrow> temp | Some u \<Rightarrow> put_u32 u temp))
      else if value_type = VALUE_TYPE_UINT64 K then
        (let (rc, v) = storage_read_key_uint64 A fd group_id key st
         in (rc, case v of None \<Rightarrow> temp | Some u \<Rightarrow> u))
      else (- EINVAL, temp))"

definition get_upper_limit :: "knot_lib \<Rightarrow> ('c, 'd) storage_env \<Rightarrow> int \<Rightarrow> string \<Rightarrow> int
    \<Rightarrow> ('c, 'd) storage_st \<Rightarrow> knot_value \<Rightarrow> int \<times> knot_value" where
  "get_upper_limit K A = get_limit K A EVENT_UPPER_THRESHOLD"

definition get_lower_limit :: "knot_lib \<Rightarrow> ('c, 'd) storage_env \<Rightarrow> int \<Rightarrow> string \<Rightarrow> int
    \<Rightarrow> ('c, 'd) storage_st \<Rightarrow> knot_value \<Rightarrow> int \<times> knot_value" where
  "get_lower_limit K A = get_limit K A EVENT_LOWER_THRESHOLD"

definition set_limit :: "knot_lib \<Rightarrow> ('c, 'd) storage_env \<Rightarrow> int \<Rightarrow> string \<Rightarrow> string \<Rightarrow> int \<Rightarrow> knot_value
    \<Rightarrow> ('c, 'd) storage_st \<Rightarrow> int \<times> ('c, 'd) storage_st" where
  "set_limit K A fd group_id key value_type value st =
     (if value_type = VALUE_TYPE_INT K then storage_write_key_int A fd group_id key (val_i value) st
      else if value_type = VALUE_TYPE_FLOAT K then storage_write_key_float A fd group_id key (val_f value) st
      else if value_type = VALUE_TYPE_BOOL K then storage_write_key_bool A fd group_id key (val_b value) st
      else if value_type = VALUE_TYPE_INT64 K then storage_write_key_int64 A fd group_id key value st
      else if value_type = VALUE_TYPE_UINT K then storage_write_key_uint A fd group_id key (val_u value) st
      else if value_type = VALUE_TYPE_UINT64 K then storage_write_key_uint64 A fd group_id key value st
      else (- EINVAL, st))"

text \<open>
  The bytes of \<open>tmp_value_type\<close> that no member assignment reached are indeterminate in C; they
  are 0 here, and \<open>knot_value_assign_limit\<close> reads only the member of the value type.
\<close>

definition set_event :: "knot_lib \<Rightarrow> ('c, 'd) storage_env \<Rightarrow> int \<Rightarrow> string \<Rightarrow> knot_schema
    \<Rightarrow> ('c, 'd) storage_st \<Rightarrow> int + knot_event" where
  "set_event K A fd group_id sch st =
     (let e = \<lparr>event_flags = 0, time_sec = 0, lower_limit = 0, upper_limit = 0\<rparr>;
          vt = sc_value_type sch;
          (rc, tmp) = get_lower_limit K A fd group_id vt st 0;
          e = (if rc > 0
               then e\<lparr>event_flags := event_flags e OR EVT_FLAG_LOWER_THRESHOLD K,
                      lower_limit := knot_value_assign_limit K vt tmp (lower_limit e)\<rparr> else e);
          (rc, tmp) = get_upper_limit K A fd group_id vt st tmp;
          e = (if rc > 0
               then e\<lparr>event_flags := event_flags e OR EVT_FLAG_UPPER_THRESHOLD K,
                      upper_limit := knot_value_assign_limit K vt tmp (upper_limit e)\<rparr> else e);
          e = (case read_value (storage_read_key_int A fd group_id EVENT_TIME_SEC st) of
                 None \<Rightarrow> e
               | Some aux \<Rightarrow> e\<lparr>event_flags := event_flags e OR EVT_FLAG_TIME K,
                               time_sec := to_time_sec K aux\<rparr>);
          e = (case read_value (storage_read_key_int A fd group_id EVENT_CHANGE st) of
                 None \<Rightarrow> e
               | Some aux \<Rightarrow> e\<lparr>event_flags := event_flags e OR EVT_FLAG_CHANGE K\<rparr>)
      in if knot_event_is_valid K (event_flags e) (sc_value_type sch) (time_sec e)
              (lower_limit e) (upper_limit e) \<noteq> 0
         then Inl (- EINVAL) else Inr e)"

definition set_schema :: "knot_lib \<Rightarrow> ('c, 'd) storage_env \<Rightarrow> int \<Rightarrow> string \<Rightarrow> ('c, 'd) storage_st
    \<Rightarrow> int + knot_schema" where
  "set_schema K A fd group_id st =
     (case storage_read_key_string A fd group_id SCHEMA_SENSOR_NAME st of
        None \<Rightarrow> Inl (- EINVAL)
      | Some name \<Rightarrow>
     (if name = [] \<or> length name \<ge> DATA_NAME_LEN K then Inl (- EINVAL) else
     (case read_value (storage_read_key_int A fd group_id SCHEMA_VALUE_TYPE st) of
        None \<Rightarrow> Inl (- EINVAL)
      | Some value_type \<Rightarrow>
     (case read_value (storage_read_key_int A fd group_id SCHEMA_UNIT st) of
        None \<Rightarrow> Inl (- EINVAL)
      | Some unit \<Rightarrow>
     (case read_value (storage_read_key_int A fd group_id SCHEMA_TYPE_ID st) of
        None \<Rightarrow> Inl (- EINVAL)
      | Some type_id \<Rightarrow>
          let sch = \<lparr>sc_value_type = to_value_type K value_type, sc_unit = to_unit K unit,
                     sc_type_id = to_type_id K type_id, sc_name = name\<rparr>
          in if knot_schema_is_valid K (sc_type_id sch) (sc_value_type sch) (sc_unit sch) \<noteq> 0
             then Inl (- EINVAL) else Inr sch)))))"

definition set_sensor_id :: "('c, 'd) storage_env \<Rightarrow> knot_thing \<Rightarrow> int \<Rightarrow> string \<Rightarrow> ('c, 'd) storage_st
    \<Rightarrow> int + int" where
  "set_sensor_id A th fd group_id st =
     (case read_value (storage_read_key_int A fd group_id SCHEMA_SENSOR_ID st) of
        None \<Rightarrow> Inl (- EINVAL)
      | Some sid \<Rightarrow> if device_data_item_lookup th sid \<noteq> None then Inl (- EINVAL) else Inr sid)"

text \<open>The loop of \<open>set_data_items\<close> over the groups; the storage is only read.\<close>

fun set_data_items_loop :: "knot_lib \<Rightarrow> ('c, 'd) storage_env \<Rightarrow> int \<Rightarrow> ('c, 'd) storage_st
    \<Rightarrow> string list \<Rightarrow> knot_thing \<Rightarrow> (int \<times> knot_thing) option" where
  "set_data_items_loop K A fd st [] th = Some (0, th)"
| "set_data_items_loop K A fd st (g # gs) th =
     (case set_sensor_id A th fd g st of
        Inl e \<Rightarrow> Some (- EINVAL, th)
      | Inr sid \<Rightarrow>
     (case set_schema K A fd g st of
        Inl e \<Rightarrow> Some (- EINVAL, th)
      | Inr sch \<Rightarrow>
     (case set_event K A fd g sch st of
        Inl e \<Rightarrow> Some (- EINVAL, th)
      | Inr ev \<Rightarrow>
     (case set_modbus_source_properties K A fd g sch st of
        None \<Rightarrow> None
      | Some (Inl e) \<Rightarrow> Some (- EINVAL, th)
      | Some (Inr (addr, offs, endian)) \<Rightarrow>
          set_data_items_loop K A fd st gs (device_set_new_data_item sid sch ev addr offs endian th)))))"

definition set_data_items :: "knot_lib \<Rightarrow> ('c, 'd) storage_env \<Rightarrow> int \<Rightarrow> knot_thing \<Rightarrow> ('c, 'd) storage_st
    \<Rightarrow> (int \<times> knot_thing \<times> ('c, 'd) storage_st) option" where
  "set_data_items K A fd th st =
     (let (groups, st) = get_data_item_groups A fd st in
      case groups of
        None \<Rightarrow> Some (- EINVAL, th, st)
      | Some gs \<Rightarrow> do {
          (rc, th) \<leftarrow> set_data_items_loop K A fd st gs th;
          Some (rc, th, st)
        })"

section \<open>The device and cloud files\<close>

definition set_modbus_slave_properties :: "('c, 'd) storage_env \<Rightarrow> int \<Rightarrow> ('c, 'd) storage_st
    \<Rightarrow> knot_thing \<Rightarrow> int \<times> knot_thing" where
  "set_modbus_slave_properties A fd st th =
     (case read_value (storage_read_key_int A fd THING_GROUP THING_MODBUS_SLAVE_ID st) of
        None \<Rightarrow> (- EINVAL, th)
      | Some aux \<Rightarrow>
          if aux < MODBUS_MIN_SLAVE_ID \<or> aux > MODBUS_MAX_SLAVE_ID then (- EINVAL, th)
          else (case storage_read_key_string A fd THING_GROUP THING_MODBUS_URL st of
                  None \<Rightarrow> (- EINVAL, th)
                | Some url \<Rightarrow> if url = [] then (- EINVAL, th)
                              else (0, device_set_thing_modbus_slave aux url th)))"

definition set_thing_user_token :: "('c, 'd) storage_env \<Rightarrow> int \<Rightarrow> ('c, 'd) storage_st
    \<Rightarrow> knot_thing \<Rightarrow> int \<times> knot_thing" where
  "set_thing_user_token A fd st th =
     (case storage_read_key_string A fd CLOUD_GROUP THING_USER_TOKEN st of
        None \<Rightarrow> (- EINVAL, th)
      | Some tok \<Rightarrow> if tok = [] then (- EINVAL, th) else (0, device_set_thing_user_token tok th))"

definition set_thing_name :: "knot_lib \<Rightarrow> ('c, 'd) storage_env \<Rightarrow> int \<Rightarrow> ('c, 'd) storage_st
    \<Rightarrow> knot_thing \<Rightarrow> (int \<times> knot_thing) option" where
  "set_thing_name K A fd st th =
     (case storage_read_key_string A fd THING_GROUP THING_NAME st of
        None \<Rightarrow> Some (- EINVAL, th)
      | Some name \<Rightarrow>
          if name = [] \<or> length name \<ge> DEVICE_NAME_LEN K then Some (- EINVAL, th)
          else map_option (\<lambda>th. (0, th)) (device_set_thing_name K name th))"

definition set_thing_properties :: "knot_lib \<Rightarrow> ('c, 'd) storage_env \<Rightarrow> string \<Rightarrow> knot_thing
    \<Rightarrow> ('c, 'd) storage_st \<Rightarrow> (int \<times> knot_thing \<times> ('c, 'd) storage_st) option" where
  "set_thing_properties K A filename th st =
     do {
       (device_fd, st) \<leftarrow> storage_open A filename st;
       if device_fd < 0 then Some (device_fd, th, st)
       else do {
         (rc, th) \<leftarrow> set_thing_name K A device_fd st th;
         if rc < 0 then Some (rc, th, snd (storage_close A device_fd st))
         else let (rc, th) = set_modbus_slave_properties A device_fd st th in
              if rc < 0 then Some (rc, th, snd (storage_close A device_fd st))
              else do {
                (rc, th, st) \<leftarrow> set_data_items K A device_fd th st;
                Some (rc, th, snd (storage_close A device_fd st))
              }
       }
     }"

definition set_cloud_properties :: "('c, 'd) storage_env \<Rightarrow> string \<Rightarrow> knot_thing
    \<Rightarrow> ('c, 'd) storage_st \<Rightarrow> (int \<times> knot_thing \<times> ('c, 'd) storage_st) option" where
  "set_cloud_properties A filename th st =
     do {
       (cloud_fd, st) \<leftarrow> storage_open A filename st;
       Some
      (if cloud_fd < 0 then (cloud_fd, th, st)
       else let (rc, th) = set_rabbit_mq_url A cloud_fd st th in
            if rc < 0 then (rc, th, snd (storage_close A cloud_fd st))
            else let (rc, th) = set_thing_user_token A cloud_fd st th in
                 (rc, th, snd (storage_close A cloud_fd st)))
     }"

section \<open>Writing a configuration message back\<close>

text \<open>
  One branch of \<open>update_event_data_item\<close>: write the key when the flag is set, otherwise
  remove it under the condition of the source.
\<close>

definition update_event_key :: "('c, 'd) storage_env \<Rightarrow> int \<Rightarrow> string \<Rightarrow> string \<Rightarrow> bool
    \<Rightarrow> (('c, 'd) storage_st \<Rightarrow> int \<times> ('c, 'd) storage_st) \<Rightarrow> ('c, 'd) storage_st
    \<Rightarrow> int \<times> ('c, 'd) storage_st" where
  "update_event_key A fd group_id key flag write st =
     (if flag then write st
      else if \<not> storage_has_unit A fd group_id key st
      then (0, snd (storage_remove_key A fd group_id key st))
      else (0, st))"

definition update_event_data_item :: "knot_lib \<Rightarrow> ('c, 'd) storage_env \<Rightarrow> int \<Rightarrow> string \<Rightarrow> int
    \<Rightarrow> knot_event \<Rightarrow> ('c, 'd) storage_st \<Rightarrow> int \<times> ('c, 'd) storage_st" where
  "update_event_data_item K A fd group_id value_type ev st =
     (let (rc, st) = update_event_key A fd group_id EVENT_TIME_SEC
            (flag_set (event_flags ev) (EVT_FLAG_TIME K))
            (storage_write_key_int A fd group_id EVENT_TIME_SEC (time_sec ev)) st in
      if rc < 0 then (rc, st) else
      let (rc, st) = update_event_key A fd group_id EVENT_CHANGE
            (flag_set (event_flags ev) (EVT_FLAG_CHANGE K))
            (storage_write_key_int A fd group_id EVENT_CHANGE EVENT_CHANGE_TRUE) st in
      if rc < 0 then (rc, st) else
      let (rc, st) = update_event_key A fd group_id EVENT_LOWER_THRESHOLD
            (flag_set (event_flags ev) (EVT_FLAG_LOWER_THRESHOLD K))
            (set_limit K A fd group_id EVENT_LOWER_THRESHOLD value_type (lower_limit ev)) st in
      if rc < 0 then (rc, st) else
      let (rc, st) = update_event_key A fd group_id EVENT_UPPER_THRESHOLD
            (flag_set (event_flags ev) (EVT_FLAG_UPPER_THRESHOLD K))
            (set_limit K A fd group_id EVENT_UPPER_THRESHOLD value_type (upper_limit ev)) st in
      if rc < 0 then (rc, st) else (0, st))"

definition update_schema_data_item :: "('c, 'd) storage_env \<Rightarrow> int \<Rightarrow> string \<Rightarrow> knot_schema
    \<Rightarrow> ('c, 'd) storage_st \<Rightarrow> int \<times> ('c, 'd) storage_st" where
  "update_schema_data_item A fd group_id sch st =
     (let (rc, st) = storage_write_key_int A fd group_id SCHEMA_TYPE_ID (sc_type_id sch) st in
      if rc < 0 then (rc, st) else
      let (rc, st) = storage_write_key_int A fd group_id SCHEMA_UNIT (sc_unit sch) st in
      if rc < 0 then (rc, st) else
      let (rc, st) = storage_write_key_int A fd group_id SCHEMA_VALUE_TYPE (sc_value_type sch) st in
      if rc < 0 then (rc, st) else
      storage_write_key_string A fd group_id SCHEMA_SENSOR_NAME (sc_name sch) st)"

definition equal_sensor_id :: "('c, 'd) storage_env \<Rightarrow> int \<Rightarrow> string \<Rightarrow> int \<Rightarrow> ('c, 'd) storage_st \<Rightarrow> bool" where
  "equal_sensor_id A fd group_id sid st =
     (case read_value (storage_read_key_int A fd group_id SCHEMA_SENSOR_ID st) of
        None \<Rightarrow> False
      | Some aux \<Rightarrow> sid = aux)"

section \<open>The interface to the device\<close>

definition properties_create_device :: "knot_lib \<Rightarrow> ('c, 'd) storage_env \<Rightarrow> knot_thing \<Rightarrow> device_settings
    \<Rightarrow> ('c, 'd) storage_st \<Rightarrow> (int \<times> knot_thing \<times> ('c, 'd) storage_st) option" where
  "properties_create_device K A th conf st = do {
     device_path \<leftarrow> device_path conf;
     (rc, th, st) \<leftarrow> set_thing_properties K A device_path th st;
     if rc < 0 then Some (rc, th, st)
     else do {
       cloud_path \<leftarrow> cloud_path conf;
       (rc, th, st) \<leftarrow> set_cloud_properties A cloud_path th st;
       if rc < 0 then Some (rc, th, st)
       else do {
         credentials_path \<leftarrow> credentials_path conf;
         (rc, th, st) \<leftarrow> set_thing_credentials K A credentials_path th st;
         Some (if rc < 0 then rc else 0, th, st)
       }
     }
   }"

definition properties_clear_credentials :: "('c, 'd) storage_env \<Rightarrow> string \<Rightarrow> knot_thing
    \<Rightarrow> ('c, 'd) storage_st \<Rightarrow> (int \<times> knot_thing \<times> ('c, 'd) storage_st) option" where
  "properties_clear_credentials A filename th st =
     do {
       (cred_fd, st) \<leftarrow> storage_open A filename st;
       Some
      (if cred_fd < 0 then (cred_fd, th, st)
       else let (rc, th, st) = erase_thing_token A cred_fd th st in
            if rc < 0 then (- EINVAL, th, snd (storage_close A cred_fd st))
            else let (rc, th, st) = erase_thing_id A cred_fd th st in
                 if rc < 0 then (- EINVAL, th, snd (storage_close A cred_fd st))
                 else (rc, th, snd (storage_close A cred_fd st)))
     }"

definition properties_store_credentials :: "knot_lib \<Rightarrow> ('c, 'd) storage_env \<Rightarrow> string \<Rightarrow> string \<Rightarrow> string
    \<Rightarrow> ('c, 'd) storage_st \<Rightarrow> (int \<times> ('c, 'd) storage_st) option" where
  "properties_store_credentials K A filename i tok st =
     (if length tok > TOKEN_LEN K then Some (- EINVAL, st)
      else do {
        (cred_fd, st) \<leftarrow> storage_open A filename st;
        Some
     (if cred_fd < 0 then (cred_fd, st)
      else let (rc, st) = storage_write_key_string A cred_fd CREDENTIALS_GROUP CREDENTIALS_THING_TOKEN tok st in
           if rc < 0 then (- EINVAL, snd (storage_close A cred_fd st))
           else let (rc, st) = storage_write_key_string A cred_fd CREDENTIALS_GROUP CREDENTIALS_THING_ID i st in
                if rc < 0
                then let (_, st) = storage_write_key_string A cred_fd CREDENTIALS_GROUP CREDENTIALS_THING_TOKEN [] st
                     in (- EINVAL, snd (storage_close A cred_fd st))
                else (rc, snd (storage_close A cred_fd st)))
      })"

text \<open>The loop body of \<open>properties_update_data_item\<close> for the group that matches: \<open>has_err\<close>.\<close>

definition update_group :: "knot_lib \<Rightarrow> ('c, 'd) storage_env \<Rightarrow> int \<Rightarrow> string \<Rightarrow> knot_msg_config
    \<Rightarrow> ('c, 'd) storage_st \<Rightarrow> bool \<times> ('c, 'd) storage_st" where
  "update_group K A fd g config st =
     (let (rc, st) = update_schema_data_item A fd g (cfg_schema config) st;
          has_err = rc < 0
      in if \<not> flag_set (event_flags (cfg_event config)) (EVT_FLAG_UNREGISTERED K)
         then let (rc, st) = update_event_data_item K A fd g (sc_value_type (cfg_schema config)) (cfg_event config) st
              in (has_err \<or> rc < 0, st)
         else (has_err, st))"

fun update_groups_loop :: "knot_lib \<Rightarrow> ('c, 'd) storage_env \<Rightarrow> int \<Rightarrow> knot_msg_config \<Rightarrow> string list
    \<Rightarrow> ('c, 'd) storage_st \<Rightarrow> bool \<times> ('c, 'd) storage_st" where
  "update_groups_loop K A fd config [] st = (False, st)"
| "update_groups_loop K A fd config (g # gs) st =
     (if \<not> equal_sensor_id A fd g (cfg_sensor_id config) st
      then update_groups_loop K A fd config gs st
      else update_group K A fd g config st)"

definition properties_update_data_item :: "knot_lib \<Rightarrow> ('c, 'd) storage_env \<Rightarrow> string \<Rightarrow> knot_msg_config
    \<Rightarrow> knot_thing \<Rightarrow> ('c, 'd) storage_st \<Rightarrow> (int \<times> knot_thing \<times> ('c, 'd) storage_st) option" where
  "properties_update_data_item K A filename config th st =
     do {
       (device_fd, st) \<leftarrow> storage_open A filename st;
       if device_fd < 0 then Some (device_fd, th, st)
       else let th = device_update_config_data_item K config th;
                (groups, st) = get_data_item_groups A device_fd st
            in case groups of
                 None \<Rightarrow> None
               | Some gs \<Rightarrow>
                   let (has_err, st) = update_groups_loop K A device_fd config gs st;
                       st = snd (storage_close A device_fd st)
                   in Some (if has_err then -1 else 0, th, st)
     }"

end
