(* ===== verification/Event.thy ===== *)
theory Event
  imports Knot_Types
begin

text \<open>
  \<open>src/src/event.c\<close>: which readings are published. \<open>event_check_value\<close> compares a reading
  with the last one sent and with the thresholds of its data item; \<open>event_start\<close>,
  \<open>event_add_data_item\<close> and \<open>event_stop\<close> manage the periodic timers of the data items,
  kept in the queue \<open>sensor_timeouts\<close>.
\<close>

section \<open>State\<close>

record data_item_timeout =
  dt_id :: int
  dt_timeout_sec :: int

text \<open>The only function the program ever passes to \<open>event_start\<close>.\<close>

datatype timeout_cb_t = On_event_timeout

record event_st =
  sensor_timeouts :: "tid option list option"
  timeout_cb :: "timeout_cb_t option"
  ev_active :: bool
  ev_queues :: nat
  ev_log :: "data_item_timeout to_log"

text \<open>
  The answers of ELL: the handle of a new timer, and whether the \<open>n\<close>-th \<open>l_queue_new\<close>
  answers a queue.
\<close>

record event_env =
  ev_timeout_create :: "data_item_timeout to_oracle"
  ev_queue_new :: "nat \<Rightarrow> bool"

definition event_init :: event_st where
  "event_init = \<lparr>sensor_timeouts = None, timeout_cb = None, ev_active = False,
     ev_queues = 0, ev_log = []\<rparr>"

section \<open>Comparing values\<close>

definition compare_int :: "int \<Rightarrow> int \<Rightarrow> int" where
  "compare_int val1 val2 = (if val1 < val2 then -1 else if val1 > val2 then 1 else 0)"

text \<open>
  The C comparison \<open><\<close> on \<open>float\<close>, on the bits of IEEE single precision: false as soon as
  an operand is not a number, else the order of sign and magnitude, with one zero.
\<close>

definition f32_nan :: "32 word \<Rightarrow> bool" where
  "f32_nan w \<longleftrightarrow> 0x7F800000 < w AND 0x7FFFFFFF"

definition f32_key :: "32 word \<Rightarrow> int" where
  "f32_key w = (let m = int (unat (w AND 0x7FFFFFFF)) in if bit w 31 then - m else m)"

definition f32_less :: "32 word \<Rightarrow> 32 word \<Rightarrow> bool" where
  "f32_less a b \<longleftrightarrow> \<not> f32_nan a \<and> \<not> f32_nan b \<and> f32_key a < f32_key b"

definition compare_float :: "32 word \<Rightarrow> 32 word \<Rightarrow> int" where
  "compare_float val1 val2 = (if f32_less val1 val2 then -1 else if f32_less val2 val1 then 1 else 0)"

definition compare_bool :: "bool \<Rightarrow> bool \<Rightarrow> int" where
  "compare_bool val1 val2 = (if val1 = False \<and> val2 = True then -1
     else if val1 = True \<and> val2 = False then 1 else 0)"

definition compare_raw :: "knot_value \<Rightarrow> knot_value \<Rightarrow> int" where
  "compare_raw val1 val2 = 1"

definition compare_knot_value :: "knot_lib \<Rightarrow> knot_value \<Rightarrow> knot_value \<Rightarrow> int \<Rightarrow> int" where
  "compare_knot_value K val1 val2 value_type =
     (if value_type = VALUE_TYPE_INT K then compare_int (val_i val1) (val_i val2)
      else if value_type = VALUE_TYPE_FLOAT K then compare_float (val_f val1) (val_f val2)
      else if value_type = VALUE_TYPE_BOOL K then compare_bool (val_b val1 \<noteq> 0) (val_b val2 \<noteq> 0)
      else if value_type = VALUE_TYPE_RAW K then compare_raw val1 val2
      else 1)"

definition is_value_equal :: "knot_lib \<Rightarrow> knot_value \<Rightarrow> knot_value \<Rightarrow> int \<Rightarrow> bool" where
  "is_value_equal K new_value old_value value_type \<longleftrightarrow>
     compare_knot_value K new_value old_value value_type = 0"

definition is_lower_than_threshold :: "knot_lib \<Rightarrow> knot_value \<Rightarrow> knot_value \<Rightarrow> int \<Rightarrow> bool" where
  "is_lower_than_threshold K val threshold value_type \<longleftrightarrow>
     compare_knot_value K val threshold value_type < 0"

definition is_higher_than_threshold :: "knot_lib \<Rightarrow> knot_value \<Rightarrow> knot_value \<Rightarrow> int \<Rightarrow> bool" where
  "is_higher_than_threshold K val threshold value_type \<longleftrightarrow>
     compare_knot_value K val threshold value_type > 0"

definition event_check_value :: "knot_lib \<Rightarrow> event_st \<Rightarrow> knot_event \<Rightarrow> knot_value \<Rightarrow> knot_value
    \<Rightarrow> int \<Rightarrow> int" where
  "event_check_value K s event current_val sent_val value_type =
     (if \<not> ev_active s then - ENOMSG
      else if value_type < VALUE_TYPE_MIN K \<or> value_type > VALUE_TYPE_MAX K then - EINVAL
      else if flag_set (event_flags event) (EVT_FLAG_CHANGE K) \<and>
              \<not> is_value_equal K current_val sent_val value_type then 1
      else if flag_set (event_flags event) (EVT_FLAG_LOWER_THRESHOLD K) \<and>
              is_lower_than_threshold K current_val (lower_limit event) value_type then 1
      else if flag_set (event_flags event) (EVT_FLAG_UPPER_THRESHOLD K) \<and>
              is_higher_than_threshold K current_val (upper_limit event) value_type then 1
      else 0)"

section \<open>Timers\<close>

text \<open>
  A timer of a data item expires: the callback registered with \<open>event_start\<close> runs (calling
  through \<open>NULL\<close> is \<open>None\<close>), then the timer is set again. \<open>get\<close> and \<open>upd\<close> are the
  selector and the update of this component in the state of the whole program.
\<close>

definition on_sensor_to :: "(timeout_cb_t \<Rightarrow> int \<Rightarrow> 's \<Rightarrow> 's option) \<Rightarrow> ('s \<Rightarrow> event_st)
    \<Rightarrow> ((event_st \<Rightarrow> event_st) \<Rightarrow> 's \<Rightarrow> 's) \<Rightarrow> tid \<Rightarrow> data_item_timeout \<Rightarrow> 's \<Rightarrow> 's option" where
  "on_sensor_to run get upd to data s =
     (case timeout_cb (get s) of
        None \<Rightarrow> None
      | Some cb \<Rightarrow> do {
          s' \<leftarrow> run cb (dt_id data) s;
          Some (upd (\<lambda>e. e\<lparr>ev_log := To_modify (Some to) (dt_timeout_sec data) # ev_log e\<rparr>) s')
        })"

definition event_add_data_item :: "knot_lib \<Rightarrow> event_env \<Rightarrow> int \<Rightarrow> knot_event \<Rightarrow> event_st \<Rightarrow> event_st" where
  "event_add_data_item K V i event s =
     (let data = \<lparr>dt_id = i, dt_timeout_sec = time_sec event\<rparr> in
      if flag_set (event_flags event) (EVT_FLAG_TIME K)
      then let to = ev_timeout_create V (ev_log s) in
           s\<lparr>ev_log := To_create to (time_sec event) data # ev_log s,
             sensor_timeouts := map_option ((#) to) (sensor_timeouts s)\<rparr>
      else s)"

definition event_start :: "event_env \<Rightarrow> timeout_cb_t \<Rightarrow> event_st \<Rightarrow> int \<times> event_st" where
  "event_start V cb s =
     (if ev_queue_new V (ev_queues s)
      then (0, s\<lparr>sensor_timeouts := Some [], ev_queues := Suc (ev_queues s),
                 timeout_cb := Some cb, ev_active := True\<rparr>)
      else (- ENOMSG, s\<lparr>sensor_timeouts := None, ev_queues := Suc (ev_queues s)\<rparr>))"

definition timeout_destroy :: "tid option \<Rightarrow> event_st \<Rightarrow> event_st" where
  "timeout_destroy to s = s\<lparr>ev_log := To_remove to # ev_log s\<rparr>"

definition event_stop :: "event_st \<Rightarrow> event_st" where
  "event_stop s =
     (let s1 = s\<lparr>ev_active := False\<rparr> in
      case sensor_timeouts s1 of
        None \<Rightarrow> s1
      | Some q \<Rightarrow> (fold timeout_destroy q s1)\<lparr>sensor_timeouts := None\<rparr>)"

section \<open>Specification\<close>

definition ev_handles :: "event_st \<Rightarrow> tid option list" where
  "ev_handles s = (case sensor_timeouts s of None \<Rightarrow> [] | Some q \<Rightarrow> q)"

text \<open>No timer of a data item is alive outside the queue.\<close>

definition event_inv :: "event_st \<Rightarrow> bool" where
  "event_inv s \<longleftrightarrow> pool_owned (ev_handles s) (ev_log s)"

text \<open>The order on readings that the comparison implements, for the three types it knows.\<close>

definition reading_less :: "knot_lib \<Rightarrow> int \<Rightarrow> knot_value \<Rightarrow> knot_value \<Rightarrow> bool" where
  "reading_less K vt a b \<longleftrightarrow>
     vt = VALUE_TYPE_INT K \<and> val_i a < val_i b \<or>
     vt = VALUE_TYPE_FLOAT K \<and> f32_less (val_f a) (val_f b) \<or>
     vt = VALUE_TYPE_BOOL K \<and> val_b a = 0 \<and> val_b b \<noteq> 0"

text \<open>Answers of the library for the witnesses: new handles, and queues always.\<close>

definition ex_event_env :: event_env where
  "ex_event_env = \<lparr>ev_timeout_create = next_handle, ev_queue_new = (\<lambda>_. True)\<rparr>"

definition ex_timed_event :: knot_event where
  "ex_timed_event = \<lparr>event_flags = 1, time_sec = 5, lower_limit = 0, upper_limit = 0\<rparr>"

section \<open>Lemmas\<close>

lemma fold_timeout_destroy: "fold timeout_destroy q s = s\<lparr>ev_log := remove_all q (ev_log s)\<rparr>"
  by (induction q arbitrary: s) (simp_all add: timeout_destroy_def)

interpretation evq: timer_pool ev_handles ev_log "\<lambda>s. sensor_timeouts s \<noteq> None"
  "\<lambda>(i, e). event_add_data_item K V i e" event_stop for K V
proof (unfold_locales, goal_cases)
  case (4 s x)
  obtain i e where x: "x = (i, e)" by fastforce
  show ?case
  proof (cases "flag_set (event_flags e) (EVT_FLAG_TIME K)")
    case True
    then have "ev_log (event_add_data_item K V i e s) = To_create (ev_timeout_create V (ev_log s))
        (time_sec e) \<lparr>dt_id = i, dt_timeout_sec = time_sec e\<rparr> # ev_log s"
      "ev_handles (event_add_data_item K V i e s) = ev_timeout_create V (ev_log s) # ev_handles s"
      using 4 by (auto simp: event_add_data_item_def ev_handles_def Let_def)
    then show ?thesis unfolding x by simp
  qed (simp add: x event_add_data_item_def)
qed (auto simp: event_stop_def fold_timeout_destroy ev_handles_def event_add_data_item_def Let_def
      split: option.split)

lemma event_add_fields [simp]:
  "ev_active (event_add_data_item K V i e s) = ev_active s"
  "timeout_cb (event_add_data_item K V i e s) = timeout_cb s"
  "ev_queues (event_add_data_item K V i e s) = ev_queues s"
  "sensor_timeouts (event_add_data_item K V i e s) = None \<longleftrightarrow> sensor_timeouts s = None"
  by (simp_all add: event_add_data_item_def Let_def)

lemma event_stop_fields [simp]:
  "ev_active (event_stop s) = False"
  "timeout_cb (event_stop s) = timeout_cb s"
  "sensor_timeouts (event_stop s) = None"
  "ev_queues (event_stop s) = ev_queues s"
  by (simp_all add: event_stop_def fold_timeout_destroy Let_def split: option.split)

lemma event_stop_inv: "event_inv s \<Longrightarrow> event_inv (event_stop s) \<and> \<not> live (ev_log (event_stop s)) t"
  using evq.clear_no_live[of s] by (simp add: event_inv_def pool_owned_def)

lemma event_start_log [simp]: "ev_log (snd (event_start V cb s)) = ev_log s"
  by (simp add: event_start_def)

lemma compare_knot_value_sign: "compare_knot_value K a b vt \<in> {-1, 0, 1}"
  by (simp add: compare_knot_value_def compare_int_def compare_float_def compare_bool_def compare_raw_def)

section \<open>Properties\<close>

lemma f32_less_asym: "f32_less a b \<Longrightarrow> \<not> f32_less b a"
  by (simp add: f32_less_def)

lemma value_types_distinct:
  assumes "value_types_ok K"
  shows "VALUE_TYPE_INT K \<noteq> VALUE_TYPE_FLOAT K" "VALUE_TYPE_INT K \<noteq> VALUE_TYPE_BOOL K"
    "VALUE_TYPE_FLOAT K \<noteq> VALUE_TYPE_BOOL K"
  using assms by (simp_all add: value_types_ok_def value_types_def)

lemma reading_less_asym: "value_types_ok K \<Longrightarrow> reading_less K vt a b \<Longrightarrow> \<not> reading_less K vt b a"
  by (auto simp: reading_less_def value_types_distinct value_types_distinct[symmetric]
      dest: f32_less_asym)

lemma compare_knot_value_reading:
  assumes "value_types_ok K" "vt \<in> {VALUE_TYPE_INT K, VALUE_TYPE_FLOAT K, VALUE_TYPE_BOOL K}"
  shows "compare_knot_value K a b vt =
    (if reading_less K vt a b then -1 else if reading_less K vt b a then 1 else 0)"
proof -
  note d = value_types_distinct[OF assms(1)]
  from assms(2) consider "vt = VALUE_TYPE_INT K" | "vt = VALUE_TYPE_FLOAT K" | "vt = VALUE_TYPE_BOOL K"
    by blast
  then show ?thesis
  proof cases
    case 1
    with d show ?thesis by (simp add: compare_knot_value_def reading_less_def compare_int_def)
  next
    case 2
    with d show ?thesis by (simp add: compare_knot_value_def reading_less_def compare_float_def)
  next
    case 3
    with d show ?thesis by (simp add: compare_knot_value_def reading_less_def compare_bool_def)
  qed
qed

lemma compare_knot_value_other:
  assumes "vt \<notin> {VALUE_TYPE_INT K, VALUE_TYPE_FLOAT K, VALUE_TYPE_BOOL K}"
  shows "compare_knot_value K a b vt = 1"
  using assms by (simp add: compare_knot_value_def compare_raw_def)

text \<open>
  (C24) For integer, floating-point and boolean readings an active checker answers 1 exactly
  when the reading is to be sent: it differs from the last one sent and changes are
  reported, or it is below the lower or above the upper threshold and that threshold is
  set. Otherwise it answers 0.
\<close>

theorem event_check_value_spec:
  assumes "value_types_ok K" "ev_active s"
    and "vt \<in> {VALUE_TYPE_INT K, VALUE_TYPE_FLOAT K, VALUE_TYPE_BOOL K}"
  shows "event_check_value K s event cur sent vt =
    (if flag_set (event_flags event) (EVT_FLAG_CHANGE K) \<and>
          (reading_less K vt cur sent \<or> reading_less K vt sent cur) \<or>
        flag_set (event_flags event) (EVT_FLAG_LOWER_THRESHOLD K) \<and>
          reading_less K vt cur (lower_limit event) \<or>
        flag_set (event_flags event) (EVT_FLAG_UPPER_THRESHOLD K) \<and>
          reading_less K vt (upper_limit event) cur
     then 1 else 0)"
proof -
  have "vt \<in> set (value_types K)" using assms(3) by (auto simp: value_types_def)
  then have range: "\<not> (vt < VALUE_TYPE_MIN K \<or> VALUE_TYPE_MAX K < vt)"
    using value_types_range[OF assms(1)] by fastforce
  note asym = reading_less_asym[OF assms(1)]
  have eq: "is_value_equal K a b vt \<longleftrightarrow> \<not> reading_less K vt a b \<and> \<not> reading_less K vt b a"
    "is_lower_than_threshold K a b vt \<longleftrightarrow> reading_less K vt a b"
    "is_higher_than_threshold K a b vt \<longleftrightarrow> reading_less K vt b a" for a b
    using asym[of vt a b]
    by (simp_all add: is_value_equal_def is_lower_than_threshold_def is_higher_than_threshold_def
        compare_knot_value_reading[OF assms(1,3)] split: if_split)
  show ?thesis
    using assms(2) range by (auto simp: event_check_value_def eq)
qed

theorem event_check_value_spec_witness:
  "event_check_value knot_example (event_init\<lparr>ev_active := True\<rparr>)
     \<lparr>event_flags = 6, time_sec = 0, lower_limit = put_i 10 0, upper_limit = put_i 20 0\<rparr>
     (put_i 5 0) (put_i 5 0) 1 = 1"
  using event_check_value_spec[of knot_example "event_init\<lparr>ev_active := True\<rparr>" 1
     "\<lparr>event_flags = 6, time_sec = 0, lower_limit = put_i 10 0, upper_limit = put_i 20 0\<rparr>"
     "put_i 5 0" "put_i 5 0"]
  by (simp add: reading_less_def val_i_put_i flag_set_def)

text \<open>
  (C25) For every other value type in range (raw, 64-bit and unsigned readings) the values play
  no part: an active checker answers 1 as soon as changes are reported or an upper threshold
  is set, and a lower threshold is never crossed.
\<close>

theorem event_check_value_other_types:
  assumes "ev_active s" "VALUE_TYPE_MIN K \<le> vt" "vt \<le> VALUE_TYPE_MAX K"
    and "vt \<notin> {VALUE_TYPE_INT K, VALUE_TYPE_FLOAT K, VALUE_TYPE_BOOL K}"
  shows "event_check_value K s event cur sent vt =
    (if flag_set (event_flags event) (EVT_FLAG_CHANGE K) \<or>
        flag_set (event_flags event) (EVT_FLAG_UPPER_THRESHOLD K) then 1 else 0)"
  using assms compare_knot_value_other[OF assms(4)]
  by (simp add: event_check_value_def is_value_equal_def is_lower_than_threshold_def
      is_higher_than_threshold_def)

theorem event_check_value_other_types_witness:
  "event_check_value knot_example (event_init\<lparr>ev_active := True\<rparr>)
     \<lparr>event_flags = 4, time_sec = 0, lower_limit = 0, upper_limit = put_u32 100 0\<rparr>
     (put_u32 7 0) (put_u32 7 0) 6 = 1"
  using event_check_value_other_types[of "event_init\<lparr>ev_active := True\<rparr>" knot_example 6
     "\<lparr>event_flags = 4, time_sec = 0, lower_limit = 0, upper_limit = put_u32 100 0\<rparr>"
     "put_u32 7 0" "put_u32 7 0"]
  by (simp add: flag_set_def)

text \<open>
  Starting the component, adding data items and stopping it again leaves no timer alive,
  whatever timers the items asked for, if none was alive outside the queue before and the
  queue was empty.
\<close>

theorem event_start_stop_no_timer:
  assumes "event_inv s" "sensor_timeouts s = None" "event_start V cb s = (rc, s1)" "rc = 0"
  shows "\<not> live (ev_log (event_stop (fold (\<lambda>(i, e). event_add_data_item K V i e) items s1))) t"
proof -
  have "sensor_timeouts s1 = Some []" "ev_log s1 = ev_log s"
    using assms(3,4) by (auto simp: event_start_def split: if_splits)
  moreover have "\<not> live (ev_log s) t" for t
    using assms(1,2) by (simp add: event_inv_def pool_owned_def ev_handles_def)
  ultimately show ?thesis
    using evq.add_all_clear_no_live[of s1 K V items t]
    by (simp add: pool_owned_def ev_handles_def)
qed

theorem event_start_stop_no_timer_witness:
  "\<not> live (ev_log (event_stop (fold (\<lambda>(i, e). event_add_data_item knot_example ex_event_env i e)
       [(0, ex_timed_event)] (snd (event_start ex_event_env On_event_timeout event_init))))) 0"
  using event_start_stop_no_timer[of event_init ex_event_env On_event_timeout 0
      "snd (event_start ex_event_env On_event_timeout event_init)" knot_example "[(0, ex_timed_event)]" 0]
  by (simp add: event_inv_def pool_owned_def event_init_def event_start_def ex_event_env_def)

text \<open>
  Starting the component again without stopping it loses its timers: each timer that was
  alive stays alive, is no longer in the queue, and a later stop does not remove it.
\<close>

theorem event_restart_leaks:
  assumes "live (ev_log s) t" "event_start V cb s = (rc, s1)"
  shows "live (ev_log (event_stop s1)) t"
proof -
  have "Some t \<notin> set (ev_handles s1)"
    using assms(2) by (auto simp: event_start_def ev_handles_def split: if_splits)
  moreover have "live (ev_log s1) t" using assms event_start_log[of V cb s] by simp
  ultimately show ?thesis by (rule evq.clear_keeps_orphans[rotated])
qed

theorem event_restart_leaks_witness:
  "\<exists>s1. event_start ex_event_env On_event_timeout (event_init\<lparr>ev_log := [To_create (Some 0) 5
        \<lparr>dt_id = 0, dt_timeout_sec = 5\<rparr>], sensor_timeouts := Some [Some 0]\<rparr>) = (0, s1) \<and>
     live (ev_log (event_stop s1)) 0"
  using event_restart_leaks[of "event_init\<lparr>ev_log := [To_create (Some 0) 5
        \<lparr>dt_id = 0, dt_timeout_sec = 5\<rparr>], sensor_timeouts := Some [Some 0]\<rparr>" 0
      ex_event_env On_event_timeout 0]
  by (simp add: event_start_def ex_event_env_def)

end
