(* ===== verification/Poll.thy ===== *)
theory Poll
  imports Prelude
begin

text \<open>
  \<open>src/src/poll.c\<close>: one timer per data item that reads it from the Modbus slave at regular
  intervals. The timers are created once; \<open>poll_start\<close> sets them all and \<open>poll_stop\<close> only
  clears a flag, so that each timer lapses at its next expiry.
\<close>

section \<open>State\<close>

text \<open>The only function the program ever passes to \<open>poll_create\<close>.\<close>

datatype poll_read_cb_t = On_modbus_poll_receive

record poll_data =
  pd_id :: int
  pd_interval :: int
  pd_read_cb :: poll_read_cb_t

record poll_entry =
  pe_data :: poll_data
  pe_to :: tid

record poll_st =
  poll_entries :: "poll_entry list option"
  poll_active :: bool
  poll_log :: "poll_data to_log"

definition poll_init :: poll_st where
  "poll_init = \<lparr>poll_entries = None, poll_active = False, poll_log = []\<rparr>"

definition entries :: "poll_st \<Rightarrow> poll_entry list" where
  "entries s = (case poll_entries s of None \<Rightarrow> [] | Some q \<Rightarrow> q)"

section \<open>Operations\<close>

text \<open>
  A poll timer expires. \<open>run\<close> performs the callback on the state of the whole program, of
  which \<open>get\<close> and \<open>upd\<close> are the selector and the update of this component.
\<close>

definition on_poll_timeout :: "(poll_read_cb_t \<Rightarrow> int \<Rightarrow> 's \<Rightarrow> 's option) \<Rightarrow> ('s \<Rightarrow> poll_st)
    \<Rightarrow> ((poll_st \<Rightarrow> poll_st) \<Rightarrow> 's \<Rightarrow> 's) \<Rightarrow> tid \<Rightarrow> poll_data \<Rightarrow> 's \<Rightarrow> 's option" where
  "on_poll_timeout run get upd to data s =
     (if \<not> poll_active (get s) then Some s
      else do {
        s' \<leftarrow> run (pd_read_cb data) (pd_id data) s;
        Some (upd (\<lambda>p. p\<lparr>poll_log := To_modify (Some to) (pd_interval data) # poll_log p\<rparr>) s')
      })"

definition poll_timer_start :: "poll_entry \<Rightarrow> poll_st \<Rightarrow> poll_st" where
  "poll_timer_start entry s =
     s\<lparr>poll_log := To_modify (Some (pe_to entry)) (pd_interval (pe_data entry)) # poll_log s\<rparr>"

definition poll_start :: "poll_st \<Rightarrow> poll_st" where
  "poll_start s = fold poll_timer_start (entries s) (s\<lparr>poll_active := True\<rparr>)"

definition poll_stop :: "poll_st \<Rightarrow> poll_st" where
  "poll_stop s = s\<lparr>poll_active := False\<rparr>"

text \<open>\<open>N\<close> answers the handle of a new timer, or \<open>NULL\<close>.\<close>

definition poll_create :: "poll_data to_oracle \<Rightarrow> int \<Rightarrow> int \<Rightarrow> poll_read_cb_t \<Rightarrow> poll_st
    \<Rightarrow> int \<times> poll_st" where
  "poll_create N interval i read_cb s =
     (let data = \<lparr>pd_id = i, pd_interval = interval, pd_read_cb = read_cb\<rparr>;
          to = N (poll_log s);
          s1 = s\<lparr>poll_log := To_create to 0 data # poll_log s\<rparr>
      in case to of
           None \<Rightarrow> (- ENOMSG, s1)
         | Some t \<Rightarrow> (0, s1\<lparr>poll_entries := Some (\<lparr>pe_data = data, pe_to = t\<rparr> # entries s1)\<rparr>))"

definition entry_destroy :: "poll_entry \<Rightarrow> poll_st \<Rightarrow> poll_st" where
  "entry_destroy entry s = s\<lparr>poll_log := To_remove (Some (pe_to entry)) # poll_log s\<rparr>"

definition poll_destroy :: "poll_st \<Rightarrow> poll_st" where
  "poll_destroy s =
     (case poll_entries s of
        None \<Rightarrow> s
      | Some q \<Rightarrow> (fold entry_destroy q s)\<lparr>poll_entries := None\<rparr>)"

section \<open>Specification\<close>

definition poll_handles :: "poll_st \<Rightarrow> tid option list" where
  "poll_handles s = map (\<lambda>e. Some (pe_to e)) (entries s)"

text \<open>
  Every poll timer that is alive belongs to an entry, every entry's timer is alive and
  carries the entry's data, and no two entries share a timer.
\<close>

definition poll_inv :: "poll_st \<Rightarrow> bool" where
  "poll_inv s \<longleftrightarrow> pool_owned (poll_handles s) (poll_log s) \<and> distinct (map pe_to (entries s)) \<and>
     list_all (\<lambda>e. live (poll_log s) (pe_to e) \<and> payload (poll_log s) (pe_to e) = Some (pe_data e))
       (entries s)"

section \<open>Lemmas\<close>

lemma fold_entry_destroy:
  "fold entry_destroy q s =
     s\<lparr>poll_log := remove_all (map (\<lambda>e. Some (pe_to e)) q) (poll_log s)\<rparr>"
  by (induction q arbitrary: s) (simp_all add: entry_destroy_def)

lemma poll_destroy_fields [simp]:
  "poll_log (poll_destroy s) = remove_all (poll_handles s) (poll_log s)"
  "poll_entries (poll_destroy s) = None"
  "poll_active (poll_destroy s) = poll_active s"
  by (simp_all add: poll_destroy_def fold_entry_destroy poll_handles_def entries_def split: option.split)

interpretation poq: timer_pool poll_handles poll_log "\<lambda>s. True"
  "\<lambda>(interval, i). snd \<circ> poll_create N interval i cb" poll_destroy for N cb
proof (unfold_locales, goal_cases)
  case (4 s x)
  obtain interval i where x: "x = (interval, i)" by fastforce
  let ?d = "\<lparr>pd_id = i, pd_interval = interval, pd_read_cb = cb\<rparr>"
  show ?case
  proof (cases "N (poll_log s)")
    case None
    then show ?thesis
      by (simp add: x poll_create_def poll_handles_def entries_def)
  next
    case (Some t)
    then have "poll_log (snd (poll_create N interval i cb s)) = To_create (Some t) 0 ?d # poll_log s"
      "poll_handles (snd (poll_create N interval i cb s)) = Some t # poll_handles s"
      by (simp_all add: poll_create_def poll_handles_def entries_def Let_def)
    then show ?thesis by (simp add: x)
  qed
qed (auto simp: poll_handles_def entries_def)

text \<open>Setting every timer of a list of entries.\<close>

lemma fold_timer_start:
  "fold poll_timer_start q s = s\<lparr>poll_log := fold (\<lambda>e l. To_modify (Some (pe_to e))
     (pd_interval (pe_data e)) # l) q (poll_log s)\<rparr>"
  by (induction q arbitrary: s) (simp_all add: poll_timer_start_def)

lemma live_start_log:
  "live (fold (\<lambda>e l. To_modify (Some (pe_to e)) (pd_interval (pe_data e)) # l) q l) t = live l t"
  by (induction q arbitrary: l) simp_all

lemma payload_start_log:
  "payload (fold (\<lambda>e l. To_modify (Some (pe_to e)) (pd_interval (pe_data e)) # l) q l) t = payload l t"
  by (induction q arbitrary: l) simp_all

lemma armed_start_log_other:
  "t \<notin> pe_to ` set q \<Longrightarrow>
   armed (fold (\<lambda>e l. To_modify (Some (pe_to e)) (pd_interval (pe_data e)) # l) q l) t = armed l t"
  by (induction q arbitrary: l) auto

lemma armed_start_log:
  "distinct (map pe_to q) \<Longrightarrow> e \<in> set q \<Longrightarrow>
   armed (fold (\<lambda>e l. To_modify (Some (pe_to e)) (pd_interval (pe_data e)) # l) q l) (pe_to e)
   = Some (pd_interval (pe_data e))"
proof (induction q arbitrary: l)
  case Nil
  then show ?case by simp
next
  case (Cons x q)
  then show ?case
    by (cases "e = x") (auto simp: armed_start_log_other)
qed

lemma poll_start_fields [simp]:
  "poll_entries (poll_start s) = poll_entries s"
  "entries (poll_start s) = entries s"
  "poll_active (poll_start s) = True"
  by (simp_all add: poll_start_def fold_timer_start entries_def)

lemma poll_start_inv: "poll_inv s \<Longrightarrow> poll_inv (poll_start s)"
  by (simp add: poll_inv_def poll_handles_def pool_owned_def)
     (simp add: poll_start_def fold_timer_start live_start_log payload_start_log entries_def)

lemma poll_stop_inv: "poll_inv s \<Longrightarrow> poll_inv (poll_stop s)"
  by (simp add: poll_inv_def poll_handles_def entries_def poll_stop_def)

lemma poll_init_inv: "poll_inv poll_init"
  by (simp add: poll_inv_def poll_handles_def entries_def poll_init_def pool_owned_def)

lemma poll_destroy_inv: "poll_inv s \<Longrightarrow> poll_inv (poll_destroy s)"
  using poq.clear_no_live[of s] by (simp add: poll_inv_def entries_def pool_owned_def)

lemma poll_create_inv:
  assumes "fresh_handles N" "poll_inv s"
  shows "poll_inv (snd (poll_create N interval i cb s))"
proof (cases "N (poll_log s)")
  case None
  with assms(2) show ?thesis
    by (simp add: poll_create_def poll_inv_def poll_handles_def entries_def pool_owned_def)
next
  case (Some t)
  have nl: "\<not> live (poll_log s) t" using assms(1) Some by (rule fresh_handlesD)
  have "t \<notin> pe_to ` set (entries s)"
    using nl assms(2) by (auto simp: poll_inv_def list_all_iff)
  moreover have "entries (snd (poll_create N interval i cb s)) =
      \<lparr>pe_data = \<lparr>pd_id = i, pd_interval = interval, pd_read_cb = cb\<rparr>, pe_to = t\<rparr> # entries s"
    "poll_log (snd (poll_create N interval i cb s)) =
      To_create (Some t) 0 \<lparr>pd_id = i, pd_interval = interval, pd_read_cb = cb\<rparr> # poll_log s"
    using Some by (simp_all add: poll_create_def entries_def Let_def)
  ultimately show ?thesis
    using assms(2) by (auto simp: poll_inv_def poll_handles_def pool_owned_def list_all_iff)
qed

section \<open>Properties\<close>

text \<open>
  (C27) Every operation keeps the entries and the timers in step: after creating, starting,
  stopping or destroying, each live poll timer belongs to exactly one entry and carries its
  data.
\<close>

theorem poll_operations_keep_inv:
  assumes "fresh_handles N" "poll_inv s"
  shows "poll_inv (snd (poll_create N interval i cb s)) \<and> poll_inv (poll_start s) \<and>
    poll_inv (poll_stop s) \<and> poll_inv (poll_destroy s)"
  using assms by (simp add: poll_create_inv poll_start_inv poll_stop_inv poll_destroy_inv)

theorem poll_operations_keep_inv_witness:
  "poll_inv (snd (poll_create next_handle 1 7 On_modbus_poll_receive poll_init))"
  using poll_operations_keep_inv[of next_handle poll_init 1 7 On_modbus_poll_receive]
  by (simp add: poll_init_inv)

text \<open>
  (C28) Starting sets the timer of every entry to that entry's own interval, also when some of
  them had lapsed while polling was stopped.
\<close>

theorem poll_start_arms_all:
  assumes "poll_inv s" "e \<in> set (entries s)"
  shows "armed (poll_log (poll_start s)) (pe_to e) = Some (pd_interval (pe_data e))"
  using armed_start_log[of "entries s" e] assms
  by (simp add: poll_start_def fold_timer_start poll_inv_def)

theorem poll_start_arms_all_witness:
  "armed (poll_log (poll_start (snd (poll_create next_handle 1 7 On_modbus_poll_receive poll_init)))) 1
   = Some 1"
proof -
  let ?s = "snd (poll_create next_handle 1 7 On_modbus_poll_receive poll_init)"
  have "poll_inv ?s" by (simp add: poll_create_inv poll_init_inv)
  then show ?thesis
    using poll_start_arms_all[of ?s "\<lparr>pe_data = \<lparr>pd_id = 7, pd_interval = 1,
        pd_read_cb = On_modbus_poll_receive\<rparr>, pe_to = 1\<rparr>"]
    by (simp add: poll_create_def next_handle_def poll_init_def entries_def Let_def)
qed

text \<open>
  Destroying the component removes every poll timer that is alive.
\<close>

theorem poll_destroy_no_timer:
  assumes "poll_inv s"
  shows "\<not> live (poll_log (poll_destroy s)) t"
  using assms poq.clear_no_live[of s t] by (simp add: poll_inv_def)

theorem poll_destroy_no_timer_witness:
  "\<not> live (poll_log (poll_destroy (snd (poll_create next_handle 1 7 On_modbus_poll_receive poll_init)))) 1"
  using poll_destroy_no_timer[of "snd (poll_create next_handle 1 7 On_modbus_poll_receive poll_init)" 1]
  by (simp add: poll_create_inv poll_init_inv)

end
