(* ===== verification/Sm.thy ===== *)
theory Sm
  imports Knot_Types
begin

text \<open>
  \<open>src/src/sm.c\<close>: the state machine of the device. Its transition functions call the device
  through the functions of \<open>device.h\<close>; those are the fields of the record \<open>device_ops\<close>,
  over any type \<open>'s\<close> of device states, so that the machine can be run on the device of this
  repository as well as on the stand-in that its unit test uses. An answer \<open>None\<close> is
  undefined behaviour.
\<close>

section \<open>States, events and what comes with them\<close>

text \<open>\<open>EVT_OTHER\<close> stands for every number that is not an enumerator.\<close>

datatype EVENTS =
    EVT_READY
  | EVT_NOT_READY
  | EVT_TIMEOUT
  | EVT_AUTH_OK
  | EVT_AUTH_NOT_OK
  | EVT_REG_OK
  | EVT_REG_NOT_OK
  | EVT_CFG_UPT_OK
  | EVT_CFG_UPT_NOT_OK
  | EVT_UNREG_REQ
  | EVT_REG_PERM
  | EVT_PUB_DATA
  | EVT_DATA_UPDT
  | EVT_OTHER int

datatype STATES =
    ST_DISCONNECTED
  | ST_AUTH
  | ST_REGISTER
  | ST_CONFIG
  | ST_ONLINE
  | ST_UNREGISTER
  | ST_ERROR

text \<open>
  What the \<open>void *\<close> argument of an event points to: nothing, a queue of sensor numbers, a
  token, a queue of configuration messages, or a queue of data messages.
\<close>

datatype user_data =
    UD_NULL
  | UD_ids "int list"
  | UD_token string
  | UD_configs "knot_msg_config list"
  | UD_data "(int \<times> knot_value) list"

text \<open>The functions of \<open>device.h\<close> that the machine calls.\<close>

record 's device_ops =
  op_has_thing_token :: "'s \<Rightarrow> bool"
  op_generate_thing_id :: "'s \<Rightarrow> 's option"
  op_start_read_cloud :: "'s \<Rightarrow> int \<times> 's"
  op_msg_timeout_create :: "int \<Rightarrow> 's \<Rightarrow> 's"
  op_msg_timeout_modify :: "int \<Rightarrow> 's \<Rightarrow> 's"
  op_msg_timeout_remove :: "'s \<Rightarrow> 's"
  op_check_schema_change :: "'s \<Rightarrow> int"
  op_send_auth_request :: "'s \<Rightarrow> int \<times> 's"
  op_send_register_request :: "'s \<Rightarrow> int \<times> 's"
  op_send_config :: "'s \<Rightarrow> int \<times> 's"
  op_store_credentials_on_file :: "string \<Rightarrow> 's \<Rightarrow> (int \<times> 's) option"
  op_clear_credentials_on_file :: "'s \<Rightarrow> (int \<times> 's) option"
  op_start_event :: "'s \<Rightarrow> int \<times> 's"
  op_stop_event :: "'s \<Rightarrow> 's"
  op_update_config :: "knot_msg_config list \<Rightarrow> 's \<Rightarrow> (int \<times> 's) option"
  op_publish_data_list :: "int list \<Rightarrow> 's \<Rightarrow> 's"
  op_publish_data_all :: "'s \<Rightarrow> 's"

text \<open>The variable \<open>current_state\<close> (\<open>NULL\<close> before \<open>sm_start\<close>) beside the device.\<close>

record 's sm_st =
  current_state :: "STATES option"
  dev :: 's

abbreviation (input) DEFAULT_MSG_TIMEOUT :: int where "DEFAULT_MSG_TIMEOUT \<equiv> 3"

section \<open>Names for the log\<close>

fun event_to_str :: "EVENTS \<Rightarrow> string" where
  "event_to_str EVT_REG_PERM = ''EVT_REG_PERM''"
| "event_to_str EVT_NOT_READY = ''EVT_NOT_READY''"
| "event_to_str EVT_PUB_DATA = ''EVT_PUB_DATA''"
| "event_to_str EVT_DATA_UPDT = ''EVT_DATA_UPDT''"
| "event_to_str EVT_TIMEOUT = ''EVT_TIMEOUT''"
| "event_to_str EVT_CFG_UPT_OK = ''EVT_CFG_UPT_OK''"
| "event_to_str EVT_CFG_UPT_NOT_OK = ''EVT_CFG_UPT_NOT_OK''"
| "event_to_str EVT_UNREG_REQ = ''EVT_UNREG_REQ''"
| "event_to_str EVT_READY = ''EVT_READY''"
| "event_to_str EVT_AUTH_OK = ''EVT_AUTH_OK''"
| "event_to_str EVT_AUTH_NOT_OK = ''EVT_AUTH_NOT_OK''"
| "event_to_str EVT_REG_OK = ''EVT_REG_OK''"
| "event_to_str EVT_REG_NOT_OK = ''EVT_REG_NOT_OK''"
| "event_to_str (EVT_OTHER n) = ''Unexpected Event''"

fun state_to_str :: "STATES \<Rightarrow> string" where
  "state_to_str ST_DISCONNECTED = ''ST_DISCONNECTED''"
| "state_to_str ST_AUTH = ''ST_AUTH''"
| "state_to_str ST_REGISTER = ''ST_REGISTER''"
| "state_to_str ST_CONFIG = ''ST_CONFIG''"
| "state_to_str ST_ONLINE = ''ST_ONLINE''"
| "state_to_str ST_UNREGISTER = ''ST_UNREGISTER''"
| "state_to_str ST_ERROR = ''ST_ERROR''"

section \<open>The states\<close>

definition get_next_disconnected :: "'s device_ops \<Rightarrow> EVENTS \<Rightarrow> user_data \<Rightarrow> 's \<Rightarrow> (STATES \<times> 's) option" where
  "get_next_disconnected D event user_data s =
     (case event of
        EVT_READY \<Rightarrow>
          if op_has_thing_token D s then Some (ST_AUTH, snd (op_start_read_cloud D s))
          else do {
            s \<leftarrow> op_generate_thing_id D s;
            Some (ST_REGISTER, snd (op_start_read_cloud D s))
          }
      | EVT_OTHER _ \<Rightarrow> Some (ST_ERROR, s)
      | _ \<Rightarrow> Some (ST_DISCONNECTED, s))"

definition enter_disconnected :: "'s device_ops \<Rightarrow> 's \<Rightarrow> 's option" where
  "enter_disconnected D s = Some s"

definition get_next_auth :: "'s device_ops \<Rightarrow> EVENTS \<Rightarrow> user_data \<Rightarrow> 's \<Rightarrow> (STATES \<times> 's) option" where
  "get_next_auth D event user_data s =
     (case event of
        EVT_NOT_READY \<Rightarrow> Some (ST_DISCONNECTED, op_msg_timeout_remove D s)
      | EVT_AUTH_OK \<Rightarrow>
          let s = op_msg_timeout_remove D s
          in Some (if op_check_schema_change D s \<noteq> 0 then ST_CONFIG else ST_ONLINE, s)
      | EVT_AUTH_NOT_OK \<Rightarrow> Some (ST_UNREGISTER, op_msg_timeout_remove D s)
      | EVT_UNREG_REQ \<Rightarrow> Some (ST_UNREGISTER, op_msg_timeout_remove D s)
      | EVT_TIMEOUT \<Rightarrow>
          Some (ST_AUTH, op_msg_timeout_modify D DEFAULT_MSG_TIMEOUT (snd (op_send_auth_request D s)))
      | EVT_OTHER _ \<Rightarrow> Some (ST_ERROR, s)
      | _ \<Rightarrow> Some (ST_AUTH, s))"

definition enter_auth :: "'s device_ops \<Rightarrow> 's \<Rightarrow> 's option" where
  "enter_auth D s = Some (op_msg_timeout_create D DEFAULT_MSG_TIMEOUT (snd (op_send_auth_request D s)))"

text \<open>The token of a registration is the string the argument points to.\<close>

definition get_next_register :: "'s device_ops \<Rightarrow> EVENTS \<Rightarrow> user_data \<Rightarrow> 's \<Rightarrow> (STATES \<times> 's) option" where
  "get_next_register D event user_data s =
     (case event of
        EVT_NOT_READY \<Rightarrow> Some (ST_DISCONNECTED, op_msg_timeout_remove D s)
      | EVT_REG_OK \<Rightarrow>
          (let s = op_msg_timeout_remove D s in
           case user_data of
             UD_token tok \<Rightarrow> do {
               (rc, s) \<leftarrow> op_store_credentials_on_file D tok s;
               Some (if rc < 0 then ST_ERROR else ST_AUTH, s)
             }
           | _ \<Rightarrow> None)
      | EVT_REG_NOT_OK \<Rightarrow> do {
          s \<leftarrow> op_generate_thing_id D s;
          Some (ST_REGISTER, snd (op_start_read_cloud D s))
        }
      | EVT_TIMEOUT \<Rightarrow>
          Some (ST_REGISTER, op_msg_timeout_modify D DEFAULT_MSG_TIMEOUT (snd (op_send_register_request D s)))
      | EVT_OTHER _ \<Rightarrow> Some (ST_ERROR, s)
      | _ \<Rightarrow> Some (ST_REGISTER, s))"

definition enter_register :: "'s device_ops \<Rightarrow> 's \<Rightarrow> 's option" where
  "enter_register D s = Some (op_msg_timeout_create D DEFAULT_MSG_TIMEOUT (snd (op_send_register_request D s)))"

definition get_next_config :: "'s device_ops \<Rightarrow> EVENTS \<Rightarrow> user_data \<Rightarrow> 's \<Rightarrow> (STATES \<times> 's) option" where
  "get_next_config D event user_data s =
     (case event of
        EVT_NOT_READY \<Rightarrow> Some (ST_DISCONNECTED, op_msg_timeout_remove D s)
      | EVT_CFG_UPT_OK \<Rightarrow> Some (ST_ONLINE, op_msg_timeout_remove D s)
      | EVT_CFG_UPT_NOT_OK \<Rightarrow> Some (ST_ERROR, op_msg_timeout_remove D s)
      | EVT_UNREG_REQ \<Rightarrow> Some (ST_UNREGISTER, op_msg_timeout_remove D s)
      | EVT_TIMEOUT \<Rightarrow>
          Some (ST_CONFIG, op_msg_timeout_modify D DEFAULT_MSG_TIMEOUT (snd (op_send_config D s)))
      | EVT_OTHER _ \<Rightarrow> Some (ST_ERROR, s)
      | _ \<Rightarrow> Some (ST_CONFIG, s))"

definition enter_config :: "'s device_ops \<Rightarrow> 's \<Rightarrow> 's option" where
  "enter_config D s = Some (op_msg_timeout_create D DEFAULT_MSG_TIMEOUT (snd (op_send_config D s)))"

text \<open>A \<open>NULL\<close> queue is iterated over like an empty one.\<close>

definition get_next_online :: "'s device_ops \<Rightarrow> EVENTS \<Rightarrow> user_data \<Rightarrow> 's \<Rightarrow> (STATES \<times> 's) option" where
  "get_next_online D event user_data s =
     (case event of
        EVT_NOT_READY \<Rightarrow> Some (ST_DISCONNECTED, op_stop_event D s)
      | EVT_PUB_DATA \<Rightarrow>
          (case user_data of
             UD_NULL \<Rightarrow> Some (ST_ONLINE, op_publish_data_list D [] s)
           | UD_ids ids \<Rightarrow> Some (ST_ONLINE, op_publish_data_list D ids s)
           | _ \<Rightarrow> None)
      | EVT_DATA_UPDT \<Rightarrow> Some (ST_ONLINE, s)
      | EVT_UNREG_REQ \<Rightarrow> Some (ST_UNREGISTER, s)
      | EVT_CFG_UPT_OK \<Rightarrow>
          (case user_data of
             UD_NULL \<Rightarrow> do {
               (rc, s) \<leftarrow> op_update_config D [] s;
               Some (if rc \<noteq> 0 then ST_CONFIG else ST_ONLINE, s)
             }
           | UD_configs cs \<Rightarrow> do {
               (rc, s) \<leftarrow> op_update_config D cs s;
               Some (if rc \<noteq> 0 then ST_CONFIG else ST_ONLINE, s)
             }
           | _ \<Rightarrow> None)
      | EVT_OTHER _ \<Rightarrow> Some (ST_ERROR, s)
      | _ \<Rightarrow> Some (ST_ONLINE, s))"

definition enter_online :: "'s device_ops \<Rightarrow> 's \<Rightarrow> 's option" where
  "enter_online D s = Some (snd (op_start_event D (op_publish_data_all D s)))"

definition get_next_unregister :: "'s device_ops \<Rightarrow> EVENTS \<Rightarrow> user_data \<Rightarrow> 's \<Rightarrow> (STATES \<times> 's) option" where
  "get_next_unregister D event user_data s =
     (case event of
        EVT_REG_PERM \<Rightarrow> do {
          s \<leftarrow> op_generate_thing_id D s;
          Some (ST_REGISTER, snd (op_start_read_cloud D s))
        }
      | EVT_OTHER _ \<Rightarrow> Some (ST_ERROR, s)
      | _ \<Rightarrow> Some (ST_UNREGISTER, s))"

definition enter_unregister :: "'s device_ops \<Rightarrow> 's \<Rightarrow> 's option" where
  "enter_unregister D s = map_option snd (op_clear_credentials_on_file D s)"

definition get_next_error :: "'s device_ops \<Rightarrow> EVENTS \<Rightarrow> user_data \<Rightarrow> 's \<Rightarrow> (STATES \<times> 's) option" where
  "get_next_error D event user_data s = Some (ST_ERROR, s)"

definition enter_error :: "'s device_ops \<Rightarrow> 's \<Rightarrow> 's option" where
  "enter_error D s = Some s"

section \<open>The machine\<close>

record 's state =
  enter :: "'s \<Rightarrow> 's option"
  get_next :: "EVENTS \<Rightarrow> user_data \<Rightarrow> 's \<Rightarrow> (STATES \<times> 's) option"

definition sm_create_state :: "('s \<Rightarrow> 's option) \<Rightarrow> (EVENTS \<Rightarrow> user_data \<Rightarrow> 's \<Rightarrow> (STATES \<times> 's) option)
    \<Rightarrow> 's state" where
  "sm_create_state en next = \<lparr>enter = en, get_next = next\<rparr>"

text \<open>The array \<open>states\<close> as \<open>sm_start\<close> fills it.\<close>

fun states :: "'s device_ops \<Rightarrow> STATES \<Rightarrow> 's state" where
  "states D ST_DISCONNECTED = sm_create_state (enter_disconnected D) (get_next_disconnected D)"
| "states D ST_AUTH = sm_create_state (enter_auth D) (get_next_auth D)"
| "states D ST_REGISTER = sm_create_state (enter_register D) (get_next_register D)"
| "states D ST_CONFIG = sm_create_state (enter_config D) (get_next_config D)"
| "states D ST_ONLINE = sm_create_state (enter_online D) (get_next_online D)"
| "states D ST_UNREGISTER = sm_create_state (enter_unregister D) (get_next_unregister D)"
| "states D ST_ERROR = sm_create_state (enter_error D) (get_next_error D)"

definition sm_input_event :: "'s device_ops \<Rightarrow> EVENTS \<Rightarrow> user_data \<Rightarrow> 's sm_st \<Rightarrow> 's sm_st option" where
  "sm_input_event D event user_data m = do {
     cur \<leftarrow> current_state m;
     (next, s) \<leftarrow> get_next (states D cur) event user_data (dev m);
     if next \<noteq> cur then do {
       s \<leftarrow> enter (states D next) s;
       Some (m\<lparr>current_state := Some next, dev := s\<rparr>)
     } else Some (m\<lparr>dev := s\<rparr>)
   }"

definition sm_start :: "'s sm_st \<Rightarrow> 's sm_st" where
  "sm_start m = m\<lparr>current_state := Some ST_DISCONNECTED\<rparr>"

text \<open>A sequence of events; \<open>None\<close> when one of them has undefined behaviour.\<close>

definition sm_run :: "'s device_ops \<Rightarrow> (EVENTS \<times> user_data) list \<Rightarrow> 's sm_st \<Rightarrow> 's sm_st option" where
  "sm_run D = foreach_opt (\<lambda>(ev, ud). sm_input_event D ev ud)"

end
