(* ===== verification/Sm_Spec.thy ===== *)
theory Sm_Spec
  imports Sm "HOL-Library.Sublist"
begin

text \<open>
  The state machine against its specification: a transition relation on states alone, of
  which the machine is a refinement on every device, and, as a locale, what the machine
  relies on in its device together with the invariants that follow.
\<close>

section \<open>The transition relation\<close>

text \<open>The events that make a state change for sure.\<close>

fun leaving :: "STATES \<Rightarrow> EVENTS set" where
  "leaving ST_DISCONNECTED = {EVT_READY}"
| "leaving ST_AUTH = {EVT_NOT_READY, EVT_AUTH_OK, EVT_AUTH_NOT_OK, EVT_UNREG_REQ}"
| "leaving ST_REGISTER = {EVT_NOT_READY, EVT_REG_OK}"
| "leaving ST_CONFIG = {EVT_NOT_READY, EVT_CFG_UPT_OK, EVT_CFG_UPT_NOT_OK, EVT_UNREG_REQ}"
| "leaving ST_ONLINE = {EVT_NOT_READY, EVT_UNREG_REQ}"
| "leaving ST_UNREGISTER = {EVT_REG_PERM}"
| "leaving ST_ERROR = {}"

inductive sm_trans :: "STATES \<Rightarrow> EVENTS \<Rightarrow> STATES \<Rightarrow> bool" where
  ready_auth: "sm_trans ST_DISCONNECTED EVT_READY ST_AUTH"
| ready_register: "sm_trans ST_DISCONNECTED EVT_READY ST_REGISTER"
| lost: "st \<in> {ST_AUTH, ST_REGISTER, ST_CONFIG, ST_ONLINE} \<Longrightarrow> sm_trans st EVT_NOT_READY ST_DISCONNECTED"
| auth_config: "sm_trans ST_AUTH EVT_AUTH_OK ST_CONFIG"
| auth_online: "sm_trans ST_AUTH EVT_AUTH_OK ST_ONLINE"
| auth_refused: "sm_trans ST_AUTH EVT_AUTH_NOT_OK ST_UNREGISTER"
| unregister: "st \<in> {ST_AUTH, ST_CONFIG, ST_ONLINE} \<Longrightarrow> sm_trans st EVT_UNREG_REQ ST_UNREGISTER"
| registered: "sm_trans ST_REGISTER EVT_REG_OK ST_AUTH"
| not_stored: "sm_trans ST_REGISTER EVT_REG_OK ST_ERROR"
| configured: "sm_trans ST_CONFIG EVT_CFG_UPT_OK ST_ONLINE"
| not_configured: "sm_trans ST_CONFIG EVT_CFG_UPT_NOT_OK ST_ERROR"
| reconfigure: "sm_trans ST_ONLINE EVT_CFG_UPT_OK ST_CONFIG"
| permitted: "sm_trans ST_UNREGISTER EVT_REG_PERM ST_REGISTER"
| unexpected: "sm_trans st (EVT_OTHER n) ST_ERROR"
| stay: "ev \<notin> leaving st \<Longrightarrow> (\<And>n. ev \<noteq> EVT_OTHER n) \<Longrightarrow> sm_trans st ev st"

inductive_cases trans_to_onlineE: "sm_trans st ev ST_ONLINE"
inductive_cases trans_from_errorE: "sm_trans ST_ERROR ev st'"
inductive_cases trans_from_unregisterE: "sm_trans ST_UNREGISTER ev st'"

text \<open>The states reached by a sequence of events.\<close>

inductive sm_path :: "STATES \<Rightarrow> EVENTS list \<Rightarrow> STATES \<Rightarrow> bool" where
  start: "sm_path st [] st"
| step: "sm_path st evs st1 \<Longrightarrow> sm_trans st1 ev st2 \<Longrightarrow> sm_path st (evs @ [ev]) st2"

section \<open>Lemmas: refinement\<close>

lemma states_fields [simp]:
  "get_next (sm_create_state en nx) = nx" "enter (sm_create_state en nx) = en"
  by (simp_all add: sm_create_state_def)

lemmas get_next_defs = get_next_disconnected_def get_next_auth_def get_next_register_def
  get_next_config_def get_next_online_def get_next_unregister_def get_next_error_def

lemmas enter_defs = enter_disconnected_def enter_auth_def enter_register_def enter_config_def
  enter_online_def enter_unregister_def enter_error_def

lemma get_next_trans:
  assumes "get_next (states D st) ev ud s = Some (st', s')"
  shows "sm_trans st ev st'"
proof (cases st)
  case ST_DISCONNECTED
  with assms show ?thesis
    by (cases ev) (auto simp: get_next_disconnected_def bind_eq_Some_conv intro: sm_trans.intros split: if_splits)
next
  case ST_AUTH
  with assms show ?thesis
    by (cases ev) (auto simp: get_next_auth_def Let_def intro: sm_trans.intros split: if_splits)
next
  case ST_REGISTER
  with assms show ?thesis
    by (cases ev) (auto simp: get_next_register_def Let_def bind_eq_Some_conv intro: sm_trans.intros
        split: if_splits user_data.splits)
next
  case ST_CONFIG
  with assms show ?thesis
    by (cases ev) (auto simp: get_next_config_def intro: sm_trans.intros)
next
  case ST_ONLINE
  with assms show ?thesis
    by (cases ev) (auto simp: get_next_online_def bind_eq_Some_conv intro: sm_trans.intros
        split: if_splits user_data.splits)
next
  case ST_UNREGISTER
  with assms show ?thesis
    by (cases ev) (auto simp: get_next_unregister_def bind_eq_Some_conv intro: sm_trans.intros)
next
  case ST_ERROR
  with assms show ?thesis
    by (cases ev) (auto simp: get_next_error_def intro: sm_trans.intros)
qed

text \<open>One step of the machine, taken apart.\<close>

lemma sm_input_eventE:
  assumes "sm_input_event D ev ud m = Some m'"
  obtains cur nxt s s' where "current_state m = Some cur" "get_next (states D cur) ev ud (dev m) = Some (nxt, s)"
    "s' = s \<and> nxt = cur \<or> nxt \<noteq> cur \<and> enter (states D nxt) s = Some s'"
    "m' = m\<lparr>current_state := Some nxt, dev := s'\<rparr>"
proof -
  obtain cur nxt s where *: "current_state m = Some cur" "get_next (states D cur) ev ud (dev m) = Some (nxt, s)"
    "(if nxt \<noteq> cur then do { s \<leftarrow> enter (states D nxt) s; Some (m\<lparr>current_state := Some nxt, dev := s\<rparr>) }
      else Some (m\<lparr>dev := s\<rparr>)) = Some m'"
    using assms by (auto simp: sm_input_event_def bind_eq_Some_conv)
  show ?thesis
  proof (cases "nxt = cur")
    case True
    then have "m' = m\<lparr>current_state := Some nxt, dev := s\<rparr>" using * by (cases m) auto
    with * True show ?thesis by (intro that[of cur nxt s s]) auto
  next
    case False
    then obtain s' where "enter (states D nxt) s = Some s'" "m' = m\<lparr>current_state := Some nxt, dev := s'\<rparr>"
      using *(3) by (auto simp: bind_eq_Some_conv)
    with * False show ?thesis by (intro that[of cur nxt s s']) auto
  qed
qed

lemma sm_input_event_refines:
  assumes "sm_input_event D ev ud m = Some m'" "current_state m = Some st"
  shows "\<exists>st'. current_state m' = Some st' \<and> sm_trans st ev st'"
  using assms by (auto elim!: sm_input_eventE dest: get_next_trans)

lemma sm_run_path:
  assumes "sm_run D evs m = Some m'" "current_state m = Some st"
  shows "\<exists>st'. current_state m' = Some st' \<and> sm_path st (map fst evs) st'"
  using assms
proof (induction evs arbitrary: m' rule: rev_induct)
  case Nil
  then show ?case by (auto simp: sm_run_def intro: sm_path.start)
next
  case (snoc e evs)
  obtain ev ud where e: "e = (ev, ud)" by fastforce
  from snoc.prems obtain m1 where m1: "sm_run D evs m = Some m1" "sm_input_event D ev ud m1 = Some m'"
    by (auto simp: sm_run_def foreach_opt_append e bind_eq_Some_conv)
  from snoc.IH[OF m1(1) snoc.prems(2)] obtain st1
    where st1: "current_state m1 = Some st1" "sm_path st (map fst evs) st1" by blast
  from sm_input_event_refines[OF m1(2) st1(1)] show ?case
    using sm_path.step[OF st1(2)] e by auto
qed

text \<open>What the events of a path must contain for a state to be reached from \<open>ST_DISCONNECTED\<close>.\<close>

fun needed :: "STATES \<Rightarrow> EVENTS list" where
  "needed ST_DISCONNECTED = []"
| "needed ST_ERROR = []"
| "needed ST_CONFIG = [EVT_READY, EVT_AUTH_OK]"
| "needed ST_ONLINE = [EVT_READY, EVT_AUTH_OK]"
| "needed st = [EVT_READY]"

lemma subseq_snoc: "subseq xs ys \<Longrightarrow> subseq (xs @ [z]) (ys @ [z])"
  by (simp add: subseq_append_iff) blast

lemma needed_trans:
  assumes "sm_trans st ev st'" "subseq (needed st) evs"
  shows "subseq (needed st') (evs @ [ev])"
proof -
  have keep: "subseq xs (evs @ [ev])" if "subseq xs evs" for xs
    using that by (rule subseq_rev_drop_many)
  have ready: "subseq [EVT_READY] evs" if "subseq [EVT_READY, x] evs" for x
    using that by (meson subseq_Cons' subseq_order.trans list_emb_Nil subseq_Cons2)
  show ?thesis
    using assms keep ready subseq_snoc[of "[EVT_READY]" evs EVT_AUTH_OK] subseq_snoc[of "[]" evs EVT_READY]
    by (cases rule: sm_trans.cases) auto
qed

lemma sm_path_needed: "sm_path ST_DISCONNECTED evs st \<Longrightarrow> subseq (needed st) evs"
proof (induction ST_DISCONNECTED evs st rule: sm_path.induct)
  case start
  then show ?case by simp
next
  case (step evs st1 ev st2)
  then show ?case by (blast intro: needed_trans)
qed

section \<open>What the machine relies on in its device\<close>

text \<open>The views \<open>vs\<close> of the device are the same before and after.\<close>

definition kept :: "('s \<Rightarrow> bool) list \<Rightarrow> 's \<Rightarrow> 's \<Rightarrow> bool" where
  "kept vs s s' \<longleftrightarrow> list_all (\<lambda>v. v s' = v s) vs"

lemma kept_simps [simp]: "kept [] s s' = True" "kept (v # vs) s s' = (v s' = v s \<and> kept vs s s')"
  by (simp_all add: kept_def)

text \<open>The three states in which the machine waits for an answer of the cloud.\<close>

definition waiting :: "STATES \<Rightarrow> bool" where
  "waiting st \<longleftrightarrow> st \<in> {ST_AUTH, ST_REGISTER, ST_CONFIG}"

definition publishing :: "STATES \<Rightarrow> bool" where
  "publishing st \<longleftrightarrow> st \<in> {ST_ONLINE, ST_UNREGISTER, ST_ERROR}"

definition authorized :: "STATES \<Rightarrow> bool" where
  "authorized st \<longleftrightarrow> st \<in> {ST_AUTH, ST_CONFIG, ST_ONLINE}"

text \<open>A token that comes with a registration is not empty.\<close>

fun good_token :: "user_data \<Rightarrow> bool" where
  "good_token (UD_token t) = (t \<noteq> [])"
| "good_token ud = True"

text \<open>
  \<open>timer\<close>: the device has its message timer; \<open>evts\<close>: the event timers of its data items are
  being run; \<open>owned\<close>: no timer is lost. \<open>timers_ok\<close>: creating a timer never fails.
\<close>

locale sm_device =
  fixes D :: "'s device_ops"
    and timer evts owned :: "'s \<Rightarrow> bool"
    and timers_ok :: bool
  assumes generate: "op_generate_thing_id D s = Some s' \<Longrightarrow> kept [timer, op_has_thing_token D, evts, owned] s s'"
    and requests:
      "kept [timer, op_has_thing_token D, evts, owned] s (snd (op_start_read_cloud D s))"
      "kept [timer, op_has_thing_token D, evts, owned] s (snd (op_send_auth_request D s))"
      "kept [timer, op_has_thing_token D, evts, owned] s (snd (op_send_register_request D s))"
      "kept [timer, op_has_thing_token D, evts, owned] s (snd (op_send_config D s))"
    and publish:
      "kept [timer, op_has_thing_token D, evts, owned] s (op_publish_data_list D ids s)"
      "kept [timer, op_has_thing_token D, evts, owned] s (op_publish_data_all D s)"
    and create: "kept [op_has_thing_token D, evts] s (op_msg_timeout_create D n s)"
      "timers_ok \<Longrightarrow> timer (op_msg_timeout_create D n s)"
      "owned s \<Longrightarrow> owned (op_msg_timeout_create D n s)"
    and modify: "kept [timer, op_has_thing_token D, evts, owned] s (op_msg_timeout_modify D n s)"
    and remove: "kept [op_has_thing_token D, evts] s (op_msg_timeout_remove D s)"
      "\<not> timer (op_msg_timeout_remove D s)"
      "owned s \<Longrightarrow> owned (op_msg_timeout_remove D s)"
    and store: "op_store_credentials_on_file D t s = Some (rc, s') \<Longrightarrow> kept [timer, evts, owned] s s'"
      "op_store_credentials_on_file D t s = Some (rc, s') \<Longrightarrow> 0 \<le> rc \<Longrightarrow> t \<noteq> [] \<Longrightarrow> op_has_thing_token D s'"
    and clear: "op_clear_credentials_on_file D s = Some (rc, s') \<Longrightarrow> kept [timer, evts, owned] s s'"
    and start_event: "kept [timer, op_has_thing_token D] s (snd (op_start_event D s))"
      "owned s \<Longrightarrow> \<not> evts s \<Longrightarrow> owned (snd (op_start_event D s))"
    and stop_event: "kept [timer, op_has_thing_token D] s (op_stop_event D s)"
      "owned s \<Longrightarrow> owned (op_stop_event D s)" "\<not> evts (op_stop_event D s)"
    and update_config: "op_update_config D cs s = Some (rc, s') \<Longrightarrow> kept [timer, op_has_thing_token D] s s'"
      "op_update_config D cs s = Some (rc, s') \<Longrightarrow> owned s \<Longrightarrow> owned s'"
      "op_update_config D cs s = Some (rc, s') \<Longrightarrow> rc = 0"
begin

lemmas frame_simps [simp] = requests[unfolded kept_simps] publish[unfolded kept_simps]
  create(1)[unfolded kept_simps] modify[unfolded kept_simps] remove(1)[unfolded kept_simps]
  start_event(1)[unfolded kept_simps] stop_event(1)[unfolded kept_simps] remove(2) stop_event(3)

lemma store_frame:
  "op_store_credentials_on_file D t s = Some (rc, s') \<Longrightarrow> timer s' = timer s \<and> evts s' = evts s \<and>
     owned s' = owned s \<and> (\<not> rc < 0 \<longrightarrow> t \<noteq> [] \<longrightarrow> op_has_thing_token D s')"
  using store(1)[of t s rc s'] store(2)[of t s rc s'] by auto

lemma update_config_frame:
  "op_update_config D cs s = Some (rc, s') \<Longrightarrow> timer s' = timer s \<and>
     op_has_thing_token D s' = op_has_thing_token D s \<and> (owned s \<longrightarrow> owned s') \<and> rc = 0"
  using update_config(1)[of cs s rc s'] update_config(2)[of cs s rc s'] update_config(3)[of cs s rc s'] by simp

lemmas frame_rules = generate[unfolded kept_simps] clear[unfolded kept_simps] store_frame update_config_frame

lemmas get_next_step = get_next_disconnected_def get_next_auth_def get_next_register_def
  get_next_config_def get_next_online_def get_next_unregister_def get_next_error_def
  bind_eq_Some_conv Let_def

text \<open>The message timer is there while the machine waits, and at no other time.\<close>

definition timer_inv :: "STATES \<Rightarrow> 's \<Rightarrow> bool" where
  "timer_inv st s \<longleftrightarrow> (timer s \<longrightarrow> waiting st \<or> st = ST_ERROR) \<and> (timers_ok \<longrightarrow> waiting st \<longrightarrow> timer s)"

definition event_timers_inv :: "STATES \<Rightarrow> 's \<Rightarrow> bool" where
  "event_timers_inv st s \<longleftrightarrow> owned s \<and> (evts s \<longrightarrow> publishing st)"

definition token_inv :: "STATES \<Rightarrow> 's \<Rightarrow> bool" where
  "token_inv st s \<longleftrightarrow> (authorized st \<longrightarrow> op_has_thing_token D s)"


lemma next_timer:
  assumes "get_next (states D st) ev ud s = Some (st', s')" "timer_inv st s"
  shows "if st' = st then timer_inv st s' else st' = ST_ERROR \<or> \<not> timer s'"
  using assms
  by (cases st; cases ev)
     (auto simp: get_next_step timer_inv_def waiting_def dest!: frame_rules
      split: if_splits user_data.splits)

lemma enter_timer:
  assumes "enter (states D st) s = Some s'" "st = ST_ERROR \<or> \<not> timer s"
  shows "timer_inv st s'"
  using assms create(2)
  by (cases st) (auto simp: enter_defs timer_inv_def waiting_def dest!: frame_rules)

lemma step_timer:
  assumes "sm_input_event D ev ud m = Some m'" "current_state m = Some st" "timer_inv st (dev m)"
  shows "\<exists>st'. current_state m' = Some st' \<and> timer_inv st' (dev m')"
  using assms next_timer enter_timer by (fastforce elim!: sm_input_eventE split: if_splits)

lemma next_events:
  assumes "get_next (states D st) ev ud s = Some (st', s')" "event_timers_inv st s" "ev \<noteq> EVT_REG_PERM"
  shows "if st' = st then event_timers_inv st s'
         else owned s' \<and> (evts s' \<longrightarrow> st' \<in> {ST_UNREGISTER, ST_ERROR})"
  using assms
  by (cases st; cases ev)
     (auto simp: get_next_step event_timers_inv_def publishing_def dest!: frame_rules
      intro: stop_event(2) remove(3)
      split: if_splits user_data.splits)

lemma enter_events:
  assumes "enter (states D st) s = Some s'" "owned s \<and> (evts s \<longrightarrow> st \<in> {ST_UNREGISTER, ST_ERROR})"
  shows "event_timers_inv st s'"
  using assms
  by (cases st) (auto simp: enter_defs event_timers_inv_def publishing_def intro: start_event(2) create(3) dest!: frame_rules)

lemma step_events:
  assumes "sm_input_event D ev ud m = Some m'" "current_state m = Some st"
    and "event_timers_inv st (dev m)" "ev \<noteq> EVT_REG_PERM"
  shows "\<exists>st'. current_state m' = Some st' \<and> event_timers_inv st' (dev m')"
  using assms next_events enter_events by (fastforce elim!: sm_input_eventE split: if_splits)

lemma next_token:
  assumes "get_next (states D st) ev ud s = Some (st', s')" "token_inv st s" "good_token ud"
  shows "token_inv st' s'"
  using assms
  by (cases st; cases ev)
     (auto simp: get_next_step token_inv_def authorized_def dest!: frame_rules
      split: if_splits user_data.splits)

lemma enter_token:
  assumes "enter (states D st) s = Some s'" "token_inv st s"
  shows "token_inv st s'"
  using assms
  by (cases st) (auto simp: enter_defs token_inv_def authorized_def)

lemma step_token:
  assumes "sm_input_event D ev ud m = Some m'" "current_state m = Some st" "token_inv st (dev m)" "good_token ud"
  shows "\<exists>st'. current_state m' = Some st' \<and> token_inv st' (dev m')"
  using assms next_token enter_token by (fastforce elim!: sm_input_eventE)

end

end
