(* ===== verification/Device.thy ===== *)
theory Device
  imports Properties Event Poll Sm_Spec
begin

text \<open>
  The operations of \<open>src/src/device.c\<close> that the state machine calls, on the state of the whole
  program: the thing, the components it owns, and the calls made to the cloud library. The
  library \<open>knot-cloud\<close> is outside the repository: each call is entered in a log, and its
  answer is a function of the calls made so far.
\<close>

section \<open>State and environment\<close>

datatype cloud_call =
    Cl_start "string option" "string option"
  | Cl_stop
  | Cl_read_start string
  | Cl_register string string
  | Cl_auth string string
  | Cl_update_config string "knot_msg_config list"
  | Cl_publish string int int knot_value nat

text \<open>
  What the program is run against: the libraries, the kernel, random numbers, and the order in
  which \<open>l_hashmap_foreach\<close> visits the keys of a map.
\<close>

record ('c, 'd) dev_env =
  e_knot :: knot_lib
  e_storage :: "('c, 'd) storage_env"
  e_event :: event_env
  e_modbus :: modbus_env
  e_poll_timeout :: "poll_data to_oracle"
  e_msg_timeout :: "unit to_oracle"
  e_cloud_ret :: "cloud_call list \<Rightarrow> cloud_call \<Rightarrow> int"
  e_random :: "nat \<Rightarrow> 64 word"
  e_order :: "int list \<Rightarrow> int list"
  e_sizeof_value_type :: nat

record ('c, 'd) device_st =
  thing :: knot_thing
  storage :: "('c, 'd) storage_st"
  event :: event_st
  poll :: poll_st
  modbus :: modbus_st
  conn_mask :: "8 word"
  cloud_log :: "cloud_call list"
  msg_log :: "unit to_log"
  randoms :: nat

definition device_init :: "('c, 'd) storage_st \<Rightarrow> ('c, 'd) device_st" where
  "device_init st = \<lparr>thing = thing_init, storage = st, event = event_init, poll = poll_init,
     modbus = modbus_init, conn_mask = 0, cloud_log = [], msg_log = [], randoms = 0\<rparr>"

text \<open>A call to the cloud library.\<close>

definition cloud_do :: "('c, 'd) dev_env \<Rightarrow> cloud_call \<Rightarrow> ('c, 'd) device_st \<Rightarrow> int \<times> ('c, 'd) device_st" where
  "cloud_do E c s = (e_cloud_ret E (cloud_log s) c, s\<lparr>cloud_log := c # cloud_log s\<rparr>)"

text \<open>The data items in the order in which \<open>l_hashmap_foreach\<close> visits them.\<close>

definition items_in_order :: "('c, 'd) dev_env \<Rightarrow> knot_thing \<Rightarrow> knot_data_item list" where
  "items_in_order E th =
     List.map_filter (hm_lookup (data_items th)) (e_order E (map fst (data_items th)))"

definition order_ok :: "('c, 'd) dev_env \<Rightarrow> bool" where
  "order_ok E \<longleftrightarrow> (\<forall>ks. mset (e_order E ks) = mset ks)"

section \<open>Identity and credentials\<close>

definition generate_thing_id :: "('c, 'd) dev_env \<Rightarrow> ('c, 'd) device_st \<Rightarrow> ('c, 'd) device_st option" where
  "generate_thing_id E s =
     map_option (\<lambda>th. s\<lparr>thing := th, randoms := Suc (randoms s)\<rparr>)
       (device_generate_thing_id (e_knot E) (e_random E (randoms s)) (thing s))"

definition device_store_credentials_on_file :: "('c, 'd) dev_env \<Rightarrow> string \<Rightarrow> ('c, 'd) device_st
    \<Rightarrow> (int \<times> ('c, 'd) device_st) option" where
  "device_store_credentials_on_file E tok s = do {
     path \<leftarrow> credentials_path (conf_files (thing s));
     (rc, st) \<leftarrow> properties_store_credentials (e_knot E) (e_storage E) path (thing_id (thing s)) tok (storage s);
     let s = s\<lparr>storage := st\<rparr>
     in Some (if rc < 0 then (-1, s)
              else (0, s\<lparr>thing := (thing s)\<lparr>token := take (TOKEN_LEN (e_knot E)) tok\<rparr>\<rparr>))
   }"

definition device_clear_credentials_on_file :: "('c, 'd) dev_env \<Rightarrow> ('c, 'd) device_st
    \<Rightarrow> (int \<times> ('c, 'd) device_st) option" where
  "device_clear_credentials_on_file E s = do {
     path \<leftarrow> credentials_path (conf_files (thing s));
     (rc, th, st) \<leftarrow> properties_clear_credentials (e_storage E) path (thing s) (storage s);
     Some (rc, s\<lparr>thing := th, storage := st\<rparr>)
   }"

section \<open>Events and configuration\<close>

definition foreach_event_add_data_item :: "('c, 'd) dev_env \<Rightarrow> knot_data_item \<Rightarrow> event_st \<Rightarrow> event_st" where
  "foreach_event_add_data_item E item =
     event_add_data_item (e_knot E) (e_event E) (sensor_id item) (item_event item)"

definition device_start_event :: "('c, 'd) dev_env \<Rightarrow> ('c, 'd) device_st \<Rightarrow> int \<times> ('c, 'd) device_st" where
  "device_start_event E s =
     (let (rc, e) = event_start (e_event E) On_event_timeout (event s) in
      if rc < 0 then (rc, s\<lparr>event := e\<rparr>)
      else (0, s\<lparr>event := fold (foreach_event_add_data_item E) (items_in_order E (thing s)) e\<rparr>))"

definition device_stop_event :: "('c, 'd) device_st \<Rightarrow> ('c, 'd) device_st" where
  "device_stop_event s = s\<lparr>event := event_stop (event s)\<rparr>"

definition foreach_update_config :: "('c, 'd) dev_env \<Rightarrow> knot_msg_config \<Rightarrow> ('c, 'd) device_st
    \<Rightarrow> ('c, 'd) device_st option" where
  "foreach_update_config E config s = do {
     path \<leftarrow> device_path (conf_files (thing s));
     (rc, th, st) \<leftarrow> properties_update_data_item (e_knot E) (e_storage E) path config (thing s) (storage s);
     Some (s\<lparr>thing := th, storage := st\<rparr>)
   }"

definition device_update_config :: "('c, 'd) dev_env \<Rightarrow> knot_msg_config list \<Rightarrow> ('c, 'd) device_st
    \<Rightarrow> (int \<times> ('c, 'd) device_st) option" where
  "device_update_config E config_list s = do {
     s \<leftarrow> foreach_opt (foreach_update_config E) config_list (device_stop_event s);
     Some (0, snd (device_start_event E s))
   }"

definition device_check_schema_change :: "('c, 'd) device_st \<Rightarrow> int" where
  "device_check_schema_change s = 1"

section \<open>Messages to the cloud\<close>

definition device_send_register_request :: "('c, 'd) dev_env \<Rightarrow> ('c, 'd) device_st
    \<Rightarrow> int \<times> ('c, 'd) device_st" where
  "device_send_register_request E s = cloud_do E (Cl_register (thing_id (thing s)) (thing_name (thing s))) s"

definition device_send_auth_request :: "('c, 'd) dev_env \<Rightarrow> ('c, 'd) device_st
    \<Rightarrow> int \<times> ('c, 'd) device_st" where
  "device_send_auth_request E s = cloud_do E (Cl_auth (thing_id (thing s)) (token (thing s))) s"

definition foreach_send_config :: "knot_data_item \<Rightarrow> knot_msg_config list \<Rightarrow> knot_msg_config list" where
  "foreach_send_config item config_queue =
     \<lparr>cfg_sensor_id = sensor_id item, cfg_schema = schema item, cfg_event = item_event item\<rparr> # config_queue"

definition device_send_config :: "('c, 'd) dev_env \<Rightarrow> ('c, 'd) device_st \<Rightarrow> int \<times> ('c, 'd) device_st" where
  "device_send_config E s =
     cloud_do E (Cl_update_config (thing_id (thing s))
       (fold foreach_send_config (items_in_order E (thing s)) [])) s"

definition on_publish_data :: "('c, 'd) dev_env \<Rightarrow> int \<Rightarrow> ('c, 'd) device_st \<Rightarrow> ('c, 'd) device_st" where
  "on_publish_data E sid s =
     (case hm_lookup (data_items (thing s)) sid of
        None \<Rightarrow> s
      | Some item \<Rightarrow>
          snd (cloud_do E (Cl_publish (thing_id (thing s)) (sensor_id item)
                 (sc_value_type (schema item)) (current_val item) (e_sizeof_value_type E)) s))"

definition device_publish_data_list :: "('c, 'd) dev_env \<Rightarrow> int list \<Rightarrow> ('c, 'd) device_st
    \<Rightarrow> ('c, 'd) device_st" where
  "device_publish_data_list E sensor_id_list s = fold (on_publish_data E) sensor_id_list s"

definition foreach_publish_all_data :: "('c, 'd) dev_env \<Rightarrow> knot_data_item \<Rightarrow> ('c, 'd) device_st
    \<Rightarrow> ('c, 'd) device_st" where
  "foreach_publish_all_data E item = on_publish_data E (sensor_id item)"

definition device_publish_data_all :: "('c, 'd) dev_env \<Rightarrow> ('c, 'd) device_st \<Rightarrow> ('c, 'd) device_st" where
  "device_publish_data_all E s = fold (foreach_publish_all_data E) (items_in_order E (thing s)) s"

definition device_start_read_cloud :: "('c, 'd) dev_env \<Rightarrow> ('c, 'd) device_st \<Rightarrow> int \<times> ('c, 'd) device_st" where
  "device_start_read_cloud E s = cloud_do E (Cl_read_start (thing_id (thing s))) s"

section \<open>The message timer\<close>

definition device_msg_timeout_create :: "('c, 'd) dev_env \<Rightarrow> int \<Rightarrow> ('c, 'd) device_st \<Rightarrow> ('c, 'd) device_st" where
  "device_msg_timeout_create E seconds s =
     (if msg_to (thing s) \<noteq> None then s
      else let to = e_msg_timeout E (msg_log s)
           in s\<lparr>thing := (thing s)\<lparr>msg_to := to\<rparr>, msg_log := To_create to seconds () # msg_log s\<rparr>)"

definition device_msg_timeout_modify :: "int \<Rightarrow> ('c, 'd) device_st \<Rightarrow> ('c, 'd) device_st" where
  "device_msg_timeout_modify seconds s =
     s\<lparr>msg_log := To_modify (msg_to (thing s)) seconds # msg_log s\<rparr>"

definition device_msg_timeout_remove :: "('c, 'd) device_st \<Rightarrow> ('c, 'd) device_st" where
  "device_msg_timeout_remove s =
     s\<lparr>msg_log := To_remove (msg_to (thing s)) # msg_log s, thing := (thing s)\<lparr>msg_to := None\<rparr>\<rparr>"

section \<open>The device as the machine sees it\<close>

definition device_interface :: "('c, 'd) dev_env \<Rightarrow> ('c, 'd) device_st device_ops" where
  "device_interface E = \<lparr>
     op_has_thing_token = (\<lambda>s. device_has_thing_token (thing s)),
     op_generate_thing_id = generate_thing_id E,
     op_start_read_cloud = device_start_read_cloud E,
     op_msg_timeout_create = device_msg_timeout_create E,
     op_msg_timeout_modify = device_msg_timeout_modify,
     op_msg_timeout_remove = device_msg_timeout_remove,
     op_check_schema_change = device_check_schema_change,
     op_send_auth_request = device_send_auth_request E,
     op_send_register_request = device_send_register_request E,
     op_send_config = device_send_config E,
     op_store_credentials_on_file = device_store_credentials_on_file E,
     op_clear_credentials_on_file = device_clear_credentials_on_file E,
     op_start_event = device_start_event E,
     op_stop_event = device_stop_event,
     op_update_config = device_update_config E,
     op_publish_data_list = device_publish_data_list E,
     op_publish_data_all = device_publish_data_all E\<rparr>"

section \<open>Views of the device for the machine's contract\<close>

definition has_msg_timer :: "('c, 'd) device_st \<Rightarrow> bool" where
  "has_msg_timer s \<longleftrightarrow> msg_to (thing s) \<noteq> None"

definition runs_events :: "('c, 'd) device_st \<Rightarrow> bool" where
  "runs_events s \<longleftrightarrow> sensor_timeouts (event s) \<noteq> None"

definition timers_owned :: "('c, 'd) device_st \<Rightarrow> bool" where
  "timers_owned s \<longleftrightarrow> event_inv (event s) \<and> pool_owned [msg_to (thing s)] (msg_log s)"

definition msg_timers_ok :: "('c, 'd) dev_env \<Rightarrow> bool" where
  "msg_timers_ok E \<longleftrightarrow> (\<forall>l. e_msg_timeout E l \<noteq> None)"

section \<open>Lemmas\<close>

lemma device_interface_sel [simp]:
  "op_has_thing_token (device_interface E) = (\<lambda>s. device_has_thing_token (thing s))"
  "op_generate_thing_id (device_interface E) = generate_thing_id E"
  "op_start_read_cloud (device_interface E) = device_start_read_cloud E"
  "op_msg_timeout_create (device_interface E) = device_msg_timeout_create E"
  "op_msg_timeout_modify (device_interface E) = device_msg_timeout_modify"
  "op_msg_timeout_remove (device_interface E) = device_msg_timeout_remove"
  "op_check_schema_change (device_interface E) = device_check_schema_change"
  "op_send_auth_request (device_interface E) = device_send_auth_request E"
  "op_send_register_request (device_interface E) = device_send_register_request E"
  "op_send_config (device_interface E) = device_send_config E"
  "op_store_credentials_on_file (device_interface E) = device_store_credentials_on_file E"
  "op_clear_credentials_on_file (device_interface E) = device_clear_credentials_on_file E"
  "op_start_event (device_interface E) = device_start_event E"
  "op_stop_event (device_interface E) = device_stop_event"
  "op_update_config (device_interface E) = device_update_config E"
  "op_publish_data_list (device_interface E) = device_publish_data_list E"
  "op_publish_data_all (device_interface E) = device_publish_data_all E"
  by (simp_all add: device_interface_def)

lemma cloud_do_snd [simp]: "snd (cloud_do E c s) = s\<lparr>cloud_log := c # cloud_log s\<rparr>"
  by (simp add: cloud_do_def)

lemma generate_thing_id_Some:
  "generate_thing_id E s = Some s' \<Longrightarrow>
     \<exists>i. s' = s\<lparr>thing := (thing s)\<lparr>thing_id := i\<rparr>, randoms := Suc (randoms s)\<rparr>"
  by (auto simp: generate_thing_id_def device_generate_thing_id_def Let_def split: if_splits)

lemma store_credentials_Some:
  assumes "device_store_credentials_on_file E tok s = Some (rc, s')"
  shows "\<exists>st. s' = s\<lparr>storage := st\<rparr> \<and> rc = -1 \<or>
    length tok \<le> TOKEN_LEN (e_knot E) \<and> rc = 0 \<and> s' = s\<lparr>storage := st, thing := (thing s)\<lparr>token := tok\<rparr>\<rparr>"
proof -
  obtain path where p: "credentials_path (conf_files (thing s)) = Some path"
    using assms by (auto simp: device_store_credentials_on_file_def bind_eq_Some_conv)
  obtain rc1 st where r: "properties_store_credentials (e_knot E) (e_storage E) path (thing_id (thing s)) tok (storage s)
      = Some (rc1, st)"
    using assms p by (auto simp: device_store_credentials_on_file_def bind_eq_Some_conv)
  have "\<not> rc1 < 0 \<Longrightarrow> length tok \<le> TOKEN_LEN (e_knot E)"
    using r by (auto simp: properties_store_credentials_def split: if_splits)
  then show ?thesis
    using assms p r by (auto simp: device_store_credentials_on_file_def Let_def split: if_splits)
qed

lemma clear_credentials_thing:
  assumes "properties_clear_credentials A f th st = Some (rc, th', st')"
  shows "th' = th \<or> th' = th\<lparr>token := []\<rparr> \<or> th' = th\<lparr>token := [], thing_id := []\<rparr>"
  using assms
  by (auto simp: properties_clear_credentials_def erase_thing_token_def erase_thing_id_def Let_def split_beta
      device_clear_thing_id_def device_clear_thing_token_def bind_eq_Some_conv split: if_splits)

lemma clear_credentials_Some:
  assumes "device_clear_credentials_on_file E s = Some (rc, s')"
  shows "\<exists>st tok i. s' = s\<lparr>thing := (thing s)\<lparr>token := tok, thing_id := i\<rparr>, storage := st\<rparr>"
proof -
  obtain path where p: "credentials_path (conf_files (thing s)) = Some path"
    using assms by (auto simp: device_clear_credentials_on_file_def bind_eq_Some_conv)
  obtain th st where r: "properties_clear_credentials (e_storage E) path (thing s) (storage s) = Some (rc, th, st)"
    "s' = s\<lparr>thing := th, storage := st\<rparr>"
    using assms p by (auto simp: device_clear_credentials_on_file_def bind_eq_Some_conv)
  have "\<exists>tok i. th = (thing s)\<lparr>token := tok, thing_id := i\<rparr>"
  proof -
    have "thing s = (thing s)\<lparr>token := token (thing s), thing_id := thing_id (thing s)\<rparr>" by simp
    moreover have "(thing s)\<lparr>token := []\<rparr> = (thing s)\<lparr>token := [], thing_id := thing_id (thing s)\<rparr>" by simp
    ultimately show ?thesis using clear_credentials_thing[OF r(1)] by metis
  qed
  then show ?thesis using r(2) by auto
qed

lemma update_data_item_thing:
  assumes "properties_update_data_item K A f config th st = Some (rc, th', st')"
  shows "\<exists>its. th' = th\<lparr>data_items := its\<rparr> \<and> map fst its = map fst (data_items th)"
proof -
  have "th' = th \<or> th' = device_update_config_data_item K config th"
    using assms
    by (auto simp: properties_update_data_item_def Let_def split_beta bind_eq_Some_conv split: if_splits option.splits)
  moreover have "\<exists>its. device_update_config_data_item K config th = th\<lparr>data_items := its\<rparr> \<and>
      map fst its = map fst (data_items th)"
    by (auto simp: device_update_config_data_item_def split: option.split intro: exI[of _ "data_items th"])
  ultimately show ?thesis by (auto intro: exI[of _ "data_items th"])
qed

text \<open>
  Applying configuration messages touches the storage and the data items only, and no sensor
  number.
\<close>

lemma foreach_update_config_Some:
  assumes "foreach_update_config E c s = Some s'"
  shows "\<exists>st its. s' = s\<lparr>thing := (thing s)\<lparr>data_items := its\<rparr>, storage := st\<rparr> \<and>
    map fst its = map fst (data_items (thing s))"
proof -
  obtain path rc th st where r: "properties_update_data_item (e_knot E) (e_storage E) path c (thing s) (storage s)
      = Some (rc, th, st)" "s' = s\<lparr>thing := th, storage := st\<rparr>"
    using assms by (auto simp: foreach_update_config_def bind_eq_Some_conv)
  obtain its where "th = (thing s)\<lparr>data_items := its\<rparr>" "map fst its = map fst (data_items (thing s))"
    using update_data_item_thing[OF r(1)] by blast
  with r(2) show ?thesis by blast
qed

lemma foreach_update_config_frame:
  assumes "foreach_opt (foreach_update_config E) cs s = Some s'"
  shows "\<exists>st its. s' = s\<lparr>thing := (thing s)\<lparr>data_items := its\<rparr>, storage := st\<rparr> \<and>
    map fst its = map fst (data_items (thing s))"
proof -
  let ?P = "\<lambda>x. \<exists>st its. x = s\<lparr>thing := (thing s)\<lparr>data_items := its\<rparr>, storage := st\<rparr> \<and>
    map fst its = map fst (data_items (thing s))"
  have "?P s'"
  proof (rule foreach_opt_invariant[of cs ?P, OF _ _ assms])
    show "?P s" by (intro exI[of _ "storage s"] exI[of _ "data_items (thing s)"]) simp
    fix c x x' assume "?P x" "foreach_update_config E c x = Some x'"
    then obtain st its st' its' where x: "x = s\<lparr>thing := (thing s)\<lparr>data_items := its\<rparr>, storage := st\<rparr>"
      "map fst its = map fst (data_items (thing s))"
      "x' = x\<lparr>thing := (thing x)\<lparr>data_items := its'\<rparr>, storage := st'\<rparr>" "map fst its' = map fst (data_items (thing x))"
      using foreach_update_config_Some by blast
    then have "x' = s\<lparr>thing := (thing s)\<lparr>data_items := its'\<rparr>, storage := st'\<rparr>"
      "map fst its' = map fst (data_items (thing s))" by simp_all
    then show "?P x'" by blast
  qed
  then show ?thesis .
qed

lemma fold_publish:
  "\<exists>l. fold (on_publish_data E) ids s = s\<lparr>cloud_log := l @ cloud_log s\<rparr> \<and>
     (\<forall>c \<in> set l. \<exists>i sid vt v n. c = Cl_publish i sid vt v n)"
proof (induction ids arbitrary: s)
  case Nil
  show ?case by (rule exI[of _ "[]"]) simp
next
  case (Cons a ids)
  show ?case
  proof (cases "hm_lookup (data_items (thing s)) a")
    case None
    then show ?thesis using Cons[of s] by (simp add: on_publish_data_def)
  next
    case (Some item)
    let ?c = "Cl_publish (thing_id (thing s)) (sensor_id item) (sc_value_type (schema item)) (current_val item)
      (e_sizeof_value_type E)"
    obtain l where "fold (on_publish_data E) ids (s\<lparr>cloud_log := ?c # cloud_log s\<rparr>)
        = s\<lparr>cloud_log := l @ ?c # cloud_log s\<rparr>" "\<forall>c \<in> set l. \<exists>i sid vt v n. c = Cl_publish i sid vt v n"
      using Cons[of "s\<lparr>cloud_log := ?c # cloud_log s\<rparr>"] by auto
    moreover have "on_publish_data E a s = s\<lparr>cloud_log := ?c # cloud_log s\<rparr>"
      using Some by (simp add: on_publish_data_def)
    ultimately show ?thesis by (intro exI[of _ "l @ [?c]"]) auto
  qed
qed

lemma publish_all_eq:
  "device_publish_data_all E s = fold (on_publish_data E) (map sensor_id (items_in_order E (thing s))) s"
  by (simp add: device_publish_data_all_def foreach_publish_all_data_def[abs_def] fold_map comp_def)

lemma start_event_eq:
  "\<exists>e. snd (device_start_event E s) = s\<lparr>event := e\<rparr>"
  by (auto simp: device_start_event_def split_beta Let_def)

lemma start_event_fields [simp]:
  "thing (snd (device_start_event E s)) = thing s"
  "cloud_log (snd (device_start_event E s)) = cloud_log s"
  "storage (snd (device_start_event E s)) = storage s"
  "msg_log (snd (device_start_event E s)) = msg_log s"
  "poll (snd (device_start_event E s)) = poll s"
  "modbus (snd (device_start_event E s)) = modbus s"
  "conn_mask (snd (device_start_event E s)) = conn_mask s"
  by (simp_all add: device_start_event_def split_beta Let_def)

lemma start_event_owned:
  assumes "event_inv (event s)" "sensor_timeouts (event s) = None"
  shows "event_inv (event (snd (device_start_event E s)))"
proof -
  have none: "\<not> live (ev_log (event s)) t" for t
    using assms by (simp add: event_inv_def pool_owned_def ev_handles_def)
  obtain rc e where r: "event_start (e_event E) On_event_timeout (event s) = (rc, e)" by fastforce
  have e: "ev_log e = ev_log (event s)" using event_start_log[of "e_event E" On_event_timeout "event s"] r by simp
  show ?thesis
  proof (cases "rc < 0")
    case True
    then show ?thesis using r e none by (simp add: device_start_event_def event_inv_def pool_owned_def)
  next
    case False
    then have "sensor_timeouts e = Some []" using r by (auto simp: event_start_def split: if_splits)
    moreover have "pool_owned (ev_handles e) (ev_log e)" using e none by (simp add: pool_owned_def)
    ultimately have "pool_owned (ev_handles (fold (\<lambda>(i, ev). event_add_data_item (e_knot E) (e_event E) i ev) xs e))
        (ev_log (fold (\<lambda>(i, ev). event_add_data_item (e_knot E) (e_event E) i ev) xs e))" for xs
      using evq.add_all_owned[of e "e_knot E" "e_event E" xs] by simp
    from this[of "map (\<lambda>it. (sensor_id it, item_event it)) (items_in_order E (thing s))"] show ?thesis
      using r False
      by (simp add: device_start_event_def event_inv_def fold_map comp_def foreach_event_add_data_item_def[abs_def])
  qed
qed

lemmas device_op_defs = device_start_read_cloud_def device_send_auth_request_def
  device_send_register_request_def device_send_config_def device_msg_timeout_create_def
  device_msg_timeout_modify_def device_msg_timeout_remove_def device_stop_event_def

lemmas view_defs = has_msg_timer_def runs_events_def timers_owned_def device_has_thing_token_def

lemma publish_views:
  "kept [has_msg_timer, \<lambda>s. device_has_thing_token (thing s), runs_events, timers_owned] s
     (fold (on_publish_data E) ids s)"
  using fold_publish[of E ids s] by (auto simp: view_defs)

lemma update_config_views:
  assumes "device_update_config E cs s = Some (rc, s')"
  shows "rc = 0" "has_msg_timer s' = has_msg_timer s" "token (thing s') = token (thing s)"
    "timers_owned s \<Longrightarrow> timers_owned s'"
proof -
  obtain s1 where s1: "foreach_opt (foreach_update_config E) cs (device_stop_event s) = Some s1"
    "rc = 0" "s' = snd (device_start_event E s1)"
    using assms by (auto simp: device_update_config_def bind_eq_Some_conv)
  obtain st its where f: "s1 = (device_stop_event s)\<lparr>thing := (thing s)\<lparr>data_items := its\<rparr>, storage := st\<rparr>"
    using foreach_update_config_frame[OF s1(1)] by (auto simp: device_stop_event_def)
  obtain e where e: "s' = s1\<lparr>event := e\<rparr>" using start_event_eq[of E s1] s1(3) by auto
  show "rc = 0" by (rule s1(2))
  show "has_msg_timer s' = has_msg_timer s" "token (thing s') = token (thing s)"
    using e f by (simp_all add: has_msg_timer_def)
  assume o: "timers_owned s"
  then have "event_inv (event s1)" "sensor_timeouts (event s1) = None"
    using f event_stop_inv by (auto simp: timers_owned_def device_stop_event_def)
  then have "event_inv (event s')" unfolding s1(3) by (rule start_event_owned)
  then show "timers_owned s'" using o e f by (simp add: timers_owned_def device_stop_event_def)
qed

interpretation dev: sm_device "device_interface E" has_msg_timer runs_events timers_owned "msg_timers_ok E"
  for E :: "('c, 'd) dev_env"
proof (unfold_locales, goal_cases)
  case (1 s s')
  then show ?case using generate_thing_id_Some[of E s s'] by (auto simp: view_defs)
next
  case (6 s ids)
  then show ?case using publish_views by (simp add: device_publish_data_list_def del: kept_simps)
next
  case (7 s)
  then show ?case using publish_views by (simp add: publish_all_eq del: kept_simps)
next
  case (15 t s rc s')
  then show ?case using store_credentials_Some[of E t s rc s'] by (auto simp: view_defs)
next
  case (16 t s rc s')
  then show ?case using store_credentials_Some[of E t s rc s'] by (auto simp: view_defs)
next
  case (17 s rc s')
  then show ?case using clear_credentials_Some[of E s rc s'] by (auto simp: view_defs)
next
  case (18 s)
  then show ?case using start_event_eq[of E s] by (auto simp: view_defs)
next
  case (19 s)
  then show ?case using start_event_owned[of s E] by (simp add: view_defs)
next
  case (21 s)
  then show ?case using event_stop_inv by (auto simp: view_defs device_stop_event_def)
next
  case (23 cs s rc s')
  then show ?case using update_config_views[of E cs s rc s'] by (simp add: device_has_thing_token_def)
next
  case (24 cs s rc s')
  then show ?case using update_config_views(4)[of E cs s rc s'] by simp
next
  case (25 cs s rc s')
  then show ?case using update_config_views(1)[of E cs s rc s'] by simp
qed (auto simp: device_op_defs view_defs Let_def msg_timers_ok_def pool_owned_def)

end
