(* ===== verification/Program.thy ===== *)
theory Program
  imports Device
begin

text \<open>
  The handlers of \<open>src/src/device.c\<close>, and starting and destroying the device, on the state of
  the whole program: the device beside the state of the machine. The handlers run one after
  another from the main loop of ELL; which one is next is up to the environment, and the
  relation \<open>prog_step\<close> allows every order.
\<close>

type_synonym ('c, 'd) program = "('c, 'd) device_st sm_st"

section \<open>Access to the components\<close>

definition upd_dev :: "(('c, 'd) device_st \<Rightarrow> ('c, 'd) device_st) \<Rightarrow> ('c, 'd) program \<Rightarrow> ('c, 'd) program" where
  "upd_dev f p = p\<lparr>dev := f (dev p)\<rparr>"

definition upd_event :: "(event_st \<Rightarrow> event_st) \<Rightarrow> ('c, 'd) program \<Rightarrow> ('c, 'd) program" where
  "upd_event f = upd_dev (\<lambda>s. s\<lparr>event := f (event s)\<rparr>)"

definition upd_poll :: "(poll_st \<Rightarrow> poll_st) \<Rightarrow> ('c, 'd) program \<Rightarrow> ('c, 'd) program" where
  "upd_poll f = upd_dev (\<lambda>s. s\<lparr>poll := f (poll s)\<rparr>)"

definition upd_modbus :: "(modbus_st \<Rightarrow> modbus_st) \<Rightarrow> ('c, 'd) program \<Rightarrow> ('c, 'd) program" where
  "upd_modbus f = upd_dev (\<lambda>s. s\<lparr>modbus := f (modbus s)\<rparr>)"

definition upd_thing :: "(knot_thing \<Rightarrow> knot_thing) \<Rightarrow> ('c, 'd) program \<Rightarrow> ('c, 'd) program" where
  "upd_thing f = upd_dev (\<lambda>s. s\<lparr>thing := f (thing s)\<rparr>)"

abbreviation input_event :: "('c, 'd) dev_env \<Rightarrow> EVENTS \<Rightarrow> user_data \<Rightarrow> ('c, 'd) program
    \<Rightarrow> ('c, 'd) program option" where
  "input_event E \<equiv> sm_input_event (device_interface E)"

section \<open>Timers and messages\<close>

definition on_msg_timeout :: "('c, 'd) dev_env \<Rightarrow> ('c, 'd) program \<Rightarrow> ('c, 'd) program option" where
  "on_msg_timeout E p = input_event E EVT_TIMEOUT UD_NULL p"

definition on_event_timeout :: "('c, 'd) dev_env \<Rightarrow> int \<Rightarrow> ('c, 'd) program \<Rightarrow> ('c, 'd) program option" where
  "on_event_timeout E i p = input_event E EVT_PUB_DATA (UD_ids [i]) p"

text \<open>
  A message of the cloud library: its type (\<open>MSG_OTHER\<close> is a number that is no enumerator),
  whether it carries an error, the queue it carries and the token.
\<close>

datatype msg_type =
    UPDATE_MSG
  | REQUEST_MSG
  | REGISTER_MSG
  | UNREGISTER_MSG
  | AUTH_MSG
  | CONFIG_MSG
  | LIST_MSG
  | MSG_TYPES_LENGTH
  | MSG_OTHER int

record knot_cloud_msg =
  msg_kind :: msg_type
  msg_error :: bool
  msg_list :: user_data
  msg_token :: "string option"

definition token_data :: "string option \<Rightarrow> user_data" where
  "token_data t = (case t of None \<Rightarrow> UD_NULL | Some s \<Rightarrow> UD_token s)"

definition on_cloud_receive :: "('c, 'd) dev_env \<Rightarrow> knot_cloud_msg \<Rightarrow> ('c, 'd) program
    \<Rightarrow> ('c, 'd) program option" where
  "on_cloud_receive E msg p =
     (case msg_kind msg of
        UPDATE_MSG \<Rightarrow> if \<not> msg_error msg then input_event E EVT_DATA_UPDT (msg_list msg) p else Some p
      | REQUEST_MSG \<Rightarrow> if \<not> msg_error msg then input_event E EVT_PUB_DATA (msg_list msg) p else Some p
      | REGISTER_MSG \<Rightarrow>
          if msg_error msg then input_event E EVT_REG_NOT_OK UD_NULL p
          else input_event E EVT_REG_OK (token_data (msg_token msg)) p
      | UNREGISTER_MSG \<Rightarrow> if \<not> msg_error msg then input_event E EVT_UNREG_REQ UD_NULL p else Some p
      | AUTH_MSG \<Rightarrow>
          if msg_error msg then input_event E EVT_AUTH_NOT_OK UD_NULL p
          else input_event E EVT_AUTH_OK UD_NULL p
      | CONFIG_MSG \<Rightarrow>
          if msg_error msg then input_event E EVT_CFG_UPT_NOT_OK UD_NULL p
          else input_event E EVT_CFG_UPT_OK (msg_list msg) p
      | _ \<Rightarrow> Some p)"

section \<open>Connections\<close>

datatype CONN_TYPE = MODBUS | CLOUD

fun conn_bits :: "CONN_TYPE \<Rightarrow> 8 word" where
  "conn_bits MODBUS = 0x0F"
| "conn_bits CLOUD = 0xF0"

definition set_conn_bitmask :: "bool \<Rightarrow> 8 word \<Rightarrow> 8 word \<Rightarrow> 8 word" where
  "set_conn_bitmask a b1 b2 = (if a then b1 OR b2 else b1 AND NOT b2)"

abbreviation (input) CONNECTED_MASK :: "8 word" where "CONNECTED_MASK \<equiv> 0xFF"

definition conn_handler :: "('c, 'd) dev_env \<Rightarrow> CONN_TYPE \<Rightarrow> bool \<Rightarrow> ('c, 'd) program
    \<Rightarrow> ('c, 'd) program option" where
  "conn_handler E conn isup p =
     (let p = upd_dev (\<lambda>s. s\<lparr>conn_mask := set_conn_bitmask isup (conn_mask s) (conn_bits conn)\<rparr>) p
      in if conn_mask (dev p) \<noteq> CONNECTED_MASK then input_event E EVT_NOT_READY UD_NULL p
         else input_event E EVT_READY UD_NULL p)"

definition on_cloud_disconnected :: "('c, 'd) dev_env \<Rightarrow> ('c, 'd) program \<Rightarrow> ('c, 'd) program option" where
  "on_cloud_disconnected E p = conn_handler E CLOUD False p"

definition on_cloud_connected :: "('c, 'd) dev_env \<Rightarrow> ('c, 'd) program \<Rightarrow> ('c, 'd) program option" where
  "on_cloud_connected E p = conn_handler E CLOUD True p"

definition on_modbus_disconnected :: "('c, 'd) dev_env \<Rightarrow> ('c, 'd) program \<Rightarrow> ('c, 'd) program option" where
  "on_modbus_disconnected E p = conn_handler E MODBUS False (upd_poll poll_stop p)"

definition on_modbus_connected :: "('c, 'd) dev_env \<Rightarrow> ('c, 'd) program \<Rightarrow> ('c, 'd) program option" where
  "on_modbus_connected E p = conn_handler E MODBUS True (upd_poll poll_start p)"

section \<open>Polling\<close>

definition on_modbus_poll_receive :: "('c, 'd) dev_env \<Rightarrow> int \<Rightarrow> ('c, 'd) program
    \<Rightarrow> (int \<times> ('c, 'd) program) option" where
  "on_modbus_poll_receive E i p =
     (case hm_lookup (data_items (thing (dev p))) i of
        None \<Rightarrow> Some (- EINVAL, p)
      | Some item \<Rightarrow>
          let src = item_source item;
              (rc, val, mb) = iface_modbus_read_data (e_modbus E) (reg_addr src) (bit_offset src)
                 (current_val item) (endianness_type_sensor src) (modbus (dev p));
              p = upd_modbus (\<lambda>_. mb) p;
              p = upd_thing (\<lambda>th. th\<lparr>data_items := hm_modify i (\<lambda>it. it\<lparr>current_val := val\<rparr>) (data_items th)\<rparr>) p
          in if event_check_value (e_knot E) (event (dev p)) (item_event item) val (sent_val item)
                  (sc_value_type (schema item)) > 0
             then do {
               p \<leftarrow> input_event E EVT_PUB_DATA (UD_ids [i])
                 (upd_thing (\<lambda>th. th\<lparr>data_items := hm_modify i (\<lambda>it. it\<lparr>sent_val := val\<rparr>) (data_items th)\<rparr>) p);
               Some (rc, p)
             }
             else Some (rc, p))"

definition foreach_data_item_polling :: "('c, 'd) dev_env \<Rightarrow> knot_data_item \<Rightarrow> int \<times> poll_st
    \<Rightarrow> int \<times> poll_st" where
  "foreach_data_item_polling E item = (\<lambda>(rc, ps).
     let (err, ps) = poll_create (e_poll_timeout E) 1 (sensor_id item) On_modbus_poll_receive ps
     in (if err \<noteq> 0 then -1 else rc, ps))"

definition create_data_item_polling :: "('c, 'd) dev_env \<Rightarrow> ('c, 'd) program \<Rightarrow> int \<times> ('c, 'd) program" where
  "create_data_item_polling E p =
     (let (rc, ps) = fold (foreach_data_item_polling E) (items_in_order E (thing (dev p))) (0, poll (dev p))
      in (rc, upd_poll (\<lambda>_. if rc \<noteq> 0 then poll_destroy ps else ps) p))"

section \<open>Starting and destroying the device\<close>

text \<open>Freed pointers are \<open>None\<close> and the freed map is empty; the handle of the timer stays.\<close>

definition knot_thing_destroy :: "('c, 'd) device_st \<Rightarrow> ('c, 'd) device_st" where
  "knot_thing_destroy s =
     (let th = thing s;
          s = (if msg_to th \<noteq> None then s\<lparr>msg_log := To_remove (msg_to th) # msg_log s\<rparr> else s)
      in s\<lparr>thing := th\<lparr>user_token := None, rabbitmq_url := None,
             thing_slave := (thing_slave th)\<lparr>slave_url := None\<rparr>,
             conf_files := \<lparr>credentials_path = None, device_path = None, cloud_path = None\<rparr>,
             data_items := []\<rparr>\<rparr>)"

definition device_start :: "('c, 'd) dev_env \<Rightarrow> device_settings \<Rightarrow> ('c, 'd) program
    \<Rightarrow> (int \<times> ('c, 'd) program) option" where
  "device_start E conf p = do {
     (rc, th, st) \<leftarrow> properties_create_device (e_knot E) (e_storage E)
       ((thing (dev p))\<lparr>data_items := []\<rparr>) conf (storage (dev p));
     let p = upd_dev (\<lambda>s. s\<lparr>thing := th, storage := st\<rparr>) p in
     if rc \<noteq> 0 then Some (- EINVAL, p)
     else let (err, p) = create_data_item_polling E (sm_start p) in
     if err < 0 then Some (err, upd_dev knot_thing_destroy p)
     else do {
       url \<leftarrow> slave_url (thing_slave (thing (dev p)));
       let (err, mb) = iface_modbus_start (e_modbus E) url (slave_id (thing_slave (thing (dev p))))
             On_modbus_connected On_modbus_disconnected (modbus (dev p));
           p = upd_modbus (\<lambda>_. mb) p in
       if err < 0 then Some (err, upd_dev knot_thing_destroy (upd_poll poll_destroy p))
       else let start = Cl_start (rabbitmq_url (thing (dev p))) (user_token (thing (dev p)));
                err = fst (cloud_do E start (dev p));
                p = upd_dev (\<lambda>s. snd (cloud_do E start s)) p in
       if err < 0
       then Some (err, upd_dev knot_thing_destroy
              (upd_modbus (iface_modbus_stop (e_modbus E)) (upd_poll poll_destroy p)))
       else Some (0, upd_thing (\<lambda>th. th\<lparr>conf_files := conf\<rparr>) p)
     }
   }"

definition device_destroy :: "('c, 'd) dev_env \<Rightarrow> ('c, 'd) program \<Rightarrow> ('c, 'd) program" where
  "device_destroy E p =
     (let p = upd_poll poll_destroy (upd_event event_stop p);
          p = upd_dev (\<lambda>s. snd (cloud_do E Cl_stop s)) p;
          p = upd_modbus (iface_modbus_stop (e_modbus E)) p
      in upd_dev knot_thing_destroy p)"

section \<open>The main loop\<close>

text \<open>The functions registered as callbacks, by name.\<close>

fun run_timeout_cb :: "('c, 'd) dev_env \<Rightarrow> timeout_cb_t \<Rightarrow> int \<Rightarrow> ('c, 'd) program \<Rightarrow> ('c, 'd) program option" where
  "run_timeout_cb E On_event_timeout i p = on_event_timeout E i p"

fun run_read_cb :: "('c, 'd) dev_env \<Rightarrow> poll_read_cb_t \<Rightarrow> int \<Rightarrow> ('c, 'd) program \<Rightarrow> ('c, 'd) program option" where
  "run_read_cb E On_modbus_poll_receive i p = map_option snd (on_modbus_poll_receive E i p)"

fun run_modbus_cb :: "('c, 'd) dev_env \<Rightarrow> modbus_cb \<Rightarrow> ('c, 'd) program \<Rightarrow> ('c, 'd) program option" where
  "run_modbus_cb E On_modbus_connected p = on_modbus_connected E p"
| "run_modbus_cb E On_modbus_disconnected p = on_modbus_disconnected E p"

text \<open>
  One turn of the main loop: a timer that is set expires, the Modbus connection drops, the
  cloud connects, disconnects or delivers a message. A message carries the data its type
  promises.
\<close>

fun msg_ok :: "knot_cloud_msg \<Rightarrow> bool" where
  "msg_ok msg = (case msg_kind msg of
      UPDATE_MSG \<Rightarrow> (case msg_list msg of UD_data l \<Rightarrow> True | _ \<Rightarrow> False)
    | REQUEST_MSG \<Rightarrow> (case msg_list msg of UD_ids l \<Rightarrow> True | _ \<Rightarrow> False)
    | CONFIG_MSG \<Rightarrow> (case msg_list msg of UD_configs l \<Rightarrow> True | _ \<Rightarrow> False)
    | REGISTER_MSG \<Rightarrow> msg_error msg \<or> msg_token msg \<notin> {None, Some []}
    | _ \<Rightarrow> True)"

text \<open>
  What happens to the program in one turn, as its environment sees it: which timer expires and
  whether the reading that a poll makes is to be sent, whether an attempt to connect to the
  slave succeeds, and what the cloud library notifies.
\<close>

datatype stimulus =
    Msg_timer
  | Item_timer
  | Poll_timer bool
  | Modbus_attempt bool
  | Modbus_lost
  | Cloud_up
  | Cloud_down
  | Cloud_msg knot_cloud_msg

definition poll_sends :: "('c, 'd) dev_env \<Rightarrow> int \<Rightarrow> ('c, 'd) program \<Rightarrow> bool" where
  "poll_sends E i p =
     (case hm_lookup (data_items (thing (dev p))) i of
        None \<Rightarrow> False
      | Some item \<Rightarrow>
          let src = item_source item;
              (rc, val, mb) = iface_modbus_read_data (e_modbus E) (reg_addr src) (bit_offset src)
                 (current_val item) (endianness_type_sensor src) (modbus (dev p))
          in event_check_value (e_knot E) (event (dev p)) (item_event item) val (sent_val item)
               (sc_value_type (schema item)) > 0)"

inductive prog_step :: "('c, 'd) dev_env \<Rightarrow> ('c, 'd) program \<Rightarrow> stimulus \<Rightarrow> ('c, 'd) program \<Rightarrow> bool" for E where
  msg_timer: "armed (msg_log (dev p)) t \<noteq> None \<Longrightarrow>
    on_msg_timeout E (upd_dev (\<lambda>s. s\<lparr>msg_log := To_expire t # msg_log s\<rparr>) p) = Some p' \<Longrightarrow>
    prog_step E p Msg_timer p'"
| event_timer: "armed (ev_log (event (dev p))) t \<noteq> None \<Longrightarrow> payload (ev_log (event (dev p))) t = Some data \<Longrightarrow>
    on_sensor_to (run_timeout_cb E) (\<lambda>p. event (dev p)) upd_event t data
      (upd_event (\<lambda>e. e\<lparr>ev_log := To_expire t # ev_log e\<rparr>) p) = Some p' \<Longrightarrow>
    prog_step E p Item_timer p'"
| poll_timer: "armed (poll_log (poll (dev p))) t \<noteq> None \<Longrightarrow> payload (poll_log (poll (dev p))) t = Some pdata \<Longrightarrow>
    on_poll_timeout (run_read_cb E) (\<lambda>p. poll (dev p)) upd_poll t pdata
      (upd_poll (\<lambda>s. s\<lparr>poll_log := To_expire t # poll_log s\<rparr>) p) = Some p' \<Longrightarrow>
    prog_step E p (Poll_timer (poll_active (poll (dev p)) \<and> poll_sends E (pd_id pdata) p)) p'"
| connect_timer: "armed (mb_to_log (modbus (dev p))) t \<noteq> None \<Longrightarrow>
    attempt_connect (e_modbus E) (run_modbus_cb E) (\<lambda>p. modbus (dev p)) upd_modbus t
      (upd_modbus (\<lambda>s. s\<lparr>mb_to_log := To_expire t # mb_to_log s\<rparr>) p) = Some p' \<Longrightarrow>
    prog_step E p (Modbus_attempt (fst (attempt_connect_body (e_modbus E) t
      ((modbus (dev p))\<lparr>mb_to_log := To_expire t # mb_to_log (modbus (dev p))\<rparr>)))) p'"
| modbus_lost: "modbus_io (modbus (dev p)) \<Longrightarrow>
    on_disconnected (run_modbus_cb E) (\<lambda>p. modbus (dev p)) upd_modbus p = Some p' \<Longrightarrow>
    prog_step E p Modbus_lost p'"
| cloud_up: "on_cloud_connected E p = Some p' \<Longrightarrow> prog_step E p Cloud_up p'"
| cloud_down: "on_cloud_disconnected E p = Some p' \<Longrightarrow> prog_step E p Cloud_down p'"
| cloud_msg: "msg_ok msg \<Longrightarrow> on_cloud_receive E msg p = Some p' \<Longrightarrow> prog_step E p (Cloud_msg msg) p'"

text \<open>A run with its stimuli, oldest first, and the states runs lead to.\<close>

inductive prog_run :: "('c, 'd) dev_env \<Rightarrow> ('c, 'd) program \<Rightarrow> stimulus list \<Rightarrow> ('c, 'd) program \<Rightarrow> bool" for E p where
  still: "prog_run E p [] p"
| turn: "prog_run E p ls p' \<Longrightarrow> prog_step E p' l p'' \<Longrightarrow> prog_run E p (ls @ [l]) p''"

inductive prog_reach :: "('c, 'd) dev_env \<Rightarrow> ('c, 'd) program \<Rightarrow> ('c, 'd) program \<Rightarrow> bool" for E where
  here: "prog_reach E p p"
| more: "prog_reach E p p' \<Longrightarrow> prog_step E p' l p'' \<Longrightarrow> prog_reach E p p''"

lemma prog_reach_run: "prog_reach E p p' \<longleftrightarrow> (\<exists>ls. prog_run E p ls p')"
proof
  show "prog_reach E p p' \<Longrightarrow> \<exists>ls. prog_run E p ls p'"
    by (induction rule: prog_reach.induct) (blast intro: prog_run.still prog_run.turn)+
  have "prog_run E p ls p' \<Longrightarrow> prog_reach E p p'" for ls
    by (induction rule: prog_run.induct) (blast intro: prog_reach.intros)+
  then show "\<exists>ls. prog_run E p ls p' \<Longrightarrow> prog_reach E p p'" by blast
qed

end
