(* ===== verification/Storage_Ref.thy ===== *)
theory Storage_Ref
  imports Storage
begin

section \<open>A concrete settings store, for evaluating runs\<close>

text \<open>
  An instance of the library's interface: groups in order, each with its keys, values kept
  with their type; the text of an object is the list of its groups, which take the place of
  bytes. It meets the laws above, and the witnesses of this development evaluate on it. The
  system answers are an argument.
\<close>

datatype sval =
    SString string
  | SInt int
  | SFloat "32 word"
  | SBool bool
  | SInt64 "64 word"
  | SUint "32 word"
  | SUint64 "64 word"

type_synonym ref_group = "string \<times> (string \<times> sval) list"

type_synonym ref_cfg = "ref_group list"

definition ref_find :: "ref_cfg \<Rightarrow> string \<Rightarrow> string \<Rightarrow> sval option" where
  "ref_find c g k = Option.bind (map_of c g) (\<lambda>m. map_of m k)"

definition ref_put :: "ref_cfg \<Rightarrow> string \<Rightarrow> string \<Rightarrow> sval \<Rightarrow> ref_cfg" where
  "ref_put c g k v =
     (if g \<in> set (map fst c)
      then map (\<lambda>(g', m). (g', if g' = g then (k, v) # m else m)) c
      else c @ [(g, [(k, v)])])"

definition ref_remove_key :: "ref_cfg \<Rightarrow> string \<Rightarrow> string \<Rightarrow> ref_cfg option" where
  "ref_remove_key c g k =
     (if ref_find c g k = None then None
      else Some (map (\<lambda>(g', m). (g', if g' = g then filter (\<lambda>(k', _). k' \<noteq> k) m else m)) c))"

fun ref_drop_group :: "string \<Rightarrow> ref_cfg \<Rightarrow> ref_cfg" where
  "ref_drop_group g [] = []"
| "ref_drop_group g ((g', m) # c) = (if g' = g then c else (g', m) # ref_drop_group g c)"

definition ref_env :: "(os_call list \<Rightarrow> os_call \<Rightarrow> int) \<Rightarrow> (ref_cfg, ref_group) storage_env" where
  "ref_env ret = \<lparr>
     l_settings_new = [], l_settings_load = (\<lambda>c d. d), l_settings_to_data = (\<lambda>c. c),
     l_settings_get_groups = map fst,
     l_settings_has_key = (\<lambda>c g k. ref_find c g k \<noteq> None),
     l_settings_remove_group = (\<lambda>c g. if g \<in> set (map fst c) then Some (ref_drop_group g c) else None),
     l_settings_remove_key = ref_remove_key,
     l_settings_get_string = (\<lambda>c g k. case ref_find c g k of Some (SString v) \<Rightarrow> Some v | _ \<Rightarrow> None),
     l_settings_set_string = (\<lambda>c g k v. Some (ref_put c g k (SString v))),
     l_settings_get_int = (\<lambda>c g k. case ref_find c g k of Some (SInt v) \<Rightarrow> Some v | _ \<Rightarrow> None),
     l_settings_set_int = (\<lambda>c g k v. Some (ref_put c g k (SInt v))),
     l_settings_get_float = (\<lambda>c g k. case ref_find c g k of Some (SFloat v) \<Rightarrow> Some v | _ \<Rightarrow> None),
     l_settings_set_float = (\<lambda>c g k v. Some (ref_put c g k (SFloat v))),
     l_settings_get_bool = (\<lambda>c g k. case ref_find c g k of Some (SBool v) \<Rightarrow> Some v | _ \<Rightarrow> None),
     l_settings_set_bool = (\<lambda>c g k v. Some (ref_put c g k (SBool v))),
     l_settings_get_int64 = (\<lambda>c g k. case ref_find c g k of Some (SInt64 v) \<Rightarrow> Some v | _ \<Rightarrow> None),
     l_settings_set_int64 = (\<lambda>c g k v. Some (ref_put c g k (SInt64 v))),
     l_settings_get_uint = (\<lambda>c g k. case ref_find c g k of Some (SUint v) \<Rightarrow> Some v | _ \<Rightarrow> None),
     l_settings_set_uint = (\<lambda>c g k v. Some (ref_put c g k (SUint v))),
     l_settings_get_uint64 = (\<lambda>c g k. case ref_find c g k of Some (SUint64 v) \<Rightarrow> Some v | _ \<Rightarrow> None),
     l_settings_set_uint64 = (\<lambda>c g k v. Some (ref_put c g k (SUint64 v))),
     os_ret = ret, os_errno = (\<lambda>_. 5), os_isreg = (\<lambda>_. False)\<rparr>"

text \<open>A system in which every call succeeds and every opened file gets a new descriptor.\<close>

fun open_calls :: "os_call list \<Rightarrow> nat" where
  "open_calls [] = 0"
| "open_calls (Os_open p # l) = Suc (open_calls l)"
| "open_calls (c # l) = open_calls l"

definition os_works :: "os_call list \<Rightarrow> os_call \<Rightarrow> int" where
  "os_works l c = (case c of Os_open p \<Rightarrow> int (open_calls l + 3) | Os_pwrite fd n \<Rightarrow> int n | _ \<Rightarrow> 0)"

definition storage_init :: "(string \<Rightarrow> 'd list option) \<Rightarrow> ('c, 'd) storage_st" where
  "storage_init fs = \<lparr>storage_list = (\<lambda>_. None), files = fs, fd_table = (\<lambda>_. None), os_log = []\<rparr>"

lemma ref_env_sel [simp]:
  "l_settings_new (ref_env r) = []"
  "l_settings_load (ref_env r) = (\<lambda>c d. d)"
  "l_settings_to_data (ref_env r) = (\<lambda>c. c)"
  "l_settings_get_groups (ref_env r) = map fst"
  "l_settings_has_key (ref_env r) = (\<lambda>c g k. ref_find c g k \<noteq> None)"
  "l_settings_remove_group (ref_env r) = (\<lambda>c g. if g \<in> set (map fst c) then Some (ref_drop_group g c) else None)"
  "l_settings_remove_key (ref_env r) = ref_remove_key"
  "l_settings_get_string (ref_env r) = (\<lambda>c g k. case ref_find c g k of Some (SString v) \<Rightarrow> Some v | _ \<Rightarrow> None)"
  "l_settings_set_string (ref_env r) = (\<lambda>c g k v. Some (ref_put c g k (SString v)))"
  "l_settings_get_int (ref_env r) = (\<lambda>c g k. case ref_find c g k of Some (SInt v) \<Rightarrow> Some v | _ \<Rightarrow> None)"
  "l_settings_set_int (ref_env r) = (\<lambda>c g k v. Some (ref_put c g k (SInt v)))"
  "l_settings_get_float (ref_env r) = (\<lambda>c g k. case ref_find c g k of Some (SFloat v) \<Rightarrow> Some v | _ \<Rightarrow> None)"
  "l_settings_set_float (ref_env r) = (\<lambda>c g k v. Some (ref_put c g k (SFloat v)))"
  "l_settings_get_bool (ref_env r) = (\<lambda>c g k. case ref_find c g k of Some (SBool v) \<Rightarrow> Some v | _ \<Rightarrow> None)"
  "l_settings_set_bool (ref_env r) = (\<lambda>c g k v. Some (ref_put c g k (SBool v)))"
  "l_settings_get_int64 (ref_env r) = (\<lambda>c g k. case ref_find c g k of Some (SInt64 v) \<Rightarrow> Some v | _ \<Rightarrow> None)"
  "l_settings_set_int64 (ref_env r) = (\<lambda>c g k v. Some (ref_put c g k (SInt64 v)))"
  "l_settings_get_uint (ref_env r) = (\<lambda>c g k. case ref_find c g k of Some (SUint v) \<Rightarrow> Some v | _ \<Rightarrow> None)"
  "l_settings_set_uint (ref_env r) = (\<lambda>c g k v. Some (ref_put c g k (SUint v)))"
  "l_settings_get_uint64 (ref_env r) = (\<lambda>c g k. case ref_find c g k of Some (SUint64 v) \<Rightarrow> Some v | _ \<Rightarrow> None)"
  "l_settings_set_uint64 (ref_env r) = (\<lambda>c g k v. Some (ref_put c g k (SUint64 v)))"
  "os_ret (ref_env r) = r"
  "os_errno (ref_env r) = (\<lambda>_. 5)"
  "os_isreg (ref_env r) = (\<lambda>_. False)"
  by (simp_all add: ref_env_def)

lemma ref_find_map:
  "ref_find (map (\<lambda>(g', m). (g', if g' = g then f m else m)) c) g' k =
     (if g' = g then Option.bind (map_of c g) (\<lambda>m. map_of (f m) k) else ref_find c g' k)"
  by (induction c) (auto simp: ref_find_def)

lemma ref_find_put:
  "ref_find (ref_put c g k v) g' k' = (if g' = g \<and> k' = k then Some v else ref_find c g' k')"
proof (cases "g \<in> set (map fst c)")
  case True
  then obtain m where "map_of c g = Some m"
    by (metis map_of_eq_None_iff list.set_map not_Some_eq)
  with True show ?thesis by (simp add: ref_put_def ref_find_map) (simp add: ref_find_def)
next
  case False
  then have "map_of c g = None" by (simp add: map_of_eq_None_iff)
  with False show ?thesis
    by (auto simp: ref_put_def ref_find_def map_add_def split: option.splits)
qed

lemma ref_groups_put: "set (map fst (ref_put c g k v)) = insert g (set (map fst c))"
  by (simp add: ref_put_def comp_def split_beta insert_absorb del: set_map)

lemma map_of_filter_key: "map_of (filter (\<lambda>(k', _). k' \<noteq> k) m) k' = (if k' = k then None else map_of m k')"
  by (induction m) auto

lemma ref_find_remove_key:
  assumes "ref_remove_key c g k = Some c'"
  shows "ref_find c' g' k' = (if g' = g \<and> k' = k then None else ref_find c g' k')"
proof -
  have "c' = map (\<lambda>(g', m). (g', if g' = g then filter (\<lambda>(k', _). k' \<noteq> k) m else m)) c"
    using assms by (simp add: ref_remove_key_def split: if_splits)
  then show ?thesis
    by (cases "map_of c g") (simp_all add: ref_find_map map_of_filter_key, simp_all add: ref_find_def)
qed

lemma ref_groups_remove_key: "ref_remove_key c g k = Some c' \<Longrightarrow> map fst c' = map fst c"
  by (auto simp: ref_remove_key_def split_beta comp_def split: if_splits)

lemma ref_drop_group_groups: "map fst (ref_drop_group g c) = remove1 g (map fst c)"
  by (induction g c rule: ref_drop_group.induct) auto

lemma ref_find_drop_group: "g' \<noteq> g \<Longrightarrow> ref_find (ref_drop_group g c) g' k = ref_find c g' k"
  by (induction g c rule: ref_drop_group.induct) (auto simp: ref_find_def)

lemma ref_env_setters:
  "setter_ok (ref_env r) (l_settings_set_string (ref_env r))"
  "setter_ok (ref_env r) (l_settings_set_int (ref_env r))"
  "setter_ok (ref_env r) (l_settings_set_float (ref_env r))"
  "setter_ok (ref_env r) (l_settings_set_bool (ref_env r))"
  "setter_ok (ref_env r) (l_settings_set_int64 (ref_env r))"
  "setter_ok (ref_env r) (l_settings_set_uint (ref_env r))"
  "setter_ok (ref_env r) (l_settings_set_uint64 (ref_env r))"
  unfolding setter_ok_def same_key_def
  by (auto simp: ref_env_def ref_find_put ref_groups_put simp del: set_map)

lemma ref_has_key_group: "ref_find c g k = Some v \<Longrightarrow> g \<in> set (map fst c)"
  by (auto simp: ref_find_def bind_eq_Some_conv dest: map_of_SomeD intro: rev_image_eqI)

lemma ref_env_settings_ok [simp]: "settings_ok (ref_env r)"
proof -
  have rk: "case l_settings_remove_key (ref_env r) c g k of
        None \<Rightarrow> \<not> l_settings_has_key (ref_env r) c g k
      | Some c' \<Rightarrow> l_settings_has_key (ref_env r) c g k \<and> \<not> l_settings_has_key (ref_env r) c' g k \<and>
          (\<forall>g' k'. (g', k') \<noteq> (g, k) \<longrightarrow> same_key (ref_env r) g' k' c c') \<and>
          l_settings_get_groups (ref_env r) c' = l_settings_get_groups (ref_env r) c" for c g k
  proof (cases "ref_remove_key c g k")
    case None
    then show ?thesis by (simp add: ref_env_def ref_remove_key_def split: if_splits)
  next
    case (Some c')
    with ref_find_remove_key[OF Some] ref_groups_remove_key[OF Some] show ?thesis
      by (auto simp: ref_env_def same_key_def ref_remove_key_def split: if_splits)
  qed
  have rg: "case l_settings_remove_group (ref_env r) c g of
        None \<Rightarrow> g \<notin> set (l_settings_get_groups (ref_env r) c)
      | Some c' \<Rightarrow> l_settings_get_groups (ref_env r) c' = remove1 g (l_settings_get_groups (ref_env r) c) \<and>
          (\<forall>g' k'. g' \<noteq> g \<longrightarrow> same_key (ref_env r) g' k' c c')" for c g
    by (simp add: ref_env_def same_key_def ref_drop_group_groups ref_find_drop_group del: set_map)
  have hk: "l_settings_has_key (ref_env r) c g k \<longrightarrow> g \<in> set (l_settings_get_groups (ref_env r) c)"
    for c g k
    using ref_has_key_group[of c g k] by (auto simp: ref_env_def simp del: set_map)
  have gk: "l_settings_get_string (ref_env r) c g k \<noteq> None \<or> l_settings_get_int (ref_env r) c g k \<noteq> None \<longrightarrow>
      l_settings_has_key (ref_env r) c g k" for c g k
    by (auto split: option.splits)
  have gs: "l_settings_set_string (ref_env r) c g k v = Some c' \<longrightarrow>
      l_settings_get_string (ref_env r) c' g k = Some v" for c g k v c'
    by (auto simp: ref_find_put)
  show ?thesis unfolding settings_ok_def using ref_env_setters[of r] rk rg hk gk gs by blast
qed

lemma ref_env_text_ok [simp]: "settings_text_ok (ref_env r)"
  by (auto simp: settings_text_ok_def ref_env_def dest: in_set_takeD)

lemma ref_env_errno_ok [simp]: "errno_ok (ref_env r)"
  by (simp add: errno_ok_def ref_env_def)

lemma ref_env_full_writes [simp]: "full_writes (ref_env os_works)"
  by (simp add: full_writes_def os_works_def)

end
