(* ===== verification/Properties_Props.thy ===== *)
theory Properties_Props
  imports Properties Storage_Ref
begin

text \<open>
  Properties of \<open>properties.c\<close>: what a thing that was read from its files satisfies, when
  reading it crashes, that credentials are stored and cleared on disk, and what a
  configuration message leaves in the device file.
\<close>

section \<open>Definitions for the statements\<close>

text \<open>The value types that fit a bit offset.\<close>

definition offset_types :: "knot_lib \<Rightarrow> int \<Rightarrow> int set" where
  "offset_types K offs =
     (if offs = 1 then {VALUE_TYPE_BOOL K}
      else if offs \<in> {8, 16, 32} then {VALUE_TYPE_INT K, VALUE_TYPE_UINT K, VALUE_TYPE_FLOAT K}
      else if offs = 64 then {VALUE_TYPE_INT64 K, VALUE_TYPE_UINT64 K, VALUE_TYPE_FLOAT K}
      else {})"

text \<open>The library accepts a schema only with one of its value types.\<close>

definition schema_check_ok :: "knot_lib \<Rightarrow> bool" where
  "schema_check_ok K \<longleftrightarrow> value_types_ok K \<and>
     (\<forall>t v u. knot_schema_is_valid K t v u = 0 \<longrightarrow> v \<in> set (value_types K))"

text \<open>A data item as the loader accepts it, under its key.\<close>

definition item_ok :: "knot_lib \<Rightarrow> int \<times> knot_data_item \<Rightarrow> bool" where
  "item_ok K e = (case e of (k, it) \<Rightarrow> sensor_id it = k \<and>
     sc_name (schema it) \<noteq> [] \<and> length (sc_name (schema it)) < DATA_NAME_LEN K \<and>
     knot_schema_is_valid K (sc_type_id (schema it)) (sc_value_type (schema it)) (sc_unit (schema it)) = 0 \<and>
     knot_event_is_valid K (event_flags (item_event it)) (sc_value_type (schema it))
       (time_sec (item_event it)) (lower_limit (item_event it)) (upper_limit (item_event it)) = 0 \<and>
     sc_value_type (schema it) \<in> offset_types K (bit_offset (item_source it)))"

definition items_ok :: "knot_lib \<Rightarrow> knot_thing \<Rightarrow> bool" where
  "items_ok K th \<longleftrightarrow> hm_wf (data_items th) \<and> list_all (item_ok K) (data_items th)"

text \<open>What the rest of the program relies on in a thing that was read from its files.\<close>

definition thing_ok :: "knot_lib \<Rightarrow> knot_thing \<Rightarrow> bool" where
  "thing_ok K th \<longleftrightarrow> items_ok K th \<and>
     thing_name th \<noteq> [] \<and> length (thing_name th) < DEVICE_NAME_LEN K \<and>
     0 \<le> slave_id (thing_slave th) \<and> slave_id (thing_slave th) \<le> 255 \<and>
     slave_url (thing_slave th) \<notin> {None, Some []} \<and>
     rabbitmq_url th \<notin> {None, Some []} \<and> user_token th \<notin> {None, Some []} \<and>
     length (thing_id th) \<le> UUID_LEN K \<and> length (token th) \<le> TOKEN_LEN K"

text \<open>Configuration files of a thing with one data item, for evaluating runs.\<close>

definition ex_device_conf :: ref_cfg where
  "ex_device_conf =
     [(''KNoTThing'', [(''Name'', SString ''pump''), (''ModbusSlaveId'', SInt 1),
                       (''ModbusURL'', SString ''tcp://127.0.0.1:502'')]),
      (''DataItem_0'', [(''SchemaSensorId'', SInt 4), (''SchemaSensorName'', SString ''flow''),
         (''SchemaValueType'', SInt 1), (''SchemaUnit'', SInt 0), (''SchemaTypeId'', SInt 9),
         (''ModbusRegisterAddress'', SInt 200), (''ModbusTypeEndianness'', SInt 1),
         (''ModbusBitOffset'', SInt 16), (''EventTimeSec'', SInt 30)])]"

definition ex_files :: "string \<Rightarrow> ref_cfg option" where
  "ex_files = [''d'' \<mapsto> ex_device_conf,
     ''c'' \<mapsto> [(''Cloud'', [(''Url'', SString ''amqp://localhost''), (''UserToken'', SString ''u'')])],
     ''k'' \<mapsto> [(''Credentials'', [(''ThingId'', SString []), (''ThingToken'', SString [])])]]"

definition ex_paths :: device_settings where
  "ex_paths = \<lparr>credentials_path = Some ''k'', device_path = Some ''d'', cloud_path = Some ''c''\<rparr>"

definition second_pwrite_fails :: "os_call list \<Rightarrow> os_call \<Rightarrow> int" where
  "second_pwrite_fails l c = (case c of Os_open p \<Rightarrow> 3
     | Os_pwrite fd n \<Rightarrow>
         if length (filter (\<lambda>c. case c of Os_pwrite _ _ \<Rightarrow> True | _ \<Rightarrow> False) l) = 1 then -1 else int n
     | _ \<Rightarrow> 0)"

text \<open>The device file open under descriptor 3.\<close>

definition ex_open_device :: "(ref_cfg, ref_group) storage_st" where
  "ex_open_device = \<lparr>storage_list = [3 \<mapsto> ex_device_conf], files = ex_files, fd_table = [3 \<mapsto> ''d''],
     os_log = [Os_open ''d'']\<rparr>"

section \<open>Lemmas: writers that only add\<close>

text \<open>
  Between two states, the settings object of a descriptor keeps its keys and gains at most
  the group \<open>g\<close>; and its text, or a beginning of it after a short write, is on disk.
\<close>

definition grows :: "('c, 'd) storage_env \<Rightarrow> int \<Rightarrow> string \<Rightarrow> ('c, 'd) storage_st \<Rightarrow> ('c, 'd) storage_st
    \<Rightarrow> bool" where
  "grows A fd g st st' \<longleftrightarrow> fd_table st' = fd_table st \<and>
     (\<forall>c. storage_list st fd = Some c \<longrightarrow> (\<exists>c'. storage_list st' fd = Some c' \<and>
        set (l_settings_get_groups A c') \<subseteq> insert g (set (l_settings_get_groups A c)) \<and>
        (\<forall>g' k. l_settings_has_key A c g' k \<longrightarrow> l_settings_has_key A c' g' k)))"

definition synced :: "('c, 'd) storage_env \<Rightarrow> int \<Rightarrow> ('c, 'd) storage_st \<Rightarrow> bool" where
  "synced A fd st \<longleftrightarrow> (\<exists>p c. fd_table st fd = Some p \<and> storage_list st fd = Some c \<and>
     (\<exists>n. files st p = Some (take n (l_settings_to_data A c))))"

lemma grows_refl [simp]: "grows A fd g st st"
  by (auto simp: grows_def)

lemma grows_trans: "grows A fd g st st' \<Longrightarrow> grows A fd g st' st'' \<Longrightarrow> grows A fd g st st''"
  unfolding grows_def by fastforce

lemma commit_grows:
  assumes "setter_ok A put" "errno_ok A" "storage_list st fd = Some c"
    and "commit A fd (put c g k v) st = (rc, st')"
  shows "grows A fd g st st'" "0 \<le> rc \<Longrightarrow> fd_table st fd \<noteq> None \<Longrightarrow> synced A fd st'"
proof -
  have *: "grows A fd g st st' \<and> (0 \<le> rc \<longrightarrow> fd_table st fd \<noteq> None \<longrightarrow> synced A fd st')"
  proof (cases "put c g k v")
    case None
    then show ?thesis using assms(4) by simp
  next
    case (Some c')
    have st': "storage_list st' = (storage_list st)(fd \<mapsto> c')" "fd_table st' = fd_table st"
      using commit_Some_fields[of A fd c' st] assms(4) Some by simp_all
    have keys: "l_settings_has_key A c g' k' \<Longrightarrow> l_settings_has_key A c' g' k'" for g' k'
      using setter_okD(1)[OF assms(1) Some] setter_okD(2)[OF assms(1) Some, of g' k']
      by (cases "(g', k') = (g, k)") (auto simp: same_key_def)
    have "grows A fd g st st'"
      using st' assms(3) setter_okD(3)[OF assms(1) Some] keys by (auto simp: grows_def)
    moreover have "synced A fd st'" if "0 \<le> rc" "fd_table st fd = Some p" for p
      using commit_Some_flushed(1)[of A fd c' st p] assms(2,4) Some that st' by (auto simp: synced_def)
    ultimately show ?thesis by auto
  qed
  show "grows A fd g st st'" "0 \<le> rc \<Longrightarrow> fd_table st fd \<noteq> None \<Longrightarrow> synced A fd st'"
    using * by blast+
qed

text \<open>One writer: it grows the object; a success with the file open leaves it on disk.\<close>

definition writes_ok :: "('c, 'd) storage_env \<Rightarrow> int \<Rightarrow> string
    \<Rightarrow> (('c, 'd) storage_st \<Rightarrow> int \<times> ('c, 'd) storage_st) \<Rightarrow> bool" where
  "writes_ok A fd g w \<longleftrightarrow> (\<forall>st rc st'. w st = (rc, st') \<longrightarrow> grows A fd g st st' \<and>
     (0 \<le> rc \<longrightarrow> fd_table st fd \<noteq> None \<longrightarrow> synced A fd st'))"

lemma writes_okI:
  assumes "setter_ok A put" "errno_ok A" "0 < e"
    and "\<And>st. w st = (case storage_list st fd of None \<Rightarrow> (- e, st) | Some c \<Rightarrow> commit A fd (put c g k v) st)"
  shows "writes_ok A fd g w"
proof -
  have "grows A fd g st st' \<and> (0 \<le> rc \<longrightarrow> fd_table st fd \<noteq> None \<longrightarrow> synced A fd st')"
    if "w st = (rc, st')" for st rc st'
  proof (cases "storage_list st fd")
    case None
    then show ?thesis using that assms(3,4) by simp
  next
    case (Some c)
    then have "commit A fd (put c g k v) st = (rc, st')" using that assms(4) by simp
    then show ?thesis using commit_grows[OF assms(1,2) Some] by blast
  qed
  then show ?thesis by (simp add: writes_ok_def)
qed

lemma writes_ok_keys:
  assumes "storage_laws A"
  shows "writes_ok A fd g (storage_write_key_string A fd g k s)"
    "writes_ok A fd g (storage_write_key_int A fd g k i)"
    "writes_ok A fd g (storage_write_key_float A fd g k f)"
    "writes_ok A fd g (storage_write_key_bool A fd g k b)"
    "writes_ok A fd g (storage_write_key_int64 A fd g k i64)"
    "writes_ok A fd g (storage_write_key_uint A fd g k u)"
    "writes_ok A fd g (storage_write_key_uint64 A fd g k u64)"
proof -
  have e: "errno_ok A" and s: "settings_ok A" using assms by (simp_all add: storage_laws_def)
  show "writes_ok A fd g (storage_write_key_string A fd g k s)"
    by (rule writes_okI[OF settings_okD(1)[OF s] e, of 5]) (simp_all add: storage_write_key_string_def)
  show "writes_ok A fd g (storage_write_key_int A fd g k i)"
    by (rule writes_okI[OF settings_okD(2)[OF s] e, of 22]) (simp_all add: storage_write_key_int_def)
  show "writes_ok A fd g (storage_write_key_float A fd g k f)"
    by (rule writes_okI[OF settings_okD(3)[OF s] e, of 22]) (simp_all add: storage_write_key_float_def)
  show "writes_ok A fd g (storage_write_key_bool A fd g k b)"
    by (rule writes_okI[OF settings_okD(4)[OF s] e, of 22]) (simp_all add: storage_write_key_bool_def)
  show "writes_ok A fd g (storage_write_key_int64 A fd g k i64)"
    by (rule writes_okI[OF settings_okD(5)[OF s] e, of 22]) (simp_all add: storage_write_key_int64_def)
  show "writes_ok A fd g (storage_write_key_uint A fd g k u)"
    by (rule writes_okI[OF settings_okD(6)[OF s] e, of 22]) (simp_all add: storage_write_key_uint_def)
  show "writes_ok A fd g (storage_write_key_uint64 A fd g k u64)"
    by (rule writes_okI[OF settings_okD(7)[OF s] e, of 22]) (simp_all add: storage_write_key_uint64_def)
qed

lemma writes_ok_if:
  "writes_ok A fd g w \<Longrightarrow> writes_ok A fd g w' \<Longrightarrow> writes_ok A fd g (\<lambda>st. if b then w st else w' st)"
  by (cases b) simp_all

lemma writes_ok_fail: "rc < 0 \<Longrightarrow> writes_ok A fd g (\<lambda>st. (rc, st))"
  by (simp add: writes_ok_def)

lemma writes_ok_seq:
  assumes "writes_ok A fd g w" "writes_ok A fd g w'"
  shows "writes_ok A fd g (\<lambda>st. let (rc, st) = w st in if rc < 0 then (rc, st) else w' st)"
  unfolding writes_ok_def
proof (intro allI impI)
  fix st rc st' assume r: "(let (rc, st) = w st in if rc < 0 then (rc, st) else w' st) = (rc, st')"
  obtain rc1 st1 where 1: "w st = (rc1, st1)" by fastforce
  have g1: "grows A fd g st st1" using assms(1) 1 by (simp add: writes_ok_def)
  then have t: "fd_table st1 = fd_table st" by (simp add: grows_def)
  show "grows A fd g st st' \<and> (0 \<le> rc \<longrightarrow> fd_table st fd \<noteq> None \<longrightarrow> synced A fd st')"
  proof (cases "rc1 < 0")
    case True
    then show ?thesis using r 1 g1 by auto
  next
    case False
    then have "w' st1 = (rc, st')" using r 1 by simp
    then have "grows A fd g st1 st' \<and> (0 \<le> rc \<longrightarrow> fd_table st1 fd \<noteq> None \<longrightarrow> synced A fd st')"
      using assms(2) by (simp add: writes_ok_def)
    then show ?thesis using grows_trans[OF g1] t by simp
  qed
qed

lemma writes_ok_set_limit:
  "storage_laws A \<Longrightarrow> writes_ok A fd g (set_limit K A fd g key vt v)"
  unfolding set_limit_def by (intro writes_ok_if writes_ok_keys writes_ok_fail) simp_all

lemma writes_ok_schema:
  "storage_laws A \<Longrightarrow> writes_ok A fd g (update_schema_data_item A fd g sch)"
  unfolding update_schema_data_item_def by (intro writes_ok_seq writes_ok_keys)

text \<open>An operation that grows the object and keeps it on disk when it succeeds.\<close>

definition keeps_ok :: "('c, 'd) storage_env \<Rightarrow> int \<Rightarrow> string
    \<Rightarrow> (('c, 'd) storage_st \<Rightarrow> int \<times> ('c, 'd) storage_st) \<Rightarrow> bool" where
  "keeps_ok A fd g w \<longleftrightarrow> (\<forall>st rc st'. w st = (rc, st') \<longrightarrow> grows A fd g st st' \<and>
     (0 \<le> rc \<longrightarrow> synced A fd st \<longrightarrow> synced A fd st'))"

lemma keeps_ok_write: "writes_ok A fd g w \<Longrightarrow> keeps_ok A fd g w"
  by (auto simp: writes_ok_def keeps_ok_def synced_def)

lemma keeps_ok_seq:
  assumes "keeps_ok A fd g w" "keeps_ok A fd g w'"
  shows "keeps_ok A fd g (\<lambda>st. let (rc, st) = w st in if rc < 0 then (rc, st) else w' st)"
  unfolding keeps_ok_def
proof (intro allI impI)
  fix st rc st' assume r: "(let (rc, st) = w st in if rc < 0 then (rc, st) else w' st) = (rc, st')"
  obtain rc1 st1 where 1: "w st = (rc1, st1)" by fastforce
  have 2: "grows A fd g st st1 \<and> (0 \<le> rc1 \<longrightarrow> synced A fd st \<longrightarrow> synced A fd st1)"
    using assms(1) 1 by (simp add: keeps_ok_def)
  show "grows A fd g st st' \<and> (0 \<le> rc \<longrightarrow> synced A fd st \<longrightarrow> synced A fd st')"
  proof (cases "rc1 < 0")
    case True
    then show ?thesis using r 1 2 by auto
  next
    case False
    then have "w' st1 = (rc, st')" using r 1 by simp
    then have "grows A fd g st1 st' \<and> (0 \<le> rc \<longrightarrow> synced A fd st1 \<longrightarrow> synced A fd st')"
      using assms(2) by (simp add: keeps_ok_def)
    then show ?thesis using grows_trans[of A fd g st st1 st'] 2 False by simp
  qed
qed

text \<open>The inverted test: without the flag nothing ever happens to the key.\<close>

lemma update_event_key_unset:
  "settings_ok A \<Longrightarrow> update_event_key A fd g key False w st = (0, st)"
  by (cases "storage_list st fd")
     (auto simp: update_event_key_def storage_has_unit_def storage_remove_key_def
      remove_keyD(1)[THEN iffD2])

lemma keeps_ok_event_key:
  "storage_laws A \<Longrightarrow> writes_ok A fd g w \<Longrightarrow> keeps_ok A fd g (update_event_key A fd g key flag w)"
  using keeps_ok_write[of A fd g w] update_event_key_unset[of A fd g key w]
  by (cases flag) (simp_all add: keeps_ok_def storage_laws_def, simp add: update_event_key_def)

lemma keeps_ok_event:
  "storage_laws A \<Longrightarrow> keeps_ok A fd g (update_event_data_item K A fd g vt ev)"
  unfolding update_event_data_item_def
  by (intro keeps_ok_seq keeps_ok_event_key writes_ok_keys writes_ok_set_limit)
     (simp_all add: keeps_ok_def)

lemma update_group_ok:
  assumes "storage_laws A" "update_group K A fd g config st = (has_err, st')"
  shows "grows A fd g st st'" "\<not> has_err \<Longrightarrow> fd_table st fd \<noteq> None \<Longrightarrow> synced A fd st'"
proof -
  let ?ev = "update_event_data_item K A fd g (sc_value_type (cfg_schema config)) (cfg_event config)"
  obtain rc st1 where 1: "update_schema_data_item A fd g (cfg_schema config) st = (rc, st1)" by fastforce
  obtain rc2 st2 where 2: "?ev st1 = (rc2, st2)" by fastforce
  have w: "grows A fd g st st1 \<and> (0 \<le> rc \<longrightarrow> fd_table st fd \<noteq> None \<longrightarrow> synced A fd st1)"
    using writes_ok_schema[OF assms(1), of fd g "cfg_schema config"] 1 by (simp add: writes_ok_def)
  have k: "grows A fd g st1 st2 \<and> (0 \<le> rc2 \<longrightarrow> synced A fd st1 \<longrightarrow> synced A fd st2)"
    using keeps_ok_event[OF assms(1), of fd g K] 2 by (simp add: keeps_ok_def)
  have g: "grows A fd g st st2" using grows_trans w k by blast
  show "grows A fd g st st'" "\<not> has_err \<Longrightarrow> fd_table st fd \<noteq> None \<Longrightarrow> synced A fd st'"
    using assms(2) 1 2 w k g by (auto simp: update_group_def Let_def split: if_splits)
qed

section \<open>Lemmas: bit offsets and the loader\<close>

lemma shl_1_and:
  assumes "shl_1 m = Some a" "shl_1 n = Some b"
  shows "a AND b = 0 \<longleftrightarrow> m \<noteq> n"
proof -
  have ab: "a = push_bit (nat m) 1" "b = push_bit (nat n) 1" "0 \<le> m" "0 \<le> n" "m < 31" "n < 31"
    using assms by (auto simp: shl_1_def split: if_splits)
  have bits: "bit (a AND b) i \<longleftrightarrow> i < 32 \<and> i = nat m \<and> i = nat n" for i
    using ab by (auto simp: bit_simps)
  show ?thesis
  proof (cases "m = n")
    case True
    then have "bit (a AND b) (nat m)" using bits[of "nat m"] ab(3,5) by simp
    then have "a AND b \<noteq> 0" by (metis bit_0_eq bot_apply bot_bool_def)
    then show ?thesis using True by simp
  next
    case False
    then have "\<not> bit (a AND b) i" for i using bits[of i] ab(3,4) by auto
    then have "a AND b = 0" by (intro bit_eqI) (simp only: bit_0_eq bot_apply bot_bool_def)
    then show ?thesis using False by simp
  qed
qed

lemma shl_1_type: "value_types_ok K \<Longrightarrow> t \<in> set (value_types K) \<Longrightarrow> shl_1 t = Some (push_bit (nat t) 1)"
  using value_types_range[of K t] by (simp add: shl_1_def)

lemma value_types_mem:
  "VALUE_TYPE_INT K \<in> set (value_types K)" "VALUE_TYPE_FLOAT K \<in> set (value_types K)"
  "VALUE_TYPE_BOOL K \<in> set (value_types K)" "VALUE_TYPE_INT64 K \<in> set (value_types K)"
  "VALUE_TYPE_UINT K \<in> set (value_types K)" "VALUE_TYPE_UINT64 K \<in> set (value_types K)"
  by (simp_all add: value_types_def)

lemma and_or_zero: "(a :: 32 word) AND (b OR c OR d) = 0 \<longleftrightarrow> a AND b = 0 \<and> a AND c = 0 \<and> a AND d = 0"
  by (simp add: bit.conj_disj_distrib or_eq_0_iff conj_assoc)

lemma valid_bit_offset_eq:
  assumes "value_types_ok K" "vt \<in> set (value_types K)"
  shows "valid_bit_offset K offs vt = Some (if vt \<in> offset_types K offs then 0 else - EINVAL)"
proof -
  define M where "M = (\<lambda>t. push_bit (nat t) (1 :: 32 word))"
  have t: "t \<in> set (value_types K) \<Longrightarrow> shl_1 t = Some (M t)" for t
    unfolding M_def by (rule shl_1_type[OF assms(1)])
  have a: "M vt AND M n = 0 \<longleftrightarrow> vt \<noteq> n" if "n \<in> set (value_types K)" for n
    by (rule shl_1_and[OF t[OF assms(2)] t[OF that]])
  note simps = valid_bit_offset_def offset_types_def t[OF assms(2)] t[OF value_types_mem(1)]
    t[OF value_types_mem(2)] t[OF value_types_mem(3)] t[OF value_types_mem(4)] t[OF value_types_mem(5)]
    t[OF value_types_mem(6)] Option.bind.bind_lunit and_or_zero a[OF value_types_mem(1)]
    a[OF value_types_mem(2)] a[OF value_types_mem(3)] a[OF value_types_mem(4)] a[OF value_types_mem(5)]
    a[OF value_types_mem(6)]
  consider "offs = 1" | "offs \<in> {8, 16, 32}" | "offs = 64" | "offs \<notin> {1, 8, 16, 32, 64}" by blast
  then show ?thesis
    by cases (auto simp only: simps if_True if_False insert_iff empty_iff simp_thms split: if_split)
qed

lemma set_schema_Inr:
  assumes "set_schema K A fd g st = Inr sch"
  shows "sc_name sch \<noteq> []" "length (sc_name sch) < DATA_NAME_LEN K"
    "knot_schema_is_valid K (sc_type_id sch) (sc_value_type sch) (sc_unit sch) = 0"
  using assms by (auto simp: set_schema_def Let_def split: option.splits if_splits)

lemma set_event_Inr:
  "set_event K A fd g sch st = Inr ev \<Longrightarrow>
    knot_event_is_valid K (event_flags ev) (sc_value_type sch) (time_sec ev) (lower_limit ev) (upper_limit ev) = 0"
  by (auto simp: set_event_def Let_def split_beta split: if_splits)

lemma set_source_result:
  assumes "schema_check_ok K" "knot_schema_is_valid K (sc_type_id sch) (sc_value_type sch) (sc_unit sch) = 0"
  shows "set_modbus_source_properties K A fd g sch st \<noteq> None"
    "set_modbus_source_properties K A fd g sch st = Some (Inr (addr, offs, endian)) \<Longrightarrow>
       sc_value_type sch \<in> offset_types K offs"
proof -
  have *: "valid_bit_offset K n (sc_value_type sch)
      = Some (if sc_value_type sch \<in> offset_types K n then 0 else - EINVAL)" for n
    using assms by (intro valid_bit_offset_eq) (auto simp: schema_check_ok_def)
  show "set_modbus_source_properties K A fd g sch st \<noteq> None"
    "set_modbus_source_properties K A fd g sch st = Some (Inr (addr, offs, endian)) \<Longrightarrow>
       sc_value_type sch \<in> offset_types K offs"
    by (auto simp: set_modbus_source_properties_def * split: option.splits if_splits)
qed

lemma set_data_items_loop_ok:
  assumes "schema_check_ok K" "items_ok K th"
  shows "\<exists>rc th'. set_data_items_loop K A fd st gs th = Some (rc, th') \<and> rc \<le> 0 \<and> items_ok K th' \<and>
    (\<exists>its. th' = th\<lparr>data_items := its\<rparr>)"
  using assms(2)
proof (induction gs arbitrary: th)
  case Nil
  then show ?case by (auto intro: exI[of _ "data_items th"])
next
  case (Cons g gs)
  have err: ?case if "set_data_items_loop K A fd st (g # gs) th = Some (- EINVAL, th)"
    using that Cons.prems by (auto intro: exI[of _ "data_items th"])
  show ?case
  proof (cases "set_sensor_id A th fd g st")
    case (Inr sid)
    then have new: "hm_lookup (data_items th) sid = None"
      by (auto simp: set_sensor_id_def device_data_item_lookup_def split: option.splits if_splits)
    show ?thesis
    proof (cases "set_schema K A fd g st")
      case sch: (Inr sch)
      note s = set_schema_Inr[OF sch]
      show ?thesis
      proof (cases "set_event K A fd g sch st")
        case ev: (Inr ev)
        note e = set_event_Inr[OF ev]
        show ?thesis
        proof (cases "set_modbus_source_properties K A fd g sch st")
          case None
          then show ?thesis using set_source_result(1)[OF assms(1) s(3)] by blast
        next
          case src: (Some r)
          show ?thesis
          proof (cases r)
            case (Inl x)
            then show ?thesis using err Inr sch ev src by simp
          next
            case r: (Inr t)
            obtain addr offs endian where t: "t = (addr, offs, endian)" by (cases t) auto
            have o: "sc_value_type sch \<in> offset_types K offs"
              using set_source_result(2)[OF assms(1) s(3)] src r t by blast
            let ?th = "device_set_new_data_item sid sch ev addr offs endian th"
            have "items_ok K ?th"
              using Cons.prems new s e o
              by (auto simp: items_ok_def device_set_new_data_item_def item_ok_def)
                 (simp add: hm_insert_def item_ok_def)
            from Cons.IH[OF this] show ?thesis
              using Inr sch ev src r t by (auto simp: device_set_new_data_item_def)
          qed
        qed
      qed (use err Inr sch in simp)
    qed (use err Inr in simp)
  qed (use err in simp)
qed

section \<open>Lemmas: the stages of the loader\<close>

lemma set_thing_name_result:
  "\<exists>rc th'. set_thing_name K A fd st th = Some (rc, th') \<and>
    (rc < 0 \<longrightarrow> th' = th) \<and>
    (0 \<le> rc \<longrightarrow> (\<exists>n. th' = th\<lparr>thing_name := n\<rparr> \<and> n \<noteq> [] \<and> length n < DEVICE_NAME_LEN K))"
  by (auto simp: set_thing_name_def device_set_thing_name_def split: option.splits)

lemma set_modbus_slave_result:
  assumes "set_modbus_slave_properties A fd st th = (rc, th')"
  shows "rc < 0 \<and> th' = th \<or> rc = 0 \<and> (\<exists>i url. th' = device_set_thing_modbus_slave i url th \<and>
    0 \<le> i \<and> i \<le> 255 \<and> url \<noteq> [])"
  using assms
  by (auto simp: set_modbus_slave_properties_def not_less split: option.splits if_splits)

lemma set_data_items_result:
  assumes "schema_check_ok K" "items_ok K th"
  shows "\<exists>rc th' st'. set_data_items K A fd th st = Some (rc, th', st') \<and> items_ok K th' \<and>
    (\<exists>its. th' = th\<lparr>data_items := its\<rparr>)"
proof -
  obtain gs st1 where g: "get_data_item_groups A fd st = (gs, st1)" by fastforce
  show ?thesis
  proof (cases gs)
    case None
    then show ?thesis
      using g assms(2) by (auto simp: set_data_items_def intro: exI[of _ "data_items th"])
  next
    case (Some l)
    obtain rc th' where "set_data_items_loop K A fd st1 l th = Some (rc, th')" "items_ok K th'"
      "\<exists>its. th' = th\<lparr>data_items := its\<rparr>"
      using set_data_items_loop_ok[OF assms, of A fd st1 l] by blast
    then show ?thesis using g Some by (simp add: set_data_items_def)
  qed
qed

text \<open>The first stage answers if the path fits; on success the device part of the thing is complete.\<close>

lemma set_thing_properties_result:
  assumes "schema_check_ok K" "items_ok K th" "storage_open A f st \<noteq> None"
  shows "\<exists>rc th' st'. set_thing_properties K A f th st = Some (rc, th', st') \<and>
    (0 \<le> rc \<longrightarrow> msg_to th' = msg_to th \<and> items_ok K th' \<and> thing_name th' \<noteq> [] \<and> length (thing_name th') < DEVICE_NAME_LEN K \<and>
       0 \<le> slave_id (thing_slave th') \<and> slave_id (thing_slave th') \<le> 255 \<and>
       slave_url (thing_slave th') \<notin> {None, Some []})"
proof -
  obtain fd st1 where o: "storage_open A f st = Some (fd, st1)" using assms(3) by auto
  obtain rc1 th1 where n: "set_thing_name K A fd st1 th = Some (rc1, th1)"
    "rc1 < 0 \<longrightarrow> th1 = th"
    "0 \<le> rc1 \<longrightarrow> (\<exists>n. th1 = th\<lparr>thing_name := n\<rparr> \<and> n \<noteq> [] \<and> length n < DEVICE_NAME_LEN K)"
    using set_thing_name_result[of K A fd st1 th] by (elim exE conjE) (rule that)
  obtain rc2 th2 where s: "set_modbus_slave_properties A fd st1 th1 = (rc2, th2)" by fastforce
  show ?thesis
  proof (cases "0 \<le> fd \<and> 0 \<le> rc1 \<and> 0 \<le> rc2")
    case False
    then show ?thesis using o n(1) s by (auto simp: set_thing_properties_def not_le)
  next
    case True
    obtain name where th1: "th1 = th\<lparr>thing_name := name\<rparr>" "name \<noteq> []" "length name < DEVICE_NAME_LEN K"
      using n(3) True by blast
    obtain i url where th2: "th2 = th1\<lparr>thing_slave := \<lparr>slave_id = i, slave_url = Some url\<rparr>\<rparr>"
      "0 \<le> i" "i \<le> 255" "url \<noteq> []"
      using set_modbus_slave_result[OF s] True unfolding device_set_thing_modbus_slave_def by auto
    have "items_ok K th2" using assms(2) th1 th2 by (simp add: items_ok_def)
    from set_data_items_result[OF assms(1) this, of A fd st1] obtain rc3 th3 st3 its
      where d: "set_data_items K A fd th2 st1 = Some (rc3, th3, st3)" "items_ok K th3"
        "th3 = th2\<lparr>data_items := its\<rparr>" by blast
    have "set_thing_properties K A f th st = Some (rc3, th3, snd (storage_close A fd st3))"
      using o n(1) s d(1) True by (auto simp: set_thing_properties_def)
    then show ?thesis using d th1 th2 by auto
  qed
qed

lemma set_cloud_properties_result:
  assumes "set_cloud_properties A f th st = Some (rc, th', st')" "0 \<le> rc"
  shows "\<exists>url tok. th' = th\<lparr>rabbitmq_url := Some url, user_token := Some tok\<rparr> \<and> url \<noteq> [] \<and> tok \<noteq> []"
  using assms
  by (auto simp: set_cloud_properties_def Let_def split_beta set_rabbit_mq_url_def set_thing_user_token_def
      device_set_thing_rabbitmq_url_def device_set_thing_user_token_def bind_eq_Some_conv
      split: if_splits option.splits)

lemma set_cloud_properties_None:
  "set_cloud_properties A f th st = None \<longleftrightarrow> storage_open A f st = None"
  by (auto simp: set_cloud_properties_def bind_eq_None_conv split: prod.splits)

lemma set_thing_properties_None:
  assumes "schema_check_ok K" "items_ok K th"
  shows "set_thing_properties K A f th st = None \<longleftrightarrow> storage_open A f st = None"
  using set_thing_properties_result[OF assms, of A f st]
  by (cases "storage_open A f st") (auto simp: set_thing_properties_def)

lemma set_thing_credentials_result:
  "set_thing_credentials K A f th st =
    (case storage_open A f st of None \<Rightarrow> None | Some (fd, st1) \<Rightarrow>
     if fd < 0 then Some (fd, th, st1)
     else case (storage_read_key_string A fd CREDENTIALS_GROUP CREDENTIALS_THING_ID st1,
                storage_read_key_string A fd CREDENTIALS_GROUP CREDENTIALS_THING_TOKEN st1) of
       (Some i, Some tok) \<Rightarrow> Some (0, th\<lparr>thing_id := take (UUID_LEN K) i, token := take (TOKEN_LEN K) tok\<rparr>,
                                 snd (storage_close A fd st1))
     | _ \<Rightarrow> None)"
  by (auto simp: set_thing_credentials_def device_set_thing_credentials_def Let_def split: prod.splits option.splits)

lemma ex_create: "case properties_create_device knot_example (ref_env os_works) thing_init ex_paths (storage_init ex_files)
   of None \<Rightarrow> False | Some (rc, th, st) \<Rightarrow> rc = 0 \<and> map fst (data_items th) = [4]"
  by code_simp

lemma opened_path:
  "errno_ok A \<Longrightarrow> storage_open A p st = Some (fd, st1) \<Longrightarrow> 0 \<le> fd \<Longrightarrow> fd_table st1 fd = Some p"
  using storage_open_success(2) by fastforce

lemma reopened_string:
  assumes "errno_ok A" "storage_open A p st = Some (fd, st1)" "0 \<le> fd" "disk_string A p g k st = Some v"
  shows "storage_read_key_string A fd g k st1 = Some v"
  using storage_open_success(3)[OF assms(1-3)] assms(4)
  by (auto simp: storage_read_key_string_def disk_string_def split: option.splits)

lemma get_data_item_groups_shape:
  assumes "settings_ok A" "storage_list st fd = Some c" "get_data_item_groups A fd st = (Some gs, st')"
  shows "gs = filter is_data_item (l_settings_get_groups A c)"
    and "\<exists>c'. st' = st\<lparr>storage_list := (storage_list st)(fd \<mapsto> c')\<rparr> \<and> l_settings_get_groups A c' = gs \<and>
      (\<forall>g k. is_data_item g \<longrightarrow> same_key A g k c c')"
proof -
  let ?all = "l_settings_get_groups A c"
  obtain c' err where loop: "data_item_groups_loop A ?all c 0 = (c', err)" by fastforce
  have grp: "l_settings_get_groups A c' = filter is_data_item ?all"
    using groups_loop_groups[OF assms(1), of c "[]" ?all 0] loop by simp
  have key: "\<forall>g k. is_data_item g \<longrightarrow> same_key A g k c c'"
    using groups_loop_same_key[OF assms(1), of _ _ c ?all 0] loop by auto
  have st': "st' = st\<lparr>storage_list := (storage_list st)(fd \<mapsto> c')\<rparr>" "gs = l_settings_get_groups A c'"
    using assms(2,3) loop by (auto simp: get_data_item_groups_def Let_def split: if_splits)
  show "gs = filter is_data_item ?all" using st'(2) grp by simp
  show "\<exists>c'. st' = st\<lparr>storage_list := (storage_list st)(fd \<mapsto> c')\<rparr> \<and> l_settings_get_groups A c' = gs \<and>
      (\<forall>g k. is_data_item g \<longrightarrow> same_key A g k c c')"
    using st' key by blast
qed

lemma update_groups_loop_match:
  assumes "\<exists>g \<in> set gs. equal_sensor_id A fd g (cfg_sensor_id config) st"
  shows "\<exists>g \<in> set gs. update_groups_loop K A fd config gs st = update_group K A fd g config st"
  using assms by (induction gs) auto

text \<open>After a successful update of some group only groups of data items are on disk.\<close>

lemma update_leaves_data_items:
  assumes laws: "storage_laws A" and opened: "storage_open A p st = Some (fd, st1)" "0 \<le> fd"
    and d: "files st p = Some d" and g: "is_data_item g"
    and sid: "l_settings_get_int A (l_settings_load A (l_settings_new A) d) g SCHEMA_SENSOR_ID = Some (cfg_sensor_id config)"
    and upd: "properties_update_data_item K A p config th st = Some (0, th', st')"
  shows "\<exists>gs. disk_groups A p st' = Some gs \<and> (\<forall>g \<in> set gs. is_data_item g)"
proof -
  have ok: "settings_ok A" "settings_text_ok A" "errno_ok A" using laws by (simp_all add: storage_laws_def)
  let ?c = "l_settings_load A (l_settings_new A) d"
  have sl: "storage_list st1 fd = Some ?c"
    using storage_open_success(3)[OF ok(3) opened] d by simp
  obtain gs st2 where gg: "get_data_item_groups A fd st1 = (Some gs, st2)"
    using upd opened by (auto simp: properties_update_data_item_def Let_def split: if_splits option.splits prod.splits)
  obtain c2 where c2: "st2 = st1\<lparr>storage_list := (storage_list st1)(fd \<mapsto> c2)\<rparr>" "l_settings_get_groups A c2 = gs"
    "\<forall>g k. is_data_item g \<longrightarrow> same_key A g k ?c c2"
    using get_data_item_groups_shape(2)[OF ok(1) sl gg] by blast
  have gs: "gs = filter is_data_item (l_settings_get_groups A ?c)"
    by (rule get_data_item_groups_shape(1)[OF ok(1) sl gg])
  have "g \<in> set gs" unfolding gs using has_keyD(3)[OF ok(1) has_keyD(2)[OF ok(1) sid]] g by simp
  moreover have "equal_sensor_id A fd g (cfg_sensor_id config) st2"
    using c2(1) c2(3)[rule_format, OF g, of SCHEMA_SENSOR_ID] sid
    by (simp add: equal_sensor_id_def storage_read_key_int_def read_value_def read_result_def same_key_def)
  ultimately obtain h where h: "h \<in> set gs"
    "update_groups_loop K A fd config gs st2 = update_group K A fd h config st2"
    using update_groups_loop_match[of gs A fd config st2 K] by blast
  obtain he st3 where u: "update_group K A fd h config st2 = (he, st3)" by fastforce
  have st': "\<not> he" "st' = snd (storage_close A fd st3)"
    using upd opened gg h(2) u by (auto simp: properties_update_data_item_def split: if_splits)
  have t2: "fd_table st2 fd = Some p" using opened_path[OF ok(3) opened] c2(1) by simp
  obtain c3 where c3: "storage_list st3 fd = Some c3" "set (l_settings_get_groups A c3) \<subseteq> insert h (set gs)"
    using update_group_ok(1)[OF laws u] c2 by (auto simp: grows_def)
  obtain n where "files st3 p = Some (take n (l_settings_to_data A c3))"
    using update_group_ok(2)[OF laws u st'(1)] t2 c3(1) update_group_ok(1)[OF laws u]
    by (auto simp: synced_def grows_def)
  then have "\<exists>gs'. disk_groups A p st' = Some gs' \<and> set gs' \<subseteq> set (l_settings_get_groups A c3)"
    using ok(2) by (simp add: st'(2) disk_groups_def settings_text_ok_def)
  moreover have "\<forall>x \<in> set (l_settings_get_groups A c3). is_data_item x"
    using c3(2) h(1) unfolding gs by auto
  ultimately show ?thesis by blast
qed

lemma store_credentials_disk:
  assumes "storage_laws A" "full_writes A" "properties_store_credentials K A f i tok st = Some (rc, st')" "0 \<le> rc"
  shows "disk_string A f CREDENTIALS_GROUP CREDENTIALS_THING_TOKEN st' = Some tok"
    "disk_string A f CREDENTIALS_GROUP CREDENTIALS_THING_ID st' = Some i" "length tok \<le> TOKEN_LEN K"
proof -
  have e: "errno_ok A" using assms(1) by (simp add: storage_laws_def)
  obtain fd st1 where o: "storage_open A f st = Some (fd, st1)" "length tok \<le> TOKEN_LEN K"
    using assms(3,4) by (auto simp: properties_store_credentials_def bind_eq_Some_conv split: if_splits)
  obtain rc1 st2 where w1: "storage_write_key_string A fd CREDENTIALS_GROUP CREDENTIALS_THING_TOKEN tok st1 = (rc1, st2)"
    by fastforce
  obtain rc2 st3 where w2: "storage_write_key_string A fd CREDENTIALS_GROUP CREDENTIALS_THING_ID i st2 = (rc2, st3)"
    by fastforce
  have ok: "0 \<le> fd" "0 \<le> rc1" "0 \<le> rc2" "st' = snd (storage_close A fd st3)"
    using assms(3,4) o w1 w2
    by (auto simp: properties_store_credentials_def Let_def split_beta split: if_splits)
  show "disk_string A f CREDENTIALS_GROUP CREDENTIALS_THING_TOKEN st' = Some tok"
    "disk_string A f CREDENTIALS_GROUP CREDENTIALS_THING_ID st' = Some i"
    using sto.two_writes_on_disk[OF assms(1,2) opened_path[OF e o(1) ok(1)] _ w1 ok(2) w2 ok(3)]
    by (simp_all add: ok(4))
  show "length tok \<le> TOKEN_LEN K" by (rule o(2))
qed

text \<open>Creating the device stops where one of its three stages stops.\<close>

lemma create_device_None:
  assumes "device_path conf = Some dp" "cloud_path conf = Some cp" "credentials_path conf = Some kp"
  shows "properties_create_device K A th conf st = None \<longleftrightarrow>
    set_thing_properties K A dp th st = None \<or>
    (\<exists>rc1 th1 st1. set_thing_properties K A dp th st = Some (rc1, th1, st1) \<and> 0 \<le> rc1 \<and>
      (set_cloud_properties A cp th1 st1 = None \<or>
       (\<exists>rc2 th2 st2. set_cloud_properties A cp th1 st1 = Some (rc2, th2, st2) \<and> 0 \<le> rc2 \<and>
         set_thing_credentials K A kp th2 st2 = None)))"
proof (cases "set_thing_properties K A dp th st")
  case None
  then show ?thesis by (simp add: properties_create_device_def assms)
next
  case (Some t)
  obtain rc1 th1 st1 where t: "t = (rc1, th1, st1)" by (cases t)
  show ?thesis
  proof (cases "set_cloud_properties A cp th1 st1")
    case None
    then show ?thesis using Some t by (simp add: properties_create_device_def assms not_less)
  next
    case cloud: (Some u)
    obtain rc2 th2 st2 where "u = (rc2, th2, st2)" by (cases u)
    then show ?thesis using Some t cloud
      by (cases "set_thing_credentials K A kp th2 st2")
         (auto simp: properties_create_device_def assms not_less split: prod.splits)
  qed
qed

lemma create_device_ok:
  assumes "schema_check_ok K" "data_items th = []"
    and "properties_create_device K A th conf st = Some (rc, th', st')" "0 \<le> rc"
  shows "rc = 0 \<and> thing_ok K th' \<and> msg_to th' = msg_to th"
proof -
  have "items_ok K th" using assms(2) by (simp add: items_ok_def hm_wf_def)
  obtain dp rc1 th1 st1 where 1: "device_path conf = Some dp" "set_thing_properties K A dp th st = Some (rc1, th1, st1)"
    using assms(3) by (auto simp: properties_create_device_def bind_eq_Some_conv)
  have rc1: "0 \<le> rc1"
    using assms(3,4) 1 by (auto simp: properties_create_device_def split: if_splits)
  obtain cp rc2 th2 st2 where 2: "cloud_path conf = Some cp" "set_cloud_properties A cp th1 st1 = Some (rc2, th2, st2)"
    using assms(3) 1 rc1 by (auto simp: properties_create_device_def bind_eq_Some_conv)
  have rc2: "0 \<le> rc2"
    using assms(3,4) 1 rc1 2 by (auto simp: properties_create_device_def split: if_splits)
  obtain kp rc3 where 3: "credentials_path conf = Some kp"
    "set_thing_credentials K A kp th2 st2 = Some (rc3, th', st')" "rc = (if rc3 < 0 then rc3 else 0)"
    using assms(3) 1 rc1 2 rc2 by (auto simp: properties_create_device_def bind_eq_Some_conv)
  have rc3: "\<not> rc3 < 0" using 3(3) assms(4) by (auto split: if_splits)
  obtain i tok where th': "th' = th2\<lparr>thing_id := take (UUID_LEN K) i, token := take (TOKEN_LEN K) tok\<rparr>"
    using 3(2) rc3 unfolding set_thing_credentials_result
    by (auto simp: Let_def split: prod.splits if_splits option.splits)
  have "storage_open A dp st \<noteq> None"
    using 1(2) set_thing_properties_None[OF assms(1) \<open>items_ok K th\<close>, of A dp st] by simp
  from set_thing_properties_result[OF assms(1) \<open>items_ok K th\<close> this] show ?thesis
    using 1(2) rc1 set_cloud_properties_result[OF 2(2) rc2] rc3 3(3) th'
    by (auto simp: thing_ok_def items_ok_def)
qed

section \<open>Properties\<close>

text \<open>
  (C38) The bit offset test accepts exactly the pairs of offset and value type of the table, for
  every value type of the protocol, and never shifts out of range.
\<close>

theorem valid_bit_offset_table:
  assumes "value_types_ok K" "vt \<in> set (value_types K)"
  shows "valid_bit_offset K offs vt = Some (if vt \<in> offset_types K offs then 0 else - EINVAL)"
  by (rule valid_bit_offset_eq[OF assms])

theorem valid_bit_offset_table_witness:
  "valid_bit_offset knot_example 64 2 = Some 0 \<and> valid_bit_offset knot_example 1 2 = Some (-22)"
  using valid_bit_offset_table[of knot_example 2 64] valid_bit_offset_table[of knot_example 2 1]
  by (simp add: value_types_def offset_types_def)

text \<open>
  (C14) A thing that was read with success is complete: its name fits, the Modbus address and slave
  number, the cloud address and the user token are there and in range, and its data items have
  pairwise different sensor numbers, are stored under them, and have a schema, an event and a
  bit offset that were found valid.
\<close>

theorem properties_create_device_valid:
  assumes "schema_check_ok K" "data_items th = []"
    and "properties_create_device K A th conf st = Some (rc, th', st')" "0 \<le> rc"
  shows "rc = 0 \<and> thing_ok K th'"
  using create_device_ok[OF assms] by simp

theorem properties_create_device_valid_witness:
  "\<exists>th st'. properties_create_device knot_example (ref_env os_works) thing_init ex_paths
      (storage_init ex_files) = Some (0, th, st') \<and> thing_ok knot_example th"
proof -
  obtain rc th st' where r: "properties_create_device knot_example (ref_env os_works) thing_init ex_paths
      (storage_init ex_files) = Some (rc, th, st')" "rc = 0"
    using ex_create by (auto split: option.splits)
  have "schema_check_ok knot_example"
    by (auto simp: schema_check_ok_def value_types_def split: if_splits)
  then show ?thesis using properties_create_device_valid[OF _ _ r(1)] r by (simp add: thing_init_def)
qed

text \<open>
  (C15) Reading the thing has two undefined behaviours and no other: a path overflows the array of
  \<open>make_dirs\<close>, which takes a path longer than \<open>PATH_MAX\<close>; or the credentials file opens but
  lacks the identifier or the token, and a \<open>NULL\<close> pointer is handed to \<open>strncpy\<close>. No
  configuration makes the program overflow the name or shift out of range.
\<close>

theorem properties_create_device_crash:
  assumes "schema_check_ok K" "data_items th = []"
    and "device_path conf = Some dp" "cloud_path conf = Some cp" "credentials_path conf = Some kp"
  shows "(properties_create_device K A th conf st = None \<longleftrightarrow>
    storage_open A dp st = None \<or>
    (\<exists>rc1 th1 st1. set_thing_properties K A dp th st = Some (rc1, th1, st1) \<and> 0 \<le> rc1 \<and>
      (storage_open A cp st1 = None \<or>
       (\<exists>rc2 th2 st2. set_cloud_properties A cp th1 st1 = Some (rc2, th2, st2) \<and> 0 \<le> rc2 \<and>
         (storage_open A kp st2 = None \<or>
          (\<exists>fd st3. storage_open A kp st2 = Some (fd, st3) \<and> 0 \<le> fd \<and>
            (storage_read_key_string A fd CREDENTIALS_GROUP CREDENTIALS_THING_ID st3 = None \<or>
             storage_read_key_string A fd CREDENTIALS_GROUP CREDENTIALS_THING_TOKEN st3 = None)))))))
    \<and> (\<forall>path s. length path \<le> PATH_MAX \<longrightarrow> storage_open A path s \<noteq> None)"
proof
  have items: "items_ok K th" using assms(2) by (simp add: items_ok_def hm_wf_def)
  have cred: "set_thing_credentials K A kp th2 st2 = None \<longleftrightarrow> storage_open A kp st2 = None \<or>
      (\<exists>fd st3. storage_open A kp st2 = Some (fd, st3) \<and> 0 \<le> fd \<and>
        (storage_read_key_string A fd CREDENTIALS_GROUP CREDENTIALS_THING_ID st3 = None \<or>
         storage_read_key_string A fd CREDENTIALS_GROUP CREDENTIALS_THING_TOKEN st3 = None))" for th2 st2
    by (auto simp: set_thing_credentials_result split: option.splits)
  show "properties_create_device K A th conf st = None \<longleftrightarrow>
    storage_open A dp st = None \<or>
    (\<exists>rc1 th1 st1. set_thing_properties K A dp th st = Some (rc1, th1, st1) \<and> 0 \<le> rc1 \<and>
      (storage_open A cp st1 = None \<or>
       (\<exists>rc2 th2 st2. set_cloud_properties A cp th1 st1 = Some (rc2, th2, st2) \<and> 0 \<le> rc2 \<and>
         (storage_open A kp st2 = None \<or>
          (\<exists>fd st3. storage_open A kp st2 = Some (fd, st3) \<and> 0 \<le> fd \<and>
            (storage_read_key_string A fd CREDENTIALS_GROUP CREDENTIALS_THING_ID st3 = None \<or>
             storage_read_key_string A fd CREDENTIALS_GROUP CREDENTIALS_THING_TOKEN st3 = None))))))"
    unfolding create_device_None[OF assms(3-5)] cred set_thing_properties_None[OF assms(1) items]
      set_cloud_properties_None ..
  show "\<forall>path s. length path \<le> PATH_MAX \<longrightarrow> storage_open A path s \<noteq> None"
    using storage_open_fits by blast
qed

theorem properties_create_device_crash_witness:
  "properties_create_device knot_example (ref_env os_works) thing_init ex_paths
     (storage_init (ex_files(''k'' := None))) = None"
proof -
  let ?A = "ref_env os_works" and ?st = "storage_init (ex_files(''k'' := None))"
  have ok: "schema_check_ok knot_example"
    by (auto simp: schema_check_ok_def value_types_def split: if_splits)
  have "case set_thing_properties knot_example ?A ''d'' thing_init ?st of None \<Rightarrow> False
    | Some (rc1, th1, st1) \<Rightarrow> 0 \<le> rc1 \<and>
      (case set_cloud_properties ?A ''c'' th1 st1 of None \<Rightarrow> False
       | Some (rc2, th2, st2) \<Rightarrow> 0 \<le> rc2 \<and>
         (case storage_open ?A ''k'' st2 of None \<Rightarrow> False
          | Some (fd, st3) \<Rightarrow> 0 \<le> fd \<and> storage_read_key_string ?A fd ''Credentials'' ''ThingId'' st3 = None))"
    by code_simp
  note run = this
  obtain rc1 th1 st1 where 1: "set_thing_properties knot_example ?A ''d'' thing_init ?st = Some (rc1, th1, st1)" "0 \<le> rc1"
    using run by (auto split: option.splits)
  obtain rc2 th2 st2 where 2: "set_cloud_properties ?A ''c'' th1 st1 = Some (rc2, th2, st2)" "0 \<le> rc2"
    using run 1 by (auto split: option.splits)
  obtain fd st3 where 3: "storage_open ?A ''k'' st2 = Some (fd, st3)" "0 \<le> fd"
    "storage_read_key_string ?A fd ''Credentials'' ''ThingId'' st3 = None"
    using run 1 2 by (auto split: option.splits)
  have "data_items thing_init = []" "device_path ex_paths = Some ''d''" "cloud_path ex_paths = Some ''c''"
    "credentials_path ex_paths = Some ''k''"
    by (simp_all add: thing_init_def ex_paths_def)
  from properties_create_device_crash[OF ok this, of ?A ?st] 1 2 3 show ?thesis by blast
qed

text \<open>
  (C16) Credentials stored with success, no write being short, are on disk, and reading the
  credentials file again gives the identifier (cut to the length of the array) and the whole
  token.
\<close>

theorem properties_store_credentials_roundtrip:
  assumes "storage_laws A" "full_writes A"
    and "properties_store_credentials K A f i tok st = Some (rc, st')" "0 \<le> rc"
    and "set_thing_credentials K A f th st' = Some (rc2, th', st'')" "0 \<le> rc2"
  shows "disk_string A f CREDENTIALS_GROUP CREDENTIALS_THING_TOKEN st' = Some tok \<and>
    disk_string A f CREDENTIALS_GROUP CREDENTIALS_THING_ID st' = Some i \<and>
    token th' = tok \<and> thing_id th' = take (UUID_LEN K) i"
proof -
  have e: "errno_ok A" using assms(1) by (simp add: storage_laws_def)
  note d = store_credentials_disk[OF assms(1-4)]
  obtain fd2 st4 where o2: "storage_open A f st' = Some (fd2, st4)" "0 \<le> fd2"
    using assms(5,6) by (auto simp: set_thing_credentials_result split: option.splits if_splits)
  have "th' = th\<lparr>thing_id := take (UUID_LEN K) i, token := take (TOKEN_LEN K) tok\<rparr>"
    using assms(5) o2 reopened_string[OF e o2 d(1)] reopened_string[OF e o2 d(2)]
    by (simp add: set_thing_credentials_result)
  then show ?thesis using d by simp
qed

theorem properties_store_credentials_roundtrip_witness:
  "\<exists>st' th' st''. properties_store_credentials knot_example (ref_env os_works) ''k'' ''ab01'' ''t0k''
      (storage_init ex_files) = Some (0, st') \<and>
    set_thing_credentials knot_example (ref_env os_works) ''k'' thing_init st' = Some (0, th', st'') \<and>
    token th' = ''t0k'' \<and> thing_id th' = ''ab01''"
proof -
  let ?A = "ref_env os_works"
  have run: "case properties_store_credentials knot_example ?A ''k'' ''ab01'' ''t0k'' (storage_init ex_files) of
     None \<Rightarrow> False
   | Some (rc, st') \<Rightarrow> rc = 0 \<and> (case set_thing_credentials knot_example ?A ''k'' thing_init st' of
       None \<Rightarrow> False | Some (rc2, _, _) \<Rightarrow> rc2 = 0)"
    by code_simp
  then obtain st' th' st'' where s: "properties_store_credentials knot_example ?A ''k'' ''ab01'' ''t0k''
      (storage_init ex_files) = Some (0, st')"
    "set_thing_credentials knot_example ?A ''k'' thing_init st' = Some (0, th', st'')"
    by (auto split: option.splits)
  have "storage_laws ?A" by (simp add: storage_laws_def)
  from properties_store_credentials_roundtrip[OF this ref_env_full_writes s(1) _ s(2)] show ?thesis
    using s by simp
qed

text \<open>
  (C17) When the token was written and the identifier cannot be, \<open>-EINVAL\<close> is reported, whatever
  happens next. The token is then written again, empty; the result of that write is not
  looked at. If it succeeds and is not short, the token on disk is empty; if it fails, the
  file is empty or still the one with the token.
\<close>

theorem properties_store_credentials_rollback:
  assumes "storage_laws A" "length tok \<le> TOKEN_LEN K" "storage_open A f st = Some (fd, st1)" "0 \<le> fd"
    and "storage_write_key_string A fd CREDENTIALS_GROUP CREDENTIALS_THING_TOKEN tok st1 = (rc1, st2)" "0 \<le> rc1"
    and "storage_write_key_string A fd CREDENTIALS_GROUP CREDENTIALS_THING_ID i st2 = (rc2, st3)" "rc2 < 0"
  shows "\<exists>rc3 st4 st'.
    storage_write_key_string A fd CREDENTIALS_GROUP CREDENTIALS_THING_TOKEN [] st3 = (rc3, st4) \<and>
    properties_store_credentials K A f i tok st = Some (- EINVAL, st') \<and> files st' = files st4 \<and>
    (0 \<le> rc3 \<longrightarrow> full_writes A \<longrightarrow>
       disk_string A f CREDENTIALS_GROUP CREDENTIALS_THING_TOKEN st' = Some []) \<and>
    (rc3 < 0 \<longrightarrow> files st' f = Some [] \<or> files st' f = files st2 f)"
proof -
  have e: "errno_ok A" using assms(1) by (simp add: storage_laws_def)
  obtain rc3 st4 where w3: "storage_write_key_string A fd CREDENTIALS_GROUP CREDENTIALS_THING_TOKEN [] st3 = (rc3, st4)"
    by fastforce
  have p: "fd_table st3 fd = Some f"
    using opened_path[OF e assms(3,4)] sto.path_kept[OF assms(5)] sto.path_kept[OF assms(7)] by simp
  have ok: "disk_string A f CREDENTIALS_GROUP CREDENTIALS_THING_TOKEN st4 = Some []" if "0 \<le> rc3" "full_writes A"
    by (rule sto.overwrite_on_disk[OF assms(1) that(2) p w3 that(1)])
  have left: "files st4 f = Some [] \<or> files st4 f = files st2 f" if "rc3 < 0"
    using write_string_error_files[OF e w3 that, of f] write_string_error_files[OF e assms(7,8), of f] by auto
  have "properties_store_credentials K A f i tok st = Some (- EINVAL, snd (storage_close A fd st4))"
    using assms(2-8) w3 by (simp add: properties_store_credentials_def Let_def)
  then show ?thesis using w3 ok left by simp
qed

theorem properties_store_credentials_rollback_witness:
  "\<exists>st'. properties_store_credentials knot_example (ref_env second_pwrite_fails) ''k'' ''ab01'' ''t0k''
      (storage_init ex_files) = Some (- 22, st') \<and>
    disk_string (ref_env second_pwrite_fails) ''k'' ''Credentials'' ''ThingToken'' st' = Some []"
proof -
  let ?A = "ref_env second_pwrite_fails"
  have run: "case storage_open ?A ''k'' (storage_init ex_files) of None \<Rightarrow> False | Some (fd, st1) \<Rightarrow>
    (case storage_write_key_string ?A fd ''Credentials'' ''ThingToken'' ''t0k'' st1 of (rc1, st2) \<Rightarrow>
    (case storage_write_key_string ?A fd ''Credentials'' ''ThingId'' ''ab01'' st2 of (rc2, st3) \<Rightarrow>
      0 \<le> fd \<and> 0 \<le> rc1 \<and> rc2 < 0 \<and>
      0 \<le> fst (storage_write_key_string ?A fd ''Credentials'' ''ThingToken'' [] st3)))"
    by code_simp
  then obtain fd st1 where o: "storage_open ?A ''k'' (storage_init ex_files) = Some (fd, st1)"
    by (auto split: option.splits)
  obtain rc1 st2 where w1: "storage_write_key_string ?A fd ''Credentials'' ''ThingToken'' ''t0k'' st1 = (rc1, st2)"
    by fastforce
  obtain rc2 st3 where w2: "storage_write_key_string ?A fd ''Credentials'' ''ThingId'' ''ab01'' st2 = (rc2, st3)"
    by fastforce
  have r: "0 \<le> fd" "0 \<le> rc1" "rc2 < 0"
    "0 \<le> fst (storage_write_key_string ?A fd ''Credentials'' ''ThingToken'' [] st3)"
    using run o w1 w2 by simp_all
  have "storage_laws ?A" "full_writes ?A" "length ''t0k'' \<le> TOKEN_LEN knot_example"
    by (simp_all add: storage_laws_def full_writes_def second_pwrite_fails_def)
  then show ?thesis
    using properties_store_credentials_rollback[OF _ _ o r(1) w1 r(2) w2 r(3), of knot_example] r(4) by auto
qed

text \<open>
  (C18) Clearing the credentials: on success the token and the identifier are empty in the thing
  and, no write being short, on disk; on an error the identifier of the thing is untouched,
  and its token is either untouched or cleared.
\<close>

theorem properties_clear_credentials_spec:
  assumes "storage_laws A" "properties_clear_credentials A f th st = Some (rc, th', st')"
  shows "if 0 \<le> rc
    then th' = th\<lparr>token := [], thing_id := []\<rparr> \<and>
      (full_writes A \<longrightarrow>
        disk_string A f CREDENTIALS_GROUP CREDENTIALS_THING_TOKEN st' = Some [] \<and>
        disk_string A f CREDENTIALS_GROUP CREDENTIALS_THING_ID st' = Some [])
    else th' = th \<or> th' = th\<lparr>token := []\<rparr>"
proof -
  have e: "errno_ok A" using assms(1) by (simp add: storage_laws_def)
  obtain fd st1 where o: "storage_open A f st = Some (fd, st1)"
    using assms(2) by (auto simp: properties_clear_credentials_def bind_eq_Some_conv)
  obtain rc1 st2 where w1: "storage_write_key_string A fd CREDENTIALS_GROUP CREDENTIALS_THING_TOKEN [] st1 = (rc1, st2)"
    by fastforce
  obtain rc2 st3 where w2: "storage_write_key_string A fd CREDENTIALS_GROUP CREDENTIALS_THING_ID [] st2 = (rc2, st3)"
    by fastforce
  note defs = properties_clear_credentials_def erase_thing_token_def erase_thing_id_def
    device_clear_thing_token_def device_clear_thing_id_def
  show ?thesis
  proof (cases "0 \<le> fd \<and> 0 \<le> rc1 \<and> 0 \<le> rc2")
    case True
    have "full_writes A \<Longrightarrow> disk_string A f CREDENTIALS_GROUP CREDENTIALS_THING_TOKEN st3 = Some []"
      "full_writes A \<Longrightarrow> disk_string A f CREDENTIALS_GROUP CREDENTIALS_THING_ID st3 = Some []"
      using True sto.two_writes_on_disk[OF assms(1) _ opened_path[OF e o] _ w1 _ w2] by simp_all
    then show ?thesis using True assms(2) o w1 w2 by (auto simp: defs)
  next
    case False
    then show ?thesis using assms(2) o w1 w2 by (auto simp: defs split: if_splits)
  qed
qed

theorem properties_clear_credentials_spec_witness:
  "\<exists>th' st'. properties_clear_credentials (ref_env os_works) ''k'' (thing_init\<lparr>token := ''t'', thing_id := ''i''\<rparr>)
      (storage_init ex_files) = Some (0, th', st') \<and> token th' = [] \<and> thing_id th' = [] \<and>
    disk_string (ref_env os_works) ''k'' ''Credentials'' ''ThingToken'' st' = Some []"
proof -
  let ?A = "ref_env os_works" and ?th = "thing_init\<lparr>token := ''t'', thing_id := ''i''\<rparr>"
  have "case properties_clear_credentials ?A ''k'' ?th (storage_init ex_files) of
    None \<Rightarrow> False | Some (rc, _, _) \<Rightarrow> rc = 0" by code_simp
  then obtain th' st' where r: "properties_clear_credentials ?A ''k'' ?th (storage_init ex_files) = Some (0, th', st')"
    by (auto split: option.splits)
  then show ?thesis
    using properties_clear_credentials_spec[OF _ r] by (simp add: storage_laws_def)
qed

text \<open>
  (C20) Writing an event never removes a key: whatever key the group had before, flag or no flag,
  it still has afterwards, and an event without flags changes nothing at all. The keys of an
  event that was switched off stay in the file.
\<close>

theorem update_event_never_removes:
  assumes "storage_laws A" "update_event_data_item K A fd g vt ev st = (rc, st')"
    and "storage_has_unit A fd g' k st"
  shows "storage_has_unit A fd g' k st' \<and>
    (event_flags ev = 0 \<longrightarrow> rc = 0 \<and> st' = st)"
proof
  have "grows A fd g st st'"
    using keeps_ok_event[OF assms(1), of fd g K vt ev] assms(2) by (simp add: keeps_ok_def)
  then show "storage_has_unit A fd g' k st'"
    using assms(3) by (auto simp: grows_def storage_has_unit_def split: option.splits)
  have "settings_ok A" using assms(1) by (simp add: storage_laws_def)
  then show "event_flags ev = 0 \<longrightarrow> rc = 0 \<and> st' = st"
    using assms(2) by (auto simp: update_event_data_item_def update_event_key_unset)
qed

theorem update_event_never_removes_witness:
  "\<exists>rc st'. update_event_data_item knot_example (ref_env os_works) 3 ''DataItem_0'' 1
      \<lparr>event_flags = 8, time_sec = 0, lower_limit = 0, upper_limit = 0\<rparr> ex_open_device = (rc, st') \<and>
    storage_has_unit (ref_env os_works) 3 ''DataItem_0'' ''EventTimeSec'' st'"
proof -
  let ?ev = "\<lparr>event_flags = 8, time_sec = 0, lower_limit = 0, upper_limit = 0\<rparr>"
  obtain rc st' where u: "update_event_data_item knot_example (ref_env os_works) 3 ''DataItem_0'' 1 ?ev
      ex_open_device = (rc, st')" by fastforce
  have "storage_has_unit (ref_env os_works) 3 ''DataItem_0'' ''EventTimeSec'' ex_open_device" by code_simp
  then show ?thesis
    using update_event_never_removes[OF _ u] u by (simp add: storage_laws_def)
qed

text \<open>
  (C19) A configuration message that was written to the device file makes the file unusable: the
  group of the thing is no longer in it, so the next start of the program fails to read the
  thing, whatever the file had before and however much of it a short write left (for a path
  of at most \<open>PATH_MAX\<close> characters).
\<close>

theorem properties_update_data_item_loses_thing:
  assumes "storage_laws A" "length p \<le> PATH_MAX" "storage_open A p st = Some (fd, st1)" "0 \<le> fd"
    and "files st p = Some d" "is_data_item g"
    and "l_settings_get_int A (l_settings_load A (l_settings_new A) d) g SCHEMA_SENSOR_ID = Some (cfg_sensor_id config)"
    and "properties_update_data_item K A p config th st = Some (0, th', st')"
  shows "\<exists>rc st''. set_thing_properties K A p th0 st' = Some (rc, th0, st'') \<and> rc < 0"
proof -
  have ok: "settings_ok A" "errno_ok A" using assms(1) by (simp_all add: storage_laws_def)
  obtain gs where gs: "disk_groups A p st' = Some gs" "\<forall>g \<in> set gs. is_data_item g"
    using update_leaves_data_items[OF assms(1,3-8)] by blast
  obtain d' where d': "files st' p = Some d'" "gs = l_settings_get_groups A (l_settings_load A (l_settings_new A) d')"
    using gs(1) by (auto simp: disk_groups_def)
  have "THING_GROUP \<notin> set gs" using gs(2) by auto
  then have none: "l_settings_get_string A (l_settings_load A (l_settings_new A) d') THING_GROUP THING_NAME = None"
    using has_keyD(1,3)[OF ok(1)] d'(2) by (metis not_Some_eq)
  obtain fd2 st2 where o2: "storage_open A p st' = Some (fd2, st2)"
    using storage_open_fits[OF assms(2), of A st'] by auto
  show ?thesis
  proof (cases "fd2 < 0")
    case True
    then show ?thesis using o2 by (simp add: set_thing_properties_def)
  next
    case False
    then have "storage_read_key_string A fd2 THING_GROUP THING_NAME st2 = None"
      using storage_open_success(3)[OF ok(2) o2] d'(1) none by (simp add: storage_read_key_string_def)
    then show ?thesis using o2 False by (simp add: set_thing_properties_def set_thing_name_def)
  qed
qed

theorem properties_update_data_item_loses_thing_witness:
  "\<exists>th' st' rc st''. properties_update_data_item knot_example (ref_env os_works) ''d'' ex_config thing_init
      (storage_init ex_files) = Some (0, th', st') \<and>
    set_thing_properties knot_example (ref_env os_works) ''d'' thing_init st' = Some (rc, thing_init, st'') \<and> rc < 0"
proof -
  let ?A = "ref_env os_works" and ?st = "storage_init ex_files"
  have "case storage_open ?A ''d'' ?st of None \<Rightarrow> False | Some (fd, _) \<Rightarrow> 0 \<le> fd" by code_simp
  then obtain fd st1 where o: "storage_open ?A ''d'' ?st = Some (fd, st1)" and fd: "0 \<le> fd"
    by (auto split: option.splits)
  have "case properties_update_data_item knot_example ?A ''d'' ex_config thing_init ?st of
      None \<Rightarrow> False | Some (rc, _, _) \<Rightarrow> rc = 0" by code_simp
  then obtain th' st' where u: "properties_update_data_item knot_example ?A ''d'' ex_config thing_init ?st = Some (0, th', st')"
    by (auto split: option.splits)
  have sid: "l_settings_get_int ?A (l_settings_load ?A (l_settings_new ?A) ex_device_conf) ''DataItem_0'' ''SchemaSensorId''
      = Some (cfg_sensor_id ex_config)" by code_simp
  have "files ?st ''d'' = Some ex_device_conf" by (simp add: storage_init_def ex_files_def)
  from properties_update_data_item_loses_thing[OF _ _ o fd this _ sid u, of thing_init] u
  show ?thesis by (auto simp: storage_laws_def)
qed

end
