(* ===== verification/Sm_Props.thy ===== *)
theory Sm_Props
  imports Device Properties_Props
begin

text \<open>
  Properties of the state machine, of every device where they need none of it, otherwise of the
  device of this repository: the transitions, the states that cannot be left, what must
  happen before the machine is online, the message timer, the timers of the data items, the
  token, and the messages sent on the way from a connection to the online state.
\<close>

section \<open>Definitions for the statements and the witnesses\<close>

text \<open>An event comes with the data its handlers expect.\<close>

fun well_typed :: "EVENTS \<Rightarrow> user_data \<Rightarrow> bool" where
  "well_typed EVT_REG_OK ud = (case ud of UD_token t \<Rightarrow> True | _ \<Rightarrow> False)"
| "well_typed EVT_PUB_DATA ud = (case ud of UD_NULL \<Rightarrow> True | UD_ids l \<Rightarrow> True | _ \<Rightarrow> False)"
| "well_typed EVT_CFG_UPT_OK ud = (case ud of UD_NULL \<Rightarrow> True | UD_configs l \<Rightarrow> True | _ \<Rightarrow> False)"
| "well_typed ev ud = True"

definition is_publish :: "cloud_call \<Rightarrow> bool" where
  "is_publish c = (case c of Cl_publish i sid vt v n \<Rightarrow> True | _ \<Rightarrow> False)"

text \<open>A device whose libraries always succeed, and one with a data item and credentials.\<close>

definition ex_env :: "(ref_cfg, ref_group) dev_env" where
  "ex_env = \<lparr>e_knot = knot_example, e_storage = ref_env os_works, e_event = ex_event_env,
     e_modbus = \<lparr>mb_ret = (\<lambda>_ _. 1), mb_errno_of = (\<lambda>_. 110), mb_bit = (\<lambda>_ _. 0),
       mb_register = (\<lambda>_ _. 7), mb_timeout_create = next_handle\<rparr>,
     e_poll_timeout = next_handle, e_msg_timeout = next_handle, e_cloud_ret = (\<lambda>_ _. 0),
     e_random = word_of_nat, e_order = (\<lambda>ks. ks), e_sizeof_value_type = 1\<rparr>"

definition ex_thing :: knot_thing where
  "ex_thing = thing_init\<lparr>token := ''t0k'', thing_id := ''ab01'', thing_name := ''pump'',
     conf_files := \<lparr>credentials_path = Some ''k'', device_path = Some ''d'', cloud_path = Some ''c''\<rparr>,
     data_items := [(4, ex_item)]\<rparr>"

definition ex_dev :: "knot_thing \<Rightarrow> (ref_cfg, ref_group) device_st" where
  "ex_dev th = (device_init (storage_init (\<lambda>_. None)))\<lparr>thing := th\<rparr>"

definition ex_sm :: "STATES \<Rightarrow> (ref_cfg, ref_group) device_st sm_st" where
  "ex_sm st = \<lparr>current_state = Some st, dev = ex_dev ex_thing\<rparr>"

section \<open>Lemmas\<close>

lemma ex_env_sel [simp]:
  "e_knot ex_env = knot_example" "e_storage ex_env = ref_env os_works" "e_event ex_env = ex_event_env"
  "e_poll_timeout ex_env = next_handle" "e_msg_timeout ex_env = next_handle"
  "e_cloud_ret ex_env = (\<lambda>_ _. 0)" "e_random ex_env = word_of_nat" "e_order ex_env = (\<lambda>ks. ks)"
  "e_sizeof_value_type ex_env = 1"
  by (simp_all add: ex_env_def)

lemma ex_env_timers [simp]: "msg_timers_ok ex_env"
  by (simp add: msg_timers_ok_def next_handle_def)

text \<open>An invariant of single steps is an invariant of runs.\<close>

lemma sm_run_invariant:
  assumes step: "\<And>ev ud m m' st. (ev, ud) \<in> set evs \<Longrightarrow> sm_input_event D ev ud m = Some m' \<Longrightarrow>
      current_state m = Some st \<Longrightarrow> P st (dev m) \<Longrightarrow> \<exists>st'. current_state m' = Some st' \<and> P st' (dev m')"
    and "sm_run D evs m = Some m'" "current_state m = Some st" "P st (dev m)"
  shows "\<exists>st'. current_state m' = Some st' \<and> P st' (dev m')"
proof -
  let ?Q = "\<lambda>m. \<exists>st. current_state m = Some st \<and> P st (dev m)"
  have "?Q m'"
  proof (rule foreach_opt_invariant[of evs ?Q])
    show "?Q m" using assms(3,4) by blast
    show "foreach_opt (\<lambda>(ev, ud). sm_input_event D ev ud) evs m = Some m'"
      using assms(2) by (simp add: sm_run_def)
    fix e x x' assume e: "e \<in> set evs" and "?Q x" and "(case e of (ev, ud) \<Rightarrow> sm_input_event D ev ud) x = Some x'"
    moreover obtain ev ud where "e = (ev, ud)" by fastforce
    ultimately show "?Q x'" using step[of ev ud x x'] by auto
  qed
  then show ?thesis .
qed

lemma items_in_order_msg_to [simp]: "items_in_order E (th\<lparr>msg_to := x\<rparr>) = items_in_order E th"
  by (simp add: items_in_order_def)

lemma is_publish_simps [simp]: "is_publish (Cl_publish i sid vt v n)"
  by (simp add: is_publish_def)

lemma publish_log:
  "\<exists>l. fold (on_publish_data E) ids s = s\<lparr>cloud_log := l @ cloud_log s\<rparr> \<and> list_all is_publish l"
  using fold_publish[of E ids s] by (fastforce simp: list_all_iff)

text \<open>The three steps from a connection to the online state.\<close>

lemma step_ready:
  assumes "current_state m = Some ST_DISCONNECTED" "token (thing (dev m)) \<noteq> []"
  shows "\<exists>m' x. sm_input_event (device_interface E) EVT_READY ud m = Some m' \<and>
    current_state m' = Some ST_AUTH \<and> thing (dev m') = (thing (dev m))\<lparr>msg_to := x\<rparr> \<and>
    cloud_log (dev m') = [Cl_auth (thing_id (thing (dev m))) (token (thing (dev m))),
       Cl_read_start (thing_id (thing (dev m)))] @ cloud_log (dev m)"
  using assms
  by (auto simp: sm_input_event_def get_next_disconnected_def enter_auth_def device_op_defs
      device_has_thing_token_def Let_def intro: exI[of _ "msg_to (thing (dev m))"])

lemma step_auth_ok:
  assumes "current_state m = Some ST_AUTH"
  shows "\<exists>m' x. sm_input_event (device_interface E) EVT_AUTH_OK ud m = Some m' \<and>
    current_state m' = Some ST_CONFIG \<and> thing (dev m') = (thing (dev m))\<lparr>msg_to := x\<rparr> \<and>
    cloud_log (dev m') = Cl_update_config (thing_id (thing (dev m)))
       (fold foreach_send_config (items_in_order E (thing (dev m))) []) # cloud_log (dev m)"
  using assms
  by (auto simp: sm_input_event_def get_next_auth_def enter_config_def device_op_defs
      device_check_schema_change_def Let_def)

lemma step_cfg_ok:
  assumes "current_state m = Some ST_CONFIG"
  shows "\<exists>m' l. sm_input_event (device_interface E) EVT_CFG_UPT_OK ud m = Some m' \<and>
    current_state m' = Some ST_ONLINE \<and> \<not> has_msg_timer (dev m') \<and> list_all is_publish l \<and>
    cloud_log (dev m') = l @ cloud_log (dev m)"
proof -
  let ?s = "device_msg_timeout_remove (dev m)"
  obtain l where l: "device_publish_data_all E ?s = ?s\<lparr>cloud_log := l @ cloud_log ?s\<rparr>" "list_all is_publish l"
    using publish_log[of E _ ?s] by (auto simp: publish_all_eq)
  have "msg_to (thing ?s) = None" "cloud_log ?s = cloud_log (dev m)"
    by (simp_all add: device_msg_timeout_remove_def)
  then show ?thesis
    using assms l(2)
    by (auto simp: sm_input_event_def get_next_config_def enter_online_def l(1) has_msg_timer_def)
qed

text \<open>The two steps from a connection to the authentication of a new device.\<close>

lemma step_ready_new:
  assumes "current_state m = Some ST_DISCONNECTED" "token (thing (dev m)) = []" "16 \<le> UUID_LEN (e_knot E)"
  defines "i \<equiv> hex_string (unat (e_random E (randoms (dev m))))"
  shows "\<exists>m' x. sm_input_event (device_interface E) EVT_READY ud m = Some m' \<and>
    current_state m' = Some ST_REGISTER \<and> thing (dev m') = (thing (dev m))\<lparr>thing_id := i, msg_to := x\<rparr> \<and>
    storage (dev m') = storage (dev m) \<and>
    cloud_log (dev m') = [Cl_register i (thing_name (thing (dev m))), Cl_read_start i] @ cloud_log (dev m)"
  using assms(1,2) device_generate_thing_id_eq[OF assms(3)]
  by (auto simp: sm_input_event_def get_next_disconnected_def enter_register_def device_op_defs
      device_has_thing_token_def generate_thing_id_def Let_def i_def intro: exI[of _ "msg_to (thing (dev m))"])

lemma step_reg_ok:
  assumes "current_state m = Some ST_REGISTER" "credentials_path (conf_files (thing (dev m))) = Some p"
    and "properties_store_credentials (e_knot E) (e_storage E) p (thing_id (thing (dev m))) tok (storage (dev m)) = Some (rc, st)"
    and "0 \<le> rc" "length tok \<le> TOKEN_LEN (e_knot E)"
  shows "\<exists>m'. sm_input_event (device_interface E) EVT_REG_OK (UD_token tok) m = Some m' \<and>
    current_state m' = Some ST_AUTH \<and> token (thing (dev m')) = tok \<and>
    thing_id (thing (dev m')) = thing_id (thing (dev m)) \<and> storage (dev m') = st \<and>
    cloud_log (dev m') = Cl_auth (thing_id (thing (dev m))) tok # cloud_log (dev m)"
  using assms
  by (auto simp: sm_input_event_def get_next_register_def enter_auth_def device_op_defs
      device_store_credentials_on_file_def Let_def)

text \<open>Between two states, no data was published.\<close>

definition quiet :: "('c, 'd) device_st \<Rightarrow> ('c, 'd) device_st \<Rightarrow> bool" where
  "quiet s s' \<longleftrightarrow> (\<exists>l. cloud_log s' = l @ cloud_log s \<and> list_all (\<lambda>c. \<not> is_publish c) l)"

lemma quietI: "cloud_log s' = cloud_log s \<Longrightarrow> quiet s s'"
  "cloud_log s' = c # cloud_log s \<Longrightarrow> \<not> is_publish c \<Longrightarrow> quiet s s'"
  unfolding quiet_def by (rule exI[of _ "[]"], simp) (rule exI[of _ "[c]"], simp)

lemma quiet_trans: "quiet s s' \<Longrightarrow> quiet s' s'' \<Longrightarrow> quiet s s''"
  unfolding quiet_def by (metis append.assoc list_all_append)

lemma quiet_rules:
  "generate_thing_id E s = Some s' \<Longrightarrow> cloud_log s' = cloud_log s"
  "device_store_credentials_on_file E tok s = Some (rc, s') \<Longrightarrow> cloud_log s' = cloud_log s"
  "device_clear_credentials_on_file E s = Some (rc, s') \<Longrightarrow> cloud_log s' = cloud_log s"
  "device_update_config E cs s = Some (rc, s') \<Longrightarrow> cloud_log s' = cloud_log s"
  using generate_thing_id_Some[of E s s'] store_credentials_Some[of E tok s rc s']
    clear_credentials_Some[of E s rc s'] foreach_update_config_frame[of E cs "device_stop_event s"]
  by (auto simp: device_update_config_def bind_eq_Some_conv device_stop_event_def)

lemma get_next_quiet:
  assumes "get_next (states (device_interface E) st) ev ud s = Some (st', s')" "st \<noteq> ST_ONLINE \<or> ev \<noteq> EVT_PUB_DATA"
  shows "quiet s s'"
  using assms
  by (cases st; cases ev)
     (auto simp: get_next_defs Let_def bind_eq_Some_conv device_op_defs is_publish_def dest!: quiet_rules
      intro: quietI split: if_splits user_data.splits)

lemma enter_quiet:
  assumes "enter (states (device_interface E) st) s = Some s'" "st \<noteq> ST_ONLINE"
  shows "quiet s s'"
  using assms
  by (cases st)
     (auto simp: enter_defs device_op_defs Let_def is_publish_def dest!: quiet_rules intro: quietI)

lemma publish_keeps_online:
  "get_next (states D ST_ONLINE) EVT_PUB_DATA ud s = Some (st', s') \<Longrightarrow> st' = ST_ONLINE"
  by (auto simp: get_next_online_def split: user_data.splits)

lemma credentials_fit:
  assumes "length p \<le> PATH_MAX"
  shows "\<exists>rc st'. properties_store_credentials K A p i tok st = Some (rc, st')"
    "\<exists>rc th' st'. properties_clear_credentials A p th st = Some (rc, th', st')"
proof -
  obtain fd st1 where "storage_open A p st = Some (fd, st1)" using storage_open_fits[OF assms, of A st] by auto
  then show "\<exists>rc st'. properties_store_credentials K A p i tok st = Some (rc, st')"
    "\<exists>rc th' st'. properties_clear_credentials A p th st = Some (rc, th', st')"
    by (auto simp: properties_store_credentials_def properties_clear_credentials_def Let_def split_beta)
qed

text \<open>The device answers every request of the machine, as long as its path is set and fits.\<close>

lemma device_total:
  "16 \<le> UUID_LEN (e_knot E) \<Longrightarrow> \<exists>s'. generate_thing_id E s = Some s' \<and> conf_files (thing s') = conf_files (thing s)"
  "credentials_path (conf_files (thing s)) = Some p \<Longrightarrow> length p \<le> PATH_MAX \<Longrightarrow>
     \<exists>rc s'. device_store_credentials_on_file E tok s = Some (rc, s') \<and> conf_files (thing s') = conf_files (thing s)"
  "credentials_path (conf_files (thing s)) = Some p \<Longrightarrow> length p \<le> PATH_MAX \<Longrightarrow>
     \<exists>rc s'. device_clear_credentials_on_file E s = Some (rc, s')"
  using credentials_fit(1)[of p "e_knot E" "e_storage E" "thing_id (thing s)" tok "storage s"]
    credentials_fit(2)[of p "e_storage E" "thing s" "storage s"]
  by (auto simp: generate_thing_id_def device_generate_thing_id_eq device_store_credentials_on_file_def
      device_clear_credentials_on_file_def Let_def)

lemma publish_conf_files [simp]:
  "conf_files (thing (fold (on_publish_data E) ids s)) = conf_files (thing s)"
  using fold_publish[of E ids s] by auto

lemma get_next_total:
  assumes "well_typed ev ud" "st \<noteq> ST_ONLINE \<or> ev \<noteq> EVT_CFG_UPT_OK" "16 \<le> UUID_LEN (e_knot E)"
    and "credentials_path (conf_files (thing s)) = Some p" "length p \<le> PATH_MAX"
  shows "\<exists>st' s'. get_next (states (device_interface E) st) ev ud s = Some (st', s') \<and>
    conf_files (thing s') = conf_files (thing s)"
proof -
  obtain g where g: "generate_thing_id E s = Some g" "conf_files (thing g) = conf_files (thing s)"
    using device_total(1)[OF assms(3)] by blast
  have "credentials_path (conf_files (thing (device_msg_timeout_remove s))) = Some p"
    using assms(4) by (simp add: device_msg_timeout_remove_def)
  then have r: "\<exists>rc s'. device_store_credentials_on_file E tok (device_msg_timeout_remove s) = Some (rc, s') \<and>
      conf_files (thing s') = conf_files (thing s)" for tok
    using device_total(2)[of "device_msg_timeout_remove s" p E tok] assms(5) by (simp add: device_msg_timeout_remove_def)
  show ?thesis
  proof (cases "st = ST_REGISTER \<and> ev = EVT_REG_OK")
    case True
    then obtain tok where "ud = UD_token tok" using assms(1) by (auto split: user_data.splits)
    moreover from r[of tok] obtain rc s' where "device_store_credentials_on_file E tok (device_msg_timeout_remove s)
        = Some (rc, s')" "conf_files (thing s') = conf_files (thing s)" by blast
    ultimately show ?thesis using True by (simp add: get_next_register_def Let_def)
  next
    case False
    then show ?thesis
      using assms(1,2) g
      by (cases st; cases ev)
         (auto simp: get_next_defs device_op_defs device_publish_data_list_def Let_def split: user_data.splits)
  qed
qed

lemma enter_total:
  assumes "credentials_path (conf_files (thing s)) = Some p" "length p \<le> PATH_MAX"
  shows "\<exists>s'. enter (states (device_interface E) st) s = Some s'"
  using device_total(3)[OF assms, of E] by (cases st) (auto simp: enter_defs)

section \<open>Properties\<close>

text \<open>
  (C6) On every device, each event takes the machine along a transition of the specification:
  the state it is in afterwards is one the relation allows.
\<close>

theorem sm_input_event_refinement:
  assumes "sm_input_event D ev ud m = Some m'" "current_state m = Some st"
  shows "\<exists>st'. current_state m' = Some st' \<and> sm_trans st ev st'"
  by (rule sm_input_event_refines[OF assms])

theorem sm_input_event_refinement_witness:
  "\<exists>m'. sm_input_event (device_interface ex_env) EVT_READY UD_NULL (ex_sm ST_DISCONNECTED) = Some m' \<and>
     current_state m' = Some ST_AUTH \<and> sm_trans ST_DISCONNECTED EVT_READY ST_AUTH"
proof -
  obtain m' where m': "sm_input_event (device_interface ex_env) EVT_READY UD_NULL (ex_sm ST_DISCONNECTED) = Some m'"
    "current_state m' = Some ST_AUTH"
    by (simp add: sm_input_event_def ex_sm_def get_next_disconnected_def device_has_thing_token_def
        ex_dev_def ex_thing_def device_start_read_cloud_def enter_auth_def)
  then show ?thesis using sm_input_event_refinement[OF m'(1), of ST_DISCONNECTED] by (simp add: ex_sm_def)
qed

text \<open>
  The machine never leaves its error state, and does nothing more to the device there.
\<close>

theorem sm_error_absorbing:
  assumes "current_state m = Some ST_ERROR"
  shows "sm_run D evs m = Some m"
  using assms
proof (induction evs)
  case Nil
  then show ?case by (simp add: sm_run_def)
next
  case (Cons e evs)
  have "sm_input_event D (fst e) (snd e) m = Some (m\<lparr>dev := dev m\<rparr>)"
    using Cons.prems by (simp add: sm_input_event_def get_next_error_def)
  then show ?case using Cons by (auto simp: sm_run_def split_beta)
qed

theorem sm_error_absorbing_witness:
  "sm_run (device_interface ex_env) [(EVT_NOT_READY, UD_NULL), (EVT_READY, UD_NULL)] (ex_sm ST_ERROR)
   = Some (ex_sm ST_ERROR)"
  using sm_error_absorbing[of "ex_sm ST_ERROR"] by (simp add: ex_sm_def)

text \<open>
  A device that was unregistered stays so: without the event \<open>EVT_REG_PERM\<close> (and without
  numbers that are no events) no sequence of events changes the state or touches the device.
\<close>

theorem sm_unregister_sink:
  assumes "current_state m = Some ST_UNREGISTER"
    and "list_all (\<lambda>(ev, ud). ev \<noteq> EVT_REG_PERM \<and> (\<forall>n. ev \<noteq> EVT_OTHER n)) evs"
  shows "sm_run D evs m = Some m"
  using assms(2)
proof (induction evs)
  case Nil
  then show ?case by (simp add: sm_run_def)
next
  case (Cons e evs)
  then have "get_next_unregister D (fst e) (snd e) (dev m) = Some (ST_UNREGISTER, dev m)"
    by (cases "fst e") (auto simp: get_next_unregister_def)
  then have "sm_input_event D (fst e) (snd e) m = Some (m\<lparr>dev := dev m\<rparr>)"
    using assms(1) by (simp add: sm_input_event_def)
  then show ?case using Cons by (auto simp: sm_run_def split_beta)
qed

theorem sm_unregister_sink_witness:
  "sm_run (device_interface ex_env) [(EVT_NOT_READY, UD_NULL), (EVT_READY, UD_NULL), (EVT_REG_OK, UD_token ''t'')]
     (ex_sm ST_UNREGISTER) = Some (ex_sm ST_UNREGISTER)"
  using sm_unregister_sink[of "ex_sm ST_UNREGISTER"
      "[(EVT_NOT_READY, UD_NULL), (EVT_READY, UD_NULL), (EVT_REG_OK, UD_token ''t'')]"]
  by (simp add: ex_sm_def)

text \<open>
  (C7) Whatever the device, the machine is online only after the links came up and the cloud
  accepted the token, in this order.
\<close>

theorem sm_online_needs_auth:
  assumes "sm_run D evs (sm_start m) = Some m'" "current_state m' = Some ST_ONLINE"
  shows "subseq [EVT_READY, EVT_AUTH_OK] (map fst evs)"
  using sm_run_path[OF assms(1), of ST_DISCONNECTED] sm_path_needed assms(2)
  by (fastforce simp: sm_start_def)

theorem sm_online_needs_auth_witness:
  "\<exists>m'. sm_run (device_interface ex_env) [(EVT_READY, UD_NULL), (EVT_AUTH_OK, UD_NULL), (EVT_CFG_UPT_OK, UD_NULL)]
      (sm_start (ex_sm ST_ERROR)) = Some m' \<and> current_state m' = Some ST_ONLINE \<and>
    subseq [EVT_READY, EVT_AUTH_OK] [EVT_READY, EVT_AUTH_OK, EVT_CFG_UPT_OK]"
proof -
  have "case sm_run (device_interface ex_env) [(EVT_READY, UD_NULL), (EVT_AUTH_OK, UD_NULL), (EVT_CFG_UPT_OK, UD_NULL)]
      (sm_start (ex_sm ST_ERROR)) of None \<Rightarrow> False | Some m' \<Rightarrow> current_state m' = Some ST_ONLINE"
    by code_simp
  then obtain m' where m': "sm_run (device_interface ex_env) [(EVT_READY, UD_NULL), (EVT_AUTH_OK, UD_NULL),
      (EVT_CFG_UPT_OK, UD_NULL)] (sm_start (ex_sm ST_ERROR)) = Some m'" "current_state m' = Some ST_ONLINE"
    by (auto split: option.splits)
  show ?thesis using sm_online_needs_auth[OF m'] m' by simp
qed

text \<open>
  After any sequence of events from the start, the message timer exists only while the
  machine waits for an answer (or stopped in the error state); and if timers can be created,
  it always exists while the machine waits, so that every request is repeated.
\<close>

theorem sm_msg_timer:
  assumes "sm_run (device_interface E) evs (sm_start m) = Some m'" "\<not> has_msg_timer (dev m)"
  shows "\<exists>st. current_state m' = Some st \<and>
    (has_msg_timer (dev m') \<longrightarrow> waiting st \<or> st = ST_ERROR) \<and>
    (msg_timers_ok E \<longrightarrow> waiting st \<longrightarrow> has_msg_timer (dev m'))"
proof -
  have "dev.timer_inv E ST_DISCONNECTED (dev (sm_start m))"
    using assms(2) by (simp add: dev.timer_inv_def sm_start_def waiting_def)
  then have "\<exists>st. current_state m' = Some st \<and> dev.timer_inv E st (dev m')"
    by (rule sm_run_invariant[OF _ assms(1), rotated 2]) (auto simp: sm_start_def intro: dev.step_timer)
  then show ?thesis by (simp add: dev.timer_inv_def)
qed

theorem sm_msg_timer_witness:
  "\<exists>m'. sm_run (device_interface ex_env) [(EVT_READY, UD_NULL)] (sm_start (ex_sm ST_ERROR)) = Some m' \<and>
     current_state m' = Some ST_AUTH \<and> has_msg_timer (dev m')"
proof -
  have "case sm_run (device_interface ex_env) [(EVT_READY, UD_NULL)] (sm_start (ex_sm ST_ERROR)) of
      None \<Rightarrow> False | Some m' \<Rightarrow> current_state m' = Some ST_AUTH"
    by code_simp
  then obtain m' where m': "sm_run (device_interface ex_env) [(EVT_READY, UD_NULL)] (sm_start (ex_sm ST_ERROR)) = Some m'"
    "current_state m' = Some ST_AUTH"
    by (auto split: option.splits)
  have "\<not> has_msg_timer (dev (ex_sm ST_ERROR))"
    by (simp add: has_msg_timer_def ex_sm_def ex_dev_def ex_thing_def thing_init_def)
  then show ?thesis using sm_msg_timer[OF m'(1)] m' by (auto simp: waiting_def)
qed

text \<open>
  As long as \<open>EVT_REG_PERM\<close> does not occur, no timer is ever lost: each timer of a data item
  that is alive is in the queue of \<open>event.c\<close>, the only message timer that is alive is the one in
  \<open>thing.msg_to\<close>, and outside the online state (and the two states that are not left any more)
  there is no queue and no timer of a data item at all.
\<close>

theorem sm_event_timers:
  assumes "sm_run (device_interface E) evs (sm_start m) = Some m'"
    and "EVT_REG_PERM \<notin> fst ` set evs"
    and "timers_owned (dev m)" "sensor_timeouts (event (dev m)) = None"
  shows "\<exists>st. current_state m' = Some st \<and> timers_owned (dev m') \<and>
    (st \<notin> {ST_ONLINE, ST_UNREGISTER, ST_ERROR} \<longrightarrow>
       sensor_timeouts (event (dev m')) = None \<and> (\<forall>t. \<not> live (ev_log (event (dev m'))) t))"
proof -
  have i: "dev.event_timers_inv ST_DISCONNECTED (dev (sm_start m))"
    using assms(3,4) by (simp add: dev.event_timers_inv_def sm_start_def runs_events_def)
  have s: "\<exists>st'. current_state m2 = Some st' \<and> dev.event_timers_inv st' (dev m2)"
    if "(ev, ud) \<in> set evs" "sm_input_event (device_interface E) ev ud m1 = Some m2"
      "current_state m1 = Some st" "dev.event_timers_inv st (dev m1)" for ev ud m1 m2 st
  proof -
    have "ev \<noteq> EVT_REG_PERM" using that(1) assms(2) by force
    then show ?thesis using dev.step_events[OF that(2-4)] by blast
  qed
  have "\<exists>st. current_state m' = Some st \<and> dev.event_timers_inv st (dev m')"
    by (rule sm_run_invariant[OF s assms(1) _ i]) (auto simp: sm_start_def)
  then show ?thesis
    by (auto simp: dev.event_timers_inv_def runs_events_def timers_owned_def publishing_def event_inv_def
        pool_owned_def ev_handles_def)
qed

theorem sm_event_timers_witness:
  "\<exists>m'. sm_run (device_interface ex_env) [(EVT_READY, UD_NULL), (EVT_AUTH_OK, UD_NULL), (EVT_CFG_UPT_OK, UD_NULL),
        (EVT_NOT_READY, UD_NULL)] (sm_start (ex_sm ST_ERROR)) = Some m' \<and>
     current_state m' = Some ST_DISCONNECTED \<and> \<not> live (ev_log (event (dev m'))) 1"
proof -
  let ?evs = "[(EVT_READY, UD_NULL), (EVT_AUTH_OK, UD_NULL), (EVT_CFG_UPT_OK, UD_NULL), (EVT_NOT_READY, UD_NULL)]"
  have "case sm_run (device_interface ex_env) ?evs (sm_start (ex_sm ST_ERROR)) of
      None \<Rightarrow> False | Some m' \<Rightarrow> current_state m' = Some ST_DISCONNECTED"
    by code_simp
  then obtain m' where m': "sm_run (device_interface ex_env) ?evs (sm_start (ex_sm ST_ERROR)) = Some m'"
    "current_state m' = Some ST_DISCONNECTED"
    by (auto split: option.splits)
  have "timers_owned (dev (ex_sm ST_ERROR))" "sensor_timeouts (event (dev (ex_sm ST_ERROR))) = None"
    by (simp_all add: ex_sm_def ex_dev_def device_init_def event_init_def event_inv_def pool_owned_def timers_owned_def)
  from sm_event_timers[OF m'(1) _ this] show ?thesis using m' by auto
qed

text \<open>
  (C11) If the tokens that come with registrations are not empty, the machine is in a state in
  which it authenticates, configures or publishes only with a token.
\<close>

theorem sm_token:
  assumes "sm_run (device_interface E) evs (sm_start m) = Some m'" "list_all (\<lambda>(ev, ud). good_token ud) evs"
  shows "\<exists>st. current_state m' = Some st \<and>
    (st \<in> {ST_AUTH, ST_CONFIG, ST_ONLINE} \<longrightarrow> token (thing (dev m')) \<noteq> [])"
proof -
  have s: "\<exists>st'. current_state m2 = Some st' \<and> dev.token_inv E st' (dev m2)"
    if "(ev, ud) \<in> set evs" "sm_input_event (device_interface E) ev ud m1 = Some m2"
      "current_state m1 = Some st" "dev.token_inv E st (dev m1)" for ev ud m1 m2 st
    using dev.step_token[OF that(2-4)] that(1) assms(2) by (auto simp: list_all_iff)
  have "\<exists>st. current_state m' = Some st \<and> dev.token_inv E st (dev m')"
    by (rule sm_run_invariant[OF s assms(1), where st = ST_DISCONNECTED])
       (auto simp: sm_start_def dev.token_inv_def authorized_def)
  then show ?thesis by (auto simp: dev.token_inv_def authorized_def device_has_thing_token_def)
qed

theorem sm_token_witness:
  "\<exists>m'. sm_run (device_interface ex_env) [(EVT_READY, UD_NULL), (EVT_REG_OK, UD_token ''abc'')]
        (sm_start \<lparr>current_state = None, dev = ex_dev (ex_thing\<lparr>token := []\<rparr>)\<rparr>) = Some m' \<and>
     current_state m' = Some ST_AUTH \<and> token (thing (dev m')) \<noteq> []"
proof -
  let ?evs = "[(EVT_READY, UD_NULL), (EVT_REG_OK, UD_token ''abc'')]"
    and ?m = "\<lparr>current_state = None, dev = ex_dev (ex_thing\<lparr>token := []\<rparr>)\<rparr>"
  have "case sm_run (device_interface ex_env) ?evs (sm_start ?m) of
      None \<Rightarrow> False | Some m' \<Rightarrow> current_state m' = Some ST_AUTH"
    by code_simp
  then obtain m' where m': "sm_run (device_interface ex_env) ?evs (sm_start ?m) = Some m'" "current_state m' = Some ST_AUTH"
    by (auto split: option.splits)
  show ?thesis using sm_token[OF m'(1)] m' by simp
qed

text \<open>
  (C8) A device with a token that gets its links, is accepted by the cloud and has its
  configuration accepted goes online without a crash; on the way it starts to listen, sends
  one authentication and one configuration message with all of its data items, in this
  order, then only publishes; and its message timer is gone.
\<close>

theorem sm_happy_path:
  assumes "current_state m = Some ST_DISCONNECTED" "token (thing (dev m)) \<noteq> []" "\<not> has_msg_timer (dev m)"
  shows "\<exists>m' l. sm_run (device_interface E) [(EVT_READY, UD_NULL), (EVT_AUTH_OK, UD_NULL), (EVT_CFG_UPT_OK, ud)] m
        = Some m' \<and> current_state m' = Some ST_ONLINE \<and> \<not> has_msg_timer (dev m') \<and> list_all is_publish l \<and>
    (let th = thing (dev m) in cloud_log (dev m') = l @
      [Cl_update_config (thing_id th) (fold foreach_send_config (items_in_order E th) []),
       Cl_auth (thing_id th) (token th), Cl_read_start (thing_id th)] @ cloud_log (dev m))"
proof -
  obtain m1 x1 where 1: "sm_input_event (device_interface E) EVT_READY UD_NULL m = Some m1"
    "current_state m1 = Some ST_AUTH" "thing (dev m1) = (thing (dev m))\<lparr>msg_to := x1\<rparr>"
    "cloud_log (dev m1) = [Cl_auth (thing_id (thing (dev m))) (token (thing (dev m))),
       Cl_read_start (thing_id (thing (dev m)))] @ cloud_log (dev m)"
    using step_ready[OF assms(1,2), of E UD_NULL] by blast
  obtain m2 x2 where 2: "sm_input_event (device_interface E) EVT_AUTH_OK UD_NULL m1 = Some m2"
    "current_state m2 = Some ST_CONFIG" "thing (dev m2) = (thing (dev m1))\<lparr>msg_to := x2\<rparr>"
    "cloud_log (dev m2) = Cl_update_config (thing_id (thing (dev m1)))
       (fold foreach_send_config (items_in_order E (thing (dev m1))) []) # cloud_log (dev m1)"
    using step_auth_ok[OF 1(2), of E UD_NULL] by blast
  obtain m3 l where 3: "sm_input_event (device_interface E) EVT_CFG_UPT_OK ud m2 = Some m3"
    "current_state m3 = Some ST_ONLINE" "\<not> has_msg_timer (dev m3)" "list_all is_publish l"
    "cloud_log (dev m3) = l @ cloud_log (dev m2)"
    using step_cfg_ok[OF 2(2), of E ud] by blast
  have "sm_run (device_interface E) [(EVT_READY, UD_NULL), (EVT_AUTH_OK, UD_NULL), (EVT_CFG_UPT_OK, ud)] m = Some m3"
    using 1(1) 2(1) 3(1) by (simp add: sm_run_def)
  then show ?thesis using 1(3,4) 2(4) 3(2-5) by (auto simp: Let_def)
qed

theorem sm_happy_path_witness:
  "\<exists>m' l. sm_run (device_interface ex_env) [(EVT_READY, UD_NULL), (EVT_AUTH_OK, UD_NULL), (EVT_CFG_UPT_OK, UD_NULL)]
        (ex_sm ST_DISCONNECTED) = Some m' \<and> current_state m' = Some ST_ONLINE \<and> list_all is_publish l \<and>
     cloud_log (dev m') = l @ [Cl_update_config ''ab01'' [\<lparr>cfg_sensor_id = 4, cfg_schema = schema ex_item,
         cfg_event = item_event ex_item\<rparr>], Cl_auth ''ab01'' ''t0k'', Cl_read_start ''ab01'']"
proof -
  have th: "thing (dev (ex_sm ST_DISCONNECTED)) = ex_thing" "cloud_log (dev (ex_sm ST_DISCONNECTED)) = []"
    "current_state (ex_sm ST_DISCONNECTED) = Some ST_DISCONNECTED"
    by (simp_all add: ex_sm_def ex_dev_def device_init_def)
  have "fold foreach_send_config (items_in_order ex_env ex_thing) [] =
      [\<lparr>cfg_sensor_id = 4, cfg_schema = schema ex_item, cfg_event = item_event ex_item\<rparr>]"
    by code_simp
  then show ?thesis
    using sm_happy_path[of "ex_sm ST_DISCONNECTED" ex_env UD_NULL]
    by (simp add: th has_msg_timer_def Let_def) (auto simp: ex_thing_def thing_init_def)
qed

text \<open>
  (C9) A device without a token that gets its links and is registered by the cloud ends up
  authenticating with the token it was given, under a new identifier of at most 16
  characters; and both are in the credentials file before the authentication is sent, as
  they were stored with success and no write was short.
\<close>

theorem sm_registration:
  assumes "storage_laws (e_storage E)" "full_writes (e_storage E)" "16 \<le> UUID_LEN (e_knot E)"
    and "current_state m = Some ST_DISCONNECTED" "token (thing (dev m)) = []"
    and "credentials_path (conf_files (thing (dev m))) = Some p"
    and "properties_store_credentials (e_knot E) (e_storage E) p
           (hex_string (unat (e_random E (randoms (dev m))))) tok (storage (dev m)) = Some (rc, st)" "0 \<le> rc"
  shows "\<exists>m' i. sm_run (device_interface E) [(EVT_READY, UD_NULL), (EVT_REG_OK, UD_token tok)] m = Some m' \<and>
    current_state m' = Some ST_AUTH \<and> token (thing (dev m')) = tok \<and> thing_id (thing (dev m')) = i \<and>
    i \<noteq> [] \<and> length i \<le> 16 \<and>
    disk_string (e_storage E) p CREDENTIALS_GROUP CREDENTIALS_THING_TOKEN (storage (dev m')) = Some tok \<and>
    disk_string (e_storage E) p CREDENTIALS_GROUP CREDENTIALS_THING_ID (storage (dev m')) = Some i \<and>
    cloud_log (dev m') = [Cl_auth i tok, Cl_register i (thing_name (thing (dev m))), Cl_read_start i]
      @ cloud_log (dev m)"
proof -
  let ?i = "hex_string (unat (e_random E (randoms (dev m))))"
  note d = store_credentials_disk[OF assms(1,2,7,8)]
  obtain m1 x where 1: "sm_input_event (device_interface E) EVT_READY UD_NULL m = Some m1"
    "current_state m1 = Some ST_REGISTER" "thing (dev m1) = (thing (dev m))\<lparr>thing_id := ?i, msg_to := x\<rparr>"
    "storage (dev m1) = storage (dev m)"
    "cloud_log (dev m1) = [Cl_register ?i (thing_name (thing (dev m))), Cl_read_start ?i] @ cloud_log (dev m)"
    using step_ready_new[OF assms(4,5,3), of UD_NULL] by blast
  have "credentials_path (conf_files (thing (dev m1))) = Some p"
    "properties_store_credentials (e_knot E) (e_storage E) p (thing_id (thing (dev m1))) tok (storage (dev m1)) = Some (rc, st)"
    using assms(6,7) 1(3,4) by simp_all
  from step_reg_ok[OF 1(2) this assms(8) d(3)] obtain m2 where 2:
    "sm_input_event (device_interface E) EVT_REG_OK (UD_token tok) m1 = Some m2"
    "current_state m2 = Some ST_AUTH" "token (thing (dev m2)) = tok" "thing_id (thing (dev m2)) = ?i"
    "storage (dev m2) = st" "cloud_log (dev m2) = Cl_auth ?i tok # cloud_log (dev m1)"
    using 1(3) by auto
  show ?thesis
    using 1(1,5) 2 d(1,2) hex_string_word[of "e_random E (randoms (dev m))"]
    by (intro exI[of _ m2] exI[of _ ?i]) (simp add: sm_run_def)
qed

theorem sm_registration_witness:
  "\<exists>m'. sm_run (device_interface ex_env) [(EVT_READY, UD_NULL), (EVT_REG_OK, UD_token ''abc'')]
        \<lparr>current_state = Some ST_DISCONNECTED, dev = ex_dev (ex_thing\<lparr>token := []\<rparr>)\<rparr> = Some m' \<and>
     token (thing (dev m')) = ''abc'' \<and>
     disk_string (ref_env os_works) ''k'' ''Credentials'' ''ThingToken'' (storage (dev m')) = Some ''abc''"
proof -
  let ?m = "\<lparr>current_state = Some ST_DISCONNECTED, dev = ex_dev (ex_thing\<lparr>token := []\<rparr>)\<rparr>"
  let ?c = "properties_store_credentials knot_example (ref_env os_works) ''k''
      (hex_string (unat (word_of_nat (randoms (dev ?m)) :: 64 word))) ''abc'' (storage (dev ?m))"
  have "case ?c of None \<Rightarrow> False | Some (rc, _) \<Rightarrow> rc = 0" by code_simp
  then obtain st where c: "?c = Some (0, st)" by (auto split: option.splits)
  have "credentials_path (conf_files (thing (dev ?m))) = Some ''k''" "token (thing (dev ?m)) = []"
    by (simp_all add: ex_dev_def ex_thing_def)
  then show ?thesis
    using sm_registration[of ex_env ?m "''k''" "''abc''" 0 st] c by (auto simp: storage_laws_def)
qed

text \<open>
  (C10) Data is published by the machine only in the online state: when a step publishes, the
  machine is online afterwards, and either it just went online or the event asked for it.
\<close>

theorem sm_publishes_online:
  assumes "sm_input_event (device_interface E) ev ud m = Some m'"
    and "cloud_log (dev m') = l @ cloud_log (dev m)" "c \<in> set l" "is_publish c"
  shows "current_state m' = Some ST_ONLINE \<and> (current_state m \<noteq> Some ST_ONLINE \<or> ev = EVT_PUB_DATA)"
  using assms(1)
proof (cases rule: sm_input_eventE)
  case (1 cur nxt s s')
  have "nxt = ST_ONLINE \<and> (cur \<noteq> ST_ONLINE \<or> ev = EVT_PUB_DATA)"
  proof (rule ccontr)
    assume "\<not> ?thesis"
    then have no: "nxt \<noteq> ST_ONLINE \<or> cur = ST_ONLINE \<and> ev \<noteq> EVT_PUB_DATA" by blast
    then have "cur \<noteq> ST_ONLINE \<or> ev \<noteq> EVT_PUB_DATA" using publish_keeps_online[of "device_interface E" ud "dev m" nxt s] 1(2) by auto
    then have "quiet (dev m) s" by (rule get_next_quiet[OF 1(2)])
    moreover have "s' = s \<or> quiet s s'" using 1(3) no enter_quiet by metis
    ultimately have "quiet (dev m) s'" using quiet_trans by blast
    then show False using assms(2-4) 1(4) by (auto simp: quiet_def list_all_iff)
  qed
  then show ?thesis using 1 by simp
qed

theorem sm_publishes_online_witness:
  "\<exists>m' l. sm_input_event (device_interface ex_env) EVT_PUB_DATA (UD_ids [4]) (ex_sm ST_ONLINE) = Some m' \<and>
     cloud_log (dev m') = l @ cloud_log (dev (ex_sm ST_ONLINE)) \<and>
     Cl_publish ''ab01'' 4 1 7 1 \<in> set l \<and> current_state m' = Some ST_ONLINE"
proof -
  obtain m' where m': "sm_input_event (device_interface ex_env) EVT_PUB_DATA (UD_ids [4]) (ex_sm ST_ONLINE) = Some m'"
    "cloud_log (dev m') = [Cl_publish ''ab01'' 4 1 7 1] @ cloud_log (dev (ex_sm ST_ONLINE))"
    by (simp add: sm_input_event_def ex_sm_def get_next_online_def device_publish_data_list_def on_publish_data_def
        ex_dev_def ex_thing_def hm_lookup_def ex_item_def)
  then show ?thesis using sm_publishes_online[OF m'] by auto
qed

text \<open>
  An event that comes with the data its handlers expect never makes the machine crash, in
  any state, when the path of the credentials file is set and fits: the one exception is a
  configuration message in the online state.
\<close>

theorem sm_input_event_total:
  assumes "current_state m = Some st" "well_typed ev ud" "st \<noteq> ST_ONLINE \<or> ev \<noteq> EVT_CFG_UPT_OK"
    and "16 \<le> UUID_LEN (e_knot E)" "credentials_path (conf_files (thing (dev m))) = Some p"
    and "length p \<le> PATH_MAX"
  shows "\<exists>m'. sm_input_event (device_interface E) ev ud m = Some m'"
proof -
  obtain st' s where n: "get_next (states (device_interface E) st) ev ud (dev m) = Some (st', s)"
    "conf_files (thing s) = conf_files (thing (dev m))"
    using get_next_total[OF assms(2-6)] by blast
  then obtain s' where "st' = st \<or> enter (states (device_interface E) st') s = Some s'"
    using enter_total[of s p E st'] assms(5,6) by auto
  then show ?thesis using assms(1) n(1) by (auto simp: sm_input_event_def)
qed

theorem sm_input_event_total_witness:
  "\<exists>m'. sm_input_event (device_interface ex_env) EVT_REG_OK (UD_token ''x'') (ex_sm ST_REGISTER) = Some m'"
  using sm_input_event_total[of "ex_sm ST_REGISTER" ST_REGISTER EVT_REG_OK "UD_token ''x''" ex_env "''k''"]
  by (simp add: ex_sm_def ex_dev_def ex_thing_def)

end
