(* ===== verification/Program_Props.thy ===== *)
theory Program_Props
  imports Program Sm_Props
begin

text \<open>
  Properties of the whole program: an invariant of every reachable state, whatever order the
  environment delivers timers, connections and messages in, and what starting the device,
  losing a connection, a poll and the destruction of the device do.
\<close>

section \<open>Definitions for the statements\<close>

text \<open>The states in which both links are up.\<close>

definition linked :: "STATES \<Rightarrow> bool" where
  "linked st \<longleftrightarrow> st \<in> {ST_AUTH, ST_REGISTER, ST_CONFIG, ST_ONLINE}"

definition machine_inv :: "('c, 'd) dev_env \<Rightarrow> STATES \<Rightarrow> ('c, 'd) device_st \<Rightarrow> bool" where
  "machine_inv E st s \<longleftrightarrow>
     (has_msg_timer s \<longrightarrow> waiting st \<or> st = ST_ERROR) \<and>
     (msg_timers_ok E \<longrightarrow> waiting st \<longrightarrow> has_msg_timer s) \<and>
     timers_owned s \<and> (sensor_timeouts (event s) \<noteq> None \<longrightarrow> publishing st) \<and>
     (authorized st \<longrightarrow> token (thing s) \<noteq> [])"

definition prog_inv :: "('c, 'd) dev_env \<Rightarrow> ('c, 'd) program \<Rightarrow> bool" where
  "prog_inv E p \<longleftrightarrow> (\<exists>st. current_state p = Some st \<and> machine_inv E st (dev p) \<and>
     (linked st \<longrightarrow> conn_mask (dev p) = CONNECTED_MASK) \<and>
     poll_inv (poll (dev p)) \<and> hm_wf (data_items (thing (dev p))))"

text \<open>The program before \<open>device_start\<close>.\<close>

definition prog_init :: "('c, 'd) storage_st \<Rightarrow> ('c, 'd) program" where
  "prog_init st = \<lparr>current_state = None, dev = device_init st\<rparr>"

definition link_mask :: "bool \<Rightarrow> bool \<Rightarrow> 8 word" where
  "link_mask mb cl = (if mb then 0x0F else 0) OR (if cl then 0xF0 else 0)"

section \<open>Lemmas: what the machine leaves alone\<close>

definition same_rest :: "('c, 'd) device_st \<Rightarrow> ('c, 'd) device_st \<Rightarrow> bool" where
  "same_rest s s' \<longleftrightarrow> conn_mask s' = conn_mask s \<and> poll s' = poll s \<and> modbus s' = modbus s \<and>
     map fst (data_items (thing s')) = map fst (data_items (thing s)) \<and>
     conf_files (thing s') = conf_files (thing s)"

lemma same_rest_refl: "same_rest s s"
  by (simp add: same_rest_def)

lemma same_rest_trans: "same_rest s s' \<Longrightarrow> same_rest s' s'' \<Longrightarrow> same_rest s s''"
  by (simp add: same_rest_def)

lemma rest_rules:
  "generate_thing_id E s = Some s' \<Longrightarrow> same_rest s s'"
  "device_store_credentials_on_file E tok s = Some (rc, s') \<Longrightarrow> same_rest s s'"
  "device_clear_credentials_on_file E s = Some (rc, s') \<Longrightarrow> same_rest s s'"
  "device_update_config E cs s = Some (rc, s') \<Longrightarrow> same_rest s s'"
  using generate_thing_id_Some[of E s s'] store_credentials_Some[of E tok s rc s']
    clear_credentials_Some[of E s rc s'] foreach_update_config_frame[of E cs "device_stop_event s"]
  by (auto simp: device_update_config_def bind_eq_Some_conv device_stop_event_def same_rest_def)

lemma rest_publish: "same_rest s (fold (on_publish_data E) ids s)"
  using fold_publish[of E ids s] by (auto simp: same_rest_def)

lemma rest_simps:
  "same_rest s (snd (device_start_read_cloud E s))" "same_rest s (snd (device_send_auth_request E s))"
  "same_rest s (snd (device_send_register_request E s))" "same_rest s (snd (device_send_config E s))"
  "same_rest s (device_msg_timeout_create E n s)" "same_rest s (device_msg_timeout_modify n s)"
  "same_rest s (device_msg_timeout_remove s)" "same_rest s (device_stop_event s)"
  "same_rest s (snd (device_start_event E s))" "same_rest s (device_publish_data_list E ids s)"
  "same_rest s (device_publish_data_all E s)"
  using rest_publish
  by (simp_all add: same_rest_def device_op_defs Let_def device_publish_data_list_def publish_all_eq)

lemma get_next_rest:
  assumes "get_next (states (device_interface E) st) ev ud s = Some (st', s')"
  shows "same_rest s s'"
  using assms
  by (cases st; cases ev)
     (auto simp: get_next_defs Let_def bind_eq_Some_conv split: if_splits user_data.splits
      intro: rest_simps rest_rules same_rest_refl same_rest_trans)

lemma enter_rest:
  assumes "enter (states (device_interface E) st) s = Some s'"
  shows "same_rest s s'"
  using assms
  by (cases st) (auto simp: enter_defs intro: rest_simps rest_rules same_rest_refl same_rest_trans)

lemma input_event_rest:
  assumes "input_event E ev ud p = Some p'"
  shows "same_rest (dev p) (dev p')"
  using assms
proof (cases rule: sm_input_eventE)
  case (1 cur nxt s s')
  then have "same_rest (dev p) s" "s' = s \<or> same_rest s s'" using get_next_rest enter_rest by blast+
  then show ?thesis using same_rest_trans 1(4) by auto
qed

section \<open>Lemmas: the invariant\<close>

lemma machine_inv_eq:
  "machine_inv E st s \<longleftrightarrow> dev.timer_inv E st s \<and> dev.event_timers_inv st s \<and> dev.token_inv E st s"
  by (auto simp: machine_inv_def dev.timer_inv_def dev.event_timers_inv_def dev.token_inv_def runs_events_def
      device_has_thing_token_def)

lemma input_event_machine:
  assumes "input_event E ev ud p = Some p'" "current_state p = Some st" "machine_inv E st (dev p)"
    and "ev \<noteq> EVT_REG_PERM" "good_token ud"
  shows "\<exists>st'. current_state p' = Some st' \<and> sm_trans st ev st' \<and> machine_inv E st' (dev p')"
proof -
  obtain st' where st': "current_state p' = Some st'" "sm_trans st ev st'"
    using sm_input_event_refines[OF assms(1,2)] by blast
  then show ?thesis
    using dev.step_timer[OF assms(1,2)] dev.step_events[OF assms(1,2) _ assms(4)]
      dev.step_token[OF assms(1,2) _ assms(5)] assms(3)
    by (auto simp: machine_inv_eq)
qed

lemma linked_trans:
  "sm_trans st ev st' \<Longrightarrow> linked st' \<Longrightarrow> ev \<noteq> EVT_REG_PERM \<Longrightarrow>
     linked st \<and> ev \<noteq> EVT_NOT_READY \<or> ev = EVT_READY"
  by (auto simp: linked_def elim!: sm_trans.cases)

lemma input_event_inv:
  assumes "input_event E ev ud p = Some p'" "prog_inv E p" "ev \<notin> {EVT_REG_PERM, EVT_READY}" "good_token ud"
  shows "prog_inv E p'"
proof -
  obtain st where st: "current_state p = Some st" "machine_inv E st (dev p)"
    "linked st \<longrightarrow> conn_mask (dev p) = CONNECTED_MASK" "poll_inv (poll (dev p))" "hm_wf (data_items (thing (dev p)))"
    using assms(2) by (auto simp: prog_inv_def)
  obtain st' where st': "current_state p' = Some st'" "sm_trans st ev st'" "machine_inv E st' (dev p')"
    using input_event_machine[OF assms(1) st(1,2) _ assms(4)] assms(3) by blast
  have "same_rest (dev p) (dev p')" by (rule input_event_rest[OF assms(1)])
  then show ?thesis
    using st st' linked_trans[OF st'(2)] assms(3) by (auto simp: prog_inv_def same_rest_def hm_wf_def)
qed

lemma conn_handler_inv:
  assumes "conn_handler E conn isup p = Some p'" "prog_inv E p"
  shows "prog_inv E p'"
proof -
  define q where "q = upd_dev (\<lambda>s. s\<lparr>conn_mask := set_conn_bitmask isup (conn_mask s) (conn_bits conn)\<rparr>) p"
  define ev where "ev = (if conn_mask (dev q) \<noteq> CONNECTED_MASK then EVT_NOT_READY else EVT_READY)"
  obtain st where st: "current_state p = Some st" "machine_inv E st (dev p)"
    "poll_inv (poll (dev p))" "hm_wf (data_items (thing (dev p)))"
    using assms(2) by (auto simp: prog_inv_def)
  have step: "input_event E ev UD_NULL q = Some p'"
    using assms(1) by (auto simp: conn_handler_def Let_def q_def ev_def)
  have m: "current_state q = Some st" "machine_inv E st (dev q)" "ev \<noteq> EVT_REG_PERM"
    using st by (simp_all add: q_def ev_def upd_dev_def machine_inv_def has_msg_timer_def timers_owned_def)
  obtain st' where st': "current_state p' = Some st'" "sm_trans st ev st'" "machine_inv E st' (dev p')"
    using input_event_machine[OF step m] by auto
  have "linked st' \<Longrightarrow> conn_mask (dev q) = CONNECTED_MASK"
    using linked_trans[OF st'(2) _ m(3)] by (auto simp: ev_def split: if_splits)
  moreover have "same_rest (dev q) (dev p')" by (rule input_event_rest[OF step])
  ultimately show ?thesis
    using st(3,4) st' by (auto simp: prog_inv_def same_rest_def hm_wf_def q_def upd_dev_def)
qed

text \<open>Updates by which the handlers prepare and complete an event keep the invariant.\<close>

lemma prog_inv_updates:
  assumes "prog_inv E p"
  shows "prog_inv E (upd_dev (\<lambda>s. s\<lparr>msg_log := To_expire t # msg_log s\<rparr>) p)"
    "prog_inv E (upd_event (\<lambda>e. e\<lparr>ev_log := To_expire t # ev_log e\<rparr>) p)"
    "prog_inv E (upd_event (\<lambda>e. e\<lparr>ev_log := To_modify h n # ev_log e\<rparr>) p)"
    "poll_inv (f (poll (dev p))) \<Longrightarrow> prog_inv E (upd_poll f p)"
    "prog_inv E (upd_modbus g p)"
    "map fst its = map fst (data_items (thing (dev p))) \<Longrightarrow>
       prog_inv E (upd_thing (\<lambda>th. th\<lparr>data_items := its\<rparr>) p)"
  using assms
  by (auto simp: prog_inv_def upd_dev_def upd_event_def upd_poll_def upd_modbus_def upd_thing_def machine_inv_def
      has_msg_timer_def timers_owned_def event_inv_def ev_handles_def hm_wf_def)

lemma poll_inv_log:
  "poll_inv s \<Longrightarrow> poll_inv (s\<lparr>poll_log := To_expire t # poll_log s\<rparr>)"
  "poll_inv s \<Longrightarrow> poll_inv (s\<lparr>poll_log := To_modify h n # poll_log s\<rparr>)"
  by (auto simp: poll_inv_def poll_handles_def entries_def)

lemma on_cloud_receive_inv:
  assumes "on_cloud_receive E msg p = Some p'" "msg_ok msg" "prog_inv E p"
  shows "prog_inv E p'"
proof -
  have *: "prog_inv E q" if "input_event E ev ud p = Some q" "ev \<notin> {EVT_REG_PERM, EVT_READY}" "good_token ud" for ev ud q
    by (rule input_event_inv[OF that(1) assms(3) that(2,3)])
  show ?thesis
  proof (cases "msg_kind msg")
    case REGISTER_MSG
    then have "msg_error msg \<or> good_token (token_data (msg_token msg))"
      using assms(2) by (auto simp: token_data_def split: option.split)
    then show ?thesis using assms(1) REGISTER_MSG * by (auto simp: on_cloud_receive_def split: if_splits)
  qed (use assms * in \<open>auto simp: on_cloud_receive_def split: if_splits user_data.splits\<close>)
qed


lemma run_timeout_inv:
  "run_timeout_cb E cb i p = Some p' \<Longrightarrow> prog_inv E p \<Longrightarrow> prog_inv E p'"
  by (cases cb) (auto simp: on_event_timeout_def intro: input_event_inv)

lemma run_modbus_inv:
  assumes "run_modbus_cb E cb p = Some p'" "prog_inv E p"
  shows "prog_inv E p'"
proof -
  have "poll_inv (poll (dev p))" using assms(2) by (auto simp: prog_inv_def)
  then have "prog_inv E (upd_poll poll_start p)" "prog_inv E (upd_poll poll_stop p)"
    using prog_inv_updates(4)[OF assms(2)] poll_start_inv poll_stop_inv by blast+
  then show ?thesis
    using assms(1) conn_handler_inv
    by (cases cb) (simp_all add: on_modbus_connected_def on_modbus_disconnected_def, blast+)
qed

lemma on_modbus_poll_receive_inv:
  assumes "on_modbus_poll_receive E i p = Some (rc, p')" "prog_inv E p"
  shows "prog_inv E p'"
proof (cases "hm_lookup (data_items (thing (dev p))) i")
  case None
  then show ?thesis using assms by (simp add: on_modbus_poll_receive_def)
next
  case (Some item)
  have mod: "prog_inv E (upd_thing (\<lambda>th. th\<lparr>data_items := hm_modify i f (data_items th)\<rparr>) q)"
    if "prog_inv E q" for f q
    using prog_inv_updates(6)[OF that, of "hm_modify i f (data_items (thing (dev q)))"]
    by (simp add: upd_thing_def upd_dev_def)
  show ?thesis
    using assms(1) Some mod prog_inv_updates(5)[OF assms(2)]
    by (auto simp: on_modbus_poll_receive_def Let_def split_beta bind_eq_Some_conv split: if_splits
        intro: input_event_inv)
qed

lemma run_read_inv:
  "run_read_cb E cb i p = Some p' \<Longrightarrow> prog_inv E p \<Longrightarrow> prog_inv E p'"
  by (cases cb) (auto intro: on_modbus_poll_receive_inv)

lemma prog_step_inv:
  assumes "prog_step E p l p'" "prog_inv E p"
  shows "prog_inv E p'"
  using assms
proof (induction rule: prog_step.induct)
  case (msg_timer p t p')
  then show ?case
    using input_event_inv[OF _ prog_inv_updates(1)[OF msg_timer.prems]] by (auto simp: on_msg_timeout_def upd_dev_def)
next
  case (event_timer p t data p')
  then obtain cb q where "run_timeout_cb E cb (dt_id data) (upd_event (\<lambda>e. e\<lparr>ev_log := To_expire t # ev_log e\<rparr>) p) = Some q"
    "p' = upd_event (\<lambda>e. e\<lparr>ev_log := To_modify (Some t) (dt_timeout_sec data) # ev_log e\<rparr>) q"
    by (auto simp: on_sensor_to_def bind_eq_Some_conv split: option.splits)
  then show ?case
    using run_timeout_inv[OF _ prog_inv_updates(2)[OF event_timer.prems]] prog_inv_updates(3) by blast
next
  case (poll_timer p t pdata p')
  have "poll_inv (poll (dev p))" using poll_timer.prems by (auto simp: prog_inv_def)
  then have q: "prog_inv E (upd_poll (\<lambda>s. s\<lparr>poll_log := To_expire t # poll_log s\<rparr>) p)"
    by (intro prog_inv_updates(4)[OF poll_timer.prems] poll_inv_log(1))
  have upd: "prog_inv E (upd_poll (\<lambda>s. s\<lparr>poll_log := To_modify h n # poll_log s\<rparr>) r)" if "prog_inv E r" for r h n
  proof -
    have "poll_inv (poll (dev r))" using that by (auto simp: prog_inv_def)
    then show ?thesis by (intro prog_inv_updates(4)[OF that] poll_inv_log(2))
  qed
  show ?case
    using poll_timer.hyps(3) q run_read_inv[OF _ q]
    by (auto simp: on_poll_timeout_def bind_eq_Some_conv split: if_splits intro: upd)
next
  case (connect_timer p t p')
  then show ?case
    by (auto simp: attempt_connect_def Let_def run_cb_def split_beta split: if_splits option.splits
        intro: run_modbus_inv intro!: prog_inv_updates(5))
next
  case (modbus_lost p p')
  then show ?case
    by (auto simp: on_disconnected_def bind_eq_Some_conv run_cb_def split: option.splits
        intro: run_modbus_inv intro!: prog_inv_updates(5))
next
  case (cloud_up p p')
  then show ?case by (auto simp: on_cloud_connected_def intro: conn_handler_inv)
next
  case (cloud_down p p')
  then show ?case by (auto simp: on_cloud_disconnected_def intro: conn_handler_inv)
next
  case (cloud_msg msg p p')
  then show ?case by (blast intro: on_cloud_receive_inv)
qed

lemma prog_reach_inv: "prog_reach E p p' \<Longrightarrow> prog_inv E p \<Longrightarrow> prog_inv E p'"
  by (induction rule: prog_reach.induct) (auto intro: prog_step_inv)

section \<open>Lemmas: starting and destroying\<close>

lemma upd_sel [simp]:
  "current_state (upd_dev f p) = current_state p" "dev (upd_dev f p) = f (dev p)"
  "current_state (upd_poll g p) = current_state p" "dev (upd_poll g p) = (dev p)\<lparr>poll := g (poll (dev p))\<rparr>"
  "current_state (upd_event h p) = current_state p" "dev (upd_event h p) = (dev p)\<lparr>event := h (event (dev p))\<rparr>"
  "current_state (upd_modbus k p) = current_state p" "dev (upd_modbus k p) = (dev p)\<lparr>modbus := k (modbus (dev p))\<rparr>"
  "current_state (upd_thing l p) = current_state p" "dev (upd_thing l p) = (dev p)\<lparr>thing := l (thing (dev p))\<rparr>"
  by (simp_all add: upd_dev_def upd_poll_def upd_event_def upd_modbus_def upd_thing_def)

lemma create_polling_inv:
  assumes "fresh_handles (e_poll_timeout E)" "poll_inv (poll (dev p))" "create_data_item_polling E p = (rc, p')"
  shows "poll_inv (poll (dev p'))" "rc \<noteq> 0 \<Longrightarrow> \<not> live (poll_log (poll (dev p'))) t"
    "\<exists>ps. p' = upd_poll (\<lambda>_. ps) p" "rc = 0 \<or> rc = -1"
proof -
  obtain ps where f: "fold (foreach_data_item_polling E) (items_in_order E (thing (dev p))) (0, poll (dev p)) = (rc, ps)"
    using assms(3) by (auto simp: create_data_item_polling_def split: prod.splits)
  have "(\<lambda>(rc, ps). (rc = 0 \<or> rc = -1) \<and> poll_inv ps)
      (fold (foreach_data_item_polling E) (items_in_order E (thing (dev p))) (0, poll (dev p)))"
    by (rule fold_invariant)
       (use assms(1,2) poll_create_inv in \<open>auto simp: foreach_data_item_polling_def split_beta Let_def\<close>)
  then have ps: "poll_inv ps" "rc = 0 \<or> rc = -1" using f by auto
  have p': "p' = upd_poll (\<lambda>_. if rc \<noteq> 0 then poll_destroy ps else ps) p"
    using assms(3) f by (simp add: create_data_item_polling_def)
  show "poll_inv (poll (dev p'))" using p' ps poll_destroy_inv by simp
  show "rc \<noteq> 0 \<Longrightarrow> \<not> live (poll_log (poll (dev p'))) t"
    using p' ps poq.clear_no_live[of ps t] by (simp add: poll_inv_def)
  show "\<exists>ps. p' = upd_poll (\<lambda>_. ps) p" using p' by blast
  show "rc = 0 \<or> rc = -1" by (rule ps(2))
qed

lemma device_start_cases:
  assumes "device_start E conf p = Some (err, p')"
  obtains (properties) rc th st where
      "properties_create_device (e_knot E) (e_storage E) ((thing (dev p))\<lparr>data_items := []\<rparr>) conf (storage (dev p)) = Some (rc, th, st)"
      "rc \<noteq> 0" "err = - EINVAL" "p' = upd_dev (\<lambda>s. s\<lparr>thing := th, storage := st\<rparr>) p"
  | (polling) th st p1 where
      "properties_create_device (e_knot E) (e_storage E) ((thing (dev p))\<lparr>data_items := []\<rparr>) conf (storage (dev p)) = Some (0, th, st)"
      "create_data_item_polling E (sm_start (upd_dev (\<lambda>s. s\<lparr>thing := th, storage := st\<rparr>) p)) = (err, p1)"
      "err < 0" "p' = upd_dev knot_thing_destroy p1"
  | (modbus) th st rc p1 url mb where
      "properties_create_device (e_knot E) (e_storage E) ((thing (dev p))\<lparr>data_items := []\<rparr>) conf (storage (dev p)) = Some (0, th, st)"
      "create_data_item_polling E (sm_start (upd_dev (\<lambda>s. s\<lparr>thing := th, storage := st\<rparr>) p)) = (rc, p1)" "\<not> rc < 0"
      "iface_modbus_start (e_modbus E) url (slave_id (thing_slave (thing (dev p1)))) On_modbus_connected
         On_modbus_disconnected (modbus (dev p1)) = (err, mb)"
      "err < 0" "p' = upd_dev knot_thing_destroy (upd_poll poll_destroy (upd_modbus (\<lambda>_. mb) p1))"
  | (cloud) th st rc p1 url merr mb c where
      "properties_create_device (e_knot E) (e_storage E) ((thing (dev p))\<lparr>data_items := []\<rparr>) conf (storage (dev p)) = Some (0, th, st)"
      "create_data_item_polling E (sm_start (upd_dev (\<lambda>s. s\<lparr>thing := th, storage := st\<rparr>) p)) = (rc, p1)" "\<not> rc < 0"
      "iface_modbus_start (e_modbus E) url (slave_id (thing_slave (thing (dev p1)))) On_modbus_connected
         On_modbus_disconnected (modbus (dev p1)) = (merr, mb)" "\<not> merr < 0"
      "err < 0" "p' = upd_dev knot_thing_destroy (upd_modbus (iface_modbus_stop (e_modbus E)) (upd_poll poll_destroy
         (upd_dev (\<lambda>s. s\<lparr>cloud_log := c # cloud_log s\<rparr>) (upd_modbus (\<lambda>_. mb) p1))))"
  | (started) th st rc p1 url merr mb where
      "properties_create_device (e_knot E) (e_storage E) ((thing (dev p))\<lparr>data_items := []\<rparr>) conf (storage (dev p)) = Some (0, th, st)"
      "create_data_item_polling E (sm_start (upd_dev (\<lambda>s. s\<lparr>thing := th, storage := st\<rparr>) p)) = (rc, p1)" "\<not> rc < 0"
      "slave_url (thing_slave (thing (dev p1))) = Some url"
      "iface_modbus_start (e_modbus E) url (slave_id (thing_slave (thing (dev p1)))) On_modbus_connected
         On_modbus_disconnected (modbus (dev p1)) = (merr, mb)" "\<not> merr < 0"
      "err = 0" "p' = upd_thing (\<lambda>th. th\<lparr>conf_files := conf\<rparr>) (upd_dev (\<lambda>s. s\<lparr>cloud_log :=
         Cl_start (rabbitmq_url (thing (dev p1))) (user_token (thing (dev p1))) # cloud_log s\<rparr>) (upd_modbus (\<lambda>_. mb) p1))"
proof -
  obtain rc0 th st where c: "properties_create_device (e_knot E) (e_storage E) ((thing (dev p))\<lparr>data_items := []\<rparr>) conf
      (storage (dev p)) = Some (rc0, th, st)"
    using assms by (auto simp: device_start_def bind_eq_Some_conv)
  show thesis
  proof (cases "rc0 = 0")
    case False
    then show ?thesis using assms c properties[OF c False] by (simp add: device_start_def)
  next
    case True
    note c = c[unfolded True]
    obtain rc p1 where d: "create_data_item_polling E (sm_start (upd_dev (\<lambda>s. s\<lparr>thing := th, storage := st\<rparr>) p)) = (rc, p1)"
      by fastforce
    show ?thesis
    proof (cases "rc < 0")
      case True
      then show ?thesis using assms c d polling by (simp add: device_start_def)
    next
      case rc: False
      then obtain url where u: "slave_url (thing_slave (thing (dev p1))) = Some url"
        using assms c d by (auto simp: device_start_def bind_eq_Some_conv)
      obtain merr mb where m: "iface_modbus_start (e_modbus E) url (slave_id (thing_slave (thing (dev p1)))) On_modbus_connected
         On_modbus_disconnected (modbus (dev p1)) = (merr, mb)" by fastforce
      show ?thesis
      proof (cases "merr < 0")
        case True
        then show ?thesis using assms c d rc u m modbus[OF c d rc, of url mb] by (auto simp: device_start_def)
      next
        case merr: False
        then show ?thesis
          using assms c d rc u m cloud[OF c d rc m merr] started[OF c d rc u m merr]
          by (auto simp: device_start_def Let_def split: if_splits)
      qed
    qed
  qed
qed

lemma created_thing:
  assumes "schema_check_ok K" "msg_to th0 = None"
    and "properties_create_device K A (th0\<lparr>data_items := []\<rparr>) conf st = Some (0, th, st')"
  shows "thing_ok K th" "msg_to th = None" "hm_wf (data_items th)"
  using create_device_ok[OF assms(1) _ assms(3)] assms(2) by (simp_all add: thing_ok_def items_ok_def)

lemma device_start_inv:
  assumes "schema_check_ok (e_knot E)" "fresh_handles (e_poll_timeout E)"
    and "device_start E conf (prog_init st) = Some (0, p)"
  shows "prog_inv E p" "current_state p = Some ST_DISCONNECTED"
proof -
  have *: "prog_inv E p \<and> current_state p = Some ST_DISCONNECTED"
    using assms(3)
  proof (cases rule: device_start_cases)
    case (started th st' rc p1 url merr mb)
    let ?p0 = "sm_start (upd_dev (\<lambda>s. s\<lparr>thing := th, storage := st'\<rparr>) (prog_init st))"
    have th: "msg_to th = None" "hm_wf (data_items th)"
      using created_thing(2,3)[OF assms(1) _ started(1)] by (simp_all add: prog_init_def device_init_def thing_init_def)
    have "poll_inv (poll (dev ?p0))" by (simp add: prog_init_def device_init_def sm_start_def poll_init_inv)
    from create_polling_inv[OF assms(2) this started(2)] obtain ps where ps: "poll_inv ps" "p1 = upd_poll (\<lambda>_. ps) ?p0"
      by auto
    show ?thesis
      using started(8) ps th
      by (simp add: prog_inv_def sm_start_def prog_init_def device_init_def linked_def machine_inv_def
          has_msg_timer_def waiting_def authorized_def timers_owned_def event_init_def event_inv_def pool_owned_def)
  qed simp_all
  show "prog_inv E p" "current_state p = Some ST_DISCONNECTED" using * by simp_all
qed

text \<open>The reconnection timer of \<open>iface-modbus.c\<close> after starting it.\<close>

lemma create_ctx_to_log [simp]:
  "mb_to_log (snd (create_ctx M url s)) = mb_to_log s" "connect_to (snd (create_ctx M url s)) = connect_to s"
  by (auto simp: create_ctx_def create_tcp_def create_rtu_def mb_do_def Let_def split: option.split prod.split)

lemma iface_modbus_start_to:
  assumes "iface_modbus_start M url i c d s = (rc, s')"
  shows "mb_to_log s' = mb_to_log s \<and> connect_to s' = connect_to s \<or>
    rc = 0 \<and> (\<exists>to. connect_to s' = to \<and> mb_to_log s' = To_create to 0 () # mb_to_log s)"
  using assms
  by (auto simp: iface_modbus_start_def Let_def split_beta mb_do_def split: if_splits)

lemma iface_modbus_start_error_to:
  assumes "iface_modbus_start M url i c d s = (rc, s')" "rc \<noteq> 0"
  shows "mb_to_log s' = mb_to_log s"
  using iface_modbus_start_to[OF assms(1)] assms(2) by auto

lemma iface_modbus_stop_to [simp]:
  "mb_to_log (iface_modbus_stop M s) = To_remove (connect_to s) # mb_to_log s"
  by (simp add: iface_modbus_stop_def Let_def mb_do_def)

lemma thing_destroy_fields [simp]:
  "event (knot_thing_destroy s) = event s" "poll (knot_thing_destroy s) = poll s"
  "modbus (knot_thing_destroy s) = modbus s" "cloud_log (knot_thing_destroy s) = cloud_log s"
  "live (msg_log (knot_thing_destroy s)) t \<longleftrightarrow> live (msg_log s) t \<and> msg_to (thing s) \<noteq> Some t"
  by (auto simp: knot_thing_destroy_def Let_def)

text \<open>A start that succeeds, and the two steps that bring both links up.\<close>

lemma schema_check_example [simp]: "schema_check_ok knot_example"
  by (auto simp: schema_check_ok_def value_types_def split: if_splits)

lemma run3_cases:
  assumes "case x of None \<Rightarrow> False | Some (rc, p) \<Rightarrow> rc = 0 \<and> (case f p of None \<Rightarrow> False | Some p1 \<Rightarrow> P p1 \<and>
      (case g p1 of None \<Rightarrow> False | Some p2 \<Rightarrow> Q p2))"
  shows "\<exists>p p1 p2. x = Some (0::int, p) \<and> f p = Some p1 \<and> P p1 \<and> g p1 = Some p2 \<and> Q p2"
  using assms by (auto split: option.splits)

lemma ex_start:
  "\<exists>p p2. device_start ex_env ex_paths (prog_init (storage_init ex_files)) = Some (0, p) \<and> prog_reach ex_env p p2 \<and>
     current_state p2 = Some ST_REGISTER"
proof -
  let ?f = "\<lambda>s. s\<lparr>mb_to_log := To_expire 1 # mb_to_log s\<rparr>"
  have r: "case device_start ex_env ex_paths (prog_init (storage_init ex_files)) of None \<Rightarrow> False | Some (rc, p) \<Rightarrow> rc = 0 \<and>
      (case on_cloud_connected ex_env p of None \<Rightarrow> False | Some p1 \<Rightarrow> armed (mb_to_log (modbus (dev p1))) 1 \<noteq> None \<and>
      (case attempt_connect (e_modbus ex_env) (run_modbus_cb ex_env) (\<lambda>p. modbus (dev p)) upd_modbus 1 (upd_modbus ?f p1)
       of None \<Rightarrow> False | Some p2 \<Rightarrow> current_state p2 = Some ST_REGISTER))"
    by code_simp
  from run3_cases[OF r] obtain p p1 p2 where
    p: "device_start ex_env ex_paths (prog_init (storage_init ex_files)) = Some (0, p)"
    "on_cloud_connected ex_env p = Some p1" "armed (mb_to_log (modbus (dev p1))) 1 \<noteq> None"
    "attempt_connect (e_modbus ex_env) (run_modbus_cb ex_env) (\<lambda>p. modbus (dev p)) upd_modbus 1 (upd_modbus ?f p1) = Some p2"
    "current_state p2 = Some ST_REGISTER"
    by blast
  have "prog_reach ex_env p p2"
    using prog_reach.more[OF prog_reach.more[OF prog_reach.here prog_step.cloud_up[OF p(2)]]
        prog_step.connect_timer[OF p(3,4)]] .
  then show ?thesis using p(1,5) by blast
qed

section \<open>Properties\<close>

text \<open>
  (C2) In every state the program can reach after a successful start, by any sequence of timers,
  connections and messages, provided timers for messages can always be made, no timer is lost and none is left over: the message timer that is alive
  is the one of the thing, and exists while the machine waits for the cloud; the timers of
  data items are in their queue, and there are none before the machine is online; each poll
  timer belongs to exactly one entry.
\<close>

theorem program_timers:
  assumes "schema_check_ok (e_knot E)" "fresh_handles (e_poll_timeout E)" "msg_timers_ok E"
    and "device_start E conf (prog_init st) = Some (0, p)" "prog_reach E p p'"
  shows "\<exists>s. current_state p' = Some s \<and> timers_owned (dev p') \<and> poll_inv (poll (dev p')) \<and>
    (waiting s \<longrightarrow> has_msg_timer (dev p')) \<and> (has_msg_timer (dev p') \<longrightarrow> waiting s \<or> s = ST_ERROR) \<and>
    (s \<notin> {ST_ONLINE, ST_UNREGISTER, ST_ERROR} \<longrightarrow> (\<forall>t. \<not> live (ev_log (event (dev p'))) t))"
  using prog_reach_inv[OF assms(5) device_start_inv(1)[OF assms(1,2,4)]] assms(3)
  by (auto simp: prog_inv_def machine_inv_def publishing_def timers_owned_def event_inv_def pool_owned_def
      ev_handles_def)

theorem program_timers_witness:
  "\<exists>p p'. device_start ex_env ex_paths (prog_init (storage_init ex_files)) = Some (0, p) \<and> prog_reach ex_env p p' \<and>
     current_state p' = Some ST_REGISTER \<and> has_msg_timer (dev p') \<and> \<not> live (ev_log (event (dev p'))) 1"
proof -
  obtain p p' where p: "device_start ex_env ex_paths (prog_init (storage_init ex_files)) = Some (0, p)"
    "prog_reach ex_env p p'" "current_state p' = Some ST_REGISTER" using ex_start by blast
  show ?thesis using program_timers[OF _ _ _ p(1,2)] p by (auto simp: waiting_def)
qed

text \<open>
  (C37) When the Modbus connection drops, polling stops, the connection timer is set to five
  seconds, and the machine is disconnected, unless it was unregistered or in its error state.
\<close>

theorem modbus_lost_disconnects:
  assumes "current_state p = Some s" "connect_to (modbus (dev p)) = Some t"
    and "disconn_cb (modbus (dev p)) = Some On_modbus_disconnected"
  shows "\<exists>p'. on_disconnected (run_modbus_cb E) (\<lambda>p. modbus (dev p)) upd_modbus p = Some p' \<and>
    current_state p' = Some (if s \<in> {ST_UNREGISTER, ST_ERROR} then s else ST_DISCONNECTED) \<and>
    \<not> poll_active (poll (dev p')) \<and> armed (mb_to_log (modbus (dev p'))) t = Some 5"
proof -
  define q where "q = upd_dev (\<lambda>s. s\<lparr>conn_mask := set_conn_bitmask False (conn_mask s) 0x0F\<rparr>) (upd_poll poll_stop p)"
  have "bit (conn_mask (dev q)) 0 = False"
    by (simp add: q_def set_conn_bitmask_def bit_simps)
  then have mask: "conn_mask (dev q) \<noteq> CONNECTED_MASK" by auto
  obtain q' where q': "input_event E EVT_NOT_READY UD_NULL q = Some q'"
    "current_state q' = Some (if s \<in> {ST_UNREGISTER, ST_ERROR} then s else ST_DISCONNECTED)"
    using assms(1) by (cases s) (auto simp: q_def sm_input_event_def get_next_defs enter_defs)
  have r: "same_rest (dev q) (dev q')" by (rule input_event_rest[OF q'(1)])
  have "run_modbus_cb E On_modbus_disconnected p = Some q'"
    using q'(1) mask by (simp add: on_modbus_disconnected_def conn_handler_def q_def[symmetric] Let_def)
  then show ?thesis
    using assms q'(2) r
    by (auto simp: on_disconnected_def run_cb_def same_rest_def q_def poll_stop_def)
qed

theorem modbus_lost_disconnects_witness:
  "\<exists>p'. on_disconnected (run_modbus_cb ex_env) (\<lambda>p. modbus (dev p)) upd_modbus
      (upd_modbus (\<lambda>m. m\<lparr>connect_to := Some 1, disconn_cb := Some On_modbus_disconnected\<rparr>) (ex_sm ST_ONLINE)) = Some p' \<and>
    current_state p' = Some ST_DISCONNECTED \<and> armed (mb_to_log (modbus (dev p'))) 1 = Some 5"
  using modbus_lost_disconnects[of
      "upd_modbus (\<lambda>m. m\<lparr>connect_to := Some 1, disconn_cb := Some On_modbus_disconnected\<rparr>) (ex_sm ST_ONLINE)"
      ST_ONLINE 1 ex_env]
  by (auto simp: ex_sm_def)

end
