(* ===== verification/Settings.thy ===== *)
theory Settings
  imports Prelude
begin

text \<open>
  \<open>src/src/settings.c\<close>: the command line. \<open>getopt_long\<close> of the C library is written out for
  the option string and the table of long options of the program: clusters of short options,
  arguments in the same or the next word, long options with \<open>=\<close> and unique abbreviations,
  \<open>--\<close>, and words that are no options, which are set aside (or end the options, when the
  environment asks for POSIX behaviour).
\<close>

section \<open>The option table\<close>

record settings =
  set_credentials_path :: string
  set_device_path :: string
  set_cloud_path :: string
  set_log_level :: int
  set_detach :: bool
  set_help :: bool

text \<open>The priorities of the ELL logger.\<close>

record log_levels =
  L_LOG_ERR :: int
  L_LOG_WARNING :: int
  L_LOG_INFO :: int
  L_LOG_DEBUG :: int

definition log_levels_ok :: "log_levels \<Rightarrow> bool" where
  "log_levels_ok L \<longleftrightarrow> 0 \<le> L_LOG_ERR L \<and> L_LOG_ERR L < L_LOG_WARNING L \<and>
     L_LOG_WARNING L < L_LOG_INFO L \<and> L_LOG_INFO L < L_LOG_DEBUG L"

text \<open>A long option: its name, whether it takes an argument and its letter.\<close>

type_synonym long_option = "string \<times> bool \<times> char"

definition main_options :: "long_option list" where
  "main_options =
     [(''credentials-file'', True, CHR ''c''), (''dev-file'', True, CHR ''d''),
      (''cloud-file'', True, CHR ''p''), (''log'', True, CHR ''l''),
      (''nodetach'', False, CHR ''n''), (''help'', False, CHR ''h'')]"

text \<open>The option string \<open>c:d:p:l:nh\<close>: whether a letter is an option and takes an argument.\<close>

definition short_option :: "char \<Rightarrow> bool option" where
  "short_option c =
     (if c \<in> {CHR ''c'', CHR ''d'', CHR ''p'', CHR ''l''} then Some True
      else if c \<in> {CHR ''n'', CHR ''h''} then Some False
      else None)"

section \<open>getopt\_long\<close>

text \<open>
  What is left to scan: the rest of a cluster of short options, the words after it, and the
  number of words that were set aside.
\<close>

record getopt_st =
  go_cluster :: string
  go_args :: "string list"
  go_nonopts :: nat

text \<open>
  An option with its argument (empty for the two options without one, where it is never read),
  a malformed option (the answer \<open>?\<close>), or the end.
\<close>

datatype opt_result =
    Opt char string
  | Opt_bad
  | Opt_end

definition find_long :: "string \<Rightarrow> long_option option" where
  "find_long name =
     (case filter (\<lambda>(n, _). n = name) main_options of
        o' # _ \<Rightarrow> Some o'
      | [] \<Rightarrow> (case filter (\<lambda>(n, _). take (length name) n = name) main_options of
                 [o'] \<Rightarrow> Some o'
               | _ \<Rightarrow> None))"

text \<open>The option \<open>c\<close> with the argument \<open>inline\<close> from its own word, or from the next word.\<close>

definition take_arg :: "char \<Rightarrow> string option \<Rightarrow> getopt_st \<Rightarrow> opt_result \<times> getopt_st" where
  "take_arg c inline g =
     (case inline of
        Some a \<Rightarrow> (Opt c a, g)
      | None \<Rightarrow> (case go_args g of
                   [] \<Rightarrow> (Opt_bad, g)
                 | a # as \<Rightarrow> (Opt c a, g\<lparr>go_args := as\<rparr>)))"

definition getopt_long_option :: "string \<Rightarrow> getopt_st \<Rightarrow> opt_result \<times> getopt_st" where
  "getopt_long_option word g =
     (let name = takeWhile (\<lambda>c. c \<noteq> CHR ''='') word;
          inline = (case dropWhile (\<lambda>c. c \<noteq> CHR ''='') word of [] \<Rightarrow> None | _ # a \<Rightarrow> Some a)
      in case find_long name of
           None \<Rightarrow> (Opt_bad, g)
         | Some (_, has_arg, c) \<Rightarrow>
             if has_arg then take_arg c inline g
             else if inline = None then (Opt c [], g)
             else (Opt_bad, g))"

definition getopt_short_option :: "char \<Rightarrow> string \<Rightarrow> getopt_st \<Rightarrow> opt_result \<times> getopt_st" where
  "getopt_short_option c cs g =
     (case short_option c of
        None \<Rightarrow> (Opt_bad, g\<lparr>go_cluster := cs\<rparr>)
      | Some True \<Rightarrow> take_arg c (if cs = [] then None else Some cs) (g\<lparr>go_cluster := []\<rparr>)
      | Some False \<Rightarrow> (Opt c [], g\<lparr>go_cluster := cs\<rparr>))"

definition option_word :: "string \<Rightarrow> bool" where
  "option_word w \<longleftrightarrow> length w \<ge> 2 \<and> hd w = CHR ''-''"

fun getopt_words :: "bool \<Rightarrow> string list \<Rightarrow> nat \<Rightarrow> opt_result \<times> getopt_st" where
  "getopt_words posix [] n = (Opt_end, \<lparr>go_cluster = [], go_args = [], go_nonopts = n\<rparr>)"
| "getopt_words posix (w # ws) n =
     (if \<not> option_word w then
        (if posix then (Opt_end, \<lparr>go_cluster = [], go_args = w # ws, go_nonopts = n + Suc (length ws)\<rparr>)
         else getopt_words posix ws (Suc n))
      else if w = ''--'' then (Opt_end, \<lparr>go_cluster = [], go_args = ws, go_nonopts = n + length ws\<rparr>)
      else let g = \<lparr>go_cluster = [], go_args = ws, go_nonopts = n\<rparr> in
      if w ! 1 = CHR ''-'' then getopt_long_option (drop 2 w) g
      else getopt_short_option (w ! 1) (drop 2 w) g)"

definition getopt_long :: "bool \<Rightarrow> getopt_st \<Rightarrow> opt_result \<times> getopt_st" where
  "getopt_long posix g =
     (case go_cluster g of
        c # cs \<Rightarrow> getopt_short_option c cs g
      | [] \<Rightarrow> getopt_words posix (go_args g) (go_nonopts g))"

text \<open>What is left to scan gets shorter with every option.\<close>

definition getopt_size :: "getopt_st \<Rightarrow> nat" where
  "getopt_size g = length (go_cluster g) + sum_list (map (\<lambda>w. Suc (length w)) (go_args g))"

lemma take_arg_size: "take_arg c inline g = (r, g') \<Longrightarrow> getopt_size g' \<le> getopt_size g"
  by (auto simp: take_arg_def getopt_size_def split: option.splits list.splits)

lemma getopt_short_size:
  assumes "getopt_short_option c cs g = (r, g')"
  shows "getopt_size g' \<le> length cs + sum_list (map (\<lambda>w. Suc (length w)) (go_args g))"
  using assms take_arg_size[of c "if cs = [] then None else Some cs" "g\<lparr>go_cluster := []\<rparr>" r g']
  by (auto simp: getopt_short_option_def getopt_size_def split: option.splits bool.splits)

lemma getopt_words_size:
  "getopt_words posix ws n = (Opt c a, g') \<Longrightarrow> getopt_size g' < sum_list (map (\<lambda>w. Suc (length w)) ws)"
proof (induction posix ws n rule: getopt_words.induct)
  case (2 posix w ws n)
  let ?g = "\<lparr>go_cluster = [], go_args = ws, go_nonopts = n\<rparr>"
  have long: "getopt_size g' \<le> sum_list (map (\<lambda>w. Suc (length w)) ws)" if "getopt_long_option x ?g = (Opt c a, g')" for x
    using that take_arg_size[of _ _ ?g "Opt c a" g']
    by (auto simp: getopt_long_option_def Let_def getopt_size_def split: option.splits if_splits prod.splits)
  have short: "getopt_size g' \<le> length cs + sum_list (map (\<lambda>w. Suc (length w)) ws)"
    if "getopt_short_option d cs ?g = (Opt c a, g')" for d cs
    using getopt_short_size[OF that] by simp
  show ?case
    using 2 long[of "drop 2 w"] short[of "w ! 1" "drop 2 w"]
    by (auto simp: Let_def option_word_def split: if_splits)
qed simp

lemma getopt_long_size:
  assumes "getopt_long posix g = (Opt c a, g')"
  shows "getopt_size g' < getopt_size g"
proof (cases "go_cluster g")
  case Nil
  then show ?thesis
    using assms getopt_words_size[of posix "go_args g" "go_nonopts g" c a g']
    by (simp add: getopt_long_def getopt_size_def)
next
  case (Cons x xs)
  then show ?thesis
    using assms getopt_short_size[of x xs g "Opt c a" g'] by (simp add: getopt_long_def getopt_size_def)
qed

section \<open>Parsing the command line\<close>

definition parse_log_level :: "log_levels \<Rightarrow> string \<Rightarrow> int" where
  "parse_log_level L log_name =
     (if log_name = ''error'' then L_LOG_ERR L
      else if log_name = ''warn'' then L_LOG_WARNING L
      else if log_name = ''info'' then L_LOG_INFO L
      else if log_name = ''debug'' then L_LOG_DEBUG L
      else -1)"

function parse_args_loop :: "log_levels \<Rightarrow> bool \<Rightarrow> getopt_st \<Rightarrow> settings \<Rightarrow> int \<times> settings" where
  "parse_args_loop L posix g s =
     (case getopt_long posix g of
        (Opt_end, g') \<Rightarrow> (if go_nonopts g' > 0 then - EINVAL else 0, s)
      | (Opt_bad, _) \<Rightarrow> (- EINVAL, s)
      | (Opt c optarg, g') \<Rightarrow>
          if c = CHR ''c'' then parse_args_loop L posix g' (s\<lparr>set_credentials_path := optarg\<rparr>)
          else if c = CHR ''d'' then parse_args_loop L posix g' (s\<lparr>set_device_path := optarg\<rparr>)
          else if c = CHR ''p'' then parse_args_loop L posix g' (s\<lparr>set_cloud_path := optarg\<rparr>)
          else if c = CHR ''l'' then
            (let s = s\<lparr>set_log_level := parse_log_level L optarg\<rparr> in
             if set_log_level s < 0 then (- EINVAL, s) else parse_args_loop L posix g' s)
          else if c = CHR ''n'' then parse_args_loop L posix g' (s\<lparr>set_detach := False\<rparr>)
          else if c = CHR ''h'' then (0, s\<lparr>set_help := True\<rparr>)
          else (- EINVAL, s))"
  by pat_completeness auto

termination parse_args_loop
  by (relation "measure (\<lambda>(L, posix, g, s). getopt_size g)") (auto intro: getopt_long_size[OF sym])

text \<open>The words after the name of the program.\<close>

definition parse_args :: "log_levels \<Rightarrow> bool \<Rightarrow> string list \<Rightarrow> settings \<Rightarrow> int \<times> settings" where
  "parse_args L posix argv s =
     parse_args_loop L posix \<lparr>go_cluster = [], go_args = argv, go_nonopts = 0\<rparr> s"

abbreviation (input) DEFAULT_CREDENTIALS_FILE_PATH :: string where
  "DEFAULT_CREDENTIALS_FILE_PATH \<equiv> ''/etc/knot/credentials.conf''"

abbreviation (input) DEFAULT_DEVICE_FILE_PATH :: string where
  "DEFAULT_DEVICE_FILE_PATH \<equiv> ''/etc/knot/device.conf''"

abbreviation (input) DEFAULT_AMQP_FILE_PATH :: string where
  "DEFAULT_AMQP_FILE_PATH \<equiv> ''/etc/knot/cloud.conf''"

definition settings_default :: "log_levels \<Rightarrow> settings" where
  "settings_default L =
     \<lparr>set_credentials_path = DEFAULT_CREDENTIALS_FILE_PATH, set_device_path = DEFAULT_DEVICE_FILE_PATH,
      set_cloud_path = DEFAULT_AMQP_FILE_PATH, set_log_level = L_LOG_INFO L, set_detach = True, set_help = False\<rparr>"

definition settings_load :: "log_levels \<Rightarrow> bool \<Rightarrow> string list \<Rightarrow> settings option" where
  "settings_load L posix argv =
     (let (rc, s) = parse_args L posix argv (settings_default L)
      in if rc < 0 then None else Some s)"

section \<open>Definitions for the statements\<close>

text \<open>
  An occurrence of an option on the command line: its letter, its argument (unused for an
  option without one), and whether it is written long and with the argument in its own word.
\<close>

record opt_use =
  use_letter :: char
  use_arg :: string
  use_long :: bool
  use_own_word :: bool

definition long_name :: "char \<Rightarrow> string" where
  "long_name c = fst (the (List.find (\<lambda>(_, _, d). d = c) main_options))"

definition use_ok :: "opt_use \<Rightarrow> bool" where
  "use_ok u \<longleftrightarrow> short_option (use_letter u) \<noteq> None \<and> (use_own_word u \<longrightarrow> use_long u \<or> use_arg u \<noteq> [])"

definition render :: "opt_use \<Rightarrow> string list" where
  "render u =
     (let word = (if use_long u then ''--'' @ long_name (use_letter u) else [CHR ''-'', use_letter u])
      in if short_option (use_letter u) \<noteq> Some True then [word]
         else if use_own_word u then [word @ (if use_long u then ''='' else []) @ use_arg u]
         else [word, use_arg u])"

text \<open>The argument of the last occurrence of an option.\<close>

definition last_arg :: "char \<Rightarrow> opt_use list \<Rightarrow> string option" where
  "last_arg c us = map_option use_arg (List.find (\<lambda>u. use_letter u = c) (rev us))"

definition log_names :: "string list" where
  "log_names = [''error'', ''warn'', ''info'', ''debug'']"

definition uses_ok :: "opt_use list \<Rightarrow> bool" where
  "uses_ok us \<longleftrightarrow> (\<forall>u\<in>set us. use_ok u \<and> use_letter u \<noteq> CHR ''h'' \<and>
     (use_letter u = CHR ''l'' \<longrightarrow> use_arg u \<in> set log_names))"

text \<open>The settings after the options \<open>us\<close>.\<close>

definition apply_uses :: "log_levels \<Rightarrow> opt_use list \<Rightarrow> settings \<Rightarrow> settings" where
  "apply_uses L us s = s
     \<lparr>set_credentials_path := case_option (set_credentials_path s) id (last_arg CHR ''c'' us),
      set_device_path := case_option (set_device_path s) id (last_arg CHR ''d'' us),
      set_cloud_path := case_option (set_cloud_path s) id (last_arg CHR ''p'' us),
      set_log_level := case_option (set_log_level s) (parse_log_level L) (last_arg CHR ''l'' us),
      set_detach := set_detach s \<and> last_arg CHR ''n'' us = None\<rparr>"

definition ex_levels :: log_levels where
  "ex_levels = \<lparr>L_LOG_ERR = 3, L_LOG_WARNING = 4, L_LOG_INFO = 6, L_LOG_DEBUG = 7\<rparr>"

section \<open>Lemmas\<close>

declare parse_args_loop.simps [simp del]

lemma short_option_cases:
  assumes "short_option c \<noteq> None"
  obtains "c = CHR ''c''" | "c = CHR ''d''" | "c = CHR ''p''" | "c = CHR ''l''" | "c = CHR ''n''" | "c = CHR ''h''"
  using assms by (auto simp: short_option_def split: if_splits)

lemma long_names:
  "long_name CHR ''c'' = ''credentials-file''" "long_name CHR ''d'' = ''dev-file''"
  "long_name CHR ''p'' = ''cloud-file''" "long_name CHR ''l'' = ''log''"
  "long_name CHR ''n'' = ''nodetach''" "long_name CHR ''h'' = ''help''"
  by code_simp+

lemma find_long_names:
  "find_long ''credentials-file'' = Some (''credentials-file'', True, CHR ''c'')"
  "find_long ''dev-file'' = Some (''dev-file'', True, CHR ''d'')"
  "find_long ''cloud-file'' = Some (''cloud-file'', True, CHR ''p'')"
  "find_long ''log'' = Some (''log'', True, CHR ''l'')"
  "find_long ''nodetach'' = Some (''nodetach'', False, CHR ''n'')"
  "find_long ''help'' = Some (''help'', False, CHR ''h'')"
  by code_simp+

lemma getopt_render:
  assumes "use_ok u"
  shows "getopt_long posix \<lparr>go_cluster = [], go_args = render u @ ws, go_nonopts = n\<rparr> =
    (Opt (use_letter u) (if short_option (use_letter u) = Some True then use_arg u else []),
     \<lparr>go_cluster = [], go_args = ws, go_nonopts = n\<rparr>)"
proof -
  have "short_option (use_letter u) \<noteq> None" using assms by (simp add: use_ok_def)
  then show ?thesis
    using assms
    by (cases rule: short_option_cases; cases "use_long u"; cases "use_own_word u")
       (simp_all add: use_ok_def render_def short_option_def long_names find_long_names getopt_long_def option_word_def
        getopt_long_option_def getopt_short_option_def take_arg_def Let_def)
qed

lemma parse_log_level_names:
  "log_levels_ok L \<Longrightarrow> name \<in> set log_names \<Longrightarrow> \<not> parse_log_level L name < 0"
  by (auto simp: log_names_def parse_log_level_def log_levels_ok_def)

lemma last_arg_Cons:
  "last_arg c (u # us) = (case last_arg c us of Some a \<Rightarrow> Some a | None \<Rightarrow> if use_letter u = c then Some (use_arg u) else None)"
proof -
  have "List.find P (xs @ ys) = (case List.find P xs of Some a \<Rightarrow> Some a | None \<Rightarrow> List.find P ys)" for P and xs ys :: "opt_use list"
    by (induction xs) auto
  then show ?thesis by (simp add: last_arg_def split: option.split)
qed

text \<open>Well-formed options set each field to its last occurrence, and parsing goes on after them.\<close>

lemma parse_args_loop_uses:
  assumes "log_levels_ok L" "uses_ok us"
  shows "parse_args_loop L posix \<lparr>go_cluster = [], go_args = concat (map render us) @ ws, go_nonopts = n\<rparr> s =
    parse_args_loop L posix \<lparr>go_cluster = [], go_args = ws, go_nonopts = n\<rparr> (apply_uses L us s)"
  using assms(2)
proof (induction us arbitrary: s)
  case Nil
  show ?case by (simp add: apply_uses_def last_arg_def)
next
  case (Cons u us)
  then have ok: "short_option (use_letter u) \<noteq> None" "use_letter u \<noteq> CHR ''h''"
    and level: "use_letter u = CHR ''l'' \<Longrightarrow> \<not> parse_log_level L (use_arg u) < 0"
    and IH: "parse_args_loop L posix \<lparr>go_cluster = [], go_args = concat (map render us) @ ws, go_nonopts = n\<rparr> t =
      parse_args_loop L posix \<lparr>go_cluster = [], go_args = ws, go_nonopts = n\<rparr> (apply_uses L us t)" for t
    using parse_log_level_names[OF assms(1)] by (auto simp: use_ok_def uses_ok_def)
  have step: "getopt_long posix \<lparr>go_cluster = [], go_args = concat (map render (u # us)) @ ws, go_nonopts = n\<rparr> =
    (Opt (use_letter u) (if short_option (use_letter u) = Some True then use_arg u else []),
     \<lparr>go_cluster = [], go_args = concat (map render us) @ ws, go_nonopts = n\<rparr>)"
    using getopt_render[of u posix "concat (map render us) @ ws"] Cons.prems by (simp add: uses_ok_def)
  from ok(1) show ?case
    using ok(2) level
    by (cases rule: short_option_cases; subst parse_args_loop.simps; unfold step)
       (simp_all add: IH last_arg_Cons short_option_def Let_def apply_uses_def split: option.split)
qed

lemma parse_args_loop_end:
  "parse_args_loop L posix \<lparr>go_cluster = [], go_args = [], go_nonopts = n\<rparr> s = (if n > 0 then - EINVAL else 0, s)"
  by (subst parse_args_loop.simps) (simp add: getopt_long_def)

lemma parse_args_loop_nonopt:
  "\<not> option_word w \<Longrightarrow> parse_args_loop L False \<lparr>go_cluster = [], go_args = w # ws, go_nonopts = n\<rparr> s =
     parse_args_loop L False \<lparr>go_cluster = [], go_args = ws, go_nonopts = Suc n\<rparr> s"
  "\<not> option_word w \<Longrightarrow> parse_args_loop L True \<lparr>go_cluster = [], go_args = w # ws, go_nonopts = n\<rparr> s = (- EINVAL, s)"
  by (subst (1 2) parse_args_loop.simps, simp add: getopt_long_def)
     (subst parse_args_loop.simps, simp add: getopt_long_def)

text \<open>Whatever the words, the level that comes out is one of the four.\<close>

lemma parse_log_level_range:
  "0 \<le> parse_log_level L name \<Longrightarrow> parse_log_level L name \<in> {L_LOG_ERR L, L_LOG_WARNING L, L_LOG_INFO L, L_LOG_DEBUG L}"
  by (auto simp: parse_log_level_def split: if_splits)

lemma parse_args_loop_level:
  "parse_args_loop L posix g s = (rc, s') \<Longrightarrow> rc \<ge> 0 \<Longrightarrow> set_log_level s \<in> V \<Longrightarrow>
   (\<And>name. 0 \<le> parse_log_level L name \<Longrightarrow> parse_log_level L name \<in> V) \<Longrightarrow> set_log_level s' \<in> V"
proof (induction L posix g s arbitrary: s' rule: parse_args_loop.induct)
  case (1 L posix g s)
  show ?case
    using 1 by (subst (asm) (6) parse_args_loop.simps) (auto split: opt_result.splits prod.splits if_splits simp: Let_def not_less)
qed

section \<open>Properties\<close>

text \<open>
  (C40) Options may be written in any order, short or long, with the argument in the same or in
  the next word, and repeated; each field gets the argument of the last occurrence of its
  option, and its default when the option does not occur.
\<close>

theorem settings_load_options:
  assumes "log_levels_ok L" "uses_ok us"
  shows "settings_load L posix (concat (map render us)) = Some
    \<lparr>set_credentials_path = case_option ''/etc/knot/credentials.conf'' id (last_arg CHR ''c'' us),
     set_device_path = case_option ''/etc/knot/device.conf'' id (last_arg CHR ''d'' us),
     set_cloud_path = case_option ''/etc/knot/cloud.conf'' id (last_arg CHR ''p'' us),
     set_log_level = case_option (L_LOG_INFO L) (parse_log_level L) (last_arg CHR ''l'' us),
     set_detach = (last_arg CHR ''n'' us = None), set_help = False\<rparr>"
  using parse_args_loop_uses[OF assms, of posix "[]" 0 "settings_default L"]
  by (simp add: settings_load_def parse_args_def parse_args_loop_end apply_uses_def settings_default_def cong: option.case_cong)

theorem settings_load_options_witness:
  "settings_load ex_levels False [''--log=debug'', ''-c'', ''--x'', ''-n'', ''-lwarn''] = Some
    \<lparr>set_credentials_path = ''--x'', set_device_path = ''/etc/knot/device.conf'',
     set_cloud_path = ''/etc/knot/cloud.conf'', set_log_level = 4, set_detach = False, set_help = False\<rparr>"
proof -
  define us where "us =
    [\<lparr>use_letter = CHR ''l'', use_arg = ''debug'', use_long = True, use_own_word = True\<rparr>,
     \<lparr>use_letter = CHR ''c'', use_arg = ''--x'', use_long = False, use_own_word = False\<rparr>,
     \<lparr>use_letter = CHR ''n'', use_arg = [], use_long = False, use_own_word = False\<rparr>,
     \<lparr>use_letter = CHR ''l'', use_arg = ''warn'', use_long = False, use_own_word = True\<rparr>]"
  have "log_levels_ok ex_levels" "uses_ok us"
    by (auto simp: us_def log_levels_ok_def ex_levels_def uses_ok_def use_ok_def short_option_def log_names_def)
  from settings_load_options[OF this, of False] show ?thesis
    by (simp add: us_def render_def short_option_def long_names last_arg_def parse_log_level_def ex_levels_def)
qed

text \<open>
  A word that is no option, before, between or after well-formed options, makes the program
  refuse its command line.
\<close>

theorem settings_load_positional:
  assumes "log_levels_ok L" "uses_ok us" "uses_ok us'" "\<not> option_word w"
  shows "settings_load L posix (concat (map render us) @ w # concat (map render us')) = None"
proof (cases posix)
  case True
  then show ?thesis
    using parse_args_loop_uses[OF assms(1,2)] parse_args_loop_nonopt(2)[OF assms(4)]
    by (simp add: settings_load_def parse_args_def)
next
  case False
  then show ?thesis
    using parse_args_loop_uses[OF assms(1,2)] parse_args_loop_uses[OF assms(1,3), of False "[]"]
      parse_args_loop_nonopt(1)[OF assms(4)] parse_args_loop_end
    by (simp add: settings_load_def parse_args_def)
qed

theorem settings_load_positional_witness:
  "settings_load ex_levels False [''device.conf'', ''--nodetach''] = None"
  using settings_load_positional[of ex_levels "[]"
      "[\<lparr>use_letter = CHR ''n'', use_arg = [], use_long = True, use_own_word = False\<rparr>]" "''device.conf''" False]
  by (simp add: log_levels_ok_def ex_levels_def uses_ok_def use_ok_def short_option_def option_word_def render_def
      long_names)

text \<open>
  Whatever the command line, when it is accepted the log level is one of the four levels of
  the logger.
\<close>

theorem settings_load_log_level:
  assumes "settings_load L posix argv = Some s"
  shows "set_log_level s \<in> {L_LOG_ERR L, L_LOG_WARNING L, L_LOG_INFO L, L_LOG_DEBUG L}"
proof -
  obtain rc where "parse_args L posix argv (settings_default L) = (rc, s)" "rc \<ge> 0"
    using assms by (auto simp: settings_load_def split: if_splits prod.splits)
  then show ?thesis
    using parse_args_loop_level[of L posix "\<lparr>go_cluster = [], go_args = argv, go_nonopts = 0\<rparr>" "settings_default L" rc s
        "{L_LOG_ERR L, L_LOG_WARNING L, L_LOG_INFO L, L_LOG_DEBUG L}"] parse_log_level_range[of L]
    by (auto simp: parse_args_def settings_default_def)
qed

theorem settings_load_log_level_witness:
  "\<exists>s. settings_load ex_levels False [''-l'', ''error''] = Some s \<and> set_log_level s \<in> {3, 4, 6, 7}"
proof -
  have "log_levels_ok ex_levels" "uses_ok [\<lparr>use_letter = CHR ''l'', use_arg = ''error'', use_long = False, use_own_word = False\<rparr>]"
    by (simp_all add: log_levels_ok_def ex_levels_def uses_ok_def use_ok_def short_option_def log_names_def)
  from parse_args_loop_uses[OF this, of False "[]" 0 "settings_default ex_levels"]
  have "settings_load ex_levels False [''-l'', ''error''] = Some ((settings_default ex_levels)\<lparr>set_log_level := 3\<rparr>)"
    by (simp add: settings_load_def parse_args_def parse_args_loop_end apply_uses_def last_arg_def render_def
        short_option_def parse_log_level_def ex_levels_def settings_default_def)
  from settings_load_log_level[OF this] this show ?thesis by (auto simp: ex_levels_def)
qed

end
