(* ===== verification/Daemon.thy ===== *)
theory Daemon
  imports Program_Props Settings
begin

text \<open>
  \<open>src/src/main.c\<close>: the process around the device. The main loop of ELL is the relation
  \<open>prog_reach\<close> of the device program, ended by a signal; the answers of \<open>l_main_init\<close> and
  \<open>daemon\<close> are parameters. Text printed for the user is left out, apart from the
  filter of the log.
\<close>

section \<open>Logging\<close>

record log_st =
  log_handler_set :: bool
  log_priority :: int
  cloud_log_priority :: "int option"
  debug_pattern :: "string option"

definition log_init :: log_st where
  "log_init = \<lparr>log_handler_set = False, log_priority = 0, cloud_log_priority = None, debug_pattern = None\<rparr>"

text \<open>The prefix of a message and whether the name of the function follows it; \<open>None\<close> prints nothing.\<close>

definition log_stderr_handler :: "log_levels \<Rightarrow> int \<Rightarrow> log_st \<Rightarrow> (string \<times> bool) option" where
  "log_stderr_handler L priority l =
     (if priority > log_priority l then None
      else if priority = L_LOG_ERR L then Some (''ERR: '', True)
      else if priority = L_LOG_WARNING L then Some (''WARN: '', False)
      else if priority = L_LOG_INFO L then Some (''INFO: '', False)
      else if priority = L_LOG_DEBUG L then Some (''DEBUG: '', False)
      else None)"

definition device_set_log_priority :: "int \<Rightarrow> log_st \<Rightarrow> log_st" where
  "device_set_log_priority priority l = l\<lparr>cloud_log_priority := Some priority\<rparr>"

definition log_enable :: "log_levels \<Rightarrow> int \<Rightarrow> log_st \<Rightarrow> log_st" where
  "log_enable L priority l =
     (let l = device_set_log_priority priority (l\<lparr>log_handler_set := True, log_priority := priority\<rparr>)
      in if log_priority l = L_LOG_DEBUG L then l\<lparr>debug_pattern := Some ''*''\<rparr> else l)"

section \<open>The process\<close>

text \<open>What the process relies on besides the device: the priorities, the mode of \<open>getopt_long\<close>,
  and the answers of \<open>l_main_init\<close> and of \<open>daemon\<close> (\<open>None\<close> for success, else \<open>errno\<close>).\<close>

record main_env =
  m_levels :: log_levels
  m_posix :: bool
  m_main_init :: bool
  m_daemon :: "int option"

definition detach_daemon :: "main_env \<Rightarrow> int" where
  "detach_daemon M = (case m_daemon M of Some errno \<Rightarrow> - errno | None \<Rightarrow> 0)"

definition set_device_settings :: "settings \<Rightarrow> device_settings" where
  "set_device_settings s = \<lparr>credentials_path = Some (set_credentials_path s),
     device_path = Some (set_device_path s), cloud_path = Some (set_cloud_path s)\<rparr>"

text \<open>The state of the process: logging, and the device program.\<close>

record ('c, 'd) process =
  proc_log :: log_st
  proc_prog :: "('c, 'd) program"

text \<open>The process has left \<open>main\<close> with an exit code, or is in the main loop.\<close>

datatype ('c, 'd) main_result =
    Exit int "('c, 'd) process"
  | Main_loop "('c, 'd) process"

abbreviation (input) EXIT_SUCCESS :: int where "EXIT_SUCCESS \<equiv> 0"
abbreviation (input) EXIT_FAILURE :: int where "EXIT_FAILURE \<equiv> 1"

text \<open>\<open>main\<close> up to \<open>l_main_run_with_signal\<close>; \<open>None\<close> is a crash.\<close>

definition main_begin :: "main_env \<Rightarrow> ('c, 'd) dev_env \<Rightarrow> string list \<Rightarrow> ('c, 'd) process
    \<Rightarrow> ('c, 'd) main_result option" where
  "main_begin M E argv pr =
     (case settings_load (m_levels M) (m_posix M) argv of
        None \<Rightarrow> Some (Exit EXIT_FAILURE pr)
      | Some s \<Rightarrow>
          if set_help s then Some (Exit EXIT_SUCCESS pr)
          else if \<not> m_main_init M then Some (Exit EXIT_FAILURE pr)
          else
            let pr = pr\<lparr>proc_log := log_enable (m_levels M) (set_log_level s) (proc_log pr)\<rparr> in
            do {
              (err, p) \<leftarrow> device_start E (set_device_settings s) (proc_prog pr);
              let pr = pr\<lparr>proc_prog := p\<rparr> in
              if err \<noteq> 0 then Some (Exit EXIT_FAILURE pr)
              else if set_detach s \<and> detach_daemon M \<noteq> 0 then Some (Exit EXIT_FAILURE pr)
              else Some (Main_loop pr)
            })"

text \<open>A signal during the main loop: whether the loop is left.\<close>

abbreviation (input) SIGINT :: nat where "SIGINT \<equiv> 2"
abbreviation (input) SIGTERM :: nat where "SIGTERM \<equiv> 15"

definition signal_handler :: "nat \<Rightarrow> bool" where
  "signal_handler signo \<longleftrightarrow> signo = SIGINT \<or> signo = SIGTERM"

text \<open>\<open>main\<close> after \<open>l_main_run_with_signal\<close>.\<close>

definition main_end :: "('c, 'd) dev_env \<Rightarrow> ('c, 'd) process \<Rightarrow> ('c, 'd) main_result" where
  "main_end E pr = Exit EXIT_SUCCESS (pr\<lparr>proc_prog := device_destroy E (proc_prog pr)\<rparr>)"

text \<open>A whole run of the process.\<close>

inductive main_run :: "main_env \<Rightarrow> ('c, 'd) dev_env \<Rightarrow> string list \<Rightarrow> ('c, 'd) process \<Rightarrow> int \<Rightarrow> ('c, 'd) process \<Rightarrow> bool"
  for M E argv pr where
  early: "main_begin M E argv pr = Some (Exit rc pr') \<Longrightarrow> main_run M E argv pr rc pr'"
| signal: "main_begin M E argv pr = Some (Main_loop pr1) \<Longrightarrow> prog_reach E (proc_prog pr1) p2 \<Longrightarrow>
    signal_handler signo \<Longrightarrow> main_end E (pr1\<lparr>proc_prog := p2\<rparr>) = Exit rc pr' \<Longrightarrow> main_run M E argv pr rc pr'"

section \<open>Definitions for the statements\<close>

text \<open>No timer of any component is alive.\<close>

definition no_timer :: "('c, 'd) device_st \<Rightarrow> bool" where
  "no_timer s \<longleftrightarrow> (\<forall>t. \<not> live (ev_log (event s)) t \<and> \<not> live (poll_log (poll s)) t \<and> \<not> live (msg_log s) t \<and>
     \<not> live (mb_to_log (modbus s)) t)"

text \<open>The process before \<open>main\<close>.\<close>

definition proc_init :: "('c, 'd) storage_st \<Rightarrow> ('c, 'd) process" where
  "proc_init st = \<lparr>proc_log = log_init, proc_prog = prog_init st\<rparr>"

section \<open>Lemmas: the connection timer\<close>

text \<open>What the main loop keeps of the connection timer.\<close>

definition mb_same :: "modbus_st \<Rightarrow> modbus_st \<Rightarrow> bool" where
  "mb_same m m' \<longleftrightarrow> connect_to m' = connect_to m \<and> (\<forall>t. live (mb_to_log m') t \<longleftrightarrow> live (mb_to_log m) t)"

lemma mb_same_refl [simp]: "mb_same m m"
  by (simp add: mb_same_def)

lemma mb_same_trans: "mb_same m m' \<Longrightarrow> mb_same m' m'' \<Longrightarrow> mb_same m m''"
  by (simp add: mb_same_def)

lemma mb_same_log:
  "mb_same (m\<lparr>mb_to_log := To_expire t # mb_to_log m\<rparr>) m' = mb_same m m'"
  "mb_same m (m'\<lparr>mb_to_log := To_modify h n # mb_to_log m'\<rparr>) = mb_same m m'"
  by (simp_all add: mb_same_def)

lemma read_data_same: "mb_same m (snd (snd (iface_modbus_read_data M a b v e m)))"
  by (simp add: iface_modbus_read_data_def mb_do_def mb_same_def Let_def split_beta)

lemma attempt_connect_same: "mb_same m (snd (attempt_connect_body M t m))"
  by (simp add: attempt_connect_body_def mb_do_def mb_same_def Let_def split_beta)

lemma input_event_modbus: "input_event E ev ud p = Some p' \<Longrightarrow> modbus (dev p') = modbus (dev p)"
  by (drule input_event_rest) (simp add: same_rest_def)

lemma conn_handler_modbus: "conn_handler E c up p = Some p' \<Longrightarrow> modbus (dev p') = modbus (dev p)"
  by (auto simp: conn_handler_def Let_def split: if_splits dest!: input_event_modbus)

lemma callbacks_modbus:
  "run_modbus_cb E cb p = Some p' \<Longrightarrow> modbus (dev p') = modbus (dev p)"
  "run_timeout_cb E tcb i p = Some p' \<Longrightarrow> modbus (dev p') = modbus (dev p)"
  "on_cloud_receive E msg p = Some p' \<Longrightarrow> modbus (dev p') = modbus (dev p)"
  by (cases cb; auto simp: on_modbus_connected_def on_modbus_disconnected_def dest!: conn_handler_modbus)
     (cases tcb; auto simp: on_event_timeout_def on_cloud_receive_def split: msg_type.splits if_splits dest!: input_event_modbus)+

lemma read_cb_modbus:
  assumes "run_read_cb E cb i p = Some p'"
  shows "mb_same (modbus (dev p)) (modbus (dev p'))"
  using assms read_data_same
  by (cases cb) (auto simp: on_modbus_poll_receive_def Let_def split_beta split: option.splits if_splits
      Option.bind_splits dest!: input_event_modbus)

lemma prog_step_modbus:
  assumes "prog_step E p l p'"
  shows "mb_same (modbus (dev p)) (modbus (dev p'))"
  using assms
proof (induction rule: prog_step.induct)
  case (msg_timer p t p')
  then show ?case by (auto simp: on_msg_timeout_def dest!: input_event_modbus)
next
  case (event_timer p t data p')
  then show ?case
    by (auto simp: on_sensor_to_def bind_eq_Some_conv split: option.splits dest!: callbacks_modbus(2))
next
  case (poll_timer p t pdata p')
  then show ?case
    by (auto simp: on_poll_timeout_def bind_eq_Some_conv split: if_splits dest!: read_cb_modbus)
next
  case (connect_timer p t p')
  then show ?case
    using attempt_connect_same[of "(modbus (dev p))\<lparr>mb_to_log := To_expire t # mb_to_log (modbus (dev p))\<rparr>" "e_modbus E" t]
    by (auto simp: attempt_connect_def Let_def run_cb_def split_beta mb_same_log split: if_splits option.splits
        dest!: callbacks_modbus(1))
next
  case (modbus_lost p p')
  then show ?case
    by (auto simp: on_disconnected_def bind_eq_Some_conv run_cb_def mb_same_log split: option.splits
        dest!: callbacks_modbus(1))
next
  case (cloud_up p p')
  then show ?case by (auto simp: on_cloud_connected_def dest!: conn_handler_modbus)
next
  case (cloud_down p p')
  then show ?case by (auto simp: on_cloud_disconnected_def dest!: conn_handler_modbus)
next
  case (cloud_msg msg p p')
  then show ?case by (auto dest!: callbacks_modbus(3))
qed

lemma prog_reach_modbus: "prog_reach E p p' \<Longrightarrow> mb_same (modbus (dev p)) (modbus (dev p'))"
  by (induction rule: prog_reach.induct) (auto intro: prog_step_modbus mb_same_trans)

section \<open>Lemmas: starting and destroying\<close>

lemma device_start_modbus:
  assumes "device_start E conf (prog_init st) = Some (0, p)" "live (mb_to_log (modbus (dev p))) t"
  shows "connect_to (modbus (dev p)) = Some t"
  using assms(1)
proof (cases rule: device_start_cases)
  case (started th st' rc p1 url merr mb)
  obtain ps where "p1 = upd_poll (\<lambda>_. ps) (sm_start (upd_dev (\<lambda>s. s\<lparr>thing := th, storage := st'\<rparr>) (prog_init st)))"
    using started(2) by (auto simp: create_data_item_polling_def split: prod.splits)
  then have "modbus (dev p1) = modbus_init" by (simp add: sm_start_def prog_init_def device_init_def)
  then show ?thesis
    using iface_modbus_start_to[OF started(5)] started(8) assms(2) by (auto simp: modbus_init_def)
qed simp_all

lemma device_destroy_no_timer:
  assumes "prog_inv E p" "\<And>t. live (mb_to_log (modbus (dev p))) t \<Longrightarrow> connect_to (modbus (dev p)) = Some t"
  shows "no_timer (dev (device_destroy E p))"
proof -
  have inv: "event_inv (event (dev p))" "pool_owned [msg_to (thing (dev p))] (msg_log (dev p))" "poll_inv (poll (dev p))"
    using assms(1) by (auto simp: prog_inv_def machine_inv_def timers_owned_def)
  show ?thesis
    using inv event_stop_inv[OF inv(1)] poq.clear_no_live[of "poll (dev p)"] assms(2)
    by (auto simp: no_timer_def device_destroy_def Let_def pool_owned_def poll_inv_def)
qed


lemma device_start_failure:
  assumes "fresh_handles (e_poll_timeout E)"
    and "device_start E conf (prog_init st) = Some (err, p)" "err \<noteq> 0"
  shows "no_timer (dev p)"
proof -
  let ?p0 = "\<lambda>th st'. sm_start (upd_dev (\<lambda>s. s\<lparr>thing := th, storage := st'\<rparr>) (prog_init st))"
  have init: "poll_inv (poll (dev (?p0 th st')))" "no_timer (dev (?p0 th st'))" for th st'
    using poll_init_inv
    by (simp_all add: prog_init_def device_init_def sm_start_def no_timer_def event_init_def modbus_init_def poll_init_def)
  have p1: "poll_inv (poll (dev p1)) \<and> event (dev p1) = event_init \<and> modbus (dev p1) = modbus_init \<and> msg_log (dev p1) = [] \<and>
      (rc \<noteq> 0 \<longrightarrow> (\<forall>t. \<not> live (poll_log (poll (dev p1))) t))"
    if "create_data_item_polling E (?p0 th st') = (rc, p1)" for th st' rc p1
    using create_polling_inv[OF assms(1) init(1) that]
    by (auto simp: prog_init_def device_init_def sm_start_def)
  have destroyed: "\<not> live (poll_log (poll_destroy ps)) t" if "poll_inv ps" for ps t
    using that poq.clear_no_live[of ps t] by (simp add: poll_inv_def)
  show ?thesis
    using assms(2)
  proof (cases rule: device_start_cases)
    case (properties rc th st')
    then show ?thesis using init(2)[of st' th] by (simp add: no_timer_def sm_start_def)
  next
    case (polling th st' p1)
    then show ?thesis using p1[OF polling(2)] by (auto simp: no_timer_def event_init_def modbus_init_def)
  next
    case (modbus th st' rc p1 url mb)
    then show ?thesis
      using p1[OF modbus(2)] iface_modbus_start_error_to[OF modbus(4)] destroyed[of "poll (dev p1)"] assms(3)
      by (auto simp: no_timer_def event_init_def modbus_init_def)
  next
    case (cloud th st' rc p1 url merr mb c)
    then show ?thesis
      using p1[OF cloud(2)] iface_modbus_start_to[OF cloud(4)] destroyed[of "poll (dev p1)"]
      by (auto simp: no_timer_def event_init_def modbus_init_def)
  next
    case (started th st' rc p1 url merr mb)
    then show ?thesis using assms(3) by simp
  qed
qed


text \<open>How \<open>main\<close> ends before, or gets into, the main loop.\<close>

lemma main_begin_cases:
  assumes "main_begin M E argv pr = Some r"
  obtains (refused) rc where "r = Exit rc pr"
  | (failed) s err p where "settings_load (m_levels M) (m_posix M) argv = Some s"
      "device_start E (set_device_settings s) (proc_prog pr) = Some (err, p)" "err \<noteq> 0"
      "r = Exit EXIT_FAILURE (pr\<lparr>proc_log := log_enable (m_levels M) (set_log_level s) (proc_log pr), proc_prog := p\<rparr>)"
  | (not_detached) s p where "settings_load (m_levels M) (m_posix M) argv = Some s"
      "device_start E (set_device_settings s) (proc_prog pr) = Some (0, p)" "set_detach s" "detach_daemon M \<noteq> 0"
      "r = Exit EXIT_FAILURE (pr\<lparr>proc_log := log_enable (m_levels M) (set_log_level s) (proc_log pr), proc_prog := p\<rparr>)"
  | (running) s p where "settings_load (m_levels M) (m_posix M) argv = Some s"
      "device_start E (set_device_settings s) (proc_prog pr) = Some (0, p)"
      "r = Main_loop (pr\<lparr>proc_log := log_enable (m_levels M) (set_log_level s) (proc_log pr), proc_prog := p\<rparr>)"
proof (cases "settings_load (m_levels M) (m_posix M) argv")
  case None
  then show thesis using assms refused by (auto simp: main_begin_def)
next
  case s: (Some s)
  show thesis
  proof (cases "set_help s \<or> \<not> m_main_init M")
    case True
    then show thesis using assms s refused by (auto simp: main_begin_def split: if_splits)
  next
    case False
    then obtain err p where d: "device_start E (set_device_settings s) (proc_prog pr) = Some (err, p)"
      using assms s by (auto simp: main_begin_def Let_def bind_eq_Some_conv)
    then show thesis
      using assms False s failed[OF s d] not_detached[OF s] running[OF s]
      by (auto simp: main_begin_def Let_def split: if_splits)
  qed
qed

text \<open>A command line for the examples.\<close>

lemma ex_settings:
  "settings_load ex_levels False
     [''-c'', ''k'', ''-d'', ''d'', ''-p'', ''c''] = Some
   \<lparr>set_credentials_path = ''k'', set_device_path = ''d'',
    set_cloud_path = ''c'', set_log_level = 6, set_detach = True, set_help = False\<rparr>"
proof -
  define us where "us = map (\<lambda>(c, a). \<lparr>use_letter = c, use_arg = a, use_long = False, use_own_word = False\<rparr>)
    [(CHR ''c'', ''k''), (CHR ''d'', ''d''), (CHR ''p'', ''c'')]"
  have "log_levels_ok ex_levels" "uses_ok us"
    by (auto simp: us_def log_levels_ok_def ex_levels_def uses_ok_def use_ok_def short_option_def)
  from parse_args_loop_uses[OF this, of False "[]" 0 "settings_default ex_levels"] show ?thesis
    by (simp add: us_def settings_load_def parse_args_def parse_args_loop_end apply_uses_def last_arg_def render_def
        short_option_def ex_levels_def settings_default_def)
qed

section \<open>Properties\<close>

text \<open>
  (C5) However the process ends, on a bad command line, after the help text, because the device
  could not be started, or by a signal after any sequence of timers, connections and
  messages, no timer of any component is left, unless it is \<open>daemon\<close> that failed.
\<close>

theorem main_leaves_no_timer:
  assumes "schema_check_ok (e_knot E)" "fresh_handles (e_poll_timeout E)" "detach_daemon M = 0"
    and "main_run M E argv (proc_init st) rc pr'"
  shows "no_timer (dev (proc_prog pr'))"
  using assms(4)
proof (cases rule: main_run.cases)
  case early
  then show ?thesis
  proof (cases rule: main_begin_cases)
    case (failed s err p)
    then show ?thesis using device_start_failure[OF assms(2), of _ st err p] by (simp add: proc_init_def)
  qed (use assms(3) in \<open>auto simp: proc_init_def no_timer_def prog_init_def device_init_def event_init_def
      modbus_init_def poll_init_def\<close>)
next
  case (signal pr1 p2 signo)
  then obtain s where start: "device_start E (set_device_settings s) (prog_init st) = Some (0, proc_prog pr1)"
    by (auto elim!: main_begin_cases simp: proc_init_def)
  have "prog_inv E p2"
    by (rule prog_reach_inv[OF signal(2) device_start_inv(1)[OF assms(1,2) start]])
  moreover have "connect_to (modbus (dev p2)) = Some t" if "live (mb_to_log (modbus (dev p2))) t" for t
    using prog_reach_modbus[OF signal(2)] device_start_modbus[OF start, of t] that by (simp add: mb_same_def)
  ultimately show ?thesis using device_destroy_no_timer[of E p2] signal(4) by (auto simp: main_end_def)
qed


theorem main_leaves_no_timer_witness:
  "\<exists>pr'. main_run \<lparr>m_levels = ex_levels, m_posix = False, m_main_init = True, m_daemon = None\<rparr> ex_env
      [''-c'', ''k'', ''-d'', ''d'', ''-p'', ''c'']
      (proc_init (storage_init ex_files)) 0 pr' \<and> no_timer (dev (proc_prog pr'))"
proof -
  let ?M = "\<lparr>m_levels = ex_levels, m_posix = False, m_main_init = True, m_daemon = None\<rparr>"
  let ?argv = "[''-c'', ''k'', ''-d'', ''d'', ''-p'', ''c'']"
  obtain p p2 where p: "device_start ex_env ex_paths (prog_init (storage_init ex_files)) = Some (0, p)"
    "prog_reach ex_env p p2" using ex_start by blast
  define pr1 where "pr1 = \<lparr>proc_log = log_enable ex_levels 6 log_init, proc_prog = p\<rparr>"
  have "main_begin ?M ex_env ?argv (proc_init (storage_init ex_files)) = Some (Main_loop pr1)"
    using p(1) by (simp add: main_begin_def ex_settings set_device_settings_def ex_paths_def proc_init_def pr1_def detach_daemon_def)
  then have run: "main_run ?M ex_env ?argv (proc_init (storage_init ex_files)) 0 (pr1\<lparr>proc_prog := device_destroy ex_env p2\<rparr>)"
    by (rule main_run.signal[of _ _ _ _ _ p2 15]) (use p(2) in \<open>simp_all add: pr1_def signal_handler_def main_end_def\<close>)
  then show ?thesis using main_leaves_no_timer[OF _ _ _ run] by (auto simp: detach_daemon_def)
qed

end
