(* ===== verification/Program_Runs.thy ===== *)
theory Program_Runs
  imports Daemon
begin

text \<open>
  Runs of the whole program: a turn of the main loop taken apart into events for the state
  machine and silent changes, the runs in which the link to the Modbus slave can never come
  up, and the poll entries made at the start. The properties of the program are drawn
  from these lemmas in the root theory.
\<close>

section \<open>Definitions for the statements\<close>

text \<open>The events that the handlers of \<open>device.c\<close> give to the machine.\<close>

definition raised :: "EVENTS \<Rightarrow> bool" where
  "raised ev \<longleftrightarrow> ev \<noteq> EVT_REG_PERM \<and> (\<forall>n. ev \<noteq> EVT_OTHER n)"

text \<open>
  A turn of the main loop in small actions: an event given to the machine, or a change that
  leaves alone the state of the machine, the calls to the cloud, the paths of the files and
  whether the event component runs.
\<close>

definition same_core :: "('c, 'd) program \<Rightarrow> ('c, 'd) program \<Rightarrow> bool" where
  "same_core p p' \<longleftrightarrow> current_state p' = current_state p \<and> cloud_log (dev p') = cloud_log (dev p) \<and>
     conf_files (thing (dev p')) = conf_files (thing (dev p)) \<and>
     sensor_timeouts (event (dev p')) = sensor_timeouts (event (dev p)) \<and>
     timeout_cb (event (dev p')) = timeout_cb (event (dev p))"

inductive action :: "('c, 'd) dev_env \<Rightarrow> ('c, 'd) program \<Rightarrow> ('c, 'd) program \<Rightarrow> bool" for E where
  event: "input_event E ev ud p = Some p' \<Longrightarrow> raised ev \<Longrightarrow> action E p p'"
| silent: "same_core p p' \<Longrightarrow> action E p p'"

section \<open>Lemmas: a turn of the main loop in actions\<close>

lemma action_event: "input_event E ev ud p = Some p' \<Longrightarrow> raised ev \<Longrightarrow> (action E)\<^sup>*\<^sup>* p p'"
  by (blast intro: action.event)

lemma silent_first: "(action E)\<^sup>*\<^sup>* q p' \<Longrightarrow> same_core p q \<Longrightarrow> (action E)\<^sup>*\<^sup>* p p'"
  by (meson action.silent converse_rtranclp_into_rtranclp)

lemma silent_last: "(action E)\<^sup>*\<^sup>* p q \<Longrightarrow> same_core q p' \<Longrightarrow> (action E)\<^sup>*\<^sup>* p p'"
  by (meson action.silent rtranclp.rtrancl_into_rtrancl)

lemma conn_handler_actions:
  assumes "conn_handler E c up p = Some p'"
  shows "(action E)\<^sup>*\<^sup>* p p'"
proof -
  define q where "q = upd_dev (\<lambda>s. s\<lparr>conn_mask := set_conn_bitmask up (conn_mask s) (conn_bits c)\<rparr>) p"
  have "input_event E EVT_NOT_READY UD_NULL q = Some p' \<or> input_event E EVT_READY UD_NULL q = Some p'"
    using assms by (auto simp: conn_handler_def Let_def q_def split: if_splits)
  then have "(action E)\<^sup>*\<^sup>* q p'" by (auto intro: action_event simp: raised_def)
  then show ?thesis by (rule silent_first) (simp add: q_def same_core_def)
qed

lemma handlers_actions:
  "run_timeout_cb E tcb i p = Some p' \<Longrightarrow> (action E)\<^sup>*\<^sup>* p p'"
  "on_cloud_receive E msg p = Some p' \<Longrightarrow> (action E)\<^sup>*\<^sup>* p p'"
  by (cases tcb; auto simp: on_event_timeout_def raised_def intro: action_event)
     (auto simp: on_cloud_receive_def raised_def split: msg_type.splits if_splits intro: action_event)

lemma run_modbus_actions:
  assumes "run_modbus_cb E cb p = Some p'"
  shows "(action E)\<^sup>*\<^sup>* p p'"
proof -
  obtain f c up where "conn_handler E c up (upd_poll f p) = Some p'"
    using assms by (cases cb) (auto simp: on_modbus_connected_def on_modbus_disconnected_def)
  from conn_handler_actions[OF this] show ?thesis by (rule silent_first) (simp add: same_core_def)
qed

lemma run_read_actions:
  assumes "run_read_cb E cb i p = Some p'"
  shows "(action E)\<^sup>*\<^sup>* p p'"
proof -
  obtain rc where r: "on_modbus_poll_receive E i p = Some (rc, p')" using assms by (cases cb) auto
  show ?thesis
  proof (cases "hm_lookup (data_items (thing (dev p))) i")
    case None
    then show ?thesis using r by (simp add: on_modbus_poll_receive_def)
  next
    case (Some item)
    define v where "v = fst (snd (iface_modbus_read_data (e_modbus E) (reg_addr (item_source item))
      (bit_offset (item_source item)) (current_val item) (endianness_type_sensor (item_source item)) (modbus (dev p))))"
    define mb where "mb = snd (snd (iface_modbus_read_data (e_modbus E) (reg_addr (item_source item))
      (bit_offset (item_source item)) (current_val item) (endianness_type_sensor (item_source item)) (modbus (dev p))))"
    define q where "q = upd_thing (\<lambda>th. th\<lparr>data_items := hm_modify i (\<lambda>it. it\<lparr>current_val := v\<rparr>) (data_items th)\<rparr>)
      (upd_modbus (\<lambda>_. mb) p)"
    define q' where "q' = upd_thing (\<lambda>th. th\<lparr>data_items := hm_modify i (\<lambda>it. it\<lparr>sent_val := v\<rparr>) (data_items th)\<rparr>) q"
    have "p' = q \<or> input_event E EVT_PUB_DATA (UD_ids [i]) q' = Some p'"
      using r Some
      by (auto simp: on_modbus_poll_receive_def Let_def split_beta bind_eq_Some_conv v_def mb_def q_def q'_def split: if_splits)
    then have "(action E)\<^sup>*\<^sup>* q p' \<or> (action E)\<^sup>*\<^sup>* q' p'" by (auto simp: raised_def intro: action_event)
    moreover have "same_core p q" "same_core p q'" by (simp_all add: q_def q'_def same_core_def)
    ultimately show ?thesis using silent_first by blast
  qed
qed

lemma prog_step_actions: "prog_step E p l p' \<Longrightarrow> (action E)\<^sup>*\<^sup>* p p'"
proof (induction rule: prog_step.induct)
  case (msg_timer p t p')
  then have "(action E)\<^sup>*\<^sup>* (upd_dev (\<lambda>s. s\<lparr>msg_log := To_expire t # msg_log s\<rparr>) p) p'"
    by (auto simp: on_msg_timeout_def raised_def intro: action_event)
  then show ?case by (rule silent_first) (simp add: same_core_def)
next
  case (event_timer p t data p')
  then obtain cb q where q: "run_timeout_cb E cb (dt_id data) (upd_event (\<lambda>e. e\<lparr>ev_log := To_expire t # ev_log e\<rparr>) p) = Some q"
    "p' = upd_event (\<lambda>e. e\<lparr>ev_log := To_modify (Some t) (dt_timeout_sec data) # ev_log e\<rparr>) q"
    by (auto simp: on_sensor_to_def bind_eq_Some_conv split: option.splits)
  from handlers_actions(1)[OF q(1)] have "(action E)\<^sup>*\<^sup>* p q" by (rule silent_first) (simp add: same_core_def)
  then show ?case by (rule silent_last) (simp add: q(2) same_core_def)
next
  case (poll_timer p t pdata p')
  let ?p = "upd_poll (\<lambda>s. s\<lparr>poll_log := To_expire t # poll_log s\<rparr>) p"
  obtain f q where q: "q = ?p \<or> run_read_cb E (pd_read_cb pdata) (pd_id pdata) ?p = Some q" "p' = upd_poll f q \<or> p' = q"
    using poll_timer.hyps(3) by (auto simp: on_poll_timeout_def bind_eq_Some_conv split: if_splits)
  then have "(action E)\<^sup>*\<^sup>* ?p q" by (auto intro: run_read_actions)
  then have "(action E)\<^sup>*\<^sup>* p q" by (rule silent_first) (simp add: same_core_def)
  then show ?case by (rule silent_last) (use q(2) in \<open>auto simp: same_core_def\<close>)
next
  case (connect_timer p t p')
  let ?p = "upd_modbus (\<lambda>s. s\<lparr>mb_to_log := To_expire t # mb_to_log s\<rparr>) p"
  obtain m where "p' = upd_modbus (\<lambda>_. m) ?p \<or> (\<exists>cb. run_modbus_cb E cb (upd_modbus (\<lambda>_. m) ?p) = Some p')"
    using connect_timer.hyps(2) by (auto simp: attempt_connect_def Let_def split_beta run_cb_def split: if_splits option.splits)
  then have "(action E)\<^sup>*\<^sup>* (upd_modbus (\<lambda>_. m) ?p) p'" by (auto intro: run_modbus_actions)
  then show ?case by (rule silent_first) (simp add: same_core_def)
next
  case (modbus_lost p p')
  then obtain q f where q: "q = p \<or> (\<exists>cb. run_modbus_cb E cb p = Some q)" "p' = upd_modbus f q"
    by (auto simp: on_disconnected_def bind_eq_Some_conv run_cb_def split: option.splits)
  then have "(action E)\<^sup>*\<^sup>* p q" by (auto intro: run_modbus_actions)
  then show ?case by (rule silent_last) (simp add: q(2) same_core_def)
next
  case (cloud_up p p')
  then show ?case by (auto simp: on_cloud_connected_def intro: conn_handler_actions)
next
  case (cloud_down p p')
  then show ?case by (auto simp: on_cloud_disconnected_def intro: conn_handler_actions)
next
  case (cloud_msg msg p p')
  then show ?case by (auto intro: handlers_actions)
qed

lemma prog_reach_actions: "prog_reach E p p' \<Longrightarrow> (action E)\<^sup>*\<^sup>* p p'"
  by (induction rule: prog_reach.induct) (auto dest: prog_step_actions)

lemma device_start_disconnected:
  assumes "device_start E conf p0 = Some (0, p)"
  shows "current_state p = Some ST_DISCONNECTED"
  using assms
proof (cases rule: device_start_cases)
  case (started th st rc p1 url merr mb)
  have "current_state p1 = Some ST_DISCONNECTED"
    using started(2) by (auto simp: create_data_item_polling_def sm_start_def split: prod.splits)
  then show ?thesis using started(8) by simp
qed simp_all

text \<open>In its two final states the machine leaves everything as it is.\<close>

lemma final_input_event:
  assumes "current_state p = Some st" "st \<in> {ST_UNREGISTER, ST_ERROR}" "raised ev" "input_event E ev ud p = Some p'"
  shows "p' = p"
proof -
  have "get_next (states (device_interface E) st) ev ud (dev p) = Some (st, dev p)"
    using assms(2,3) by (cases ev) (auto simp: get_next_defs raised_def)
  then show ?thesis using assms(1,4) by (simp add: sm_input_event_def)
qed

lemma actions_final:
  assumes "(action E)\<^sup>*\<^sup>* p p'" "current_state p = Some st" "st \<in> {ST_UNREGISTER, ST_ERROR}"
  shows "current_state p' = Some st \<and> cloud_log (dev p') = cloud_log (dev p)"
  using assms(1)
proof (induction rule: rtranclp_induct)
  case (step q p')
  from step.hyps(2) show ?case
  proof cases
    case (event ev ud)
    then show ?thesis using final_input_event[of q st ev E ud p'] step.IH assms(3) by blast
  qed (use step.IH in \<open>simp add: same_core_def\<close>)
qed (simp add: assms(2))


section \<open>Lemmas: an address without a known prefix\<close>

lemma conn_handler_mask:
  "conn_handler E c up p = Some p' \<Longrightarrow> conn_mask (dev p') = set_conn_bitmask up (conn_mask (dev p)) (conn_bits c)"
  by (auto simp: conn_handler_def Let_def same_rest_def split: if_splits dest!: input_event_rest)

lemma handlers_mask:
  "run_timeout_cb E tcb i p = Some p' \<Longrightarrow> conn_mask (dev p') = conn_mask (dev p)"
  "on_cloud_receive E msg p = Some p' \<Longrightarrow> conn_mask (dev p') = conn_mask (dev p)"
  by (cases tcb; auto simp: on_event_timeout_def same_rest_def dest!: input_event_rest)
     (auto simp: on_cloud_receive_def same_rest_def split: msg_type.splits if_splits dest!: input_event_rest)

lemma read_data_idle:
  "mb_to_log (snd (snd (iface_modbus_read_data M a b v e m))) = mb_to_log m"
  "modbus_io (snd (snd (iface_modbus_read_data M a b v e m))) = modbus_io m"
  by (simp_all add: iface_modbus_read_data_def mb_do_def Let_def split_beta)

lemma run_read_idle:
  assumes "run_read_cb E cb i p = Some p'"
  shows "conn_mask (dev p') = conn_mask (dev p) \<and> mb_to_log (modbus (dev p')) = mb_to_log (modbus (dev p)) \<and>
    modbus_io (modbus (dev p')) = modbus_io (modbus (dev p))"
  using assms
  by (cases cb) (auto simp: on_modbus_poll_receive_def Let_def split_beta same_rest_def bind_eq_Some_conv read_data_idle
      split: option.splits if_splits dest!: input_event_rest)

text \<open>Without a connection timer and a connection the link to the slave stays down.\<close>

definition mb_idle :: "('c, 'd) program \<Rightarrow> bool" where
  "mb_idle p \<longleftrightarrow> mb_to_log (modbus (dev p)) = [] \<and> \<not> modbus_io (modbus (dev p)) \<and> \<not> bit (conn_mask (dev p)) 0"

lemma mask_bit_cloud: "bit (set_conn_bitmask up m (conn_bits CLOUD)) 0 = bit m 0"
  by (simp add: set_conn_bitmask_def bit_simps)

lemma prog_step_idle:
  assumes "prog_step E p l p'" "mb_idle p"
  shows "mb_idle p'"
  using assms
proof (induction rule: prog_step.induct)
  case (msg_timer p t p')
  then show ?case by (auto simp: on_msg_timeout_def mb_idle_def same_rest_def dest!: input_event_rest)
next
  case (event_timer p t data p')
  then show ?case
    by (auto simp: on_sensor_to_def bind_eq_Some_conv mb_idle_def split: option.splits
        dest: callbacks_modbus(2) handlers_mask(1))
next
  case (poll_timer p t pdata p')
  then show ?case
    by (auto simp: on_poll_timeout_def bind_eq_Some_conv mb_idle_def split: if_splits dest!: run_read_idle)
next
  case (cloud_up p p')
  then show ?case
    using conn_handler_mask[of E CLOUD True p p'] conn_handler_modbus[of E CLOUD True p p']
    by (auto simp: on_cloud_connected_def mb_idle_def mask_bit_cloud simp del: conn_bits.simps)
next
  case (cloud_down p p')
  then show ?case
    using conn_handler_mask[of E CLOUD False p p'] conn_handler_modbus[of E CLOUD False p p']
    by (auto simp: on_cloud_disconnected_def mb_idle_def mask_bit_cloud simp del: conn_bits.simps)
next
  case (cloud_msg msg p p')
  then show ?case by (auto simp: mb_idle_def dest: callbacks_modbus(3) handlers_mask(2))
qed (simp_all add: mb_idle_def)

lemma prog_reach_idle: "prog_reach E p p' \<Longrightarrow> mb_idle p \<Longrightarrow> mb_idle p'"
  by (induction rule: prog_reach.induct) (auto intro: prog_step_idle)

section \<open>Lemmas: polling\<close>

lemma fold_polling:
  assumes "fold (foreach_data_item_polling E) items (rc, ps) = (0, ps')"
  shows "rc = 0" "map pe_data (entries ps') =
    rev (map (\<lambda>it. \<lparr>pd_id = sensor_id it, pd_interval = 1, pd_read_cb = On_modbus_poll_receive\<rparr>) items) @ map pe_data (entries ps)"
proof -
  have "rc = 0 \<and> map pe_data (entries ps') =
    rev (map (\<lambda>it. \<lparr>pd_id = sensor_id it, pd_interval = 1, pd_read_cb = On_modbus_poll_receive\<rparr>) items) @ map pe_data (entries ps)"
    using assms
  proof (induction items arbitrary: rc ps)
    case (Cons it items)
    obtain err ps1 where c: "poll_create (e_poll_timeout E) 1 (sensor_id it) On_modbus_poll_receive ps = (err, ps1)" by fastforce
    then have "(if err \<noteq> 0 then -1 else rc) = 0 \<and> map pe_data (entries ps') =
      rev (map (\<lambda>it. \<lparr>pd_id = sensor_id it, pd_interval = 1, pd_read_cb = On_modbus_poll_receive\<rparr>) items) @ map pe_data (entries ps1)"
      using Cons.prems Cons.IH[of "if err \<noteq> 0 then -1 else rc" ps1]
      by (simp add: foreach_data_item_polling_def)
    then show ?case
      using c by (auto simp: poll_create_def Let_def entries_def split: if_splits option.splits)
  qed simp
  then show "rc = 0" "map pe_data (entries ps') =
    rev (map (\<lambda>it. \<lparr>pd_id = sensor_id it, pd_interval = 1, pd_read_cb = On_modbus_poll_receive\<rparr>) items) @ map pe_data (entries ps)"
    by simp_all
qed

lemma polling_rc: "fst (fold (foreach_data_item_polling E) items (0, ps)) \<in> {0, -1}"
  by (rule fold_invariant[where P = "\<lambda>r. fst r \<in> {0, -1}"])
     (auto simp: foreach_data_item_polling_def split_beta Let_def)

lemma items_in_order_ids:
  assumes "order_ok E" "items_ok K th"
  shows "mset (map sensor_id (items_in_order E th)) = mset (map fst (data_items th))"
proof -
  have id: "\<exists>it. hm_lookup (data_items th) k = Some it \<and> sensor_id it = k" if k: "k \<in> set (map fst (data_items th))" for k
  proof -
    obtain it where "hm_lookup (data_items th) k = Some it"
      using k by (cases "hm_lookup (data_items th) k") (auto simp: hm_lookup_None_iff)
    moreover from this have "(k, it) \<in> set (data_items th)" by (simp add: hm_lookup_def map_of_SomeD)
    ultimately show ?thesis using assms(2) by (auto simp: items_ok_def list_all_iff item_ok_def)
  qed
  have "map sensor_id (List.map_filter (hm_lookup (data_items th)) ks) = ks" if "set ks \<subseteq> set (map fst (data_items th))" for ks
    using that
  proof (induction ks)
    case (Cons k ks)
    then show ?case using id[of k] by (auto simp: List.map_filter_simps)
  qed (simp add: List.map_filter_simps)
  moreover have "mset (e_order E (map fst (data_items th))) = mset (map fst (data_items th))"
    using assms(1) by (simp add: order_ok_def)
  moreover from this have "set (e_order E (map fst (data_items th))) = set (map fst (data_items th))"
    by (metis set_mset_mset)
  ultimately show ?thesis by (simp add: items_in_order_def)
qed

lemma device_start_polls:
  assumes "schema_check_ok (e_knot E)" "order_ok E" "device_start E conf (prog_init st) = Some (0, p)"
  shows "mset (map (\<lambda>e. pd_id (pe_data e)) (entries (poll (dev p)))) = mset (map fst (data_items (thing (dev p))))"
    "list_all (\<lambda>e. pd_interval (pe_data e) = 1) (entries (poll (dev p)))"
proof -
  have *: "mset (map (\<lambda>e. pd_id (pe_data e)) (entries (poll (dev p)))) = mset (map fst (data_items (thing (dev p)))) \<and>
    list_all (\<lambda>e. pd_interval (pe_data e) = 1) (entries (poll (dev p)))"
    using assms(3)
  proof (cases rule: device_start_cases)
    case (started th st' rc p1 url merr mb)
    have th: "items_ok (e_knot E) th"
      using created_thing(1)[OF assms(1) _ started(1)] by (simp add: prog_init_def device_init_def thing_init_def thing_ok_def)
    obtain ps where ps: "fold (foreach_data_item_polling E) (items_in_order E th) (0, poll_init) = (rc, ps)"
      using started(2) by (auto simp: create_data_item_polling_def sm_start_def prog_init_def device_init_def split: prod.splits)
    have rc: "rc = 0" using polling_rc[of E "items_in_order E th" poll_init] ps started(3) by auto
    note m = fold_polling[OF ps[unfolded rc]]
    have p: "poll (dev p) = ps" "thing (dev p) = th\<lparr>conf_files := conf\<rparr>"
      using started(2,8) ps rc
      by (auto simp: create_data_item_polling_def sm_start_def prog_init_def device_init_def)
    have "map (\<lambda>e. pd_id (pe_data e)) (entries ps) = rev (map sensor_id (items_in_order E th))"
      using arg_cong[OF m(2), of "map pd_id"] by (simp add: rev_map poll_init_def entries_def comp_def)
    moreover have "list_all (\<lambda>d. pd_interval d = 1) (map pe_data (entries ps))"
      unfolding m(2) by (auto simp: poll_init_def entries_def list_all_iff)
    ultimately show ?thesis using items_in_order_ids[OF assms(2) th] p by (simp add: list_all_iff)
  qed simp_all
  then show "mset (map (\<lambda>e. pd_id (pe_data e)) (entries (poll (dev p)))) = mset (map fst (data_items (thing (dev p))))"
    "list_all (\<lambda>e. pd_interval (pe_data e) = 1) (entries (poll (dev p)))" by simp_all
qed


text \<open>A reading that is not to be sent, and one that is.\<close>

lemma input_publish_online:
  assumes "current_state p = Some ST_ONLINE" "hm_lookup (data_items (thing (dev p))) i = Some item"
  shows "input_event E EVT_PUB_DATA (UD_ids [i]) p =
    Some (p\<lparr>dev := (dev p)\<lparr>cloud_log := Cl_publish (thing_id (thing (dev p))) (sensor_id item)
      (sc_value_type (schema item)) (current_val item) (e_sizeof_value_type E) # cloud_log (dev p)\<rparr>\<rparr>)"
  using assms by (simp add: sm_input_event_def get_next_online_def device_publish_data_list_def on_publish_data_def)

text \<open>Examples: an item that reports changes, and a configuration with an unknown kind of address.\<close>

definition ex_polled :: knot_data_item where
  "ex_polled = ex_item\<lparr>item_event := (item_event ex_item)\<lparr>event_flags := 8\<rparr>,
     item_source := (item_source ex_item)\<lparr>bit_offset := 16\<rparr>\<rparr>"

definition ex_online :: "(ref_cfg, ref_group) program" where
  "ex_online = upd_event (\<lambda>e. e\<lparr>ev_active := True\<rparr>) (upd_thing (\<lambda>th. th\<lparr>data_items := [(4, ex_polled)]\<rparr>) (ex_sm ST_ONLINE))"

definition ex_bad_files :: "string \<Rightarrow> ref_cfg option" where
  "ex_bad_files = ex_files(''d'' \<mapsto>
     [(''KNoTThing'', [(''Name'', SString ''pump''), (''ModbusSlaveId'', SInt 1), (''ModbusURL'', SString ''rtu:x'')]),
      (''DataItem_0'', snd (ex_device_conf ! 1))])"

section \<open>Lemmas: no handler crashes\<close>

text \<open>While the event component runs, it has its callback.\<close>

definition ev_cb_ok :: "('c, 'd) device_st \<Rightarrow> bool" where
  "ev_cb_ok s \<longleftrightarrow> (sensor_timeouts (event s) \<noteq> None \<longrightarrow> timeout_cb (event s) \<noteq> None)"

text \<open>What every handler relies on.\<close>

definition sound :: "('c, 'd) dev_env \<Rightarrow> ('c, 'd) program \<Rightarrow> bool" where
  "sound E p \<longleftrightarrow> 16 \<le> UUID_LEN (e_knot E) \<and> (\<exists>st. current_state p = Some st) \<and>
     (\<exists>cp. credentials_path (conf_files (thing (dev p))) = Some cp \<and> length cp \<le> PATH_MAX) \<and> ev_cb_ok (dev p)"

lemma fold_add_event_cb:
  "sensor_timeouts (fold (foreach_event_add_data_item E) its e) = None \<longleftrightarrow> sensor_timeouts e = None"
  "timeout_cb (fold (foreach_event_add_data_item E) its e) = timeout_cb e"
  by (induction its arbitrary: e) (simp_all add: foreach_event_add_data_item_def)

lemma start_event_cb: "ev_cb_ok (snd (device_start_event E s))"
  by (simp add: ev_cb_ok_def device_start_event_def event_start_def fold_add_event_cb)

lemma cb_rules:
  "generate_thing_id E s = Some s' \<Longrightarrow> event s' = event s"
  "device_store_credentials_on_file E tok s = Some (rc, s') \<Longrightarrow> event s' = event s"
  "device_clear_credentials_on_file E s = Some (rc, s') \<Longrightarrow> event s' = event s"
  using generate_thing_id_Some[of E s s'] store_credentials_Some[of E tok s rc s'] clear_credentials_Some[of E s rc s']
  by auto

lemma cb_update_config: "device_update_config E cs s = Some (rc, s') \<Longrightarrow> ev_cb_ok s'"
  using start_event_cb by (auto simp: device_update_config_def bind_eq_Some_conv)

lemma cb_simps:
  "event (snd (device_start_read_cloud E s)) = event s" "event (snd (device_send_auth_request E s)) = event s"
  "event (snd (device_send_register_request E s)) = event s" "event (snd (device_send_config E s)) = event s"
  "event (device_msg_timeout_create E n s) = event s" "event (device_msg_timeout_modify n s) = event s"
  "event (device_msg_timeout_remove s) = event s" "event (device_stop_event s) = event_stop (event s)"
  "event (device_publish_data_list E ids s) = event s" "event (device_publish_data_all E s) = event s"
  using fold_publish[of E ids s] fold_publish[of E "map sensor_id (items_in_order E (thing s))" s]
  by (auto simp: device_op_defs Let_def device_publish_data_list_def publish_all_eq)

lemma get_next_cb:
  assumes "get_next (states (device_interface E) st) ev ud s = Some (st', s')" "ev_cb_ok s"
  shows "ev_cb_ok s'"
  using assms
  by (cases st; cases ev)
     (auto simp: get_next_defs Let_def bind_eq_Some_conv ev_cb_ok_def cb_simps
      split: if_splits user_data.splits dest: cb_rules cb_update_config[unfolded ev_cb_ok_def])

lemma enter_cb:
  assumes "enter (states (device_interface E) st) s = Some s'" "ev_cb_ok s"
  shows "ev_cb_ok s'"
  using assms start_event_cb[of E "device_publish_data_all E s"]
  by (cases st) (auto simp: enter_defs ev_cb_ok_def cb_simps dest: cb_rules)

lemma input_event_sound:
  assumes "input_event E ev ud p = Some p'" "sound E p"
  shows "sound E p'"
proof -
  have "same_rest (dev p) (dev p')" by (rule input_event_rest[OF assms(1)])
  moreover have "\<exists>st. current_state p' = Some st \<and> (ev_cb_ok (dev p) \<longrightarrow> ev_cb_ok (dev p'))"
    using assms(1)
  proof (cases rule: sm_input_eventE)
    case (1 cur nxt s s')
    then show ?thesis using get_next_cb[OF 1(2)] enter_cb[of E nxt s s'] by auto
  qed
  ultimately show ?thesis using assms(2) by (auto simp: sound_def same_rest_def)
qed

lemma silent_sound: "same_core p p' \<Longrightarrow> sound E p \<Longrightarrow> sound E p'"
  by (simp add: same_core_def sound_def ev_cb_ok_def)

lemma actions_sound: "(action E)\<^sup>*\<^sup>* p p' \<Longrightarrow> sound E p \<Longrightarrow> sound E p'"
  by (induction rule: rtranclp_induct) (auto elim!: action.cases intro: input_event_sound silent_sound)

lemma input_event_answers:
  assumes "sound E p" "well_typed ev ud" "ev = EVT_CFG_UPT_OK \<Longrightarrow> current_state p \<noteq> Some ST_ONLINE"
  shows "\<exists>p'. input_event E ev ud p = Some p'"
  using assms sm_input_event_total[of p _ ev ud E] by (auto simp: sound_def)

lemma handlers_answer:
  assumes "sound E p"
  shows "\<exists>p'. conn_handler E c up p = Some p'" "\<exists>p'. run_timeout_cb E tcb i p = Some p'"
    "\<exists>p'. run_modbus_cb E cb p = Some p'" "\<exists>p'. run_read_cb E rcb i p = Some p'"
proof -
  have conn: "\<exists>p'. conn_handler E c up q = Some p'" if "sound E q" for q c up
  proof -
    let ?q = "upd_dev (\<lambda>s. s\<lparr>conn_mask := set_conn_bitmask up (conn_mask s) (conn_bits c)\<rparr>) q"
    have "sound E ?q" by (rule silent_sound[OF _ that]) (simp add: same_core_def)
    from input_event_answers[OF this, of EVT_READY UD_NULL] input_event_answers[OF this, of EVT_NOT_READY UD_NULL]
    show ?thesis by (auto simp: conn_handler_def Let_def)
  qed
  then show "\<exists>p'. conn_handler E c up p = Some p'" using assms by blast
  show "\<exists>p'. run_timeout_cb E tcb i p = Some p'"
    using input_event_answers[OF assms, of EVT_PUB_DATA "UD_ids [i]"] by (cases tcb) (auto simp: on_event_timeout_def)
  have "sound E (upd_poll f p)" for f by (rule silent_sound[OF _ assms]) (simp add: same_core_def)
  then show "\<exists>p'. run_modbus_cb E cb p = Some p'"
    using conn by (cases cb) (simp_all add: on_modbus_connected_def on_modbus_disconnected_def)
  have "sound E (upd_thing (\<lambda>th. th\<lparr>data_items := f th\<rparr>) (upd_thing (\<lambda>th. th\<lparr>data_items := g th\<rparr>) (upd_modbus h p)))" for f g h
    by (rule silent_sound[OF _ assms]) (simp add: same_core_def)
  then have "\<exists>p'. input_event E EVT_PUB_DATA (UD_ids [i]) (upd_thing (\<lambda>th. th\<lparr>data_items := f th\<rparr>)
      (upd_thing (\<lambda>th. th\<lparr>data_items := g th\<rparr>) (upd_modbus h p))) = Some p'" for f g h
    by (intro input_event_answers) simp_all
  then show "\<exists>p'. run_read_cb E rcb i p = Some p'"
    by (cases rcb) (auto simp: on_modbus_poll_receive_def Let_def split_beta bind_eq_Some_conv split: option.split)
qed

text \<open>
  The program answers everything that the main loop can ask of it: no handler crashes. The
  one message that is left out is a configuration while the machine is online.
\<close>

definition responsive :: "('c, 'd) dev_env \<Rightarrow> ('c, 'd) program \<Rightarrow> bool" where
  "responsive E p \<longleftrightarrow>
     (\<forall>t. on_msg_timeout E (upd_dev (\<lambda>s. s\<lparr>msg_log := To_expire t # msg_log s\<rparr>) p) \<noteq> None) \<and>
     (\<forall>t data. payload (ev_log (event (dev p))) t = Some data \<longrightarrow>
        on_sensor_to (run_timeout_cb E) (\<lambda>p. event (dev p)) upd_event t data
          (upd_event (\<lambda>e. e\<lparr>ev_log := To_expire t # ev_log e\<rparr>) p) \<noteq> None) \<and>
     (\<forall>t pdata. on_poll_timeout (run_read_cb E) (\<lambda>p. poll (dev p)) upd_poll t pdata
        (upd_poll (\<lambda>s. s\<lparr>poll_log := To_expire t # poll_log s\<rparr>) p) \<noteq> None) \<and>
     (\<forall>t. attempt_connect (e_modbus E) (run_modbus_cb E) (\<lambda>p. modbus (dev p)) upd_modbus t
        (upd_modbus (\<lambda>s. s\<lparr>mb_to_log := To_expire t # mb_to_log s\<rparr>) p) \<noteq> None) \<and>
     on_disconnected (run_modbus_cb E) (\<lambda>p. modbus (dev p)) upd_modbus p \<noteq> None \<and>
     on_cloud_connected E p \<noteq> None \<and> on_cloud_disconnected E p \<noteq> None \<and>
     (\<forall>msg. msg_ok msg \<longrightarrow> msg_kind msg = CONFIG_MSG \<and> current_state p = Some ST_ONLINE \<or>
        on_cloud_receive E msg p \<noteq> None)"

lemma payload_Some_live: "payload l t = Some a \<Longrightarrow> live l t"
  by (induction l t rule: payload.induct) (auto split: if_splits)

lemma sound_updates:
  assumes "sound E p"
  shows "sound E (upd_dev (\<lambda>s. s\<lparr>msg_log := l s\<rparr>) p)" "sound E (upd_event (\<lambda>e. e\<lparr>ev_log := el e\<rparr>) p)"
    "sound E (upd_poll f p)" "sound E (upd_modbus g p)"
  by (rule silent_sound[OF _ assms], simp add: same_core_def)+

lemma on_cloud_receive_answers:
  assumes "sound E p" "msg_ok msg" "msg_kind msg = CONFIG_MSG \<Longrightarrow> current_state p \<noteq> Some ST_ONLINE"
  shows "\<exists>p'. on_cloud_receive E msg p = Some p'"
proof -
  have a: "\<exists>p'. input_event E ev ud p = Some p'" if "well_typed ev ud" "ev = EVT_CFG_UPT_OK \<Longrightarrow> msg_kind msg = CONFIG_MSG" for ev ud
    using input_event_answers[OF assms(1) that(1)] that(2) assms(3) by blast
  show ?thesis
    using assms(2) a[of EVT_DATA_UPDT "msg_list msg"] a[of EVT_PUB_DATA "msg_list msg"] a[of EVT_REG_NOT_OK UD_NULL]
      a[of EVT_REG_OK "token_data (msg_token msg)"] a[of EVT_UNREG_REQ UD_NULL] a[of EVT_AUTH_OK UD_NULL]
      a[of EVT_AUTH_NOT_OK UD_NULL] a[of EVT_CFG_UPT_NOT_OK UD_NULL] a[of EVT_CFG_UPT_OK "msg_list msg"]
    by (cases "msg_kind msg") (auto simp: on_cloud_receive_def token_data_def split: user_data.splits option.splits)
qed

lemma sound_responsive:
  assumes "sound E p" "event_inv (event (dev p))"
  shows "responsive E p"
proof -
  have "\<exists>p'. on_sensor_to (run_timeout_cb E) (\<lambda>p. event (dev p)) upd_event t data
      (upd_event (\<lambda>e. e\<lparr>ev_log := To_expire t # ev_log e\<rparr>) p) = Some p'"
    if "payload (ev_log (event (dev p))) t = Some data" for t data
  proof -
    have "sensor_timeouts (event (dev p)) \<noteq> None"
      using payload_Some_live[OF that] assms(2)
      by (cases "sensor_timeouts (event (dev p))") (auto simp: event_inv_def pool_owned_def ev_handles_def)
    then obtain cb where "timeout_cb (event (dev p)) = Some cb" using assms(1) by (auto simp: sound_def ev_cb_ok_def)
    then show ?thesis
      using handlers_answer(2)[OF sound_updates(2)[OF assms(1)], of cb "dt_id data" "\<lambda>e. To_expire t # ev_log e"]
      by (auto simp: on_sensor_to_def)
  qed
  moreover have "\<exists>p'. on_poll_timeout (run_read_cb E) (\<lambda>p. poll (dev p)) upd_poll t pdata
      (upd_poll (\<lambda>s. s\<lparr>poll_log := To_expire t # poll_log s\<rparr>) p) = Some p'" for t pdata
    using handlers_answer(4)[OF sound_updates(3)[OF assms(1)], of "pd_read_cb pdata" "pd_id pdata"
        "\<lambda>s. s\<lparr>poll_log := To_expire t # poll_log s\<rparr>"]
    by (auto simp: on_poll_timeout_def)
  moreover have "\<exists>p'. attempt_connect (e_modbus E) (run_modbus_cb E) (\<lambda>p. modbus (dev p)) upd_modbus t
      (upd_modbus (\<lambda>s. s\<lparr>mb_to_log := To_expire t # mb_to_log s\<rparr>) p) = Some p'" for t
    using handlers_answer(3)[OF sound_updates(4)[OF sound_updates(4)[OF assms(1)]]]
    by (auto simp: attempt_connect_def Let_def split_beta run_cb_def split: option.split)
  moreover have "\<exists>p'. on_disconnected (run_modbus_cb E) (\<lambda>p. modbus (dev p)) upd_modbus p = Some p'"
    using handlers_answer(3)[OF assms(1)] by (auto simp: on_disconnected_def run_cb_def bind_eq_Some_conv split: option.split)
  moreover have "\<exists>p'. on_msg_timeout E (upd_dev (\<lambda>s. s\<lparr>msg_log := To_expire t # msg_log s\<rparr>) p) = Some p'" for t
    using input_event_answers[OF sound_updates(1)[OF assms(1)], of EVT_TIMEOUT UD_NULL] by (simp add: on_msg_timeout_def)
  moreover have "msg_kind msg = CONFIG_MSG \<and> current_state p = Some ST_ONLINE \<or> on_cloud_receive E msg p \<noteq> None"
    if "msg_ok msg" for msg
    using on_cloud_receive_answers[OF assms(1) that] by fastforce
  ultimately show ?thesis
    using handlers_answer(1)[OF assms(1)]
    by (simp add: responsive_def on_cloud_connected_def on_cloud_disconnected_def del: msg_ok.simps)
qed

lemma device_start_sound:
  assumes "16 \<le> UUID_LEN (e_knot E)" "credentials_path conf = Some cp" "length cp \<le> PATH_MAX"
    and "device_start E conf (prog_init st) = Some (0, p)"
  shows "sound E p"
  using assms(4)
proof (cases rule: device_start_cases)
  case (started th st' rc p1 url merr mb)
  have "event (dev p1) = event_init"
    using started(2) by (auto simp: create_data_item_polling_def sm_start_def prog_init_def device_init_def split: prod.splits)
  then show ?thesis
    using assms(1-3) started(8) device_start_disconnected[OF assms(4)] by (simp add: sound_def ev_cb_ok_def event_init_def)
qed simp_all

end
