(* ===== verification/Program_Stimuli.thy ===== *)
theory Program_Stimuli
  imports Program_Runs
begin

text \<open>
  Runs of the whole program read off their stimuli: which links are up and which events the
  machine is given follow from the sequence of stimuli alone.
\<close>

section \<open>What the stimuli determine\<close>

text \<open>
  The links, Modbus and cloud, as last notified: a successful attempt brings the first up, a
  loss takes it down, the cloud library notifies the second.
\<close>

fun links_after :: "stimulus \<Rightarrow> bool \<times> bool \<Rightarrow> bool \<times> bool" where
  "links_after (Modbus_attempt ok) (mb, cl) = (mb \<or> ok, cl)"
| "links_after Modbus_lost (mb, cl) = (False, cl)"
| "links_after Cloud_up (mb, cl) = (mb, True)"
| "links_after Cloud_down (mb, cl) = (mb, False)"
| "links_after _ lk = lk"

definition links :: "stimulus list \<Rightarrow> bool \<times> bool" where
  "links ls = fold links_after ls (False, False)"

definition link_event :: "bool \<times> bool \<Rightarrow> EVENTS" where
  "link_event lk = (if lk = (True, True) then EVT_READY else EVT_NOT_READY)"

text \<open>The event a message stands for, if any.\<close>

fun msg_event :: "msg_type \<Rightarrow> bool \<Rightarrow> EVENTS list" where
  "msg_event UPDATE_MSG err = (if err then [] else [EVT_DATA_UPDT])"
| "msg_event REQUEST_MSG err = (if err then [] else [EVT_PUB_DATA])"
| "msg_event REGISTER_MSG err = (if err then [EVT_REG_NOT_OK] else [EVT_REG_OK])"
| "msg_event UNREGISTER_MSG err = (if err then [] else [EVT_UNREG_REQ])"
| "msg_event AUTH_MSG err = (if err then [EVT_AUTH_NOT_OK] else [EVT_AUTH_OK])"
| "msg_event CONFIG_MSG err = (if err then [EVT_CFG_UPT_NOT_OK] else [EVT_CFG_UPT_OK])"
| "msg_event _ err = []"

text \<open>The events of a stimulus, given the links after it.\<close>

fun stimulus_events :: "stimulus \<Rightarrow> bool \<times> bool \<Rightarrow> EVENTS list" where
  "stimulus_events Msg_timer lk = [EVT_TIMEOUT]"
| "stimulus_events Item_timer lk = [EVT_PUB_DATA]"
| "stimulus_events (Poll_timer sends) lk = (if sends then [EVT_PUB_DATA] else [])"
| "stimulus_events (Modbus_attempt ok) lk = (if ok then [link_event lk] else [])"
| "stimulus_events Modbus_lost lk = [link_event lk]"
| "stimulus_events Cloud_up lk = [link_event lk]"
| "stimulus_events Cloud_down lk = [link_event lk]"
| "stimulus_events (Cloud_msg msg) lk = msg_event (msg_kind msg) (msg_error msg)"

fun events_from :: "bool \<times> bool \<Rightarrow> stimulus list \<Rightarrow> EVENTS list" where
  "events_from lk [] = []"
| "events_from lk (l # ls) = stimulus_events l (links_after l lk) @ events_from (links_after l lk) ls"

definition run_events :: "stimulus list \<Rightarrow> EVENTS list" where
  "run_events ls = events_from (False, False) ls"

lemma events_from_snoc:
  "events_from lk (ls @ [l]) =
     events_from lk ls @ stimulus_events l (links_after l (fold links_after ls lk))"
  by (induction ls arbitrary: lk) simp_all

lemma run_snoc:
  "links (ls @ [l]) = links_after l (links ls)"
  "run_events (ls @ [l]) = run_events ls @ stimulus_events l (links (ls @ [l]))"
  by (simp_all add: links_def run_events_def events_from_snoc)

section \<open>Lemmas: the events of a turn\<close>

text \<open>Given these events, the machine went from one state to the other.\<close>

definition took :: "EVENTS list \<Rightarrow> ('c, 'd) program \<Rightarrow> ('c, 'd) program \<Rightarrow> bool" where
  "took evs p p' \<longleftrightarrow> (\<forall>st. current_state p = Some st \<longrightarrow>
     (\<exists>st'. current_state p' = Some st' \<and> sm_path st evs st'))"

lemma took_input:
  assumes "input_event E ev ud q = Some q'" "current_state q = current_state p" "current_state q' = current_state p'"
  shows "took [ev] p p'"
  unfolding took_def
proof (intro allI impI)
  fix st assume "current_state p = Some st"
  then obtain st' where "current_state q' = Some st'" "sm_trans st ev st'"
    using sm_input_event_refines[OF assms(1)] assms(2) by auto
  then show "\<exists>st'. current_state p' = Some st' \<and> sm_path st [ev] st'"
    using sm_path.step[OF sm_path.start] assms(3) by fastforce
qed

lemma took_none: "current_state p' = current_state p \<Longrightarrow> took [] p p'"
  by (auto simp: took_def intro: sm_path.start)

lemma took_same:
  "took evs q q' \<Longrightarrow> current_state q = current_state p \<Longrightarrow> current_state q' = current_state p' \<Longrightarrow> took evs p p'"
  by (simp add: took_def)

lemma sm_path_append:
  assumes "sm_path st1 evs' st2" "sm_path st evs st1"
  shows "sm_path st (evs @ evs') st2"
  using assms
proof (induction rule: sm_path.induct)
  case (step st1 evs' st2 ev st3)
  then show ?case using sm_path.step[of st "evs @ evs'" st2 ev st3] by simp
qed simp

section \<open>Lemmas: the links\<close>

definition links_are :: "bool \<times> bool \<Rightarrow> ('c, 'd) program \<Rightarrow> bool" where
  "links_are lk p \<longleftrightarrow> conn_mask (dev p) = link_mask (fst lk) (snd lk)"

text \<open>The Modbus component calls back the handlers of the device, or can never connect.\<close>

definition wired :: "modbus_st \<Rightarrow> bool" where
  "wired m \<longleftrightarrow> conn_cb m = Some On_modbus_connected \<and> disconn_cb m = Some On_modbus_disconnected \<or>
     mb_to_log m = [] \<and> \<not> modbus_io m"

lemma link_mask_full: "link_mask mb cl = CONNECTED_MASK \<longleftrightarrow> mb \<and> cl"
  by (cases mb; cases cl) (simp_all add: link_mask_def)

lemma conn_mask_set:
  "set_conn_bitmask up (link_mask mb cl) (conn_bits MODBUS) = link_mask up cl"
  "set_conn_bitmask up (link_mask mb cl) (conn_bits CLOUD) = link_mask mb up"
  by (cases up; cases mb; cases cl; simp add: set_conn_bitmask_def link_mask_def)+

lemma conn_handler_links:
  assumes "conn_handler E c up p = Some p'" "links_are (mb, cl) p"
  defines "lk \<equiv> (case c of MODBUS \<Rightarrow> (up, cl) | CLOUD \<Rightarrow> (mb, up))"
  shows "links_are lk p'" "modbus (dev p') = modbus (dev p)" "took [link_event lk] p p'"
proof -
  define q where "q = upd_dev (\<lambda>s. s\<lparr>conn_mask := set_conn_bitmask up (conn_mask s) (conn_bits c)\<rparr>) p"
  have q: "links_are lk q"
    using assms(2) by (cases c) (simp_all add: links_are_def q_def lk_def conn_mask_set del: conn_bits.simps)
  then have "conn_mask (dev q) = CONNECTED_MASK \<longleftrightarrow> lk = (True, True)"
    by (cases lk) (simp add: links_are_def link_mask_full)
  then have ev: "input_event E (link_event lk) UD_NULL q = Some p'"
    using assms(1) by (simp add: conn_handler_def Let_def q_def[symmetric] link_event_def split: if_splits)
  have r: "same_rest (dev q) (dev p')" by (rule input_event_rest[OF ev])
  show "links_are lk p'" using r q by (simp add: same_rest_def links_are_def)
  show "modbus (dev p') = modbus (dev p)" using r by (simp add: same_rest_def q_def)
  show "took [link_event lk] p p'" by (rule took_input[OF ev]) (simp_all add: q_def)
qed

lemma run_modbus_links:
  assumes "run_modbus_cb E cb p = Some p'" "links_are (mb, cl) p"
  defines "lk \<equiv> (cb = On_modbus_connected, cl)"
  shows "links_are lk p'" "modbus (dev p') = modbus (dev p)" "took [link_event lk] p p'"
proof -
  obtain f where h: "conn_handler E MODBUS (cb = On_modbus_connected) (upd_poll f p) = Some p'"
    using assms(1) by (cases cb) (auto simp: on_modbus_connected_def on_modbus_disconnected_def)
  have l: "links_are (mb, cl) (upd_poll f p)" using assms(2) by (simp add: links_are_def)
  show "links_are lk p'" "modbus (dev p') = modbus (dev p)" "took [link_event lk] p p'"
    using conn_handler_links[OF h l] by (simp_all add: lk_def took_def)
qed

lemma input_event_links:
  assumes "input_event E ev ud p = Some p'" "links_are lk p"
  shows "links_are lk p'" "modbus (dev p') = modbus (dev p)"
  using input_event_rest[OF assms(1)] assms(2) by (simp_all add: same_rest_def links_are_def)

lemma on_cloud_receive_took:
  assumes "on_cloud_receive E msg p = Some p'"
  shows "took (msg_event (msg_kind msg) (msg_error msg)) p p'"
  using assms
  by (auto simp: on_cloud_receive_def split: msg_type.splits if_splits intro: took_none elim: took_input[OF _ refl refl])

lemma poll_receive_took:
  assumes "on_modbus_poll_receive E i p = Some (rc, p')"
  shows "took (if poll_sends E i p then [EVT_PUB_DATA] else []) p p'"
  using assms
  by (auto simp: on_modbus_poll_receive_def poll_sends_def Let_def split_beta bind_eq_Some_conv
      split: option.splits if_splits intro: took_none elim!: took_input)

lemma read_data_cbs:
  "conn_cb (snd (snd (iface_modbus_read_data M a b v e m))) = conn_cb m"
  "disconn_cb (snd (snd (iface_modbus_read_data M a b v e m))) = disconn_cb m"
  by (simp_all add: iface_modbus_read_data_def mb_do_def Let_def split_beta)

lemma poll_receive_links:
  assumes "on_modbus_poll_receive E i p = Some (rc, p')"
  shows "links_are lk p' \<longleftrightarrow> links_are lk p" "wired (modbus (dev p')) \<longleftrightarrow> wired (modbus (dev p))"
  using assms
  by (auto simp: on_modbus_poll_receive_def Let_def split_beta bind_eq_Some_conv links_are_def wired_def
      same_rest_def read_data_cbs read_data_idle split: option.splits if_splits dest!: input_event_rest)

lemma attempt_body_cbs:
  "conn_cb (snd (attempt_connect_body M t m)) = conn_cb m"
  "disconn_cb (snd (attempt_connect_body M t m)) = disconn_cb m"
  by (simp_all add: attempt_connect_body_def Let_def split_beta mb_do_def)

lemma poll_sends_upd [simp]: "poll_sends E i (upd_poll f p) = poll_sends E i p"
  by (simp add: poll_sends_def split: option.split)

text \<open>One turn keeps the mask equal to the links, and gives the machine the events of its stimulus.\<close>

definition follows :: "bool \<times> bool \<Rightarrow> EVENTS list \<Rightarrow> ('c, 'd) program \<Rightarrow> ('c, 'd) program \<Rightarrow> bool" where
  "follows lk evs p p' \<longleftrightarrow> links_are lk p' \<and> wired (modbus (dev p')) \<and> took evs p p'"

lemma connect_follows:
  assumes "attempt_connect (e_modbus E) (run_modbus_cb E) (\<lambda>p. modbus (dev p)) upd_modbus t
      (upd_modbus (\<lambda>s. s\<lparr>mb_to_log := To_expire t # mb_to_log s\<rparr>) p) = Some p'"
    and "armed (mb_to_log (modbus (dev p))) t \<noteq> None" "links_are (mb, cl) p" "wired (modbus (dev p))"
  defines "up \<equiv> fst (attempt_connect_body (e_modbus E) t
      ((modbus (dev p))\<lparr>mb_to_log := To_expire t # mb_to_log (modbus (dev p))\<rparr>))"
  shows "follows (mb \<or> up, cl) (if up then [link_event (mb \<or> up, cl)] else []) p p'"
proof -
  let ?m = "(modbus (dev p))\<lparr>mb_to_log := To_expire t # mb_to_log (modbus (dev p))\<rparr>"
  define m where "m = snd (attempt_connect_body (e_modbus E) t ?m)"
  define q where "q = upd_modbus (\<lambda>_. m) p"
  have cbs: "conn_cb m = Some On_modbus_connected" "disconn_cb m = Some On_modbus_disconnected"
    using assms(2,4) by (auto simp: m_def attempt_body_cbs wired_def)
  have q: "links_are (mb, cl) q" "modbus (dev q) = m" "current_state q = current_state p"
    using assms(3) by (simp_all add: q_def links_are_def)
  have p': "if up then run_modbus_cb E On_modbus_connected q = Some p' else p' = q"
    using assms(1) cbs(1)
    by (auto simp: attempt_connect_def Let_def split_beta up_def m_def q_def run_cb_def upd_modbus_def upd_dev_def
        split: if_splits)
  show ?thesis
  proof (cases up)
    case True
    then have "run_modbus_cb E On_modbus_connected q = Some p'" using p' by simp
    from run_modbus_links[OF this q(1)] show ?thesis
      using True q cbs by (simp add: follows_def wired_def took_def)
  next
    case False
    then show ?thesis using p' q cbs by (simp add: follows_def wired_def took_none)
  qed
qed

lemma lost_follows:
  assumes "on_disconnected (run_modbus_cb E) (\<lambda>p. modbus (dev p)) upd_modbus p = Some p'"
    and "modbus_io (modbus (dev p))" "links_are (mb, cl) p" "wired (modbus (dev p))"
  shows "follows (False, cl) [link_event (False, cl)] p p'"
proof -
  have cbs: "conn_cb (modbus (dev p)) = Some On_modbus_connected"
    "disconn_cb (modbus (dev p)) = Some On_modbus_disconnected"
    using assms(2,4) by (simp_all add: wired_def)
  obtain q where q: "run_modbus_cb E On_modbus_disconnected p = Some q"
    "p' = upd_modbus (\<lambda>m. if connect_to m \<noteq> None
       then m\<lparr>mb_to_log := To_modify (connect_to m) 5 # mb_to_log m\<rparr> else m) q"
    using assms(1) cbs by (auto simp: on_disconnected_def run_cb_def bind_eq_Some_conv)
  from run_modbus_links[OF q(1) assms(3)] show ?thesis
    using cbs q(2) by (simp add: follows_def wired_def took_def links_are_def)
qed

lemma poll_follows:
  assumes "on_poll_timeout (run_read_cb E) (\<lambda>p. poll (dev p)) upd_poll t pdata
      (upd_poll (\<lambda>s. s\<lparr>poll_log := To_expire t # poll_log s\<rparr>) p) = Some p'"
    and "links_are lk p" "wired (modbus (dev p))"
  shows "follows lk (if poll_active (poll (dev p)) \<and> poll_sends E (pd_id pdata) p then [EVT_PUB_DATA] else []) p p'"
proof -
  let ?q = "upd_poll (\<lambda>s. s\<lparr>poll_log := To_expire t # poll_log s\<rparr>) p"
  have q: "links_are lk ?q" "wired (modbus (dev ?q))" using assms(2,3) by (simp_all add: links_are_def)
  show ?thesis
  proof (cases "poll_active (poll (dev p))")
    case False
    then have "p' = ?q" using assms(1) by (auto simp: on_poll_timeout_def split: if_splits)
    then show ?thesis using q False by (simp add: follows_def took_none)
  next
    case True
    then obtain r f where r: "run_read_cb E (pd_read_cb pdata) (pd_id pdata) ?q = Some r" "p' = upd_poll f r"
      using assms(1) by (auto simp: on_poll_timeout_def bind_eq_Some_conv split: if_splits)
    obtain rc where "on_modbus_poll_receive E (pd_id pdata) ?q = Some (rc, r)"
      using r(1) by (cases "pd_read_cb pdata") auto
    from poll_receive_took[OF this] poll_receive_links(1)[OF this, of lk]
      poll_receive_links(2)[OF this] q True r(2) show ?thesis
      by (simp add: follows_def took_def links_are_def split: if_splits)
  qed
qed

lemma prog_step_follows:
  assumes "prog_step E p l p'" "links_are lk p" "wired (modbus (dev p))"
  shows "follows (links_after l lk) (stimulus_events l (links_after l lk)) p p'"
proof -
  obtain mb cl where lk: "lk = (mb, cl)" by fastforce
  from assms(1) show ?thesis
  proof cases
    case (msg_timer t)
    let ?q = "upd_dev (\<lambda>s. s\<lparr>msg_log := To_expire t # msg_log s\<rparr>) p"
    have ev: "input_event E EVT_TIMEOUT UD_NULL ?q = Some p'" using msg_timer by (simp add: on_msg_timeout_def)
    have "links_are lk ?q" using assms(2) by (simp add: links_are_def)
    then show ?thesis
      using input_event_links[OF ev] took_input[OF ev, of p p'] assms(3) msg_timer(1)
      by (simp add: follows_def)
  next
    case (event_timer t data)
    let ?q = "upd_event (\<lambda>e. e\<lparr>ev_log := To_expire t # ev_log e\<rparr>) p"
    obtain cb r where r: "run_timeout_cb E cb (dt_id data) ?q = Some r"
      "p' = upd_event (\<lambda>e. e\<lparr>ev_log := To_modify (Some t) (dt_timeout_sec data) # ev_log e\<rparr>) r"
      using event_timer(4) by (auto simp: on_sensor_to_def bind_eq_Some_conv split: option.splits)
    have ev: "input_event E EVT_PUB_DATA (UD_ids [dt_id data]) ?q = Some r"
      using r(1) by (cases cb) (simp add: on_event_timeout_def)
    have "links_are lk ?q" using assms(2) by (simp add: links_are_def)
    then show ?thesis
      using input_event_links[OF ev] took_input[OF ev, of p p'] assms(3) event_timer(1) r(2)
      by (simp add: follows_def links_are_def took_def)
  next
    case (poll_timer t pdata)
    then show ?thesis using poll_follows[OF poll_timer(4) assms(2,3)] by simp
  next
    case (connect_timer t)
    then show ?thesis using connect_follows[OF connect_timer(3,2) _ assms(3)] assms(2) lk by simp
  next
    case modbus_lost
    then show ?thesis using lost_follows[OF modbus_lost(3,2) _ assms(3)] assms(2) lk by simp
  next
    case cloud_up
    then show ?thesis
      using conn_handler_links[of E CLOUD True p p' mb cl] assms(2,3) lk
      by (simp add: on_cloud_connected_def follows_def)
  next
    case cloud_down
    then show ?thesis
      using conn_handler_links[of E CLOUD False p p' mb cl] assms(2,3) lk
      by (simp add: on_cloud_disconnected_def follows_def)
  next
    case (cloud_msg msg)
    then show ?thesis
      using on_cloud_receive_took[OF cloud_msg(3)] callbacks_modbus(3)[OF cloud_msg(3)] handlers_mask(2)[OF cloud_msg(3)]
        assms(2,3) by (simp add: follows_def links_are_def)
  qed
qed

lemma prog_run_follows:
  assumes "prog_run E p ls p'" "links_are (False, False) p" "wired (modbus (dev p))"
  shows "follows (links ls) (run_events ls) p p'"
  using assms(1)
proof (induction rule: prog_run.induct)
  case still
  then show ?case using assms(2,3) by (simp add: follows_def links_def run_events_def took_none)
next
  case (turn ls p' l p'')
  have "follows (links (ls @ [l])) (stimulus_events l (links (ls @ [l]))) p' p''"
    using prog_step_follows[OF turn.hyps(2), of "links ls"] turn.IH by (simp add: follows_def run_snoc(1))
  then show ?case
    using turn.IH sm_path_append unfolding follows_def took_def run_snoc(2) by blast
qed

lemma create_ctx_io: "modbus_io (snd (create_ctx M url s)) = modbus_io s"
  by (auto simp: create_ctx_def create_tcp_def create_rtu_def mb_do_def Let_def split: option.split prod.split)

lemma device_start_wired:
  assumes "device_start E conf (prog_init st) = Some (0, p)"
  shows "links_are (False, False) p" "wired (modbus (dev p))"
proof -
  have "links_are (False, False) p \<and> wired (modbus (dev p))"
    using assms
  proof (cases rule: device_start_cases)
    case (started th st' rc p1 url merr mb)
    have p1: "modbus (dev p1) = modbus_init" "conn_mask (dev p1) = 0"
      using started(2) by (auto simp: create_data_item_polling_def sm_start_def prog_init_def device_init_def split: prod.splits)
    have "wired mb"
      using started(5) p1(1)
      by (auto simp: iface_modbus_start_def Let_def split_beta wired_def modbus_init_def mb_do_def create_ctx_io
          split: if_splits)
    then show ?thesis using started(8) p1 by (simp add: links_are_def link_mask_def)
  qed simp_all
  then show "links_are (False, False) p" "wired (modbus (dev p))" by simp_all
qed

section \<open>Lemmas: polling follows the link to the slave\<close>

definition polls :: "bool \<Rightarrow> poll_st \<Rightarrow> bool" where
  "polls up s \<longleftrightarrow> poll_active s = up \<and>
     (up \<longrightarrow> (\<forall>e \<in> set (entries s). armed (poll_log s) (pe_to e) = Some (pd_interval (pe_data e))))"

lemma conn_handler_poll: "conn_handler E c up p = Some p' \<Longrightarrow> poll (dev p') = poll (dev p)"
  by (auto simp: conn_handler_def Let_def same_rest_def split: if_splits dest!: input_event_rest)

lemma handlers_poll:
  "run_timeout_cb E tcb i p = Some p' \<Longrightarrow> poll (dev p') = poll (dev p)"
  "on_cloud_receive E msg p = Some p' \<Longrightarrow> poll (dev p') = poll (dev p)"
  "run_read_cb E rcb i p = Some p' \<Longrightarrow> poll (dev p') = poll (dev p)"
  by (cases tcb; auto simp: on_event_timeout_def same_rest_def dest!: input_event_rest)
     (auto simp: on_cloud_receive_def same_rest_def split: msg_type.splits if_splits dest!: input_event_rest,
      cases rcb, auto simp: on_modbus_poll_receive_def Let_def split_beta same_rest_def bind_eq_Some_conv
      split: option.splits if_splits dest!: input_event_rest)

lemma run_modbus_poll:
  "run_modbus_cb E cb p = Some p' \<Longrightarrow>
     poll (dev p') = (if cb = On_modbus_connected then poll_start else poll_stop) (poll (dev p))"
  by (cases cb) (auto simp: on_modbus_connected_def on_modbus_disconnected_def dest!: conn_handler_poll)

lemma poll_stop_fields [simp]:
  "poll_active (poll_stop s) = False" "entries (poll_stop s) = entries s" "poll_log (poll_stop s) = poll_log s"
  by (simp_all add: poll_stop_def entries_def)

lemma polls_start: "poll_inv s \<Longrightarrow> polls True (poll_start s)"
  using armed_start_log[of "entries s" _ "poll_log s"]
  by (simp add: polls_def) (auto simp: poll_start_def fold_timer_start poll_inv_def)

lemma polls_stop: "polls False (poll_stop s)"
  by (simp add: polls_def)

text \<open>The poll timer that expires is set again if the link is up, and lapses otherwise.\<close>

lemma poll_timer_result:
  assumes "on_poll_timeout (run_read_cb E) (\<lambda>p. poll (dev p)) upd_poll t pdata
      (upd_poll (\<lambda>s. s\<lparr>poll_log := To_expire t # poll_log s\<rparr>) p) = Some p'"
  shows "poll (dev p') = (poll (dev p))\<lparr>poll_log :=
    (if poll_active (poll (dev p)) then [To_modify (Some t) (pd_interval pdata)] else []) @ To_expire t # poll_log (poll (dev p))\<rparr>"
    and "\<not> poll_active (poll (dev p)) \<Longrightarrow> p' = upd_poll (\<lambda>s. s\<lparr>poll_log := To_expire t # poll_log s\<rparr>) p"
proof -
  let ?q = "upd_poll (\<lambda>s. s\<lparr>poll_log := To_expire t # poll_log s\<rparr>) p"
  show stopped: "\<not> poll_active (poll (dev p)) \<Longrightarrow> p' = ?q"
    using assms by (auto simp: on_poll_timeout_def split: if_splits)
  show "poll (dev p') = (poll (dev p))\<lparr>poll_log :=
    (if poll_active (poll (dev p)) then [To_modify (Some t) (pd_interval pdata)] else []) @ To_expire t # poll_log (poll (dev p))\<rparr>"
  proof (cases "poll_active (poll (dev p))")
    case True
    then obtain r where "run_read_cb E (pd_read_cb pdata) (pd_id pdata) ?q = Some r"
      "p' = upd_poll (\<lambda>p. p\<lparr>poll_log := To_modify (Some t) (pd_interval pdata) # poll_log p\<rparr>) r"
      using assms by (auto simp: on_poll_timeout_def bind_eq_Some_conv split: if_splits)
    then show ?thesis using True handlers_poll(3) by fastforce
  qed (use stopped in simp)
qed

lemma poll_timer_polls:
  assumes "on_poll_timeout (run_read_cb E) (\<lambda>p. poll (dev p)) upd_poll t pdata
      (upd_poll (\<lambda>s. s\<lparr>poll_log := To_expire t # poll_log s\<rparr>) p) = Some p'"
    and "payload (poll_log (poll (dev p))) t = Some pdata" "poll_inv (poll (dev p))" "polls up (poll (dev p))"
  shows "polls up (poll (dev p'))" "entries (poll (dev p')) = entries (poll (dev p))"
proof -
  have "pe_data e = pdata" if "e \<in> set (entries (poll (dev p)))" "pe_to e = t" for e
    using assms(2,3) that by (auto simp: poll_inv_def list_all_iff)
  then show "polls up (poll (dev p'))"
    using assms(4) unfolding poll_timer_result(1)[OF assms(1)] by (auto simp: polls_def entries_def)
  show "entries (poll (dev p')) = entries (poll (dev p))"
    unfolding poll_timer_result(1)[OF assms(1)] by (simp add: entries_def)
qed

lemma prog_step_polls:
  assumes "prog_step E p l p'" "poll_inv (poll (dev p))" "wired (modbus (dev p))" "polls (fst lk) (poll (dev p))"
  shows "polls (fst (links_after l lk)) (poll (dev p')) \<and> entries (poll (dev p')) = entries (poll (dev p))"
proof -
  obtain mb cl where lk: "lk = (mb, cl)" by fastforce
  from assms(1) show ?thesis
  proof cases
    case (msg_timer t)
    then show ?thesis using assms(4) by (auto simp: on_msg_timeout_def same_rest_def dest!: input_event_rest)
  next
    case (event_timer t data)
    then show ?thesis
      using assms(4) by (auto simp: on_sensor_to_def bind_eq_Some_conv split: option.splits dest!: handlers_poll(1))
  next
    case (poll_timer t pdata)
    then show ?thesis using poll_timer_polls[OF poll_timer(4,3) assms(2,4)] by simp
  next
    case (connect_timer t)
    let ?m = "(modbus (dev p))\<lparr>mb_to_log := To_expire t # mb_to_log (modbus (dev p))\<rparr>"
    have cb: "conn_cb (snd (attempt_connect_body (e_modbus E) t ?m)) = Some On_modbus_connected"
      using assms(3) connect_timer(2) by (auto simp: attempt_body_cbs wired_def)
    have "poll (dev p') = (if fst (attempt_connect_body (e_modbus E) t ?m) then poll_start (poll (dev p)) else poll (dev p))"
      using connect_timer(3) cb run_modbus_poll[of E On_modbus_connected _ p']
      by (auto simp: attempt_connect_def Let_def split_beta run_cb_def split: if_splits)
    then show ?thesis
      using connect_timer(1) lk assms(2,4) polls_start[of "poll (dev p)"] by simp
  next
    case modbus_lost
    have "disconn_cb (modbus (dev p)) = Some On_modbus_disconnected"
      using assms(3) modbus_lost(2) by (simp add: wired_def)
    then have "poll (dev p') = poll_stop (poll (dev p))"
      using modbus_lost(3) run_modbus_poll[of E On_modbus_disconnected p]
      by (auto simp: on_disconnected_def run_cb_def bind_eq_Some_conv)
    then show ?thesis using modbus_lost(1) lk polls_stop[of "poll (dev p)"] by simp
  next
    case cloud_up
    then show ?thesis using conn_handler_poll[of E CLOUD True p p'] lk assms(4) by (simp add: on_cloud_connected_def)
  next
    case cloud_down
    then show ?thesis using conn_handler_poll[of E CLOUD False p p'] lk assms(4) by (simp add: on_cloud_disconnected_def)
  next
    case (cloud_msg msg)
    then show ?thesis using handlers_poll(2)[OF cloud_msg(3)] assms(4) by simp
  qed
qed

lemma prog_run_polls:
  assumes "prog_run E p ls p'" "prog_inv E p" "links_are (False, False) p" "wired (modbus (dev p))"
    and "\<not> poll_active (poll (dev p))"
  shows "polls (fst (links ls)) (poll (dev p')) \<and> entries (poll (dev p')) = entries (poll (dev p))"
  using assms(1)
proof (induction rule: prog_run.induct)
  case still
  then show ?case using assms(5) by (simp add: polls_def links_def)
next
  case (turn ls p' l p'')
  have "prog_inv E p'" using turn.hyps(1) prog_reach_run prog_reach_inv[OF _ assms(2)] by blast
  then have "poll_inv (poll (dev p'))" by (auto simp: prog_inv_def)
  moreover have "wired (modbus (dev p'))"
    using prog_run_follows[OF turn.hyps(1) assms(3,4)] by (simp add: follows_def)
  ultimately show ?case
    using prog_step_polls[OF turn.hyps(2), of "links ls"] turn.IH by (simp add: run_snoc(1))
qed

lemma device_start_not_polling:
  assumes "device_start E conf (prog_init st) = Some (0, p)"
  shows "\<not> poll_active (poll (dev p))"
  using assms
proof (cases rule: device_start_cases)
  case (started th st' rc p1 url merr mb)
  have a: "poll_active (snd (fold (foreach_data_item_polling E) its (r, ps))) = poll_active ps" for its r ps
    by (induction its arbitrary: r ps)
       (simp_all add: foreach_data_item_polling_def poll_create_def Let_def split_beta split: option.split)
  have "\<not> poll_active (poll (dev p1))"
    using started(2) a[of "items_in_order E th" 0 poll_init]
    by (auto simp: create_data_item_polling_def sm_start_def prog_init_def device_init_def poll_init_def
        split: prod.splits if_splits)
  then show ?thesis using started(8) by simp
qed simp_all

lemma stopped_poll_lapses:
  assumes "prog_step E p (Poll_timer b) p'" "\<not> poll_active (poll (dev p))"
  shows "\<not> b \<and> modbus (dev p') = modbus (dev p) \<and> cloud_log (dev p') = cloud_log (dev p) \<and>
    (\<exists>t. armed (poll_log (poll (dev p))) t \<noteq> None \<and> armed (poll_log (poll (dev p'))) t = None)"
  using assms(1)
proof cases
  case (poll_timer t pdata)
  have "p' = upd_poll (\<lambda>s. s\<lparr>poll_log := To_expire t # poll_log s\<rparr>) p"
    by (rule poll_timer_result(2)[OF poll_timer(4) assms(2)])
  then show ?thesis using poll_timer(1,2) assms(2) by (auto intro: exI[of _ t])
qed

section \<open>Lemmas: an address without a known prefix\<close>

lemma disconnected_stays:
  "sm_path ST_DISCONNECTED evs st \<Longrightarrow> EVT_READY \<notin> set evs \<Longrightarrow> (\<And>n. EVT_OTHER n \<notin> set evs) \<Longrightarrow> st = ST_DISCONNECTED"
  by (induction ST_DISCONNECTED evs st rule: sm_path.induct) (auto elim!: sm_trans.cases)

lemma msg_event_raised: "ev \<in> set (msg_event k err) \<Longrightarrow> raised ev \<and> ev \<noteq> EVT_READY"
  by (induction k err rule: msg_event.induct) (auto simp: raised_def split: if_splits)

lemma stimulus_events_raised:
  "ev \<in> set (stimulus_events l lk) \<Longrightarrow> raised ev \<and> (ev = EVT_READY \<longrightarrow> lk = (True, True))"
  by (cases l) (auto simp: raised_def link_event_def split: if_splits dest!: msg_event_raised)

lemma events_from_raised: "ev \<in> set (events_from lk ls) \<Longrightarrow> raised ev"
proof (induction ls arbitrary: lk)
  case (Cons l ls)
  have "ev \<in> set (stimulus_events l (links_after l lk)) \<or> ev \<in> set (events_from (links_after l lk) ls)"
    using Cons.prems by simp
  then show ?case using stimulus_events_raised Cons.IH by blast
qed simp

lemma idle_link: "mb_idle p \<Longrightarrow> links_are lk p \<Longrightarrow> \<not> fst lk"
  by (cases lk) (auto simp: mb_idle_def links_are_def link_mask_def bit_simps)

lemma idle_stays_disconnected:
  assumes "prog_run E p ls p'" "mb_idle p" "links_are (False, False) p" "wired (modbus (dev p))"
    and "current_state p = Some ST_DISCONNECTED"
  shows "current_state p' = Some ST_DISCONNECTED"
  using assms(1)
proof (induction rule: prog_run.induct)
  case still
  then show ?case by (rule assms(5))
next
  case (turn ls p' l p'')
  let ?lk = "links (ls @ [l])"
  have f: "follows (links ls) (run_events ls) p p'" by (rule prog_run_follows[OF turn.hyps(1) assms(3,4)])
  then have g: "follows ?lk (stimulus_events l ?lk) p' p''"
    using prog_step_follows[OF turn.hyps(2), of "links ls"] by (simp add: follows_def run_snoc(1))
  have "prog_reach E p p''" using prog_reach_run prog_run.turn[OF turn.hyps] by blast
  then have "mb_idle p''" using prog_reach_idle assms(2) by blast
  then have down: "\<not> fst ?lk" using g idle_link[of p'' ?lk] by (simp add: follows_def)
  obtain st where st: "current_state p'' = Some st" "sm_path ST_DISCONNECTED (stimulus_events l ?lk) st"
    using g turn.IH by (auto simp: follows_def took_def)
  have "st = ST_DISCONNECTED"
    by (rule disconnected_stays[OF st(2)]) (use down in \<open>auto simp: raised_def dest!: stimulus_events_raised\<close>)
  then show ?case using st(1) by simp
qed

text \<open>With a timer for every item, a bad address and a cloud library that starts, the start succeeds.\<close>

lemma polling_succeeds:
  assumes "\<And>l. e_poll_timeout E l \<noteq> None"
  shows "fst (create_data_item_polling E p) = 0"
proof -
  have "fst (fold (foreach_data_item_polling E) its (0, ps)) = 0" for its ps
  proof (induction its arbitrary: ps)
    case (Cons it its)
    obtain t where "e_poll_timeout E (poll_log ps) = Some t" using assms by blast
    then show ?case using Cons by (simp add: foreach_data_item_polling_def poll_create_def Let_def)
  qed simp
  then show ?thesis by (simp add: create_data_item_polling_def split_beta Let_def)
qed

lemma bad_prefix_starts:
  assumes "properties_create_device (e_knot E) (e_storage E) thing_init conf st = Some (0, th, st')"
    and "slave_url (thing_slave th) = Some url" "take 6 url \<noteq> ''tcp://''" "take 9 url \<noteq> ''serial://''"
    and "\<And>l. e_poll_timeout E l \<noteq> None" "\<And>l c. 0 \<le> e_cloud_ret E l c"
  shows "\<exists>p. device_start E conf (prog_init st) = Some (0, p) \<and> mb_idle p"
proof -
  have th0: "(thing (dev (prog_init st)))\<lparr>data_items := []\<rparr> = thing_init" "storage (dev (prog_init st)) = st"
    by (simp_all add: prog_init_def device_init_def thing_init_def)
  let ?p0 = "sm_start (upd_dev (\<lambda>s. s\<lparr>thing := th, storage := st'\<rparr>) (prog_init st))"
  obtain p1 where p1: "create_data_item_polling E ?p0 = (0, p1)"
    using polling_succeeds[OF assms(5), of ?p0] by (metis prod.collapse)
  then obtain f where "p1 = upd_poll f ?p0" by (auto simp: create_data_item_polling_def split: prod.splits)
  then have d: "thing (dev p1) = th" "modbus (dev p1) = modbus_init" "conn_mask (dev p1) = 0"
    by (simp_all add: sm_start_def prog_init_def device_init_def)
  have m: "iface_modbus_start (e_modbus E) url i c1 c2 modbus_init =
      (EINVAL, modbus_init\<lparr>mb_errno := - EINVAL, modbus_ctx := False\<rparr>)" for i c1 c2
    using assms(3,4) by (simp add: iface_modbus_start_def create_ctx_def)
  have c: "\<not> fst (cloud_do E x s) < 0" for x s using assms(6) by (simp add: cloud_do_def not_less)
  show ?thesis
    using assms(1,2) p1 d m c
    by (simp add: device_start_def th0 Let_def mb_idle_def modbus_init_def)
qed

section \<open>Example: both links come up\<close>

lemma ex_run:
  "\<exists>p p2. device_start ex_env ex_paths (prog_init (storage_init ex_files)) = Some (0, p) \<and>
     prog_run ex_env p [Cloud_up, Modbus_attempt True] p2 \<and> current_state p2 = Some ST_REGISTER"
proof -
  let ?f = "\<lambda>s. s\<lparr>mb_to_log := To_expire 1 # mb_to_log s\<rparr>"
  have r: "case device_start ex_env ex_paths (prog_init (storage_init ex_files)) of None \<Rightarrow> False | Some (rc, p) \<Rightarrow> rc = 0 \<and>
      (case on_cloud_connected ex_env p of None \<Rightarrow> False | Some p1 \<Rightarrow>
        (armed (mb_to_log (modbus (dev p1))) 1 \<noteq> None \<and> fst (attempt_connect_body (e_modbus ex_env) 1 (?f (modbus (dev p1))))) \<and>
      (case attempt_connect (e_modbus ex_env) (run_modbus_cb ex_env) (\<lambda>p. modbus (dev p)) upd_modbus 1 (upd_modbus ?f p1)
       of None \<Rightarrow> False | Some p2 \<Rightarrow> current_state p2 = Some ST_REGISTER))"
    by code_simp
  from run3_cases[OF r] obtain p p1 p2 where
    p: "device_start ex_env ex_paths (prog_init (storage_init ex_files)) = Some (0, p)"
    "on_cloud_connected ex_env p = Some p1" "armed (mb_to_log (modbus (dev p1))) 1 \<noteq> None"
    "fst (attempt_connect_body (e_modbus ex_env) 1 (?f (modbus (dev p1))))"
    "attempt_connect (e_modbus ex_env) (run_modbus_cb ex_env) (\<lambda>p. modbus (dev p)) upd_modbus 1 (upd_modbus ?f p1) = Some p2"
    "current_state p2 = Some ST_REGISTER"
    by blast
  have "prog_run ex_env p [Cloud_up] p1"
    using prog_run.turn[OF prog_run.still prog_step.cloud_up[OF p(2)]] by simp
  then have "prog_run ex_env p [Cloud_up, Modbus_attempt True] p2"
    using prog_run.turn[OF _ prog_step.connect_timer[OF p(3,5)]] p(4) by fastforce
  then show ?thesis using p(1,6) by blast
qed

end
