(* ===== verification/Storage_Props.thy ===== *)
theory Storage_Props
  imports Storage_Ref
begin

text \<open>
  Properties of \<open>storage.c\<close>: which directories are made, what a write leaves on disk, which
  groups of data items are found, and that opening and closing a file are balanced. The
  witnesses run on the concrete store of \<open>Storage_Ref\<close>.
\<close>


text \<open>The directories of a path below \<open>dir\<close>: one for each component but the last.\<close>

fun dirs_below :: "string \<Rightarrow> string list \<Rightarrow> string list" where
  "dirs_below dir (s # t # ss) = (dir @ s @ ''/'') # dirs_below (dir @ s @ ''/'') (t # ss)"
| "dirs_below dir _ = []"

definition join_path :: "string list \<Rightarrow> string" where
  "join_path comps = concat (map (\<lambda>s. ''/'' @ s) comps)"

definition component :: "string \<Rightarrow> bool" where
  "component s \<longleftrightarrow> s \<noteq> [] \<and> CHR ''/'' \<notin> set s"

text \<open>Every \<open>mkdir\<close> succeeds or finds the directory already there.\<close>

definition mkdir_fine :: "('c, 'd) storage_env \<Rightarrow> bool" where
  "mkdir_fine A \<longleftrightarrow> (\<forall>l d. os_ret A l (Os_mkdir d) = -1 \<longrightarrow> os_errno A (Os_mkdir d # l) = EEXIST)"

text \<open>A state with one file open, for the witnesses.\<close>

definition ex_cred_st :: "(ref_cfg, ref_group) storage_st" where
  "ex_cred_st = \<lparr>storage_list = [3 \<mapsto> []], files = [''c'' \<mapsto> []], fd_table = [3 \<mapsto> ''c''],
     os_log = [Os_open ''c'']\<rparr>"

lemma takeWhile_component:
  assumes "CHR ''/'' \<notin> set s"
  shows "takeWhile (\<lambda>c. c \<noteq> CHR ''/'') (s @ CHR ''/'' # r) = s"
    and "dropWhile (\<lambda>c. c \<noteq> CHR ''/'') (s @ CHR ''/'' # r) = CHR ''/'' # r"
    and "dropWhile (\<lambda>c. c \<noteq> CHR ''/'') s = []"
  using assms by (auto simp: takeWhile_append dropWhile_append)

text \<open>
  The directories made before the array overflows: all that fit, when none is too long.
\<close>

definition dirs_fit :: "string list \<Rightarrow> bool" where
  "dirs_fit ds \<longleftrightarrow> list_all (\<lambda>d. length d \<le> PATH_MAX) ds"

lemma make_dirs_loop_log:
  assumes "mkdir_fine A" "list_all component (s # ss)"
  shows "make_dirs_loop A dir (s @ join_path ss) st =
     (if dirs_fit (dirs_below dir (s # ss))
      then Some (0, st\<lparr>os_log := rev (map Os_mkdir (dirs_below dir (s # ss))) @ os_log st\<rparr>)
      else None)"
  using assms(2)
proof (induction ss arbitrary: s dir st)
  case Nil
  then show ?case
    by (intro make_dirs_loop_end[THEN trans])
       (simp_all add: join_path_def component_def takeWhile_component dirs_fit_def)
next
  case (Cons t ss)
  have s: "s \<noteq> []" "CHR ''/'' \<notin> set s" using Cons.prems by (simp_all add: component_def)
  let ?d = "dir @ s @ ''/''"
  have split: "s @ join_path (t # ss) = s @ CHR ''/'' # (t @ join_path ss)"
    by (simp add: join_path_def)
  have go: "\<not> (os_ret A (os_log st) (Os_mkdir ?d) = -1 \<and> os_errno A (Os_mkdir ?d # os_log st) \<noteq> EEXIST)"
    using assms(1) by (auto simp: mkdir_fine_def)
  have "make_dirs_loop A dir (s @ join_path (t # ss)) st =
     (if length ?d > PATH_MAX then None
      else make_dirs_loop A ?d (t @ join_path ss) (st\<lparr>os_log := Os_mkdir ?d # os_log st\<rparr>))"
    using make_dirs_loop_step(2)[OF takeWhile_component(2)[OF s(2)] takeWhile_component(1)[OF s(2)] s(1),
        of A dir "t @ join_path ss" st]
    unfolding split Let_def if_not_P[OF go] .
  then show ?case
    using Cons.IH[of t ?d "st\<lparr>os_log := Os_mkdir ?d # os_log st\<rparr>"] Cons.prems
    by (simp add: dirs_fit_def)
qed

lemma dirs_below_length:
  "d \<in> set (dirs_below dir comps) \<Longrightarrow> length d \<le> length dir + length (join_path comps)"
  by (induction dir comps rule: dirs_below.induct) (auto simp: join_path_def)

text \<open>
  (C26) For a path made of a first component \<open>r\<close> (empty for an absolute path) and at least one
  more, whose file is not there yet and whose directories can be made or are there,
  \<open>make_dirs\<close> makes exactly the directories of the remaining components but the last,
  outermost first, all of them below the root: the part before the first slash is dropped.
  It does so if none of them is longer than \<open>PATH_MAX\<close>, as in every path up to that length;
  otherwise the array overflows.
\<close>

theorem make_dirs_calls:
  assumes "mkdir_fine A" "CHR ''/'' \<notin> set r" "comps \<noteq> []" "list_all component comps"
    and "os_ret A (os_log st) (Os_stat (r @ join_path comps)) \<noteq> 0"
  shows "make_dirs A (r @ join_path comps) st =
     (if \<exists>d \<in> set (dirs_below ''/'' comps). length d > PATH_MAX then None
      else Some (0, st\<lparr>os_log := rev (map Os_mkdir (dirs_below ''/'' comps))
                        @ Os_stat (r @ join_path comps) # os_log st\<rparr>)) \<and>
    (length (r @ join_path comps) \<le> PATH_MAX \<longrightarrow> make_dirs A (r @ join_path comps) st \<noteq> None)"
proof
  obtain s ss where comps: "comps = s # ss" using assms(3) by (cases comps) auto
  have path: "r @ join_path comps = r @ CHR ''/'' # (s @ join_path ss)"
    by (simp add: comps join_path_def)
  have fit: "dirs_fit (dirs_below ''/'' (s # ss)) \<longleftrightarrow> \<not> (\<exists>d \<in> set (dirs_below ''/'' comps). length d > PATH_MAX)"
    by (auto simp: dirs_fit_def list_all_iff comps not_less)
  show "make_dirs A (r @ join_path comps) st =
     (if \<exists>d \<in> set (dirs_below ''/'' comps). length d > PATH_MAX then None
      else Some (0, st\<lparr>os_log := rev (map Os_mkdir (dirs_below ''/'' comps))
                        @ Os_stat (r @ join_path comps) # os_log st\<rparr>))"
    using assms(5) make_dirs_loop_log[OF assms(1), of s ss] assms(4)
    unfolding path
    by (simp add: make_dirs_def os_do_def takeWhile_component(2)[OF assms(2)] fit comps)
  show "length (r @ join_path comps) \<le> PATH_MAX \<longrightarrow> make_dirs A (r @ join_path comps) st \<noteq> None"
    using make_dirs_fits by blast
qed

theorem make_dirs_calls_witness:
  "make_dirs (ref_env (\<lambda>_ c. case c of Os_stat _ \<Rightarrow> -1 | _ \<Rightarrow> 0)) ''a/b/c.conf''
     (storage_init (\<lambda>_. None)) =
   Some (0, (storage_init (\<lambda>_. None))\<lparr>os_log := [Os_mkdir ''/b/'', Os_stat ''a/b/c.conf'']\<rparr>)"
  using make_dirs_calls[of "ref_env (\<lambda>_ c. case c of Os_stat _ \<Rightarrow> -1 | _ \<Rightarrow> 0)" "''a''"
      "[''b'', ''c.conf'']" "storage_init (\<lambda>_. None)"]
  by (simp add: mkdir_fine_def join_path_def component_def storage_init_def)

text \<open>
  A failing \<open>mkdir\<close> never stops \<open>storage_open\<close>: \<open>make_dirs\<close> reports it as a positive
  error number, the caller tests for a negative one, and the file is opened all the same.
\<close>

theorem storage_open_always_opens:
  assumes "errno_ok A" "storage_open A pathname st = Some (fd, st')"
  shows "hd (os_log st') = Os_open pathname"
proof -
  obtain err st1 where m: "make_dirs A pathname st = Some (err, st1)"
    using assms(2) by (auto simp: storage_open_def split: option.splits)
  then have "0 \<le> err" using make_dirs_result[OF m] assms(1) by (simp add: only_logs_def)
  then show ?thesis using assms(2) by (auto simp: storage_open_def m os_do_def Let_def split: if_splits)
qed

text \<open>
  (C21) A write of a string that reports success leaves in its file the first \<open>n\<close> bytes of the new
  text, \<open>n\<close> being the answer of \<open>pwrite\<close>, and the writer reads the value. If the write was
  complete, the next process that opens the file reads the value too, and every other string
  as the writer does; after a short write the file is cut, and the success is reported alike.
\<close>

theorem storage_write_reopen:
  assumes "storage_laws A" "fd_table st fd = Some path"
    and "storage_write_key_string A fd grp key value st = (rc, st1)" "0 \<le> rc"
    and "storage_open A path st1 = Some (fd2, st2)" "0 \<le> fd2"
  shows "\<exists>c n. storage_list st1 fd = Some c \<and>
    n = os_ret A (Os_ftruncate fd # os_log st) (Os_pwrite fd (length (l_settings_to_data A c))) \<and> 0 \<le> n \<and>
    files st1 path = Some (take (nat n) (l_settings_to_data A c)) \<and>
    storage_list st2 fd2 = Some (l_settings_load A (l_settings_new A) (take (nat n) (l_settings_to_data A c))) \<and>
    storage_read_key_string A fd grp key st1 = Some value \<and>
    (int (length (l_settings_to_data A c)) \<le> n \<longrightarrow>
       storage_read_key_string A fd2 grp key st2 = Some value \<and>
       (\<forall>g k. storage_read_key_string A fd2 g k st2 = storage_read_key_string A fd g k st1))"
  using assms(3)
proof (cases rule: write_string_cases)
  case (saved c0 c)
  have laws: "errno_ok A" "settings_text_ok A" using assms(1) by (simp_all add: storage_laws_def)
  define n where "n = pwrite_ret A fd c st"
  have sl: "storage_list st1 fd = Some c" using commit_Some_fields(1)[of A fd c st] saved(3) by simp
  have n: "0 \<le> n"
    using save_settings_rc(1)[OF laws(1), of fd c "st\<lparr>storage_list := (storage_list st)(fd \<mapsto> c)\<rparr>"] saved(3) assms(4)
    by (simp add: n_def save_works_def pwrite_ret_def)
  have f: "files st1 path = Some (take (nat n) (l_settings_to_data A c))"
    using commit_Some_flushed(1)[OF laws(1), of fd c st path] saved(3) assms(2,4) by (simp add: n_def)
  have o: "storage_list st2 fd2 = Some (l_settings_load A (l_settings_new A) (take (nat n) (l_settings_to_data A c)))"
    using storage_open_success(3)[OF laws(1) assms(5,6)] f by simp
  have rd: "storage_read_key_string A fd grp key st1 = Some value"
    by (rule sto.read_written[OF assms(1,3,4)])
  have all: "storage_read_key_string A fd2 g k st2 = storage_read_key_string A fd g k st1"
    if "int (length (l_settings_to_data A c)) \<le> n" for g k
    using that o sl laws(2) by (simp add: storage_read_key_string_def settings_text_ok_def nat_le_iff)
  show ?thesis
    using sl n f o rd all by (intro exI[of _ c] exI[of _ n]) (simp add: n_def pwrite_ret_def)
qed (use assms(4) in simp_all)

text \<open>For the witness: the full disk takes one group of the text.\<close>

definition ex_disk_full :: "os_call list \<Rightarrow> os_call \<Rightarrow> int" where
  "ex_disk_full l c = (case c of Os_open p \<Rightarrow> 4 | Os_pwrite fd n \<Rightarrow> int (min n 1) | _ \<Rightarrow> 0)"

theorem storage_write_reopen_witness:
  "\<exists>st1 st2.
     storage_write_key_string (ref_env ex_disk_full) 3 ''Credentials'' ''ThingId'' ''a1''
       (ex_cred_st\<lparr>storage_list := [3 \<mapsto> [(''Other'', [])]]\<rparr>) = (0, st1) \<and>
     storage_open (ref_env ex_disk_full) ''c'' st1 = Some (4, st2) \<and>
     storage_read_key_string (ref_env ex_disk_full) 3 ''Credentials'' ''ThingId'' st1 = Some ''a1'' \<and>
     storage_read_key_string (ref_env ex_disk_full) 4 ''Credentials'' ''ThingId'' st2 = None"
proof -
  let ?A = "ref_env ex_disk_full" and ?st = "ex_cred_st\<lparr>storage_list := [3 \<mapsto> [(''Other'', [])]]\<rparr>"
  let ?c = "[(''Other'', []), (''Credentials'', [(''ThingId'', SString ''a1'')])]"
  obtain rc st1 where w: "storage_write_key_string ?A 3 ''Credentials'' ''ThingId'' ''a1'' ?st = (rc, st1)"
    by fastforce
  have rc: "rc = 0" and c: "storage_list st1 3 = Some ?c"
    using w by (auto simp: storage_write_key_string_def ex_cred_st_def ex_disk_full_def ref_put_def
        save_settings_def os_do_def Let_def split: if_splits)
  obtain fd2 st2 where o: "storage_open ?A ''c'' st1 = Some (fd2, st2)"
    using storage_open_fits[of "''c''" ?A st1] by auto
  have fd2: "fd2 = 4"
    using o by (auto simp: storage_open_def make_dirs_def ex_disk_full_def os_do_def Let_def split: if_splits)
  have "storage_laws ?A" by (simp add: storage_laws_def)
  moreover have "fd_table ?st 3 = Some ''c''" by (simp add: ex_cred_st_def)
  ultimately show ?thesis
    using storage_write_reopen[OF _ _ w _ o] w o rc fd2 c
    by (auto simp: ex_disk_full_def storage_read_key_string_def ref_find_def)
qed

text \<open>
  (C22) A write that reports an error leaves every other file as it was, and its own file
  either as it was or, when it was truncated and the bytes could not be written, empty.
\<close>

theorem storage_write_key_string_error:
  assumes "errno_ok A" "storage_write_key_string A fd grp key value st = (rc, st')" "rc < 0"
  shows "files st' p = files st p \<or>
    (fd_table st fd = Some p \<and> files st' p = Some [] \<and>
     os_ret A (os_log st) (Os_ftruncate fd) \<noteq> -1 \<and>
     (\<exists>c. storage_list st' fd = Some c \<and>
       os_ret A (Os_ftruncate fd # os_log st) (Os_pwrite fd (length (l_settings_to_data A c))) < 0))"
  using assms(2)
proof (cases rule: write_string_cases)
  case (saved c c')
  let ?s = "st\<lparr>storage_list := (storage_list st)(fd \<mapsto> c')\<rparr>"
  have sv: "save_settings A fd c' ?s = (rc, st')" using saved(3) by simp
  then have "\<not> save_works A fd c' ?s"
    and f: "files st' p = files (snd (save_settings A fd c' ?s)) p"
    using save_settings_rc(1)[OF assms(1), of fd c' ?s] assms(3) by simp_all
  moreover have "storage_list st' fd = Some c'" using save_settings_frame(1)[of A fd c' ?s] sv by simp
  ultimately show ?thesis unfolding f
    using save_settings_files[of A fd c' ?s p] by (auto simp: save_works_def pwrite_ret_def)
qed simp_all

theorem storage_write_key_string_error_witness:
  "\<exists>st'. storage_write_key_string (ref_env (\<lambda>_ c. case c of Os_pwrite _ _ \<Rightarrow> -1 | _ \<Rightarrow> 0)) 3 ''g'' ''k'' ''v''
      (ex_cred_st\<lparr>files := [''c'' \<mapsto> [(''old'', [])]]\<rparr>) = (-5, st') \<and> files st' ''c'' = Some []"
proof -
  let ?A = "ref_env (\<lambda>_ c. case c of Os_pwrite _ _ \<Rightarrow> -1 | _ \<Rightarrow> 0)"
  let ?st = "ex_cred_st\<lparr>files := [''c'' \<mapsto> [(''old'', [])]]\<rparr>"
  obtain rc st' where w: "storage_write_key_string ?A 3 ''g'' ''k'' ''v'' ?st = (rc, st')" by fastforce
  have rc: "rc = -5" and f: "files st' ''c'' \<noteq> files ?st ''c''"
    using w by (auto simp: storage_write_key_string_def ex_cred_st_def
        save_settings_def os_do_def Let_def fd_put_def)
  have "files st' ''c'' = Some []"
    using storage_write_key_string_error[OF ref_env_errno_ok w, of "''c''"] rc f by simp
  then show ?thesis using w rc by simp
qed

text \<open>
  (C23) \<open>get_data_item_groups\<close> answers the groups whose name starts with \<open>DataItem_\<close>, in file
  order, and takes every other group out of the open settings object. It rejects the file
  only if the last of those names is malformed: an earlier malformed name, or a repeated
  one, is forgotten because \<open>err\<close> is overwritten.
\<close>

theorem get_data_item_groups_result:
  assumes "settings_ok A" "storage_list st fd = Some c"
  defines "items \<equiv> filter is_data_item (l_settings_get_groups A c)"
  shows "\<exists>c'. get_data_item_groups A fd st =
      (if items \<noteq> [] \<and> \<not> data_item_regex (last items) then None else Some items,
       st\<lparr>storage_list := (storage_list st)(fd \<mapsto> c')\<rparr>) \<and>
    l_settings_get_groups A c' = items \<and>
    (\<forall>g k. is_data_item g \<longrightarrow> same_key A g k c c')"
proof -
  let ?gs = "l_settings_get_groups A c"
  obtain c' err where loop: "data_item_groups_loop A ?gs c 0 = (c', err)" by fastforce
  have "l_settings_get_groups A c' = items"
    using groups_loop_groups[OF assms(1), of c "[]" ?gs 0] loop by (simp add: items_def)
  moreover have "err = (if items \<noteq> [] \<and> \<not> data_item_regex (last items) then - EINVAL else 0)"
    using groups_loop_err[of A ?gs c 0] loop by (simp add: items_def)
  moreover have "is_data_item g \<Longrightarrow> same_key A g k c c'" for g k
    using groups_loop_same_key[OF assms(1), of g k c ?gs 0] loop by simp
  ultimately show ?thesis
    using loop assms(2) by (intro exI[of _ c']) (simp add: get_data_item_groups_def)
qed

theorem get_data_item_groups_result_witness:
  "fst (get_data_item_groups (ref_env os_works) 3 (ex_cred_st\<lparr>storage_list :=
     [3 \<mapsto> [(''KNoTThing'', []), (''DataItem_x'', []), (''DataItem_0'', []), (''DataItem_0'', [])]]\<rparr>))
   = Some [''DataItem_x'', ''DataItem_0'', ''DataItem_0'']"
  using get_data_item_groups_result[of "ref_env os_works" "ex_cred_st\<lparr>storage_list :=
     [3 \<mapsto> [(''KNoTThing'', []), (''DataItem_x'', []), (''DataItem_0'', []), (''DataItem_0'', [])]]\<rparr>" 3
     "[(''KNoTThing'', []), (''DataItem_x'', []), (''DataItem_0'', []), (''DataItem_0'', [])]"]
  by (auto simp: data_item_regex_def is_digit_def less_eq_char_def)

text \<open>
  Opening a file and closing it again leaves the tables of descriptors and settings as
  they were, provided the kernel hands out a descriptor that is not in use.
\<close>

theorem storage_open_close:
  assumes "errno_ok A" "storage_open A path st = Some (fd, st1)" "0 \<le> fd"
    and "fd_table st fd = None" "storage_list st fd = None"
    and "storage_close A fd st1 = (rc, st2)"
  shows "storage_list st2 = storage_list st \<and> fd_table st2 = fd_table st \<and>
    rc = os_ret A (os_log st1) (Os_close fd) \<and>
    files st2 = (files st)(path \<mapsto> (case files st path of None \<Rightarrow> [] | Some d \<Rightarrow> d))"
proof -
  note o = storage_open_success[OF assms(1-3)]
  show ?thesis
    using assms(4-6) o by (auto simp: storage_close_def os_do_def Let_def)
qed

end
