(* ===== verification/Modbus_Props.thy ===== *)
theory Modbus_Props
  imports Iface_Modbus
begin

text \<open>
  Properties of \<open>iface-modbus.c\<close>: the byte order of the values read, what a failing read
  leaves, how addresses are parsed and rejected, and that a connection attempt either calls
  the connection callback or sets its timer again.
\<close>

section \<open>Bytes\<close>

text \<open>The bytes of a word, least significant first by index, and of a Modbus register.\<close>

definition byte32 :: "32 word \<Rightarrow> nat \<Rightarrow> 8 word" where
  "byte32 w i = ucast (drop_bit (8 * i) w)"

definition byte64 :: "64 word \<Rightarrow> nat \<Rightarrow> 8 word" where
  "byte64 w i = ucast (drop_bit (8 * i) w)"

definition hi :: "16 word \<Rightarrow> 8 word" where
  "hi r = ucast (drop_bit 8 r)"

definition lo :: "16 word \<Rightarrow> 8 word" where
  "lo r = ucast r"

text \<open>The bytes of a word, most significant first.\<close>

definition be_bytes32 :: "32 word \<Rightarrow> 8 word list" where
  "be_bytes32 w = [byte32 w 3, byte32 w 2, byte32 w 1, byte32 w 0]"

definition be_bytes64 :: "64 word \<Rightarrow> 8 word list" where
  "be_bytes64 w = [byte64 w 7, byte64 w 6, byte64 w 5, byte64 w 4,
     byte64 w 3, byte64 w 2, byte64 w 1, byte64 w 0]"

text \<open>Answers of the library for the witnesses: every call answers \<open>v\<close>, registers count up.\<close>

definition ex_modbus_env :: "int \<Rightarrow> modbus_env" where
  "ex_modbus_env v = \<lparr>mb_ret = (\<lambda>_ _. v), mb_errno_of = (\<lambda>_. 110), mb_bit = (\<lambda>_ i. of_bool (even i)),
     mb_register = (\<lambda>_ i. 0x0102 + word_of_nat i * 0x0202), mb_timeout_create = next_handle\<rparr>"

text \<open>The call that serves each bit offset.\<close>

definition offset_call :: "int \<Rightarrow> int \<Rightarrow> mb_call option" where
  "offset_call reg_addr bit_offset =
     (if bit_offset = 1 then Some (Mb_read_input_bits reg_addr 1)
      else if bit_offset = 8 then Some (Mb_read_input_bits reg_addr 8)
      else if bit_offset = 16 then Some (Mb_read_registers reg_addr 1)
      else if bit_offset = 32 then Some (Mb_read_registers reg_addr 2)
      else if bit_offset = 64 then Some (Mb_read_registers reg_addr 4)
      else None)"

text \<open>The documented order of the bytes of a value, most significant first, for each setting.\<close>

definition byte_order32 :: "(nat \<Rightarrow> 16 word) \<Rightarrow> int \<Rightarrow> 8 word list" where
  "byte_order32 r t = (let A = hi (r 0); B = lo (r 0); C = hi (r 1); D = lo (r 1) in
     if t = MODBUS_ENDIANNESS_TYPE_BIG_ENDIAN then [A, B, C, D]
     else if t = MODBUS_ENDIANNESS_TYPE_MID_BIG_ENDIAN then [B, A, D, C]
     else if t = MODBUS_ENDIANNESS_TYPE_LITTLE_ENDIAN then [D, C, B, A]
     else [C, D, A, B])"

definition byte_order64 :: "(nat \<Rightarrow> 16 word) \<Rightarrow> int \<Rightarrow> 8 word list" where
  "byte_order64 r t = (let A = hi (r 0); B = lo (r 0); C = hi (r 1); D = lo (r 1);
         E = hi (r 2); F = lo (r 2); G = hi (r 3); H = lo (r 3) in
     if t = MODBUS_ENDIANNESS_TYPE_BIG_ENDIAN then [A, B, C, D, E, F, G, H]
     else if t = MODBUS_ENDIANNESS_TYPE_MID_BIG_ENDIAN then [B, A, D, C, F, E, H, G]
     else if t = MODBUS_ENDIANNESS_TYPE_LITTLE_ENDIAN then [H, G, F, E, D, C, B, A]
     else [G, H, E, F, C, D, A, B])"

text \<open>
  The eight bytes of the reading, most significant first, that a successful read of each
  offset delivers: one bit, eight bits with input \<open>i\<close> as bit \<open>i\<close>, or one, two or four
  registers in the order of the setting; the rest is 0.
\<close>

definition delivered :: "(nat \<Rightarrow> 8 word) \<Rightarrow> (nat \<Rightarrow> 16 word) \<Rightarrow> int \<Rightarrow> int \<Rightarrow> 8 word list" where
  "delivered b r bit_offset t =
     (if bit_offset = 1 then [0, 0, 0, 0, 0, 0, 0, of_bool (b 0 = 1)]
      else if bit_offset = 8 then
        [0, 0, 0, 0, 0, 0, 0, horner_sum of_bool 2 (map (\<lambda>i. b i = 1) [0, 1, 2, 3, 4, 5, 6, 7])]
      else if bit_offset = 16 then [0, 0, 0, 0, 0, 0, hi (r 0), lo (r 0)]
      else if bit_offset = 32 then [0, 0, 0, 0] @ byte_order32 r t
      else byte_order64 r t)"

text \<open>libmodbus delivers each input bit as 0 or 1.\<close>

definition bits_ok :: "modbus_env \<Rightarrow> bool" where
  "bits_ok M \<longleftrightarrow> (\<forall>l i. mb_bit M l i \<in> {0, 1})"

text \<open>
  What a log of calls leaves open: the socket, after a connection that succeeded and was not
  closed, and the number of input/output objects that were made and not destroyed. libmodbus
  answers a socket exactly while one is open.
\<close>

fun sock_open :: "modbus_env \<Rightarrow> mb_call list \<Rightarrow> bool" where
  "sock_open M [] = False"
| "sock_open M (c # l) =
     (if c = Mb_connect then 0 \<le> mb_ret M l c \<or> sock_open M l
      else if c = Mb_close then False
      else sock_open M l)"

fun live_ios :: "modbus_env \<Rightarrow> mb_call list \<Rightarrow> int" where
  "live_ios M [] = 0"
| "live_ios M (c # l) =
     (case c of
        Io_new fd \<Rightarrow> live_ios M l + (if mb_ret M l c \<noteq> 0 then 1 else 0)
      | Io_destroy \<Rightarrow> live_ios M l - 1
      | _ \<Rightarrow> live_ios M l)"

definition socket_ok :: "modbus_env \<Rightarrow> bool" where
  "socket_ok M \<longleftrightarrow> (\<forall>l. mb_ret M l Mb_get_socket = -1 \<longleftrightarrow> \<not> sock_open M l)"

text \<open>For the witness: the connection comes up but no input/output object can be made.\<close>

fun ex_sock :: "mb_call list \<Rightarrow> bool" where
  "ex_sock [] = False"
| "ex_sock (c # l) = (if c = Mb_connect then True else if c = Mb_close then False else ex_sock l)"

definition ex_no_io :: modbus_env where
  "ex_no_io = (ex_modbus_env 0)\<lparr>mb_ret := (\<lambda>l c. if c = Mb_get_socket \<and> \<not> ex_sock l then -1 else 0)\<rparr>"

section \<open>Lemmas\<close>

text \<open>The masks of the conversions as runs of ones.\<close>

lemma masks_32:
  "(0xffff0000 :: 32 word) = push_bit 16 (mask 16)" "(0x0000ffff :: 32 word) = mask 16"
  "(0xff000000 :: 32 word) = push_bit 24 (mask 8)" "(0x00ff0000 :: 32 word) = push_bit 16 (mask 8)"
  "(0x0000ff00 :: 32 word) = push_bit 8 (mask 8)" "(0x000000ff :: 32 word) = mask 8"
  by (simp_all add: mask_eq_exp_minus_1 push_bit_eq_mult)

lemma masks_64:
  "(0xff00000000000000 :: 64 word) = push_bit 56 (mask 8)" "(0x00ff000000000000 :: 64 word) = push_bit 48 (mask 8)"
  "(0x0000ff0000000000 :: 64 word) = push_bit 40 (mask 8)" "(0x000000ff00000000 :: 64 word) = push_bit 32 (mask 8)"
  "(0x00000000ff000000 :: 64 word) = push_bit 24 (mask 8)" "(0x0000000000ff0000 :: 64 word) = push_bit 16 (mask 8)"
  "(0x000000000000ff00 :: 64 word) = push_bit 8 (mask 8)" "(0x00000000000000ff :: 64 word) = mask 8"
  "(0xffff000000000000 :: 64 word) = push_bit 48 (mask 16)" "(0x0000ffff00000000 :: 64 word) = push_bit 32 (mask 16)"
  "(0x00000000ffff0000 :: 64 word) = push_bit 16 (mask 16)" "(0x000000000000ffff :: 64 word) = mask 16"
  by (simp_all add: mask_eq_exp_minus_1 push_bit_eq_mult)

lemma byte32_registers:
  "byte32 (registers_32 r) 0 = lo (r 0)" "byte32 (registers_32 r) 1 = hi (r 0)"
  "byte32 (registers_32 r) 2 = lo (r 1)" "byte32 (registers_32 r) 3 = hi (r 1)"
  by (rule bit_word_eqI, auto simp: byte32_def registers_32_def lo_def hi_def bit_simps dest: bit_imp_le_length)+

lemma byte32_recv_big:
  "byte32 (iface_modbus_config_endianness_type_recv_32_bits w 1) 0 = byte32 w 2"
  "byte32 (iface_modbus_config_endianness_type_recv_32_bits w 1) 1 = byte32 w 3"
  "byte32 (iface_modbus_config_endianness_type_recv_32_bits w 1) 2 = byte32 w 0"
  "byte32 (iface_modbus_config_endianness_type_recv_32_bits w 1) 3 = byte32 w 1"
  unfolding iface_modbus_config_endianness_type_recv_32_bits_def masks_32
  by (rule bit_word_eqI, auto simp: byte32_def bit_simps ac_simps)+

lemma byte32_recv_mid_big:
  "byte32 (iface_modbus_config_endianness_type_recv_32_bits w 2) 0 = byte32 w 3"
  "byte32 (iface_modbus_config_endianness_type_recv_32_bits w 2) 1 = byte32 w 2"
  "byte32 (iface_modbus_config_endianness_type_recv_32_bits w 2) 2 = byte32 w 1"
  "byte32 (iface_modbus_config_endianness_type_recv_32_bits w 2) 3 = byte32 w 0"
  unfolding iface_modbus_config_endianness_type_recv_32_bits_def masks_32
  by (rule bit_word_eqI, auto simp: byte32_def bit_simps ac_simps)+

lemma byte32_recv_little:
  "byte32 (iface_modbus_config_endianness_type_recv_32_bits w 3) 0 = byte32 w 1"
  "byte32 (iface_modbus_config_endianness_type_recv_32_bits w 3) 1 = byte32 w 0"
  "byte32 (iface_modbus_config_endianness_type_recv_32_bits w 3) 2 = byte32 w 3"
  "byte32 (iface_modbus_config_endianness_type_recv_32_bits w 3) 3 = byte32 w 2"
  unfolding iface_modbus_config_endianness_type_recv_32_bits_def masks_32
  by (rule bit_word_eqI, auto simp: byte32_def bit_simps ac_simps)+

lemma byte64_registers:
  "byte64 (registers_64 r) 0 = lo (r 0)"
  "byte64 (registers_64 r) 1 = hi (r 0)"
  "byte64 (registers_64 r) 2 = lo (r 1)"
  "byte64 (registers_64 r) 3 = hi (r 1)"
  "byte64 (registers_64 r) 4 = lo (r 2)"
  "byte64 (registers_64 r) 5 = hi (r 2)"
  "byte64 (registers_64 r) 6 = lo (r 3)"
  "byte64 (registers_64 r) 7 = hi (r 3)"
  by (rule bit_word_eqI, auto simp: byte64_def registers_64_def lo_def hi_def bit_simps dest: bit_imp_le_length)+

lemma byte64_recv_big:
  "byte64 (iface_modbus_config_endianness_type_recv_64_bits w 1) 0 = byte64 w 6"
  "byte64 (iface_modbus_config_endianness_type_recv_64_bits w 1) 1 = byte64 w 7"
  "byte64 (iface_modbus_config_endianness_type_recv_64_bits w 1) 2 = byte64 w 4"
  "byte64 (iface_modbus_config_endianness_type_recv_64_bits w 1) 3 = byte64 w 5"
  "byte64 (iface_modbus_config_endianness_type_recv_64_bits w 1) 4 = byte64 w 2"
  "byte64 (iface_modbus_config_endianness_type_recv_64_bits w 1) 5 = byte64 w 3"
  "byte64 (iface_modbus_config_endianness_type_recv_64_bits w 1) 6 = byte64 w 0"
  "byte64 (iface_modbus_config_endianness_type_recv_64_bits w 1) 7 = byte64 w 1"
  unfolding iface_modbus_config_endianness_type_recv_64_bits_def Let_def masks_64
  by (rule bit_word_eqI, simp add: byte64_def bit_simps ac_simps)+

lemma byte64_recv_little:
  "byte64 (iface_modbus_config_endianness_type_recv_64_bits w 3) 0 = byte64 w 1"
  "byte64 (iface_modbus_config_endianness_type_recv_64_bits w 3) 1 = byte64 w 0"
  "byte64 (iface_modbus_config_endianness_type_recv_64_bits w 3) 2 = byte64 w 3"
  "byte64 (iface_modbus_config_endianness_type_recv_64_bits w 3) 3 = byte64 w 2"
  "byte64 (iface_modbus_config_endianness_type_recv_64_bits w 3) 4 = byte64 w 5"
  "byte64 (iface_modbus_config_endianness_type_recv_64_bits w 3) 5 = byte64 w 4"
  "byte64 (iface_modbus_config_endianness_type_recv_64_bits w 3) 6 = byte64 w 7"
  "byte64 (iface_modbus_config_endianness_type_recv_64_bits w 3) 7 = byte64 w 6"
  unfolding iface_modbus_config_endianness_type_recv_64_bits_def Let_def masks_64
  by (rule bit_word_eqI, simp add: byte64_def bit_simps ac_simps)+

lemma recv_64_mid_big:
  "iface_modbus_config_endianness_type_recv_64_bits w 2 =
   iface_modbus_config_endianness_type_recv_64_bits (iface_modbus_config_endianness_type_recv_64_bits w 3) 1"
  by (simp add: iface_modbus_config_endianness_type_recv_64_bits_def)

lemma byte32_eqI:
  assumes "byte32 v 0 = byte32 w 0" "byte32 v 1 = byte32 w 1" "byte32 v 2 = byte32 w 2" "byte32 v 3 = byte32 w 3"
  shows "v = w"
proof (rule bit_word_eqI)
  fix n assume n: "n < LENGTH(32)"
  have *: "bit v n = bit w n" if "byte32 v i = byte32 w i" "8 * i \<le> n" "n < 8 * i + 8" for i
  proof -
    have "bit (byte32 v i) (n - 8 * i) = bit (byte32 w i) (n - 8 * i)" using that(1) by simp
    moreover have "n - 8 * i < 8" using that(2,3) by linarith
    ultimately show ?thesis using that(2) by (simp add: byte32_def bit_simps)
  qed
  consider "n < 8" | "8 \<le> n" "n < 16" | "16 \<le> n" "n < 24" | "24 \<le> n" "n < 32" using n by fastforce
  then show "bit v n = bit w n" using *[of 0] *[of 1] *[of 2] *[of 3] assms by cases simp_all
qed

lemma byte_of_bits_prefix:
  assumes "m \<le> 8" "\<And>i. i < m \<Longrightarrow> b i \<in> {0, 1}" "n < 8"
  shows "bit (fold (\<lambda>i v. v OR push_bit i (b i)) [0..<m] (0 :: 8 word)) n \<longleftrightarrow> n < m \<and> b n = 1"
  using assms
proof (induction m)
  case 0
  then show ?case by simp
next
  case (Suc m)
  have bm: "bit (b m) k \<longleftrightarrow> k = 0 \<and> b m = 1" for k
    using Suc.prems(2)[of m] by (auto simp: bit_1_iff)
  have "bit (push_bit m (b m)) n \<longleftrightarrow> n = m \<and> b m = 1"
    using Suc.prems(3) by (auto simp: bit_simps bm)
  with Suc show ?case by (auto simp: bit_simps less_Suc_eq)
qed

lemma recv_32_order:
  "be_bytes32 (iface_modbus_config_endianness_type_recv_32_bits (registers_32 r) t) = byte_order32 r t"
proof -
  consider "t = 1" | "t = 2" | "t = 3"
    | "iface_modbus_config_endianness_type_recv_32_bits (registers_32 r) t = registers_32 r" "t \<notin> {1, 2, 3}"
    by (auto simp: iface_modbus_config_endianness_type_recv_32_bits_def)
  then show ?thesis
    by cases (simp_all add: be_bytes32_def byte32_recv_big byte32_recv_mid_big byte32_recv_little
        byte32_registers byte_order32_def Let_def del: One_nat_def)
qed

lemma recv_64_order:
  "be_bytes64 (iface_modbus_config_endianness_type_recv_64_bits (registers_64 r) t) = byte_order64 r t"
proof -
  consider "t = 1" | "t = 2" | "t = 3"
    | "iface_modbus_config_endianness_type_recv_64_bits (registers_64 r) t = registers_64 r" "t \<notin> {1, 2, 3}"
    by (auto simp: iface_modbus_config_endianness_type_recv_64_bits_def)
  then show ?thesis
    by cases (simp_all add: be_bytes64_def byte64_recv_big recv_64_mid_big byte64_recv_little
        byte64_registers byte_order64_def Let_def del: One_nat_def)
qed

text \<open>The bytes of a narrower word in the reading.\<close>

lemma be_bytes64_ucast:
  "be_bytes64 (ucast (a :: 8 word)) = [0, 0, 0, 0, 0, 0, 0, a]"
  "be_bytes64 (ucast (b :: 16 word)) = [0, 0, 0, 0, 0, 0, hi b, lo b]"
  "be_bytes64 (ucast (c :: 32 word)) = [0, 0, 0, 0] @ be_bytes32 c"
  unfolding be_bytes64_def be_bytes32_def append.simps list.inject
  by (intro conjI refl bit_word_eqI, auto simp: byte64_def byte32_def hi_def lo_def bit_simps dest: bit_imp_le_length)+

lemma byte_of_bits_sum:
  assumes "\<And>i. b i \<in> {0, 1}"
  shows "byte_of_bits b = horner_sum of_bool 2 (map (\<lambda>i. b i = 1) [0, 1, 2, 3, 4, 5, 6, 7])"
proof (rule bit_word_eqI)
  fix n assume n: "n < LENGTH(8)"
  have l: "[0, 1, 2, 3, 4, 5, 6, 7] = [0..<8]" by (simp add: upt_rec)
  show "bit (byte_of_bits b) n \<longleftrightarrow>
      bit (horner_sum of_bool 2 (map (\<lambda>i. b i = 1) [0, 1, 2, 3, 4, 5, 6, 7]) :: 8 word) n"
    using byte_of_bits_prefix[of 8 b n] assms n
    unfolding l by (simp add: byte_of_bits_def bit_horner_sum_bit_word_iff)
qed

lemma read_data_unsupported:
  "offset_call a b = None \<Longrightarrow> iface_modbus_read_data M a b out t s = (- mb_errno s, out, s)"
  by (simp add: iface_modbus_read_data_def offset_call_def Let_def split: if_splits)

lemma read_data_supported:
  assumes "offset_call a b = Some c" "bits_ok M"
  shows "\<exists>v. be_bytes64 v = delivered (mb_bit M (c # mb_log s)) (mb_register M (c # mb_log s)) b t \<and>
    iface_modbus_read_data M a b out t s =
    (let s' = snd (mb_do M c s); rc = mb_ret M (mb_log s) c in
     if rc < 0 then (- mb_errno s', out, s') else (rc, v, s'))"
proof -
  let ?l = "c # mb_log s"
  define v where "v = (if b = 1 then ucast (mb_bit M ?l 0)
    else if b = 8 then ucast (byte_of_bits (mb_bit M ?l))
    else if b = 16 then ucast (mb_register M ?l 0)
    else if b = 32 then ucast (iface_modbus_config_endianness_type_recv_32_bits (registers_32 (mb_register M ?l)) t)
    else iface_modbus_config_endianness_type_recv_64_bits (registers_64 (mb_register M ?l)) t)"
  have bits: "mb_bit M ?l i \<in> {0, 1}" for i using assms(2) by (simp add: bits_ok_def)
  have one: "of_bool (mb_bit M ?l 0 = 1) = mb_bit M ?l 0" using bits[of 0] by auto
  have b: "b = 1 \<or> b = 8 \<or> b = 16 \<or> b = 32 \<or> b = 64"
    using assms(1) by (simp add: offset_call_def split: if_splits)
  have "be_bytes64 v = delivered (mb_bit M ?l) (mb_register M ?l) b t"
    using b unfolding v_def delivered_def one byte_of_bits_sum[OF bits, symmetric]
    by (elim disjE) (simp_all add: be_bytes64_ucast recv_32_order recv_64_order)
  moreover have "iface_modbus_read_data M a b out t s =
    (let s' = snd (mb_do M c s); rc = mb_ret M (mb_log s) c in
     if rc < 0 then (- mb_errno s', out, s') else (rc, v, s'))"
    using b assms(1)
    by (elim disjE) (simp_all add: v_def iface_modbus_read_data_def offset_call_def mb_do_def Let_def)
  ultimately show ?thesis by blast
qed

text \<open>Before it connects, an attempt has closed and destroyed what was open.\<close>

definition prepared :: "modbus_env \<Rightarrow> modbus_st \<Rightarrow> modbus_st" where
  "prepared M s =
     (let (sock, s) = mb_do M Mb_get_socket s;
          s = (if sock \<noteq> -1 then snd (mb_do M Mb_close s) else s)
      in if modbus_io s then (snd (mb_do M Io_destroy s))\<lparr>modbus_io := False\<rparr> else s)"

lemma prepared_released:
  assumes "socket_ok M" "live_ios M (mb_log s) = of_bool (modbus_io s)"
  shows "\<not> modbus_io (prepared M s)" "live_ios M (mb_log (prepared M s)) = 0"
    "\<not> sock_open M (mb_log (prepared M s))" "mb_to_log (prepared M s) = mb_to_log s"
  using assms by (auto simp: prepared_def mb_do_def Let_def socket_ok_def)

lemma attempt_prepared:
  "attempt_connect_body M to s =
     (let retry = (\<lambda>s. (False, s\<lparr>mb_to_log := To_modify (Some to) 5 # mb_to_log s\<rparr>));
          (rc, s) = mb_do M Mb_connect (prepared M s)
      in if rc < 0 then retry s
         else let (sock, s) = mb_do M Mb_get_socket s;
                  (io, s) = mb_do M (Io_new sock) s;
                  s = s\<lparr>modbus_io := (io \<noteq> 0)\<rparr>
              in if io = 0 then retry (snd (mb_do M Mb_close s))
                 else let (ok, s) = mb_do M Io_set_disconnect_handler s
                      in if ok = 0
                         then let s = (snd (mb_do M Io_destroy s))\<lparr>modbus_io := False\<rparr>
                              in retry (snd (mb_do M Mb_close s))
                         else (True, s))"
  unfolding attempt_connect_body_def prepared_def Let_def by (simp only: split_beta)

lemma mb_do_fields [simp]:
  "modbus_io (snd (mb_do M c s)) = modbus_io s"
  "connect_to (snd (mb_do M c s)) = connect_to s"
  "conn_cb (snd (mb_do M c s)) = conn_cb s"
  "disconn_cb (snd (mb_do M c s)) = disconn_cb s"
  "mb_to_log (snd (mb_do M c s)) = mb_to_log s"
  "modbus_ctx (snd (mb_do M c s)) = modbus_ctx s"
  by (simp_all add: mb_do_def)

section \<open>Properties: values\<close>

text \<open>
  (C31) A 32-bit value read from two registers with bytes \<open>A B\<close> and \<open>C D\<close> (high byte first)
  has, most significant byte first, the bytes \<open>A B C D\<close> for big-endian items, \<open>B A D C\<close> for
  mid-big-endian ones, \<open>D C B A\<close> for little-endian ones and \<open>C D A B\<close> for mid-little-endian
  and for any other setting.
\<close>

theorem recv_32_byte_order:
  "be_bytes32 (iface_modbus_config_endianness_type_recv_32_bits (registers_32 r) t) =
    (let A = hi (r 0); B = lo (r 0); C = hi (r 1); D = lo (r 1) in
     if t = MODBUS_ENDIANNESS_TYPE_BIG_ENDIAN then [A, B, C, D]
     else if t = MODBUS_ENDIANNESS_TYPE_MID_BIG_ENDIAN then [B, A, D, C]
     else if t = MODBUS_ENDIANNESS_TYPE_LITTLE_ENDIAN then [D, C, B, A]
     else [C, D, A, B])"
  using recv_32_order by (simp add: byte_order32_def)

text \<open>
  (C32) A 64-bit value read from four registers with bytes \<open>A B\<close>, \<open>C D\<close>, \<open>E F\<close> and \<open>G H\<close> has
  the bytes \<open>A B C D E F G H\<close>, \<open>B A D C F E H G\<close>, \<open>H G F E D C B A\<close> or \<open>G H E F C D A B\<close>,
  for the same four settings.
\<close>

theorem recv_64_byte_order:
  "be_bytes64 (iface_modbus_config_endianness_type_recv_64_bits (registers_64 r) t) =
    (let A = hi (r 0); B = lo (r 0); C = hi (r 1); D = lo (r 1);
         E = hi (r 2); F = lo (r 2); G = hi (r 3); H = lo (r 3) in
     if t = MODBUS_ENDIANNESS_TYPE_BIG_ENDIAN then [A, B, C, D, E, F, G, H]
     else if t = MODBUS_ENDIANNESS_TYPE_MID_BIG_ENDIAN then [B, A, D, C, F, E, H, G]
     else if t = MODBUS_ENDIANNESS_TYPE_LITTLE_ENDIAN then [H, G, F, E, D, C, B, A]
     else [G, H, E, F, C, D, A, B])"
  using recv_64_order by (simp add: byte_order64_def)

text \<open>
  Converting a 32-bit value twice with the same setting gives the value back.
\<close>

theorem recv_32_involution:
  "iface_modbus_config_endianness_type_recv_32_bits (iface_modbus_config_endianness_type_recv_32_bits w t) t = w"
proof -
  consider "t = 1" | "t = 2" | "t = 3" | "t \<notin> {1, 2, 3}" by blast
  then show ?thesis
  proof cases
    case 1
    show ?thesis unfolding 1 by (rule byte32_eqI) (simp_all only: byte32_recv_big)
  next
    case 2
    show ?thesis unfolding 2 by (rule byte32_eqI) (simp_all only: byte32_recv_mid_big)
  next
    case 3
    show ?thesis unfolding 3 by (rule byte32_eqI) (simp_all only: byte32_recv_little)
  next
    case 4
    then show ?thesis by (simp add: iface_modbus_config_endianness_type_recv_32_bits_def)
  qed
qed

text \<open>
  The loop that gathers eight input bits, each delivered as 0 or 1, puts input \<open>i\<close> at bit
  \<open>i\<close> of the byte.
\<close>

theorem byte_of_bits_bit:
  assumes "\<And>i. i < 8 \<Longrightarrow> b i \<in> {0, 1}" "n < 8"
  shows "bit (byte_of_bits b) n \<longleftrightarrow> b n = 1"
  using byte_of_bits_prefix[of 8 b n] assms by (simp add: byte_of_bits_def)

theorem byte_of_bits_bit_witness: "bit (byte_of_bits (\<lambda>i. of_bool (even i))) 2"
  using byte_of_bits_bit[of "\<lambda>i. of_bool (even i)" 2] by (simp add: of_bool_def)

text \<open>
  (C33) A read that the slave or the bit offset makes fail leaves the reading of the data item
  as it was and answers minus \<open>errno\<close> (of an earlier call, when the offset is not supported).
  One that succeeds answers the library's count, and the bytes of the new reading are exactly
  those its offset stands for: a single bit as 0 or 1, eight bits with input \<open>i\<close> as bit \<open>i\<close>,
  a register, or two or four registers in the byte order of the item; all other bytes are 0.
  A read makes at most one call to the library.
\<close>

theorem iface_modbus_read_data_result:
  assumes "bits_ok M" "iface_modbus_read_data M a b out t s = (rc, out', s')"
  shows "case offset_call a b of
      None \<Rightarrow> out' = out \<and> rc = - mb_errno s \<and> s' = s
    | Some c \<Rightarrow> mb_log s' = c # mb_log s \<and>
        (if mb_ret M (mb_log s) c < 0
         then out' = out \<and> rc = - mb_errno_of M (c # mb_log s)
         else rc = mb_ret M (mb_log s) c \<and>
           be_bytes64 out' = delivered (mb_bit M (c # mb_log s)) (mb_register M (c # mb_log s)) b t)"
proof (cases "offset_call a b")
  case None
  with assms(2) show ?thesis by (auto simp: read_data_unsupported)
next
  case (Some c)
  then show ?thesis
    using assms(2) read_data_supported[OF Some assms(1), of s t out]
    by (auto simp: mb_do_def Let_def split: if_splits)
qed

theorem iface_modbus_read_data_result_witness:
  "\<exists>v s'. iface_modbus_read_data (ex_modbus_env 2) 200 32 7 1 modbus_init = (2, v, s') \<and>
     be_bytes64 v = [0, 0, 0, 0, 1, 2, 3, 4]"
proof -
  obtain rc out s' where r: "iface_modbus_read_data (ex_modbus_env 2) 200 32 7 1 modbus_init = (rc, out, s')"
    by (metis prod_cases3)
  have b: "bits_ok (ex_modbus_env 2)" by (simp add: bits_ok_def ex_modbus_env_def)
  have "byte_order32 (\<lambda>i. 0x0102 + word_of_nat i * 0x0202) 1 = [1, 2, 3, 4]" by code_simp
  then show ?thesis
    using iface_modbus_read_data_result[OF b r] r
    by (simp add: offset_call_def ex_modbus_env_def delivered_def)
qed

text \<open>
  (C34) A connection attempt has two outcomes. The connection is up: its socket is open, there is
  one input/output object, and the timer is left alone, so that the connection callback runs.
  Or everything is released: no socket is open, the input/output objects of this and of an
  earlier connection are destroyed, and the timer that started the attempt is set to five
  seconds.
\<close>

theorem attempt_connect_outcome:
  assumes "socket_ok M" "live_ios M (mb_log s) = of_bool (modbus_io s)"
    and "attempt_connect_body M to s = (up, s')"
  shows "modbus_io s' = up \<and> live_ios M (mb_log s') = of_bool up \<and> sock_open M (mb_log s') = up \<and>
    mb_to_log s' = (if up then mb_to_log s else To_modify (Some to) 5 # mb_to_log s)"
  using assms(3) prepared_released[OF assms(1,2)] unfolding attempt_prepared
  by (auto simp: Let_def mb_do_def split: if_splits)

theorem attempt_connect_outcome_witness:
  "\<exists>s'. attempt_connect_body ex_no_io 4 modbus_init = (False, s') \<and> Mb_connect \<in> set (mb_log s') \<and>
     \<not> sock_open ex_no_io (mb_log s') \<and> armed (mb_to_log s') 4 = Some 5"
proof -
  obtain up s' where r: "attempt_connect_body ex_no_io 4 modbus_init = (up, s')" by fastforce
  have "sock_open ex_no_io l = ex_sock l" for l
    by (induction l) (simp_all add: ex_no_io_def)
  then have ok: "socket_ok ex_no_io" by (simp add: socket_ok_def) (simp add: ex_no_io_def)
  have up: "\<not> up" and c: "Mb_connect \<in> set (mb_log s')"
    using r by (auto simp: attempt_connect_body_def mb_do_def ex_no_io_def modbus_init_def Let_def split: if_splits)
  then show ?thesis using attempt_connect_outcome[OF ok _ r] r by (simp add: modbus_init_def)
qed

text \<open>
  An address with neither prefix makes \<open>iface_modbus_start\<close> answer a positive number,
  \<open>EINVAL\<close>, because \<open>errno\<close> is set to its negation first; nothing is started.
\<close>

theorem iface_modbus_start_bad_prefix:
  assumes "take 6 url \<noteq> ''tcp://''" "take 9 url \<noteq> ''serial://''"
  shows "iface_modbus_start M url slave_id c d s =
    (EINVAL, s\<lparr>mb_errno := - EINVAL, modbus_ctx := False\<rparr>)"
  using assms by (simp add: iface_modbus_start_def create_ctx_def)

theorem iface_modbus_start_bad_prefix_witness:
  "fst (iface_modbus_start (ex_modbus_env 1) ''http://127.0.0.1:502'' 1 On_modbus_connected
     On_modbus_disconnected modbus_init) = 22"
  using iface_modbus_start_bad_prefix[of "''http://127.0.0.1:502''"] by simp

text \<open>
  (C36) The address \<open>tcp://host:port\<close> reaches the library as that host and that port, for a
  host of 1 to 127 characters without a colon and a port of 1 to 7 characters without white
  space.
\<close>

theorem create_tcp_roundtrip:
  assumes "host \<noteq> []" "length host \<le> 127" "CHR '':'' \<notin> set host"
    and "port \<noteq> []" "length port \<le> 7" "list_all (\<lambda>c. \<not> is_space c) port"
  shows "create_ctx M (''tcp://'' @ host @ '':'' @ port) s =
    (let (ctx, s') = mb_do M (Mb_new_tcp_pi host port) s in (ctx \<noteq> 0, s'))"
proof -
  have "scan_set 127 (\<lambda>c. c \<noteq> CHR '':'') (host @ CHR '':'' # port) = Some (host, CHR '':'' # port)"
    by (rule scan_set_append) (use assms in \<open>auto simp: list_all_iff\<close>)
  then have "tcp_fields (host @ CHR '':'' # port) = Some (host, port)"
    using scan_str_all[OF assms(4,6,5)] by (simp add: tcp_fields_def)
  then show ?thesis by (simp add: create_ctx_def create_tcp_def)
qed

theorem create_tcp_roundtrip_witness:
  "create_ctx (ex_modbus_env 1) ''tcp://127.0.0.1:502'' modbus_init =
    (True, modbus_init\<lparr>mb_log := [Mb_new_tcp_pi ''127.0.0.1'' ''502''], mb_errno := 110\<rparr>)"
  using create_tcp_roundtrip[of "''127.0.0.1''" "''502''" "ex_modbus_env 1" modbus_init]
  by (simp add: is_space_def mb_do_def ex_modbus_env_def modbus_init_def)

text \<open>
  For a well-formed serial address the device file that is opened to probe the line is the
  whole rest of the address, speed and parity included, not the port name parsed from it.
\<close>

theorem create_rtu_opens_whole_address:
  assumes "take 9 url = ''serial://''" "rtu_fields (drop 8 url) = Some (port, b, p, d, st)"
    and "mb_ret M (mb_log s) (Mb_open (drop 8 url)) < 0"
  shows "create_ctx M url s =
    (False, s\<lparr>mb_log := Mb_open (drop 8 url) # mb_log s,
              mb_errno := mb_errno_of M (Mb_open (drop 8 url) # mb_log s)\<rparr>)"
proof -
  have "take 6 url = take 6 (take 9 url)" by simp
  then have "take 6 url \<noteq> ''tcp://''" unfolding assms(1) by simp
  then show ?thesis using assms by (simp add: create_ctx_def create_rtu_def mb_do_def)
qed

theorem create_rtu_opens_whole_address_witness:
  "rtu_fields ''//dev/ttyUSB0:115200,N,8,1'' = Some (''//dev/ttyUSB0'', 115200, CHR ''N'', 8, 1) \<and>
   mb_log (snd (create_ctx (ex_modbus_env (-1)) ''serial:///dev/ttyUSB0:115200,N,8,1'' modbus_init))
   = [Mb_open ''//dev/ttyUSB0:115200,N,8,1'']"
proof -
  have f: "rtu_fields ''//dev/ttyUSB0:115200,N,8,1'' = Some (''//dev/ttyUSB0'', 115200, CHR ''N'', 8, 1)"
    by code_simp
  then show ?thesis
    using create_rtu_opens_whole_address[of "''serial:///dev/ttyUSB0:115200,N,8,1''" "''//dev/ttyUSB0''"
        115200 "CHR ''N''" 8 1 "ex_modbus_env (-1)" modbus_init]
    by (simp add: ex_modbus_env_def modbus_init_def)
qed

end
