(* ===== verification/Spec2Isabelle.thy ===== *)
theory Spec2Isabelle
  imports Program_Stimuli Storage_Props Modbus_Props Properties_Props
begin

text \<open>
  A verification of KNoT VirtualThing, a daemon (\<open>src/src\<close>) that makes a Modbus slave
  available to the KNoT cloud as a thing. It reads its configuration from three files, polls
  the data items of the slave, checks each reading against the event the cloud configured for
  it, and publishes it; a state machine registers and authenticates the thing, sends its
  configuration and reacts to lost links.

  \<^bold>\<open>The parts and how they interact.\<close> \<open>main.c\<close> parses the command line (\<open>settings.c\<close>), starts the
  device (\<open>device.c\<close>) and enters the main loop of the ELL library. \<open>device.c\<close> owns the thing
  and all handlers: it reads the thing from its files (\<open>properties.c\<close>, which uses \<open>storage.c\<close>),
  creates a poll timer per data item (\<open>poll.c\<close>), connects to the slave (\<open>iface-modbus.c\<close>) and to
  the cloud (the library knot-cloud), and turns everything that happens into events for the
  state machine (\<open>sm.c\<close>), which calls back into \<open>device.c\<close>. \<open>event.c\<close> decides which readings are
  sent and keeps the timers of items that are sent periodically.

  \<^bold>\<open>The theories\<close>, each with the definitions of its part first, in the order of the source and
  under its names, then lemmas, then properties with their witnesses:

  \<^item> \<open>Prelude\<close>: error numbers, ELL containers as lists, timers as a log of calls from which the
    live timers are read off, and the locale \<open>timer_pool\<close>: a component that keeps its timers in
    a queue can always drop them all. \<open>Event\<close> and \<open>Poll\<close> interpret it.
  \<^item> \<open>Knot_Types\<close>: values, schemas, events and configuration messages of the KNoT protocol
    library, whose numbers and checks are a parameter (\<open>knot_lib\<close>).
  \<^item> \<open>Thing\<close>: \<open>struct knot_thing\<close> and its accessors in \<open>device.c\<close>.
  \<^item> \<open>Event\<close>, \<open>Poll\<close>: \<open>event.c\<close> and \<open>poll.c\<close>.
  \<^item> \<open>Storage\<close>, \<open>Storage_Ref\<close>, \<open>Storage_Props\<close>: \<open>storage.c\<close> over the ELL settings library and the
    kernel as a parameter (\<open>storage_env\<close>) with its documented laws (\<open>settings_ok\<close>,
    \<open>settings_text_ok\<close>, \<open>errno_ok\<close>); the locale \<open>key_store\<close> for what the clients rely on;
    \<open>Storage_Ref\<close> instantiates the parameter and shows that the laws can hold. A \<open>pwrite\<close> may
    be short, which the source takes for a success: theorems that say what a success leaves on
    disk name the hypothesis \<open>full_writes\<close>, all others hold for short writes too.
  \<^item> \<open>Scan\<close>, \<open>Iface_Modbus\<close>, \<open>Modbus_Props\<close>: \<open>sscanf\<close> as far as it is used, and
    \<open>iface-modbus.c\<close> over libmodbus, sockets and serial lines as a parameter (\<open>modbus_env\<close>).
  \<^item> \<open>Properties\<close>, \<open>Properties_Props\<close>: \<open>properties.c\<close>. A crash, for instance on a \<open>NULL\<close> pointer,
    is the value \<open>None\<close>.
  \<^item> \<open>Sm\<close>, \<open>Sm_Spec\<close>, \<open>Sm_Props\<close>: \<open>sm.c\<close> over an arbitrary device (\<open>device_ops\<close>); the transition
    relation \<open>sm_trans\<close> that it refines; the locale \<open>sm_device\<close> for what the machine needs of its
    device, with the invariants on timers and token proved once inside it.
  \<^item> \<open>Device\<close>: the operations of \<open>device.c\<close> that the machine calls, and the interpretation of
    \<open>sm_device\<close> on them.
  \<^item> \<open>Program\<close>, \<open>Program_Props\<close>, \<open>Program_Runs\<close>: the handlers of \<open>device.c\<close>, start and destruction,
    and the main loop as the relation \<open>prog_step\<close>: any timer that is set may expire, the
    links may come and go, and any message may come, in any order. \<open>Program_Props\<close> proves an
    invariant of all reachable states, \<open>Program_Runs\<close> takes each turn apart into events.
  \<^item> \<open>Program_Stimuli\<close>: every turn is labelled with its stimulus; which links are up (\<open>links\<close>),
    which events the machine is given (\<open>run_events\<close>) and whether items are polled follow from
    the labels of a run.
  \<^item> \<open>Settings\<close>, \<open>Daemon\<close>: \<open>settings.c\<close> with \<open>getopt_long\<close> written out, and \<open>main.c\<close>.

  This theory imports them all and holds the properties that span components.

  \<^bold>\<open>What is shown.\<close> For the whole program: the machine works only while the notifications of
  the run say that both links are up, items are polled exactly while the slave is connected, no
  timer is lost or left over in any reachable state nor when the process ends, no handler crashes
  (but for one message), every run is a run of the machine's specification on the events its
  stimuli stand for, unregistration is final, and polls publish exactly the
  readings the event check selects. For the machine: refinement, what must happen before it is
  online, the messages on the way there, and that it does not crash. For the files: what a
  configuration that is accepted satisfies, round trips of credentials and keys, what is left
  after an error or a short write. For events, polling and Modbus: the selection of readings, the life of timers,
  byte orders, addresses and reconnection. For the command line: every way of writing an
  option. Several properties state behaviour that is hardly meant: the configuration file
  that loses its thing, event keys that are never removed, readings of some types that always
  count as changed, the address with an unknown prefix.

  \<^bold>\<open>Machine integers, loops and fuel.\<close> Readings are 64-bit words (the union
  \<open>knot_value_type\<close> on a little-endian host), registers and masks words of their width; numbers
  from files are \<open>int\<close>, converted where the source converts. Every loop is a total function,
  by structural recursion or with a measure (\<open>make_dirs_loop\<close>, \<open>parse_args_loop\<close>), so no fuel is
  needed; the main loop, which never ends by itself, is a relation. The array in which
  \<open>make_dirs\<close> builds a path has \<open>PATH_MAX + 1\<close> bytes, with \<open>PATH_MAX\<close> 4096 as on Linux; a longer
  path overflows it, which is \<open>None\<close>.

  \<^bold>\<open>Not modelled.\<close> Memory management (a freed pointer is \<open>None\<close>; leaks of memory are not
  observed), text printed for the user and the log beyond its filter, and the C types'
  ranges for numbers that are only passed on. The libraries ELL, libmodbus, knot-cloud and
  knot-protocol and the kernel are parameters. The unit tests, the sample configuration files and
  the build files are not part of the program.
\<close>

section \<open>Properties\<close>

text \<open>
  (C4) In every state the program can reach after a successful start, the path of the credentials
  file being at most \<open>PATH_MAX\<close> long, it answers every timer, every change of a connection and
  every well-formed message without crashing, except for a configuration message while the
  machine is online.
\<close>

theorem program_no_crash:
  assumes "schema_check_ok (e_knot E)" "fresh_handles (e_poll_timeout E)" "16 \<le> UUID_LEN (e_knot E)"
    and "credentials_path conf = Some cp" "length cp \<le> PATH_MAX"
    and "device_start E conf (prog_init st) = Some (0, p)" "prog_reach E p p'"
  shows "responsive E p'"
proof -
  have "sound E p'"
    using actions_sound[OF prog_reach_actions[OF assms(7)] device_start_sound[OF assms(3-6)]] .
  moreover have "prog_inv E p'" by (rule prog_reach_inv[OF assms(7) device_start_inv(1)[OF assms(1,2,6)]])
  ultimately show ?thesis
    by (intro sound_responsive) (auto simp: prog_inv_def machine_inv_def timers_owned_def)
qed

theorem program_no_crash_witness:
  "\<exists>p p'. device_start ex_env ex_paths (prog_init (storage_init ex_files)) = Some (0, p) \<and> prog_reach ex_env p p' \<and>
     current_state p' = Some ST_REGISTER \<and> responsive ex_env p'"
proof -
  obtain p p' where p: "device_start ex_env ex_paths (prog_init (storage_init ex_files)) = Some (0, p)"
    "prog_reach ex_env p p'" "current_state p' = Some ST_REGISTER" using ex_start by blast
  have "responsive ex_env p'" using program_no_crash[OF _ _ _ _ _ p(1,2), of "''k''"] by (simp add: ex_paths_def)
  then show ?thesis using p by blast
qed

text \<open>
  (C1) After a successful start, and whatever timers, connections and messages have come since,
  the machine registers, authenticates, configures or publishes only while both links are
  up, as the notifications of the run say: the last attempt to reach the slave succeeded and no
  loss followed, and the cloud library last notified a connection. The connection mask is
  that of the two links throughout.
\<close>

theorem program_links_up:
  assumes "schema_check_ok (e_knot E)" "fresh_handles (e_poll_timeout E)"
    and "device_start E conf (prog_init st) = Some (0, p)" "prog_run E p ls p'"
  shows "\<exists>s. current_state p' = Some s \<and>
    conn_mask (dev p') = link_mask (fst (links ls)) (snd (links ls)) \<and>
    (s \<in> {ST_AUTH, ST_REGISTER, ST_CONFIG, ST_ONLINE} \<longrightarrow> links ls = (True, True))"
proof -
  have m: "conn_mask (dev p') = link_mask (fst (links ls)) (snd (links ls))"
    using prog_run_follows[OF assms(4) device_start_wired[OF assms(3)]] by (simp add: follows_def links_are_def)
  have "prog_reach E p p'" using assms(4) prog_reach_run by blast
  from prog_reach_inv[OF this device_start_inv(1)[OF assms(1-3)]] obtain s where
    s: "current_state p' = Some s" "linked s \<longrightarrow> conn_mask (dev p') = CONNECTED_MASK"
    by (auto simp: prog_inv_def)
  then have "linked s \<longrightarrow> links ls = (True, True)" using m by (simp add: link_mask_full prod_eq_iff)
  then show ?thesis using s(1) m by (simp add: linked_def)
qed

theorem program_links_up_witness:
  "\<exists>p p'. device_start ex_env ex_paths (prog_init (storage_init ex_files)) = Some (0, p) \<and>
     prog_run ex_env p [Cloud_up, Modbus_attempt True] p' \<and> current_state p' = Some ST_REGISTER \<and>
     conn_mask (dev p') = 0xFF"
proof -
  obtain p p' where p: "device_start ex_env ex_paths (prog_init (storage_init ex_files)) = Some (0, p)"
    "prog_run ex_env p [Cloud_up, Modbus_attempt True] p'" "current_state p' = Some ST_REGISTER"
    using ex_run by blast
  show ?thesis using program_links_up[OF _ _ p(1,2)] p by (auto simp: links_def link_mask_def)
qed

text \<open>
  (C3) Every run of the whole program is a run of the specification of the state machine on the
  events its stimuli stand for: both links up is \<open>EVT_READY\<close>, any other change of a link
  \<open>EVT_NOT_READY\<close>, each timer and each message has its event, and the state after the run is
  one that the transition relation reaches by exactly these events. \<open>EVT_REG_PERM\<close> is never
  among them.
\<close>

theorem program_refines_machine:
  assumes "device_start E conf (prog_init st) = Some (0, p)" "prog_run E p ls p'"
  shows "\<exists>s. current_state p' = Some s \<and> sm_path ST_DISCONNECTED (run_events ls) s \<and>
    EVT_REG_PERM \<notin> set (run_events ls)"
proof -
  have "took (run_events ls) p p'"
    using prog_run_follows[OF assms(2) device_start_wired[OF assms(1)]] by (simp add: follows_def)
  then have "\<exists>s. current_state p' = Some s \<and> sm_path ST_DISCONNECTED (run_events ls) s"
    using device_start_disconnected[OF assms(1)] by (simp add: took_def)
  moreover have "EVT_REG_PERM \<notin> set (run_events ls)"
    using events_from_raised[of EVT_REG_PERM] by (auto simp: run_events_def raised_def)
  ultimately show ?thesis by blast
qed

theorem program_refines_machine_witness:
  "\<exists>p p'. device_start ex_env ex_paths (prog_init (storage_init ex_files)) = Some (0, p) \<and>
     prog_run ex_env p [Cloud_up, Modbus_attempt True] p' \<and>
     sm_path ST_DISCONNECTED [EVT_NOT_READY, EVT_READY] ST_REGISTER"
proof -
  obtain p p' where p: "device_start ex_env ex_paths (prog_init (storage_init ex_files)) = Some (0, p)"
    "prog_run ex_env p [Cloud_up, Modbus_attempt True] p'" "current_state p' = Some ST_REGISTER"
    using ex_run by blast
  show ?thesis
    using program_refines_machine[OF p(1,2)] p by (auto simp: run_events_def link_event_def)
qed

text \<open>
  (C12) Unregistration and the error state are final for the whole program: whatever timers,
  connections and messages follow, the state stays, and nothing more is sent to the cloud.
\<close>

theorem program_final_states:
  assumes "current_state p = Some s" "s \<in> {ST_UNREGISTER, ST_ERROR}" "prog_reach E p p'"
  shows "current_state p' = Some s \<and> cloud_log (dev p') = cloud_log (dev p)"
  by (rule actions_final[OF prog_reach_actions[OF assms(3)] assms(1,2)])

theorem program_final_states_witness:
  "\<exists>p'. prog_reach ex_env (ex_sm ST_UNREGISTER) p' \<and> conn_mask (dev p') = 0xF0 \<and>
     current_state p' = Some ST_UNREGISTER \<and> cloud_log (dev p') = []"
proof -
  have "case on_cloud_connected ex_env (ex_sm ST_UNREGISTER) of None \<Rightarrow> False | Some p' \<Rightarrow> conn_mask (dev p') = 0xF0"
    by code_simp
  then obtain p' where p': "on_cloud_connected ex_env (ex_sm ST_UNREGISTER) = Some p'" "conn_mask (dev p') = 0xF0"
    by (auto split: option.splits)
  have "prog_reach ex_env (ex_sm ST_UNREGISTER) p'"
    using prog_reach.more[OF prog_reach.here prog_step.cloud_up[OF p'(1)]] .
  then show ?thesis
    using program_final_states[of "ex_sm ST_UNREGISTER" ST_UNREGISTER ex_env p'] p'(2)
    by (auto simp: ex_sm_def ex_dev_def device_init_def)
qed

text \<open>
  (C13) A poll of a data item while the machine is online stores the reading, and publishes it
  exactly when the event check asks for it; what was sent is then remembered for the next
  check. Nothing else is sent.
\<close>

theorem poll_receive_online:
  assumes "current_state p = Some ST_ONLINE" "hm_lookup (data_items (thing (dev p))) i = Some item"
    and "iface_modbus_read_data (e_modbus E) (reg_addr (item_source item)) (bit_offset (item_source item))
      (current_val item) (endianness_type_sensor (item_source item)) (modbus (dev p)) = (rc, val, mb)"
    and "send \<longleftrightarrow> event_check_value (e_knot E) (event (dev p)) (item_event item) val (sent_val item)
      (sc_value_type (schema item)) > 0"
  shows "\<exists>p'. on_modbus_poll_receive E i p = Some (rc, p') \<and> current_state p' = Some ST_ONLINE \<and>
    hm_lookup (data_items (thing (dev p'))) i =
      Some (item\<lparr>current_val := val, sent_val := if send then val else sent_val item\<rparr>) \<and>
    cloud_log (dev p') = (if send then [Cl_publish (thing_id (thing (dev p))) (sensor_id item)
      (sc_value_type (schema item)) val (e_sizeof_value_type E)] else []) @ cloud_log (dev p)"
  using assms
  by (cases send) (simp_all add: on_modbus_poll_receive_def input_publish_online)

theorem poll_receive_online_witness:
  "\<exists>p'. on_modbus_poll_receive ex_env 4 ex_online = Some (1, p') \<and>
     cloud_log (dev p') = [Cl_publish ''ab01'' 4 1 7 1]"
proof -
  obtain mb where mb: "iface_modbus_read_data (e_modbus ex_env) (reg_addr (item_source ex_polled))
      (bit_offset (item_source ex_polled)) (current_val ex_polled) (endianness_type_sensor (item_source ex_polled))
      (modbus (dev ex_online)) = (1, 7, mb)"
    by (simp add: iface_modbus_read_data_def mb_do_def ex_polled_def ex_item_def ex_env_def Let_def)
  have "event_check_value (e_knot ex_env) (event (dev ex_online)) (item_event ex_polled) 7 (sent_val ex_polled)
      (sc_value_type (schema ex_polled)) > 0" by code_simp
  moreover have "hm_lookup (data_items (thing (dev ex_online))) 4 = Some ex_polled" "current_state ex_online = Some ST_ONLINE"
    "thing_id (thing (dev ex_online)) = ''ab01''" "cloud_log (dev ex_online) = []"
    "sensor_id ex_polled = 4" "sc_value_type (schema ex_polled) = 1"
    by code_simp+
  ultimately show ?thesis
    using poll_receive_online[OF _ _ mb, of 4 True] by auto
qed

text \<open>
  (C30) After a successful start there is exactly one poll entry per data item of the
  configuration, each with an interval of one second, whatever the order in which the map of
  data items is walked.
\<close>

theorem device_start_polls_each_item:
  assumes "schema_check_ok (e_knot E)" "order_ok E" "device_start E conf (prog_init st) = Some (0, p)"
  shows "mset (map (\<lambda>e. pd_id (pe_data e)) (entries (poll (dev p)))) = mset (map fst (data_items (thing (dev p)))) \<and>
    list_all (\<lambda>e. pd_interval (pe_data e) = 1) (entries (poll (dev p)))"
  using device_start_polls[OF assms] by simp

theorem device_start_polls_each_item_witness:
  "\<exists>p. device_start ex_env ex_paths (prog_init (storage_init ex_files)) = Some (0, p) \<and>
     mset (map (\<lambda>e. pd_id (pe_data e)) (entries (poll (dev p)))) = mset (map fst (data_items (thing (dev p))))"
proof -
  obtain p where p: "device_start ex_env ex_paths (prog_init (storage_init ex_files)) = Some (0, p)" using ex_start by blast
  show ?thesis using device_start_polls_each_item[OF _ _ p] p by (auto simp: order_ok_def)
qed

text \<open>
  (C29) Polling follows the link to the slave. After a successful start and any run, the entries
  are those of the start and polling is active exactly while that link is up; then the timer
  of every entry is set to the entry's interval, also after it expired, after readings, and
  after a loss and a new connection. While the link is down, a poll timer that expires reads
  nothing, sends nothing and is not set again.
\<close>

theorem program_polls:
  assumes "schema_check_ok (e_knot E)" "fresh_handles (e_poll_timeout E)"
    and "device_start E conf (prog_init st) = Some (0, p)" "prog_run E p ls p'"
  shows "entries (poll (dev p')) = entries (poll (dev p)) \<and> poll_active (poll (dev p')) = fst (links ls) \<and>
    (fst (links ls) \<longrightarrow> (\<forall>e \<in> set (entries (poll (dev p'))).
       armed (poll_log (poll (dev p'))) (pe_to e) = Some (pd_interval (pe_data e)))) \<and>
    (\<forall>b p''. \<not> fst (links ls) \<longrightarrow> prog_step E p' (Poll_timer b) p'' \<longrightarrow>
       \<not> b \<and> modbus (dev p'') = modbus (dev p') \<and> cloud_log (dev p'') = cloud_log (dev p') \<and>
       (\<exists>t. armed (poll_log (poll (dev p'))) t \<noteq> None \<and> armed (poll_log (poll (dev p''))) t = None))"
proof -
  have "\<not> poll_active (poll (dev p))" by (rule device_start_not_polling[OF assms(3)])
  from prog_run_polls[OF assms(4) device_start_inv(1)[OF assms(1-3)] device_start_wired[OF assms(3)] this]
  have r: "polls (fst (links ls)) (poll (dev p'))" "entries (poll (dev p')) = entries (poll (dev p))" by simp_all
  have "\<not> b \<and> modbus (dev p'') = modbus (dev p') \<and> cloud_log (dev p'') = cloud_log (dev p') \<and>
      (\<exists>t. armed (poll_log (poll (dev p'))) t \<noteq> None \<and> armed (poll_log (poll (dev p''))) t = None)"
    if "\<not> fst (links ls)" "prog_step E p' (Poll_timer b) p''" for b p''
    using stopped_poll_lapses[OF that(2)] that(1) r(1) by (simp add: polls_def)
  then show ?thesis using r unfolding polls_def by blast
qed

theorem program_polls_witness:
  "\<exists>p p'. device_start ex_env ex_paths (prog_init (storage_init ex_files)) = Some (0, p) \<and>
     prog_run ex_env p [Cloud_up, Modbus_attempt True] p' \<and> entries (poll (dev p)) \<noteq> [] \<and>
     list_all (\<lambda>e. armed (poll_log (poll (dev p'))) (pe_to e) = Some (pd_interval (pe_data e)))
       (entries (poll (dev p')))"
proof -
  obtain p p' where p: "device_start ex_env ex_paths (prog_init (storage_init ex_files)) = Some (0, p)"
    "prog_run ex_env p [Cloud_up, Modbus_attempt True] p'" using ex_run by blast
  have "case device_start ex_env ex_paths (prog_init (storage_init ex_files)) of None \<Rightarrow> False
    | Some (rc, p) \<Rightarrow> entries (poll (dev p)) \<noteq> []" by code_simp
  then have "entries (poll (dev p)) \<noteq> []" using p(1) by simp
  then show ?thesis
    using program_polls[OF _ _ p] p by (auto simp: links_def list_all_iff)
qed

text \<open>
  (C35) An address that is neither \<open>tcp://\<close> nor \<open>serial://\<close> does not make the start fail,
  because of the sign of the error number: when the thing can be read, every poll timer can be
  made and the cloud library starts, \<open>device_start\<close> answers 0. But then the machine stays in
  its disconnected state for good, whatever happens.
\<close>

theorem program_bad_prefix_stuck:
  assumes "properties_create_device (e_knot E) (e_storage E) thing_init conf st = Some (0, th, st')"
    and "slave_url (thing_slave th) = Some url" "take 6 url \<noteq> ''tcp://''" "take 9 url \<noteq> ''serial://''"
    and "\<And>l. e_poll_timeout E l \<noteq> None" "\<And>l c. 0 \<le> e_cloud_ret E l c"
  shows "\<exists>p. device_start E conf (prog_init st) = Some (0, p) \<and>
    (\<forall>p'. prog_reach E p p' \<longrightarrow> current_state p' = Some ST_DISCONNECTED)"
proof -
  obtain p where p: "device_start E conf (prog_init st) = Some (0, p)" "mb_idle p"
    using bad_prefix_starts[OF assms] by blast
  have "current_state p' = Some ST_DISCONNECTED" if reach: "prog_reach E p p'" for p'
  proof -
    obtain ls where "prog_run E p ls p'" using reach prog_reach_run by blast
    from idle_stays_disconnected[OF this p(2) device_start_wired[OF p(1)] device_start_disconnected[OF p(1)]]
    show ?thesis .
  qed
  then show ?thesis using p(1) by blast
qed

theorem program_bad_prefix_stuck_witness:
  "\<exists>p. device_start ex_env ex_paths (prog_init (storage_init ex_bad_files)) = Some (0, p) \<and>
     (\<forall>p'. prog_reach ex_env p p' \<longrightarrow> current_state p' = Some ST_DISCONNECTED)"
proof -
  have "case properties_create_device (e_knot ex_env) (e_storage ex_env) thing_init ex_paths (storage_init ex_bad_files) of
      None \<Rightarrow> False | Some (rc, th, _) \<Rightarrow> rc = 0 \<and> slave_url (thing_slave th) = Some ''rtu:x''" by code_simp
  then obtain th st' where th: "properties_create_device (e_knot ex_env) (e_storage ex_env) thing_init ex_paths
      (storage_init ex_bad_files) = Some (0, th, st')" "slave_url (thing_slave th) = Some ''rtu:x''"
    by (auto split: option.splits)
  show ?thesis
    by (rule program_bad_prefix_stuck[OF th]) (simp_all add: ex_env_def next_handle_def)
qed

end
